(* ===== verification/CPrelude.thy ===== *)
theory CPrelude
  imports Main "HOL-Library.Word"
begin

unbundle bit_operations_syntax

text \<open>
  Shared ground of the development: how a C or C++ statement may end, the object
  representation of machine words, and a flat byte memory.  Everything here is about the
  language the repository is written in and not about any one of its programs.
\<close>

named_theorems mem_simps
named_theorems run_simps

lemma find_snoc:
  "find P (xs @ [c]) = (case find P xs of None \<Rightarrow> if P c then Some c else None | Some d \<Rightarrow> Some d)"
  by (induction xs) auto

section \<open>How a statement may end\<close>

text \<open>
  \<open>Done r s\<close>: it returned \<open>r\<close> in state \<open>s\<close>.  \<open>Exited c s\<close>: it called \<open>exit(c)\<close>.
  \<open>Replaced s\<close>: \<open>execvp\<close> succeeded and the process runs another image.  \<open>Undef\<close>: the
  behaviour is undefined in C (a null dereference, an access out of an object's bounds).
  \<open>Timeout\<close>: the fuel of a recursive model ran out.
\<close>

datatype ('a, 's) outcome =
    Done 'a 's
  | Exited int 's
  | Replaced 's
  | Undef
  | Timeout

type_synonym ('a, 's) prog = "'s \<Rightarrow> ('a, 's) outcome"

definition andthen :: "('a, 's) prog \<Rightarrow> ('a \<Rightarrow> ('b, 's) prog) \<Rightarrow> ('b, 's) prog" where
  "andthen m f s =
     (case m s of
        Done r s' \<Rightarrow> f r s'
      | Exited c s' \<Rightarrow> Exited c s'
      | Replaced s' \<Rightarrow> Replaced s'
      | Undef \<Rightarrow> Undef
      | Timeout \<Rightarrow> Timeout)"

definition seq :: "('a, 's) prog \<Rightarrow> ('b, 's) prog \<Rightarrow> ('b, 's) prog" where
  "seq m n = andthen m (\<lambda>_. n)"

definition skip :: "(unit, 's) prog" where
  "skip s = Done () s"

lemma andthen_Done [simp, run_simps]: "m s = Done r s' \<Longrightarrow> andthen m f s = f r s'"
  by (simp add: andthen_def)

lemma andthen_Exited [simp, run_simps]: "m s = Exited c s' \<Longrightarrow> andthen m f s = Exited c s'"
  by (simp add: andthen_def)

lemma andthen_Undef [simp, run_simps]: "m s = Undef \<Longrightarrow> andthen m f s = Undef"
  by (simp add: andthen_def)

lemma andthen_Timeout [simp, run_simps]: "m s = Timeout \<Longrightarrow> andthen m f s = Timeout"
  by (simp add: andthen_def)

lemma seq_apply [run_simps]: "seq m n s = andthen m (\<lambda>_. n) s"
  by (simp add: seq_def)

lemma skip_apply [simp, run_simps]: "skip s = Done () s"
  by (simp add: skip_def)

lemma andthen_eq_Done_iff:
  "andthen m f s = Done r t \<longleftrightarrow> (\<exists>x u. m s = Done x u \<and> f x u = Done r t)"
  by (auto simp: andthen_def split: outcome.splits)

lemma seq_eq_Done_iff: "seq m n s = Done r t \<longleftrightarrow> (\<exists>x u. m s = Done x u \<and> n u = Done r t)"
  by (simp add: seq_def andthen_eq_Done_iff)

text \<open>
  An invariant of the state is kept by a program when it holds in every state the program can
  leave behind by returning, exiting or being replaced.
\<close>

fun after :: "('s \<Rightarrow> bool) \<Rightarrow> ('a, 's) outcome \<Rightarrow> bool" where
  "after P (Done _ t) = P t"
| "after P (Exited _ t) = P t"
| "after P (Replaced t) = P t"
| "after P Undef = True"
| "after P Timeout = True"

definition keeps :: "('s \<Rightarrow> bool) \<Rightarrow> ('a, 's) prog \<Rightarrow> bool" where
  "keeps P m \<longleftrightarrow> (\<forall>s. P s \<longrightarrow> after P (m s))"

named_theorems keeps_intros

lemma keepsI: "(\<And>s. P s \<Longrightarrow> after P (m s)) \<Longrightarrow> keeps P m"
  by (simp add: keeps_def)

lemma keepsD: "keeps P m \<Longrightarrow> P s \<Longrightarrow> after P (m s)"
  by (simp add: keeps_def)

lemma keeps_DoneD: "keeps P m \<Longrightarrow> P s \<Longrightarrow> m s = Done r t \<Longrightarrow> P t"
  by (drule (1) keepsD) simp

lemma keeps_andthen [keeps_intros]:
  assumes "keeps P m" and "\<And>x. keeps P (f x)"
  shows "keeps P (andthen m f)"
proof (rule keepsI)
  fix s assume "P s"
  with assms(1) have "after P (m s)" by (rule keepsD)
  then show "after P (andthen m f s)"
    by (cases "m s") (auto simp: andthen_def intro: keepsD [OF assms(2)])
qed

lemma keeps_seq [keeps_intros]: "keeps P m \<Longrightarrow> keeps P n \<Longrightarrow> keeps P (seq m n)"
  by (simp add: seq_def keeps_andthen)

lemma keeps_skip [keeps_intros]: "keeps P skip"
  by (simp add: keeps_def)

lemma keeps_if [keeps_intros]: "keeps P m \<Longrightarrow> keeps P n \<Longrightarrow> keeps P (if b then m else n)"
  by simp

lemma keeps_Done [keeps_intros]: "keeps P (Done x)"
  by (simp add: keeps_def)

lemma keeps_Undef [keeps_intros]: "keeps P (\<lambda>s. Undef)"
  by (simp add: keeps_def)

lemma keeps_if_state [keeps_intros]: "keeps P m \<Longrightarrow> keeps P n \<Longrightarrow> keeps P (\<lambda>s. if b s then m s else n s)"
  by (simp add: keeps_def)

lemma keeps_case_option [keeps_intros]:
  "keeps P m \<Longrightarrow> (\<And>x. keeps P (n x)) \<Longrightarrow> keeps P (case v of None \<Rightarrow> m | Some x \<Rightarrow> n x)"
  by (cases v) simp_all

lemma keeps_case_prod: "(\<And>x y. keeps P (n x y)) \<Longrightarrow> keeps P (case v of (x, y) \<Rightarrow> n x y)"
  by (cases v) simp

text \<open>Total correctness: from a state in \<open>P\<close> the program returns, with \<open>Q\<close> of the result and the state.\<close>

definition runs :: "('s \<Rightarrow> bool) \<Rightarrow> ('a, 's) prog \<Rightarrow> ('a \<Rightarrow> 's \<Rightarrow> bool) \<Rightarrow> bool" where
  "runs P m Q \<longleftrightarrow> (\<forall>s. P s \<longrightarrow> (\<exists>x t. m s = Done x t \<and> Q x t))"

lemma runsI: "(\<And>s. P s \<Longrightarrow> \<exists>x t. m s = Done x t \<and> Q x t) \<Longrightarrow> runs P m Q"
  by (simp add: runs_def)

lemma runsD: "runs P m Q \<Longrightarrow> P s \<Longrightarrow> \<exists>x t. m s = Done x t \<and> Q x t"
  by (simp add: runs_def)

lemma runs_andthen: "runs P m R \<Longrightarrow> (\<And>x. runs (R x) (f x) Q) \<Longrightarrow> runs P (andthen m f) Q"
  unfolding runs_def by (metis andthen_Done)

lemma runs_seq: "runs P m R \<Longrightarrow> (\<And>x. runs (R x) n Q) \<Longrightarrow> runs P (seq m n) Q"
  unfolding seq_def by (rule runs_andthen)

lemma runs_Done: "(\<And>s. P s \<Longrightarrow> Q x s) \<Longrightarrow> runs P (Done x) Q"
  by (simp add: runs_def)

lemma runs_weaken: "runs P m Q \<Longrightarrow> (\<And>s. P' s \<Longrightarrow> P s) \<Longrightarrow> (\<And>x t. Q x t \<Longrightarrow> Q' x t) \<Longrightarrow> runs P' m Q'"
  unfolding runs_def by metis

section \<open>Words and their bytes\<close>

text \<open>x86-64 is little endian: byte \<open>j\<close> of an object holds bits \<open>8j\<close> to \<open>8j + 7\<close>.\<close>

type_synonym u8 = "8 word"
type_synonym u32 = "32 word"
type_synonym u64 = "64 word"
type_synonym bytes = "u8 list"
type_synonym byte_mem = "u64 \<Rightarrow> u8"

definition byte_of :: "u64 \<Rightarrow> nat \<Rightarrow> u8" where
  "byte_of w j = ucast (drop_bit (8 * j) w)"

fun word_of_bytes :: "bytes \<Rightarrow> u64" where
  "word_of_bytes [] = 0"
| "word_of_bytes (b # bs) = ucast b OR push_bit 8 (word_of_bytes bs)"

lemma bit_byte_of: "bit (byte_of w j) n \<longleftrightarrow> n < 8 \<and> bit w (8 * j + n)"
  by (auto simp: byte_of_def bit_ucast_iff bit_drop_bit_eq add.commute)

lemma bit_word_of_bytes:
  "bit (word_of_bytes bs) n \<longleftrightarrow> n < 64 \<and> n div 8 < length bs \<and> bit (bs ! (n div 8)) (n mod 8)"
proof (induction bs arbitrary: n)
  case Nil
  then show ?case by simp
next
  case (Cons b bs)
  show ?case
  proof (cases "n < 8")
    case True
    then show ?thesis by (simp add: bit_or_iff bit_push_bit_iff bit_ucast_iff)
  next
    case False
    then have "\<not> bit b n" using bit_imp_le_length [of b n] by auto
    moreover obtain k where "n = k + 8" using False by (metis add.commute le_Suc_ex not_le)
    moreover have "(k + 8) div 8 = Suc (k div 8)" and "(k + 8) mod 8 = k mod 8" by simp_all
    ultimately show ?thesis
      using Cons.IH [of k] by (auto simp: bit_or_iff bit_push_bit_iff bit_ucast_iff dest: bit_imp_le_length)
  qed
qed


lemma byte_of_word_of_bytes [mem_simps]:
  "j < length bs \<Longrightarrow> j < 8 \<Longrightarrow> byte_of (word_of_bytes bs) j = bs ! j"
  by (rule bit_word_eqI) (auto simp: bit_byte_of bit_word_of_bytes)

lemma word_of_bytes_byte_of [mem_simps]: "word_of_bytes (map (byte_of w) [0..<8]) = w"
proof (rule bit_word_eqI)
  fix n assume "n < LENGTH(64)"
  then have n: "n < 64" by simp
  then have "n div 8 < 8" by (simp add: less_mult_imp_div_less)
  then have "bit (map (byte_of w) [0..<8] ! (n div 8)) (n mod 8) \<longleftrightarrow> bit w n"
    by (simp add: bit_byte_of)
  with n \<open>n div 8 < 8\<close> show "bit (word_of_bytes (map (byte_of w) [0..<8])) n \<longleftrightarrow> bit w n"
    by (simp only: bit_word_of_bytes length_map length_upt) simp
qed

lemma word_eq_bytesI: "(\<And>j. j < 8 \<Longrightarrow> byte_of v j = byte_of w j) \<Longrightarrow> v = w"
proof -
  assume eq: "\<And>j. j < 8 \<Longrightarrow> byte_of v j = byte_of w j"
  have "map (byte_of v) [0..<8] = map (byte_of w) [0..<8]"
    by (rule map_cong) (simp_all add: eq)
  then have "word_of_bytes (map (byte_of v) [0..<8]) = word_of_bytes (map (byte_of w) [0..<8])"
    by (rule arg_cong)
  then show "v = w" by (simp only: word_of_bytes_byte_of)
qed

text \<open>The signed reading of a word whose top bit is clear.\<close>

lemma sint_small:
  fixes v :: u64
  assumes "unat v < 2 ^ 63"
  shows "sint v = int (unat v)"
proof -
  have "0 \<le> uint v" by simp
  then have "- (2 ^ 63) \<le> uint v" by (rule order_trans [rotated]) simp
  moreover have "uint v < 2 ^ 63"
    using assms by (metis of_nat_less_iff of_nat_numeral of_nat_power uint_nat)
  ultimately have "signed_take_bit 63 (uint v) = uint v" by (rule signed_take_bit_int_eq_self)
  then show ?thesis by (simp add: sint_uint)
qed

lemma sint_of_nat_small: "n < 2 ^ 63 \<Longrightarrow> sint (of_nat n :: u64) = int n"
  by (subst sint_small) (simp_all add: unat_of_nat)

section \<open>Memory: an eight-byte load and store\<close>

definition load64 :: "byte_mem \<Rightarrow> u64 \<Rightarrow> u64" where
  "load64 m a = word_of_bytes (map (\<lambda>i. m (a + of_nat i)) [0..<8])"

definition store64 :: "byte_mem \<Rightarrow> u64 \<Rightarrow> u64 \<Rightarrow> byte_mem" where
  "store64 m a v = (\<lambda>x. if unat (x - a) < 8 then byte_of v (unat (x - a)) else m x)"

lemma byte_of_load64 [mem_simps]: "j < 8 \<Longrightarrow> byte_of (load64 m a) j = m (a + of_nat j)"
  by (simp add: load64_def byte_of_word_of_bytes)

lemma load64_cong: "(\<And>j. j < 8 \<Longrightarrow> m (a + of_nat j) = m' (a + of_nat j)) \<Longrightarrow> load64 m a = load64 m' a"
  by (rule word_eq_bytesI) (simp add: byte_of_load64)

lemma store64_at: "unat (x - a) < 8 \<Longrightarrow> store64 m a v x = byte_of v (unat (x - a))"
  by (simp add: store64_def)

lemma store64_off: "8 \<le> unat (x - a) \<Longrightarrow> store64 m a v x = m x"
  by (simp add: store64_def)

lemma load64_store64 [mem_simps]: "load64 (store64 m a v) a = v"
proof (rule word_eq_bytesI)
  fix j :: nat assume "j < 8"
  then have "unat (of_nat j :: u64) = j" by (simp add: unat_of_nat)
  with \<open>j < 8\<close> show "byte_of (load64 (store64 m a v) a) j = byte_of v j"
    by (simp add: byte_of_load64 store64_def)
qed

lemma store64_eqI:
  assumes "\<And>j. j < 8 \<Longrightarrow> byte_of v j = m' (a + of_nat j)"
    and "\<And>x. 8 \<le> unat (x - a) \<Longrightarrow> m x = m' x"
  shows "store64 m a v = m'"
proof
  fix x
  have "a + of_nat (unat (x - a)) = x" by simp
  then show "store64 m a v x = m' x"
    using assms(1) [of "unat (x - a)"] assms(2) [of x] by (auto simp: store64_def)
qed

lemma store64_load64 [mem_simps]: "store64 m a (load64 m a) = m"
  by (rule store64_eqI) (auto simp: mem_simps)

lemma store64_store64 [mem_simps]: "store64 (store64 m a v) a w = store64 m a w"
  by (rule ext) (simp add: store64_def)

text \<open>Two eight-byte objects that do not overlap, modulo the address space.\<close>

definition apart :: "u64 \<Rightarrow> u64 \<Rightarrow> bool" where
  "apart a b \<longleftrightarrow> 8 \<le> unat (a - b) \<and> 8 \<le> unat (b - a)"

lemma apart_sym: "apart a b \<Longrightarrow> apart b a"
  by (simp add: apart_def)

lemma apart_offset:
  assumes "apart a b" and "j < 8"
  shows "8 \<le> unat (a + of_nat j - b)"
proof -
  have j: "unat (of_nat j :: u64) = j" using assms(2) by (simp add: unat_of_nat)
  have "unat (a - b) + 8 \<le> 2 ^ 64"
    using assms(1) by (auto simp: apart_def unat_sub_if' split: if_splits)
  then have "unat (a - b + of_nat j) = unat (a - b) + j"
    using assms(2) by (simp add: unat_plus_if' j)
  then show ?thesis using assms(1) by (simp add: apart_def algebra_simps)
qed

lemma load64_store64_apart [mem_simps]:
  "apart a b \<Longrightarrow> load64 (store64 m a v) b = load64 m b"
proof (rule word_eq_bytesI)
  fix j :: nat assume "apart a b" and "j < 8"
  then show "byte_of (load64 (store64 m a v) b) j = byte_of (load64 m b) j"
    by (simp add: byte_of_load64 store64_off apart_offset apart_sym)
qed

text \<open>Four-byte objects.\<close>

definition load32 :: "byte_mem \<Rightarrow> u64 \<Rightarrow> u32" where
  "load32 m a = ucast (word_of_bytes (map (\<lambda>i. m (a + of_nat i)) [0..<4]))"

definition store32 :: "byte_mem \<Rightarrow> u64 \<Rightarrow> u32 \<Rightarrow> byte_mem" where
  "store32 m a v = (\<lambda>x. if unat (x - a) < 4 then byte_of (ucast v) (unat (x - a)) else m x)"

lemma bit_load32: "n < 32 \<Longrightarrow> bit (load32 m a) n \<longleftrightarrow> bit (m (a + of_nat (n div 8))) (n mod 8)"
proof -
  assume n: "n < 32"
  then have "n div 8 < 4" by (simp add: less_mult_imp_div_less)
  with n show ?thesis
    by (simp only: load32_def bit_ucast_iff bit_word_of_bytes length_map length_upt) simp
qed

lemma load32_store32 [mem_simps]: "load32 (store32 m a v) a = v"
proof (rule bit_word_eqI)
  fix n assume "n < LENGTH(32)"
  then have n: "n < 32" by simp
  then have d: "n div 8 < 4" by (simp add: less_mult_imp_div_less)
  then have "unat (of_nat (n div 8) :: u64) = n div 8" by (simp add: unat_of_nat)
  with n d show "bit (load32 (store32 m a v) a) n \<longleftrightarrow> bit v n"
    by (simp only: bit_load32) (simp add: store32_def bit_byte_of bit_ucast_iff)
qed

text \<open>An object of eight or four bytes and one of four bytes that do not overlap.\<close>

lemma load64_store32_apart [mem_simps]:
  assumes "\<And>j. j < 8 \<Longrightarrow> 4 \<le> unat (b + of_nat j - a)"
  shows "load64 (store32 m a v) b = load64 m b"
proof (rule word_eq_bytesI)
  fix j :: nat assume "j < 8"
  with assms [OF this] show "byte_of (load64 (store32 m a v) b) j = byte_of (load64 m b) j"
    by (simp add: byte_of_load64 store32_def)
qed

lemma load32_store64_apart [mem_simps]:
  assumes "\<And>j. j < 4 \<Longrightarrow> 8 \<le> unat (b + of_nat j - a)"
  shows "load32 (store64 m a v) b = load32 m b"
proof -
  have "map (\<lambda>i. store64 m a v (b + of_nat i)) [0..<4] = map (\<lambda>i. m (b + of_nat i)) [0..<4]"
    using assms by (intro map_cong) (simp_all add: store64_off)
  then show ?thesis by (simp only: load32_def)
qed

section \<open>Replacing the low byte of a word\<close>

definition with_low_byte :: "u64 \<Rightarrow> u8 \<Rightarrow> u64" where
  "with_low_byte c b = (c AND 0xffffffffffffff00) OR ucast b"

lemma bit_clear_low_byte: "bit (0xffffffffffffff00 :: u64) n \<longleftrightarrow> 8 \<le> n \<and> n < 64"
proof -
  have "(0xffffffffffffff00 :: u64) = NOT (mask 8)" by (simp add: mask_eq_exp_minus_1)
  then have "bit (0xffffffffffffff00 :: u64) n \<longleftrightarrow> bit (NOT (mask 8) :: u64) n" by (rule arg_cong)
  then show ?thesis by (auto simp: bit_not_iff bit_mask_iff)
qed

lemma byte_of_with_low_byte [mem_simps]:
  "j < 8 \<Longrightarrow> byte_of (with_low_byte c b) j = (if j = 0 then b else byte_of c j)"
proof (rule bit_word_eqI)
  fix n assume j: "j < 8" and "n < LENGTH(8)"
  then have n: "n < 8" "8 * j + n < 64" by simp_all
  have "bit (0xffffffffffffff00 :: u64) (8 * j + n) \<longleftrightarrow> 0 < j"
    using n by (simp only: bit_clear_low_byte) auto
  moreover have "\<not> bit b (8 * j + n)" if "0 < j"
    using bit_imp_le_length [of b "8 * j + n"] that by auto
  ultimately show "bit (byte_of (with_low_byte c b) j) n \<longleftrightarrow> bit (if j = 0 then b else byte_of c j) n"
    using n by (cases "j = 0") (simp_all only: with_low_byte_def bit_byte_of bit_or_iff bit_and_iff bit_ucast_iff, auto simp: bit_byte_of)
qed

lemma byte_of_0: "byte_of v 0 = ucast v"
  by (simp add: byte_of_def)

text \<open>Patching the low byte of the word at \<open>a\<close> writes exactly one byte of the memory.\<close>

lemma store64_low_byte [mem_simps]: "store64 m a (with_low_byte (load64 m a) b) = m(a := b)"
proof (rule store64_eqI)
  fix j :: nat assume "j < 8"
  then have "(of_nat j :: u64) = 0 \<longleftrightarrow> j = 0" by (auto simp: word_of_nat_eq_0_iff dest: nat_dvd_not_less)
  with \<open>j < 8\<close> show "byte_of (with_low_byte (load64 m a) b) j = (m(a := b)) (a + of_nat j)"
    by (simp add: mem_simps)
qed auto

text \<open>Writing back the word read before the patch undoes it.\<close>

lemma store64_undo_patch [mem_simps]: "store64 (m(a := b)) a (load64 m a) = m"
proof -
  have "store64 (store64 m a (with_low_byte (load64 m a) b)) a (load64 m a) = m"
    by (simp only: store64_store64 store64_load64)
  then show ?thesis by (simp only: store64_low_byte)
qed

lemma load64_upd_byte0: "byte_of (load64 (m(a := b)) a) 0 = b"
  by (simp add: byte_of_load64)

end
