(* ===== verification/CText.thy ===== *)
theory CText
  imports CPrelude
begin

text \<open>
  The parts of the C library's text handling the repository uses: the conversions of
  \<^verbatim>\<open>printf\<close>, \<^verbatim>\<open>strtoul\<close>, \<^verbatim>\<open>atoi\<close>, \<^verbatim>\<open>strtok\<close> and the classes of characters.
\<close>

section \<open>Characters\<close>

definition nl :: char where
  "nl = CHR 0x0A"

definition line_end :: string where
  "line_end = [nl]"

definition ascii :: "char \<Rightarrow> nat" where
  "ascii c = of_char c"

definition isdigit :: "char \<Rightarrow> bool" where
  "isdigit c \<longleftrightarrow> 48 \<le> ascii c \<and> ascii c \<le> 57"

definition isspace :: "char \<Rightarrow> bool" where
  "isspace c \<longleftrightarrow> ascii c = 32 \<or> (9 \<le> ascii c \<and> ascii c \<le> 13)"

text \<open>The C locale: a byte of 128 or more is negative as a \<open>char\<close> and not printable.\<close>

definition isprint :: "char \<Rightarrow> bool" where
  "isprint c \<longleftrightarrow> 32 \<le> ascii c \<and> ascii c \<le> 126"

definition digit_char :: "nat \<Rightarrow> char" where
  "digit_char d = char_of (if d < 10 then 48 + d else 87 + d)"

definition digit_value :: "char \<Rightarrow> nat" where
  "digit_value c =
     (if 48 \<le> ascii c \<and> ascii c \<le> 57 then ascii c - 48
      else if 97 \<le> ascii c \<and> ascii c \<le> 122 then ascii c - 87
      else if 65 \<le> ascii c \<and> ascii c \<le> 90 then ascii c - 55
      else 99)"

lemma ascii_digit_char: "d < 36 \<Longrightarrow> ascii (digit_char d) = (if d < 10 then 48 + d else 87 + d)"
  by (simp add: ascii_def digit_char_def)

lemma digit_value_digit_char [simp]: "d < 36 \<Longrightarrow> digit_value (digit_char d) = d"
  by (simp add: digit_value_def ascii_digit_char)

lemma digit_char_not_space: "d < 36 \<Longrightarrow> digit_char d \<noteq> CHR '' '' \<and> \<not> isspace (digit_char d)"
proof -
  assume d: "d < 36"
  have "ascii (digit_char d) \<noteq> ascii (CHR '' '')"
    using d by (simp only: ascii_digit_char) (simp add: ascii_def)
  then have "digit_char d \<noteq> CHR '' ''" by metis
  moreover have "\<not> isspace (digit_char d)" using d by (simp add: isspace_def ascii_digit_char)
  ultimately show ?thesis by simp
qed

section \<open>Printing numbers\<close>

fun digits :: "nat \<Rightarrow> nat \<Rightarrow> string" where
  "digits b n = (if n < b \<or> b < 2 then [digit_char n] else digits b (n div b) @ [digit_char (n mod b)])"

declare digits.simps [simp del]

text \<open>\<^verbatim>\<open>%u %zu %lu\<close>, \<^verbatim>\<open>%d %zd\<close>, \<^verbatim>\<open>%x %lx %llx %hhx\<close> and \<^verbatim>\<open>%o\<close>.\<close>

definition fmt_u :: "nat \<Rightarrow> string" where
  "fmt_u n = digits 10 n"

definition fmt_d :: "int \<Rightarrow> string" where
  "fmt_d i = (if i < 0 then ''-'' @ digits 10 (nat (- i)) else digits 10 (nat i))"

definition fmt_x :: "nat \<Rightarrow> string" where
  "fmt_x n = digits 16 n"

definition fmt_o :: "nat \<Rightarrow> string" where
  "fmt_o n = digits 8 n"

text \<open>A minimum width: \<^verbatim>\<open>%0<k>\<close>, \<^verbatim>\<open>%-<k>\<close>.\<close>

definition zero_pad :: "nat \<Rightarrow> string \<Rightarrow> string" where
  "zero_pad k s = replicate (k - length s) (CHR ''0'') @ s"

definition pad_right :: "nat \<Rightarrow> string \<Rightarrow> string" where
  "pad_right k s = s @ replicate (k - length s) (CHR '' '')"

lemma digits_nonempty [simp]: "digits b n \<noteq> []"
  by (subst digits.simps) simp

lemma length_digits: "2 \<le> b \<Longrightarrow> n < b ^ k \<Longrightarrow> 0 < k \<Longrightarrow> length (digits b n) \<le> k"
proof (induction k arbitrary: n)
  case 0
  then show ?case by simp
next
  case (Suc k)
  show ?case
  proof (cases "n < b")
    case True
    then show ?thesis by (simp add: digits.simps)
  next
    case False
    with Suc.prems have "0 < k" by (cases k) auto
    moreover have "n div b < b ^ k" using Suc.prems(2) by (simp add: less_mult_imp_div_less mult.commute)
    ultimately have "length (digits b (n div b)) \<le> k" using Suc.IH Suc.prems(1) by blast
    with False Suc.prems(1) show ?thesis by (simp add: digits.simps [of b n])
  qed
qed

lemma digits_chars: "2 \<le> b \<Longrightarrow> c \<in> set (digits b n) \<Longrightarrow> \<exists>d < b. c = digit_char d"
proof (induction b n rule: digits.induct)
  case (1 b n)
  show ?case
  proof (cases "n < b")
    case True
    with 1 show ?thesis by (auto simp: digits.simps [of b n])
  next
    case False
    moreover have "\<exists>d < b. digit_char (n mod b) = digit_char d" using 1(2) by (intro exI [of _ "n mod b"]) simp
    ultimately show ?thesis using 1 by (auto simp: digits.simps [of b n])
  qed
qed

section \<open>Reading numbers\<close>

fun read_digits :: "nat \<Rightarrow> nat \<Rightarrow> string \<Rightarrow> nat" where
  "read_digits b acc [] = acc"
| "read_digits b acc (c # cs) =
     (if digit_value c < b then read_digits b (b * acc + digit_value c) cs else acc)"

lemma read_digits_append:
  "\<forall>c \<in> set xs. digit_value c < b \<Longrightarrow> read_digits b acc (xs @ ys) = read_digits b (read_digits b acc xs) ys"
  by (induction xs arbitrary: acc) auto

lemma read_digits_digits:
  assumes "2 \<le> b" and "b \<le> 36"
  shows "read_digits b 0 (digits b n) = n"
proof (induction n rule: less_induct)
  case (less n)
  show ?case
  proof (cases "n < b")
    case True
    with assms show ?thesis by (simp add: digits.simps)
  next
    case False
    have dv: "\<forall>c \<in> set (digits b (n div b)). digit_value c < b"
      using digits_chars [OF assms(1)] assms(2) by fastforce
    have "n div b < n" using False assms(1) by simp
    then have "read_digits b 0 (digits b (n div b)) = n div b" by (rule less.IH)
    moreover have "n mod b < b" using assms by simp
    then have "n mod b < 36" using assms(2) by (rule less_le_trans)
    then have "digit_value (digit_char (n mod b)) = n mod b" by (rule digit_value_digit_char)
    ultimately show ?thesis using False assms \<open>n mod b < b\<close>
      by (simp add: digits.simps [of b n] read_digits_append [OF dv] \<open>digit_value (digit_char (n mod b)) = n mod b\<close>)
  qed
qed

text \<open>
  The common start of \<^verbatim>\<open>strtol\<close> and \<^verbatim>\<open>strtoul\<close>: white space, then a sign.
\<close>

definition skip_space :: "string \<Rightarrow> string" where
  "skip_space s = dropWhile isspace s"

definition take_sign :: "string \<Rightarrow> bool \<times> string" where
  "take_sign s =
     (case s of
        [] \<Rightarrow> (False, s)
      | c # cs \<Rightarrow> if c = CHR ''-'' then (True, cs) else if c = CHR ''+'' then (False, cs) else (False, s))"

text \<open>Base 16 also takes a \<^verbatim>\<open>0x\<close>, but only in front of a digit.\<close>

fun skip_0x :: "string \<Rightarrow> string" where
  "skip_0x (z # x # d # s) =
     (if z = CHR ''0'' \<and> (x = CHR ''x'' \<or> x = CHR ''X'') \<and> digit_value d < 16 then d # s else z # x # d # s)"
| "skip_0x s = s"

text \<open>\<^verbatim>\<open>strtoul(s, NULL, 16)\<close>: too large a number gives \<^verbatim>\<open>ULONG_MAX\<close>, a minus sign negates in \<^verbatim>\<open>unsigned long\<close>.\<close>

definition strtoul16 :: "string \<Rightarrow> u64" where
  "strtoul16 s =
     (let (neg, t) = take_sign (skip_space s);
          n = read_digits 16 0 (skip_0x t)
      in if 2 ^ 64 \<le> n then - 1
         else if neg then - of_nat n else of_nat n)"

text \<open>\<^verbatim>\<open>atoi(s)\<close>: \<^verbatim>\<open>strtol(s, NULL, 10)\<close>, which saturates at \<^verbatim>\<open>long\<close>, converted to \<^verbatim>\<open>int\<close>.\<close>

definition atoi :: "string \<Rightarrow> int" where
  "atoi s =
     (let (neg, t) = take_sign (skip_space s);
          n = int (read_digits 10 0 t);
          l = (if neg then max (- (2 ^ 63)) (- n) else min (2 ^ 63 - 1) n)
      in signed_take_bit 31 l)"

text \<open>What the debugger prints in base 16 it also reads back, with and without the \<^verbatim>\<open>0x\<close>.\<close>

lemma fmt_x_hd: "\<exists>d < 16. \<exists>ds. fmt_x n = digit_char d # ds"
proof (cases "fmt_x n")
  case Nil
  then show ?thesis by (simp add: fmt_x_def)
next
  case (Cons c cs)
  then have "c \<in> set (digits 16 n)" by (simp add: fmt_x_def)
  then show ?thesis using digits_chars [of 16 c n] Cons by auto
qed

lemma digit_char_not_sign: "d < 36 \<Longrightarrow> digit_char d \<noteq> CHR ''-'' \<and> digit_char d \<noteq> CHR ''+''"
proof -
  assume d: "d < 36"
  have "ascii (digit_char d) \<noteq> ascii (CHR ''-'')" and "ascii (digit_char d) \<noteq> ascii (CHR ''+'')"
    using d by (simp_all only: ascii_digit_char) (simp_all add: ascii_def)
  then show ?thesis by metis
qed

lemma digit_char_not_x: "d < 16 \<Longrightarrow> digit_char d \<noteq> CHR ''x'' \<and> digit_char d \<noteq> CHR ''X''"
proof -
  assume d: "d < 16"
  have "ascii (digit_char d) \<noteq> ascii (CHR ''x'')" and "ascii (digit_char d) \<noteq> ascii (CHR ''X'')"
    using d by (simp_all only: ascii_digit_char) (simp_all add: ascii_def)
  then show ?thesis by metis
qed

lemma skip_0x_digits: "\<forall>c \<in> set s. c \<noteq> CHR ''x'' \<and> c \<noteq> CHR ''X'' \<Longrightarrow> skip_0x s = s"
  by (cases s rule: skip_0x.cases) auto

lemma strtoul16_plain: "n < 2 ^ 64 \<Longrightarrow> strtoul16 (fmt_x n) = of_nat n"
proof -
  assume n: "n < 2 ^ 64"
  obtain d ds where d: "d < 16" and eq: "fmt_x n = digit_char d # ds" using fmt_x_hd by blast
  have "take_sign (skip_space (fmt_x n)) = (False, fmt_x n)"
    using digit_char_not_space [of d] digit_char_not_sign [of d] d by (simp add: eq skip_space_def take_sign_def)
  moreover have "skip_0x (fmt_x n) = fmt_x n"
  proof (rule skip_0x_digits, rule ballI)
    fix c assume "c \<in> set (fmt_x n)"
    then obtain d' where "d' < 16" and "c = digit_char d'" using digits_chars [of 16 c n] by (auto simp: fmt_x_def)
    then show "c \<noteq> CHR ''x'' \<and> c \<noteq> CHR ''X''" using digit_char_not_x by simp
  qed
  moreover have "read_digits 16 0 (fmt_x n) = n" by (simp add: fmt_x_def read_digits_digits)
  ultimately show ?thesis using n by (simp add: strtoul16_def)
qed

lemma strtoul16_0x: "n < 2 ^ 64 \<Longrightarrow> strtoul16 (''0x'' @ fmt_x n) = of_nat n"
proof -
  assume n: "n < 2 ^ 64"
  obtain d ds where d: "d < 16" and eq: "fmt_x n = digit_char d # ds" using fmt_x_hd by blast
  have "take_sign (skip_space (''0x'' @ fmt_x n)) = (False, ''0x'' @ fmt_x n)"
    by (simp add: skip_space_def take_sign_def isspace_def ascii_def)
  moreover have "skip_0x (''0x'' @ fmt_x n) = fmt_x n" using d by (simp add: eq)
  moreover have "read_digits 16 0 (fmt_x n) = n" by (simp add: fmt_x_def read_digits_digits)
  ultimately show ?thesis using n by (simp add: strtoul16_def)
qed

lemma atoi_fmt_d: 
  assumes "0 \<le> i" and "i < 2 ^ 31"
  shows "atoi (fmt_d i) = i"
proof -
  obtain c cs where eq: "digits 10 (nat i) = c # cs" by (cases "digits 10 (nat i)") auto
  then have "c \<in> set (digits 10 (nat i))" by simp
  then obtain d where d: "d < 10" "c = digit_char d" using digits_chars [of 10] by auto
  have "take_sign (skip_space (digits 10 (nat i))) = (False, digits 10 (nat i))"
    using digit_char_not_space [of d] digit_char_not_sign [of d] d by (simp add: eq skip_space_def take_sign_def)
  moreover have "read_digits 10 0 (digits 10 (nat i)) = nat i" by (simp add: read_digits_digits)
  moreover have "signed_take_bit 31 i = i" using assms by (simp add: signed_take_bit_int_eq_self)
  ultimately show ?thesis using assms by (simp add: atoi_def fmt_d_def)
qed

section \<open>Tokens\<close>

text \<open>
  \<^verbatim>\<open>strtok\<close> on the rest of the string it has saved: the token, a null pointer when only
  delimiters are left, and what it saves for the next call.
\<close>

definition strtok :: "string \<Rightarrow> string \<Rightarrow> string option \<times> string" where
  "strtok delim rest =
     (let s = dropWhile (\<lambda>c. c \<in> set delim) rest;
          t = takeWhile (\<lambda>c. c \<notin> set delim) s
      in if s = [] then (None, []) else (Some t, drop (Suc (length t)) s))"

lemma strtok_None: "strtok delim rest = (None, r) \<Longrightarrow> set rest \<subseteq> set delim \<and> r = []"
  by (auto simp: strtok_def Let_def dropWhile_eq_Nil_conv split: if_splits)

lemma strtok_shorter:
  assumes "strtok delim rest = (Some t, r)"
  shows "length r < length rest"
proof -
  have "length (dropWhile (\<lambda>c. c \<in> set delim) rest) \<le> length rest" by (rule length_dropWhile_le)
  then show ?thesis using assms by (cases "dropWhile (\<lambda>c. c \<in> set delim) rest") (auto simp: strtok_def Let_def)
qed

lemma strtok_token:
  assumes "strtok delim rest = (Some t, r)"
  shows "t \<noteq> []" and "set t \<inter> set delim = {}"
proof -
  let ?s = "dropWhile (\<lambda>c. c \<in> set delim) rest"
  from assms have s: "?s \<noteq> []" and t: "t = takeWhile (\<lambda>c. c \<notin> set delim) ?s"
    by (auto simp: strtok_def Let_def split: if_splits)
  have "hd ?s \<notin> set delim" using s by (rule hd_dropWhile)
  then show "t \<noteq> []" using s t by (cases ?s) auto
  show "set t \<inter> set delim = {}" using t by (auto dest: set_takeWhileD)
qed

lemma strtok_hit:
  assumes "t \<noteq> []" and "set t \<inter> set delim = {}" and "set pre \<subseteq> set delim" and "d \<in> set delim"
  shows "strtok delim (pre @ t @ d # r) = (Some t, r)"
proof -
  have "dropWhile (\<lambda>c. c \<in> set delim) (pre @ t @ d # r) = t @ d # r"
    using assms by (cases t) (auto simp: dropWhile_append2 subset_iff)
  moreover have "takeWhile (\<lambda>c. c \<notin> set delim) (t @ d # r) = t"
    using assms by (subst takeWhile_append2) auto
  ultimately show ?thesis using assms(1) by (simp add: strtok_def Let_def)
qed

lemma strtok_last:
  assumes "t \<noteq> []" and "set t \<inter> set delim = {}" and "set pre \<subseteq> set delim"
  shows "strtok delim (pre @ t) = (Some t, [])"
proof -
  have "dropWhile (\<lambda>c. c \<in> set delim) (pre @ t) = t"
    using assms by (cases t) (auto simp: dropWhile_append2 subset_iff)
  moreover have "takeWhile (\<lambda>c. c \<notin> set delim) t = t" using assms by (simp only: takeWhile_eq_all_conv) auto
  ultimately show ?thesis using assms(1) by (simp only: strtok_def Let_def) simp
qed

text \<open>The loop \<^verbatim>\<open>while((token = strtok(NULL, delim)) != NULL)\<close>, the tokens in order.\<close>

function strtok_all :: "string \<Rightarrow> string \<Rightarrow> string list" where
  "strtok_all delim rest =
     (case strtok delim rest of
        (None, _) \<Rightarrow> []
      | (Some t, r) \<Rightarrow> t # strtok_all delim r)"
  by pat_completeness auto
termination
  by (relation "measure (\<lambda>(delim, rest). length rest)") (auto dest: strtok_shorter [OF sym])

declare strtok_all.simps [simp del]

section \<open>Lines\<close>

text \<open>The bytes of a file as characters, and what repeated calls of \<^verbatim>\<open>getline\<close> return: each line
  with its newline, the last one without when the file does not end in one.\<close>

definition text_of :: "bytes \<Rightarrow> string" where
  "text_of bs = map (\<lambda>b. char_of (unat b)) bs"

text \<open>The characters of a string as the bytes of a file.\<close>

definition bytes_of :: "string \<Rightarrow> bytes" where
  "bytes_of t = map (\<lambda>c. word_of_nat (of_char c)) t"

lemma char_of_byte: "char_of (unat (word_of_nat (of_char c) :: u8)) = c"
  by (simp add: unat_of_nat)

lemma text_of_bytes_of [simp]: "text_of (bytes_of t) = t"
  by (simp add: text_of_def bytes_of_def comp_def char_of_byte map_idI)

lemma length_bytes_of [simp]: "length (bytes_of s) = length s"
  by (simp add: bytes_of_def)

lemma bytes_of_Nil [simp]: "bytes_of [] = []"
  by (simp add: bytes_of_def)

lemma bytes_of_append [simp]: "bytes_of (s @ t) = bytes_of s @ bytes_of t"
  by (simp add: bytes_of_def)

lemma bytes_of_null: "CHR 0x00 \<notin> set s \<Longrightarrow> 0 \<notin> set (bytes_of s)"
proof
  assume n: "CHR 0x00 \<notin> set s" and "0 \<in> set (bytes_of s)"
  then obtain c where c: "c \<in> set s" "(0 :: u8) = word_of_nat (of_char c)" by (auto simp: bytes_of_def)
  then have "c = char_of (unat (0 :: u8))" using char_of_byte [of c] by simp
  then have "c = CHR 0x00" by (simp add: char_of_def)
  then show False using n c(1) by simp
qed

fun getline :: "string \<Rightarrow> string \<times> string" where
  "getline [] = ([], [])"
| "getline (c # cs) = (if c = nl then ([c], cs) else (let (l, r) = getline cs in (c # l, r)))"

lemma getline_split: "getline s = (l, r) \<Longrightarrow> s = l @ r"
  by (induction s arbitrary: l r) (auto split: if_splits prod.splits)

lemma getline_shorter: "s \<noteq> [] \<Longrightarrow> length (snd (getline s)) < length s"
proof (induction s)
  case Nil
  then show ?case by simp
next
  case (Cons c cs)
  then show ?case by (cases cs) (auto split: prod.splits)
qed

function getlines :: "string \<Rightarrow> string list" where
  "getlines s = (if s = [] then [] else fst (getline s) # getlines (snd (getline s)))"
  by pat_completeness auto
termination
  by (relation "measure length") (auto simp: getline_shorter)

declare getlines.simps [simp del]

lemma concat_getlines: "concat (getlines s) = s"
proof (induction s rule: getlines.induct)
  case (1 s)
  show ?case
  proof (cases "s = []")
    case True
    then show ?thesis by (simp add: getlines.simps)
  next
    case False
    have "s = fst (getline s) @ snd (getline s)" by (rule getline_split) simp
    with 1 False show ?thesis by (simp add: getlines.simps [of s])
  qed
qed

section \<open>What the tokens are\<close>

lemma strtok_Some_split:
  assumes "strtok delim rest = (Some t, r)"
  shows "\<exists>pre post. rest = pre @ t @ post \<and> set pre \<subseteq> set delim
    \<and> (post = [] \<and> r = [] \<or> (\<exists>d \<in> set delim. post = d # r))"
proof -
  let ?P = "\<lambda>c. c \<in> set delim" and ?Q = "\<lambda>c. c \<notin> set delim"
  let ?s = "dropWhile ?P rest"
  have t: "t = takeWhile ?Q ?s" and r: "r = drop (Suc (length t)) ?s"
    using assms by (auto simp: strtok_def Let_def split: if_splits)
  have split: "rest = takeWhile ?P rest @ t @ dropWhile ?Q ?s" by (simp add: t)
  have tail: "dropWhile ?Q ?s = drop (length t) ?s" by (simp only: dropWhile_eq_drop t)
  have pre: "set (takeWhile ?P rest) \<subseteq> set delim" by (auto dest: set_takeWhileD)
  have r': "r = tl (dropWhile ?Q ?s)" by (simp add: r tail drop_Suc drop_tl)
  show ?thesis
  proof (cases "dropWhile ?Q ?s")
    case Nil
    with split pre r' show ?thesis by (metis append_Nil2 list.sel(2))
  next
    case (Cons d post)
    then have "\<not> ?Q d" using hd_dropWhile [of ?Q ?s] by simp
    with Cons split pre r' show ?thesis by (metis list.sel(3))
  qed
qed

lemma strtok_filter:
  assumes "strtok delim rest = (Some t, r)"
  shows "filter (\<lambda>c. c \<notin> set delim) rest = t @ filter (\<lambda>c. c \<notin> set delim) r"
proof -
  obtain pre post where s: "rest = pre @ t @ post" "set pre \<subseteq> set delim"
    "post = [] \<and> r = [] \<or> (\<exists>d \<in> set delim. post = d # r)"
    using strtok_Some_split [OF assms] by blast
  have "filter (\<lambda>c. c \<notin> set delim) pre = []" using s(2) by (auto simp: filter_empty_conv)
  moreover have "filter (\<lambda>c. c \<notin> set delim) t = t"
    using strtok_token(2) [OF assms] by (auto intro: filter_True)
  moreover have "filter (\<lambda>c. c \<notin> set delim) post = filter (\<lambda>c. c \<notin> set delim) r" using s(3) by auto
  ultimately show ?thesis by (simp add: s(1))
qed

lemma strtok_all_tokens: "t \<in> set (strtok_all delim s) \<Longrightarrow> t \<noteq> [] \<and> set t \<inter> set delim = {}"
proof (induction delim s rule: strtok_all.induct)
  case (1 delim rest)
  show ?case
  proof (cases "strtok delim rest")
    case (Pair tok r)
    show ?thesis
    proof (cases tok)
      case None
      with Pair 1(2) show ?thesis by (simp add: strtok_all.simps [of delim rest])
    next
      case (Some u)
      with Pair 1 strtok_token [of delim rest u r] show ?thesis
        by (auto simp: strtok_all.simps [of delim rest])
    qed
  qed
qed

lemma concat_strtok_all: "concat (strtok_all delim s) = filter (\<lambda>c. c \<notin> set delim) s"
proof (induction delim s rule: strtok_all.induct)
  case (1 delim rest)
  show ?case
  proof (cases "strtok delim rest")
    case (Pair tok r)
    show ?thesis
    proof (cases tok)
      case None
      then have "set rest \<subseteq> set delim" using Pair strtok_None [of delim rest] by simp
      then have "filter (\<lambda>c. c \<notin> set delim) rest = []" by (auto simp: filter_empty_conv)
      with None Pair show ?thesis by (simp add: strtok_all.simps [of delim rest])
    next
      case (Some u)
      with Pair 1 strtok_filter [of delim rest u r] show ?thesis
        by (simp add: strtok_all.simps [of delim rest])
    qed
  qed
qed

text \<open>Words joined by single spaces are the tokens of the line.\<close>

fun unwords :: "string list \<Rightarrow> string" where
  "unwords [] = []"
| "unwords [w] = w"
| "unwords (w # ws) = w @ CHR '' '' # unwords ws"

lemma strtok_all_unwords:
  "\<forall>w \<in> set ws. w \<noteq> [] \<and> CHR '' '' \<notin> set w \<Longrightarrow> strtok_all '' '' (unwords ws) = ws"
proof (induction ws rule: unwords.induct)
  case 1
  then show ?case by (simp add: strtok_all.simps strtok_def)
next
  case (2 w)
  then have "strtok '' '' w = (Some w, [])" using strtok_last [of w "'' ''" "[]"] by simp
  then show ?case by (simp add: strtok_all.simps [of _ w] strtok_all.simps [of _ "[]"] strtok_def [of _ "[]"])
next
  case (3 w v ws)
  then have "strtok '' '' (w @ CHR '' '' # unwords (v # ws)) = (Some w, unwords (v # ws))"
    using strtok_hit [of w "'' ''" "[]" "CHR '' ''"] by simp
  with 3 show ?case by (simp add: strtok_all.simps [of _ "w @ CHR '' '' # unwords (v # ws)"])
qed

section \<open>Digits, evaluated\<close>

lemma digit_chars:
  "digit_char 0 = CHR ''0''" "digit_char (Suc 0) = CHR ''1''" "digit_char 1 = CHR ''1''" "digit_char 2 = CHR ''2''"
  "digit_char 3 = CHR ''3''" "digit_char 4 = CHR ''4''" "digit_char 5 = CHR ''5''"
  "digit_char 6 = CHR ''6''" "digit_char 7 = CHR ''7''" "digit_char 8 = CHR ''8''"
  "digit_char 9 = CHR ''9''" "digit_char 10 = CHR ''a''" "digit_char 11 = CHR ''b''"
  "digit_char 12 = CHR ''c''" "digit_char 13 = CHR ''d''" "digit_char 14 = CHR ''e''"
  "digit_char 15 = CHR ''f''"
  by (simp_all add: digit_char_def char_of_def bit_0)

lemmas print_simps = fmt_u_def fmt_d_def fmt_x_def fmt_o_def digits.simps digit_chars zero_pad_def pad_right_def

end
