(* ===== verification/Tracee.thy ===== *)
theory Tracee
  imports CText
begin

text \<open>
  What the debugger (hw4) asks of the system: \<^verbatim>\<open>ptrace\<close>, \<^verbatim>\<open>fork\<close>, \<^verbatim>\<open>execvp\<close>, \<^verbatim>\<open>waitpid\<close>,
  \<^verbatim>\<open>kill\<close>, the file reads and the Capstone disassembler.  None of this is code of the
  repository, so it is a parameter of the model: a record of functions over a world
  \<open>'w\<close>.  The locale \<open>tracee\<close> states what \<^verbatim>\<open>ptrace(2)\<close> documents of the requests that
  read and write a stopped process; the machine at the end of the theory is an instance.
\<close>

section \<open>The interface\<close>

text \<open>\<^verbatim>\<open>struct user_regs_struct\<close>; the fields the debugger never names are kept together.\<close>

record user_regs =
  rax :: u64
  rbx :: u64
  rcx :: u64
  rdx :: u64
  r8 :: u64
  r9 :: u64
  r10 :: u64
  r11 :: u64
  r12 :: u64
  r13 :: u64
  r14 :: u64
  r15 :: u64
  rdi :: u64
  rsi :: u64
  rbp :: u64
  rsp :: u64
  rip :: u64
  eflags :: u64
  other_regs :: "u64 list"

text \<open>One instruction of a disassembly (\<^verbatim>\<open>cs_insn\<close>).\<close>

record insn =
  i_address :: u64
  i_size :: nat
  i_bytes :: bytes
  i_mnemonic :: string
  i_op_str :: string

text \<open>
  The calls, each with the process it acts on.  An \<^verbatim>\<open>int\<close> result comes first.  A peek that
  fails returns \<open>- 1\<close>.  \<open>k_execvp\<close> gives \<open>None\<close> when the image is replaced;
  \<open>k_fopen\<close> the contents of a file that can be opened; \<open>k_stat_size\<close> what \<^verbatim>\<open>st_size\<close>
  holds after \<^verbatim>\<open>stat\<close>; \<open>k_malloc\<close> a null pointer or what a fresh block happens to hold.
\<close>

record 'w kernel =
  k_fork :: "'w \<Rightarrow> int \<times> 'w"
  k_execvp :: "string \<Rightarrow> string list \<Rightarrow> 'w \<Rightarrow> int option \<times> 'w"
  k_waitpid :: "int \<Rightarrow> 'w \<Rightarrow> int \<times> u32 \<times> 'w"
  k_kill :: "int \<Rightarrow> int \<Rightarrow> 'w \<Rightarrow> int \<times> 'w"
  k_traceme :: "'w \<Rightarrow> int \<times> 'w"
  k_setoptions :: "int \<Rightarrow> 'w \<Rightarrow> int \<times> 'w"
  k_peek :: "int \<Rightarrow> u64 \<Rightarrow> 'w \<Rightarrow> u64"
  k_poke :: "int \<Rightarrow> u64 \<Rightarrow> u64 \<Rightarrow> 'w \<Rightarrow> int \<times> 'w"
  k_getregs :: "int \<Rightarrow> 'w \<Rightarrow> int \<times> user_regs"
  k_setregs :: "int \<Rightarrow> user_regs \<Rightarrow> 'w \<Rightarrow> int \<times> 'w"
  k_singlestep :: "int \<Rightarrow> 'w \<Rightarrow> int \<times> 'w"
  k_cont :: "int \<Rightarrow> 'w \<Rightarrow> int \<times> 'w"
  k_fopen :: "string \<Rightarrow> 'w \<Rightarrow> bytes option"
  k_stat_size :: "string \<Rightarrow> 'w \<Rightarrow> u64"
  k_malloc :: "u64 \<Rightarrow> 'w \<Rightarrow> (nat \<Rightarrow> u8) option \<times> 'w"
  k_cs_open :: "'w \<Rightarrow> bool"
  k_cs_disasm :: "bytes \<Rightarrow> u64 \<Rightarrow> u64 \<Rightarrow> nat \<Rightarrow> insn list"

section \<open>What ptrace documents of a stopped process\<close>

text \<open>
  \<open>mem\<close> is the tracee's memory as the world holds it; \<open>mapped w a\<close> says that the process
  is stopped and the eight bytes from \<open>a\<close> on can be read and written.  A peek reads the
  word there, a poke writes it and touches neither the rest of the memory nor the registers,
  and registers that are written with the flags and segments left alone are read back.
\<close>

locale tracee =
  fixes K :: "'w kernel"
    and pid :: int
    and mem :: "'w \<Rightarrow> byte_mem"
    and mapped :: "'w \<Rightarrow> u64 \<Rightarrow> bool"
  assumes peek_word: "mapped w a \<Longrightarrow> k_peek K pid a w = load64 (mem w) a"
    and poke_ok: "mapped w a \<Longrightarrow> fst (k_poke K pid a v w) = 0"
    and poke_mem: "mapped w a \<Longrightarrow> mem (snd (k_poke K pid a v w)) = store64 (mem w) a v"
    and poke_mapped: "mapped w a \<Longrightarrow> mapped (snd (k_poke K pid a v w)) = mapped w"
    and poke_regs: "mapped w a \<Longrightarrow> k_getregs K pid (snd (k_poke K pid a v w)) = k_getregs K pid w"
    and setregs_ok: "k_getregs K pid w = (0, cur) \<Longrightarrow> eflags rs = eflags cur \<Longrightarrow>
      other_regs rs = other_regs cur \<Longrightarrow> fst (k_setregs K pid rs w) = 0"
    and setregs_regs: "k_getregs K pid w = (0, cur) \<Longrightarrow> eflags rs = eflags cur \<Longrightarrow>
      other_regs rs = other_regs cur \<Longrightarrow> k_getregs K pid (snd (k_setregs K pid rs w)) = (0, rs)"
    and setregs_mem: "mem (snd (k_setregs K pid rs w)) = mem w"
    and setregs_mapped: "mapped (snd (k_setregs K pid rs w)) = mapped w"
begin

text \<open>The patch both \<^verbatim>\<open>set_break\<close> and \<^verbatim>\<open>check_process\<close> apply: read a word, replace its low byte.\<close>

lemma patch_byte:
  assumes "mapped w a" and "k_poke K pid a (with_low_byte (k_peek K pid a w) b) w = (r, w')"
  shows "r = 0" and "mem w' = (mem w)(a := b)" and "mapped w' = mapped w"
    and "k_getregs K pid w' = k_getregs K pid w"
proof -
  let ?p = "k_poke K pid a (with_low_byte (k_peek K pid a w) b) w"
  have p: "fst ?p = r" "snd ?p = w'" using assms(2) by simp_all
  show "r = 0" using poke_ok [OF assms(1)] p(1) by metis
  have "mem (snd ?p) = (mem w)(a := b)"
    by (simp add: poke_mem [OF assms(1)] peek_word [OF assms(1)] store64_low_byte)
  then show "mem w' = (mem w)(a := b)" using p(2) by simp
  show "mapped w' = mapped w" using poke_mapped [OF assms(1)] p(2) by metis
  show "k_getregs K pid w' = k_getregs K pid w" using poke_regs [OF assms(1)] p(2) by metis
qed

text \<open>Writing back the word that was read before the patch restores the memory.\<close>

lemma patch_undo:
  assumes "mapped w a" and "mem w' = (mem w)(a := b)" and "mapped w' = mapped w"
    and "k_poke K pid a (k_peek K pid a w) w' = (r, w'')"
  shows "r = 0" and "mem w'' = mem w"
proof -
  have m: "mapped w' a" using assms(1,3) by simp
  show "r = 0" using poke_ok [OF m, of "k_peek K pid a w"] assms(4) by simp
  have "mem (snd (k_poke K pid a (k_peek K pid a w) w')) = mem w"
    by (simp add: poke_mem [OF m] peek_word [OF assms(1)] assms(2) store64_undo_patch)
  then show "mem w'' = mem w" using assms(4) by simp
qed

end

section \<open>A machine\<close>

text \<open>
  A byte memory, one set of registers and a processor that knows three instructions:
  \<^verbatim>\<open>0xcc\<close> traps with \<open>rip\<close> after it, \<^verbatim>\<open>0x0f\<close> ends the program with status 0,
  \<^verbatim>\<open>0xf4\<close> ends it by SIGSEGV, and any other byte does nothing.  The low page is not
  mapped.  Enough to run the debugger against.
\<close>

record machine =
  m_mem :: byte_mem
  m_regs :: user_regs
  m_alive :: bool
  m_pid :: int
  m_status :: u32
  m_files :: "(string \<times> bytes) list"

definition m_mapped :: "machine \<Rightarrow> u64 \<Rightarrow> bool" where
  "m_mapped w a \<longleftrightarrow> m_alive w \<and> 0x1000 \<le> a \<and> a < 0xfffffffffffff000"

definition m_step :: "machine \<Rightarrow> machine" where
  "m_step w =
     (let pc = rip (m_regs w); b = m_mem w pc; w' = w\<lparr>m_regs := (m_regs w)\<lparr>rip := pc + 1\<rparr>, m_status := 0x057f\<rparr>
      in if b = 0x0f then w'\<lparr>m_alive := False, m_status := 0\<rparr>
         else if b = 0xf4 then w'\<lparr>m_alive := False, m_status := 11\<rparr>
         else w')"

fun m_run :: "nat \<Rightarrow> machine \<Rightarrow> machine" where
  "m_run 0 w = w"
| "m_run (Suc n) w =
     (let trap = (m_mem w (rip (m_regs w)) = 0xcc); w' = m_step w
      in if trap \<or> \<not> m_alive w' then w' else m_run n w')"

definition m_resume :: "(machine \<Rightarrow> machine) \<Rightarrow> int \<Rightarrow> machine \<Rightarrow> int \<times> machine" where
  "m_resume f p w = (if m_alive w \<and> p = m_pid w then (0, f w) else (- 1, w))"

definition machine_kernel :: "machine kernel" where
  "machine_kernel =
     \<lparr> k_fork = (\<lambda>w. (m_pid w, w\<lparr>m_alive := True, m_status := 0x057f\<rparr>)),
       k_execvp = (\<lambda>f args w. (None, w)),
       k_waitpid = (\<lambda>p w. (p, m_status w, w)),
       k_kill = (\<lambda>p s w. (0, w\<lparr>m_alive := False\<rparr>)),
       k_traceme = (\<lambda>w. (0, w)),
       k_setoptions = (\<lambda>p w. (0, w)),
       k_peek = (\<lambda>p a w. if m_mapped w a then load64 (m_mem w) a else - 1),
       k_poke = (\<lambda>p a v w. if m_mapped w a then (0, w\<lparr>m_mem := store64 (m_mem w) a v\<rparr>) else (- 1, w)),
       k_getregs = (\<lambda>p w. (if m_alive w then 0 else - 1, m_regs w)),
       k_setregs = (\<lambda>p rs w. if m_alive w then (0, w\<lparr>m_regs := rs\<rparr>) else (- 1, w)),
       k_singlestep = m_resume m_step,
       k_cont = m_resume (m_run 100),
       k_fopen = (\<lambda>f w. map_of (m_files w) f),
       k_stat_size = (\<lambda>f w. case map_of (m_files w) f of None \<Rightarrow> 0 | Some bs \<Rightarrow> of_nat (length bs)),
       k_malloc = (\<lambda>n w. (Some (\<lambda>_. 0), w)),
       k_cs_open = (\<lambda>w. True),
       k_cs_disasm = (\<lambda>bs sz a n. map (\<lambda>i. \<lparr>i_address = a + of_nat i, i_size = 1, i_bytes = [bs ! i],
          i_mnemonic = ''db'', i_op_str = ''''\<rparr>) [0..<min n (length bs)]) \<rparr>"

lemma machine_peek [simp]:
  "k_peek machine_kernel p a w = (if m_mapped w a then load64 (m_mem w) a else - 1)"
  by (simp add: machine_kernel_def)

lemma machine_poke [simp]:
  "k_poke machine_kernel p a v w =
     (if m_mapped w a then (0, w\<lparr>m_mem := store64 (m_mem w) a v\<rparr>) else (- 1, w))"
  by (simp add: machine_kernel_def)

lemma machine_getregs [simp]: "k_getregs machine_kernel p w = (if m_alive w then 0 else - 1, m_regs w)"
  by (simp add: machine_kernel_def)

lemma machine_setregs [simp]:
  "k_setregs machine_kernel p rs w = (if m_alive w then (0, w\<lparr>m_regs := rs\<rparr>) else (- 1, w))"
  by (simp add: machine_kernel_def)

interpretation mach: tracee machine_kernel pid m_mem m_mapped
  by unfold_locales (auto simp: m_mapped_def fun_eq_iff split: if_splits)

end
