(* ===== verification/StdMap.thy ===== *)
theory StdMap
  imports CPrelude
begin

text \<open>
  \<^verbatim>\<open>std::map\<close>, as the debugger uses it: an iteration visits the keys in increasing order,
  \<^verbatim>\<open>m[k] = v\<close> inserts or overwrites, \<^verbatim>\<open>find\<close> looks a key up, and \<^verbatim>\<open>erase\<close> removes the
  entry an iterator obtained by \<^verbatim>\<open>advance(begin, i)\<close> points to.  The interface is the locale
  \<open>ordered_map\<close>; the model of the container is the strictly sorted association list.
\<close>

section \<open>The interface\<close>

locale ordered_map =
  fixes entries :: "'m \<Rightarrow> ('k::linorder \<times> 'v) list"
    and lookup :: "'k \<Rightarrow> 'm \<Rightarrow> 'v option"
    and insert_at :: "'k \<Rightarrow> 'v \<Rightarrow> 'm \<Rightarrow> 'm"
    and erase_nth :: "nat \<Rightarrow> 'm \<Rightarrow> 'm"
    and valid :: "'m \<Rightarrow> bool"
  assumes in_order: "valid m \<Longrightarrow> sorted_wrt (<) (map fst (entries m))"
    and lookup_entries: "valid m \<Longrightarrow> lookup k m = Some v \<longleftrightarrow> (k, v) \<in> set (entries m)"
    and entries_insert: "valid m \<Longrightarrow>
      set (entries (insert_at k v m)) = insert (k, v) {e \<in> set (entries m). fst e \<noteq> k}"
    and entries_erase: "valid m \<Longrightarrow> i < length (entries m) \<Longrightarrow>
      entries (erase_nth i m) = take i (entries m) @ drop (Suc i) (entries m)"
    and valid_insert: "valid m \<Longrightarrow> valid (insert_at k v m)"
    and valid_erase: "valid m \<Longrightarrow> i < length (entries m) \<Longrightarrow> valid (erase_nth i m)"
begin

lemma distinct_keys: "valid m \<Longrightarrow> distinct (map fst (entries m))"
  using in_order strict_sorted_iff by blast

lemma lookup_None_iff: "valid m \<Longrightarrow> lookup k m = None \<longleftrightarrow> k \<notin> fst ` set (entries m)"
  using lookup_entries [of m k] by (cases "lookup k m") force+

lemma lookup_nth: "valid m \<Longrightarrow> i < length (entries m) \<Longrightarrow> lookup (fst (entries m ! i)) m = Some (snd (entries m ! i))"
  by (simp add: lookup_entries)

lemma lookup_insert_same: "valid m \<Longrightarrow> lookup k (insert_at k v m) = Some v"
  by (simp add: lookup_entries valid_insert entries_insert)

lemma lookup_insert_other: "valid m \<Longrightarrow> k' \<noteq> k \<Longrightarrow> lookup k' (insert_at k v m) = lookup k' m"
proof -
  assume v: "valid m" and ne: "k' \<noteq> k"
  have "lookup k' (insert_at k v m) = Some x \<longleftrightarrow> lookup k' m = Some x" for x
    using v ne by (auto simp: lookup_entries valid_insert entries_insert)
  then show ?thesis by (metis not_None_eq)
qed

lemma set_erase: 
  assumes "valid m" and "i < length (entries m)"
  shows "set (entries (erase_nth i m)) = set (entries m) - {entries m ! i}"
proof -
  have split: "entries m = take i (entries m) @ entries m ! i # drop (Suc i) (entries m)"
    using assms(2) by (rule id_take_nth_drop)
  have "distinct (entries m)" using distinct_keys [OF assms(1)] by (simp add: distinct_map)
  then have "distinct (take i (entries m) @ entries m ! i # drop (Suc i) (entries m))"
    using split by simp
  then have "entries m ! i \<notin> set (take i (entries m) @ drop (Suc i) (entries m))" by simp
  moreover have "set (entries m) = insert (entries m ! i) (set (take i (entries m) @ drop (Suc i) (entries m)))"
    by (subst split) auto
  ultimately show ?thesis using entries_erase [OF assms] by auto
qed

lemma lookup_erase:
  assumes "valid m" and "i < length (entries m)"
  shows "lookup k (erase_nth i m) = (if k = fst (entries m ! i) then None else lookup k m)"
proof (cases "k = fst (entries m ! i)")
  case True
  have "k \<notin> fst ` (set (entries m) - {entries m ! i})"
  proof
    assume "k \<in> fst ` (set (entries m) - {entries m ! i})"
    then obtain e where e: "e \<in> set (entries m) - {entries m ! i}" and "k = fst e" by (rule imageE)
    then have "e \<in> set (entries m)" "e \<noteq> entries m ! i" "fst e = fst (entries m ! i)"
      using True by simp_all
    moreover have "entries m ! i \<in> set (entries m)" using assms(2) by simp
    moreover have "inj_on fst (set (entries m))" using distinct_keys [OF assms(1)] by (simp add: distinct_map)
    ultimately show False by (auto dest: inj_onD)
  qed
  with True show ?thesis by (simp add: lookup_None_iff valid_erase assms set_erase)
next
  case False
  then have "(k, x) \<noteq> entries m ! i" for x by (metis fst_conv)
  then have "lookup k (erase_nth i m) = Some x \<longleftrightarrow> lookup k m = Some x" for x
    using assms by (simp add: lookup_entries valid_erase set_erase)
  with False show ?thesis by (metis not_None_eq)
qed

text \<open>A key that was not bound: erasing the entry its insertion made gives the old entries back.\<close>

lemma erase_insert:
  assumes "valid m" and "lookup k m = None"
  shows "\<exists>i < length (entries (insert_at k v m)).
    entries (insert_at k v m) ! i = (k, v) \<and> entries (erase_nth i (insert_at k v m)) = entries m"
proof -
  let ?m = "insert_at k v m"
  have v: "valid ?m" by (rule valid_insert [OF assms(1)])
  have ents: "set (entries ?m) = insert (k, v) (set (entries m))"
    using assms by (force simp: entries_insert lookup_None_iff)
  then obtain i where i: "i < length (entries ?m)" "entries ?m ! i = (k, v)"
    by (metis in_set_conv_nth insertI1)
  have "(k, v) \<notin> set (entries m)" using assms by (force simp: lookup_None_iff)
  then have "set (entries (erase_nth i ?m)) = set (entries m)"
    using set_erase [OF v i(1)] ents i(2) by auto
  moreover have "sorted_wrt (<) (map fst (entries (erase_nth i ?m)))"
    by (rule in_order [OF valid_erase [OF v i(1)]])
  moreover have "sorted_wrt (<) (map fst (entries m))" by (rule in_order [OF assms(1)])
  moreover have "xs = ys"
    if "set xs = set ys" "sorted_wrt (<) (map fst xs)" "sorted_wrt (<) (map fst ys)" for xs ys :: "('k \<times> 'v) list"
  proof (rule map_inj_on [of fst])
    show "map fst xs = map fst ys"
      using that by (intro strict_sorted_equal) simp_all
    show "inj_on fst (set xs \<union> set ys)"
      using that strict_sorted_iff distinct_map by (metis sup.idem)
  qed
  ultimately show ?thesis using i by blast
qed

end

section \<open>The container\<close>

type_synonym ('k, 'v) std_map = "('k \<times> 'v) list"

definition map_valid :: "('k::linorder, 'v) std_map \<Rightarrow> bool" where
  "map_valid m \<longleftrightarrow> sorted_wrt (<) (map fst m)"

fun map_find :: "'k::linorder \<Rightarrow> ('k, 'v) std_map \<Rightarrow> 'v option" where
  "map_find k [] = None"
| "map_find k ((a, v) # m) = (if k = a then Some v else map_find k m)"

fun map_put :: "'k::linorder \<Rightarrow> 'v \<Rightarrow> ('k, 'v) std_map \<Rightarrow> ('k, 'v) std_map" where
  "map_put k v [] = [(k, v)]"
| "map_put k v ((a, w) # m) =
     (if k < a then (k, v) # (a, w) # m
      else if k = a then (k, v) # m
      else (a, w) # map_put k v m)"

definition map_erase_nth :: "nat \<Rightarrow> ('k::linorder, 'v) std_map \<Rightarrow> ('k, 'v) std_map" where
  "map_erase_nth i m = take i m @ drop (Suc i) m"

lemma map_find_in: "map_valid m \<Longrightarrow> map_find k m = Some v \<longleftrightarrow> (k, v) \<in> set m"
  by (induction m) (force simp: map_valid_def)+

lemma set_map_put: "map_valid m \<Longrightarrow> set (map_put k v m) = insert (k, v) {e \<in> set m. fst e \<noteq> k}"
  by (induction m) (force simp: map_valid_def)+

lemma map_valid_put: "map_valid m \<Longrightarrow> map_valid (map_put k v m)"
proof (induction m)
  case Nil
  then show ?case by (simp add: map_valid_def)
next
  case (Cons e m)
  obtain a w where e: "e = (a, w)" by (cases e)
  have m: "map_valid m" using Cons.prems by (simp add: map_valid_def)
  then have "map_valid (map_put k v m)" by (rule Cons.IH)
  then show ?case
    using Cons.prems set_map_put [OF m, of k v] by (auto simp: e map_valid_def)
qed

lemma map_valid_erase: "map_valid m \<Longrightarrow> map_valid (map_erase_nth i m)"
proof -
  assume "map_valid m"
  then have "sorted_wrt (<) (map fst (take i m @ drop i m))" by (simp only: map_valid_def append_take_drop_id)
  then show ?thesis
    by (cases "drop i m") (auto simp: map_valid_def map_erase_nth_def sorted_wrt_append drop_Suc drop_tl)
qed

interpretation smap: ordered_map "\<lambda>m. m" map_find map_put map_erase_nth map_valid
proof unfold_locales
  fix m :: "('k::linorder, 'v) std_map" and k :: 'k and v :: 'v and i :: nat
  assume m: "map_valid m"
  then show "sorted_wrt (<) (map fst m)" by (simp add: map_valid_def)
  show "map_find k m = Some v \<longleftrightarrow> (k, v) \<in> set m" using m by (rule map_find_in)
  show "set (map_put k v m) = insert (k, v) {e \<in> set m. fst e \<noteq> k}" using m by (rule set_map_put)
  show "map_valid (map_put k v m)" using m by (rule map_valid_put)
  show "map_erase_nth i m = take i m @ drop (Suc i) m" by (simp add: map_erase_nth_def)
  show "map_valid (map_erase_nth i m)" using m by (rule map_valid_erase)
qed

end
