(* ===== verification/Sdb.thy ===== *)
theory Sdb
  imports Tracee StdMap
begin

text \<open>
  The debugger of \<^verbatim>\<open>src/hw4/sdb.cpp\<close> and \<^verbatim>\<open>src/hw4/sdb.hpp\<close>: the class \<^verbatim>\<open>SDB\<close>, one definition
  per method, over the interface of the theory \<open>Tracee\<close>.
\<close>

section \<open>The state of the class\<close>

datatype dbg_state = NOT_LOADED | LOADED | RUNNING

text \<open>
  \<open>elf_header\<close> and \<open>sect_header\<close> are the 64-byte objects \<^verbatim>\<open>Elf64_Ehdr\<close> and \<^verbatim>\<open>Elf64_Shdr\<close> as
  bytes; \<open>code_text\<close> is \<open>None\<close> for a null pointer.
\<close>

record sdb =
  elf_header :: bytes
  sect_header :: bytes
  addr_list :: "(u64, u64) std_map"
  pre_addr :: u64
  pre_val :: u64
  state :: dbg_state
  code_size :: u64
  pid :: int
  program_name :: string
  code_text :: "bytes option"

text \<open>What a method works on: the object, the text written to \<^verbatim>\<open>stderr\<close> so far and the world.\<close>

record 'w env =
  dbg :: sdb
  err :: string
  world :: 'w

type_synonym 'w action = "(unit, 'w env) prog"

definition text_width :: nat where
  "text_width = 64"

text \<open>The constructor leaves the two headers and the name as the memory was.\<close>

definition new_sdb :: "bytes \<Rightarrow> bytes \<Rightarrow> string \<Rightarrow> sdb" where
  "new_sdb eh sh name =
     \<lparr> elf_header = eh, sect_header = sh, addr_list = [], pre_addr = 0, pre_val = 0,
       state = NOT_LOADED, code_size = 0, pid = 0, program_name = name, code_text = None \<rparr>"

text \<open>Little-endian fields of the two ELF headers, at the offsets of \<^verbatim>\<open>elf.h\<close>.\<close>

definition field :: "nat \<Rightarrow> nat \<Rightarrow> bytes \<Rightarrow> u64" where
  "field n off bs = word_of_bytes (take n (drop off bs))"

definition e_entry :: "bytes \<Rightarrow> u64" where "e_entry = field 8 24"
definition e_shoff :: "bytes \<Rightarrow> u64" where "e_shoff = field 8 40"
definition e_shnum :: "bytes \<Rightarrow> u64" where "e_shnum = field 2 60"
definition e_shstrndx :: "bytes \<Rightarrow> u64" where "e_shstrndx = field 2 62"
definition sh_name :: "bytes \<Rightarrow> u64" where "sh_name = field 4 0"
definition sh_addr :: "bytes \<Rightarrow> u64" where "sh_addr = field 8 16"
definition sh_offset :: "bytes \<Rightarrow> u64" where "sh_offset = field 8 24"
definition sh_size :: "bytes \<Rightarrow> u64" where "sh_size = field 8 32"

section \<open>Messages\<close>

definition emit :: "string \<Rightarrow> 'w action" where
  "emit s e = Done () (e\<lparr>err := err e @ s\<rparr>)"

definition PRINT :: "string \<Rightarrow> 'w action" where
  "PRINT s = emit (s @ line_end)"

definition DEBUG :: "string \<Rightarrow> 'w action" where
  "DEBUG s = emit (''** '' @ s @ line_end)"

text \<open>\<^verbatim>\<open>ERROR\<close> prints the source line it stands on and exits.\<close>

definition ERROR :: "string \<Rightarrow> nat \<Rightarrow> 'w action" where
  "ERROR s line e =
     Exited 1 (e\<lparr>err := err e @ ''Error: '' @ s @ '' at line '' @ fmt_u line @ line_end\<rparr>)"

text \<open>\<^verbatim>\<open>sprintf\<close> into a local array of \<open>n\<close> bytes, then \<^verbatim>\<open>DEBUG\<close>: text and terminator must fit.\<close>

definition debug_buf :: "nat \<Rightarrow> string \<Rightarrow> 'w action" where
  "debug_buf n s = (if n \<le> length s then (\<lambda>e. Undef) else DEBUG s)"

section \<open>Small methods\<close>

definition sdb_quit :: "'w kernel \<Rightarrow> 'w action" where
  "sdb_quit K e =
     (if 0 < pid (dbg e)
      then let (r, w) = k_kill K (pid (dbg e)) 15 (world e) in Exited 0 (e\<lparr>world := w\<rparr>)
      else Exited 0 e)"

definition in_text :: "bytes \<Rightarrow> u64 \<Rightarrow> bool" where
  "in_text sect addr \<longleftrightarrow> sh_addr sect \<le> addr \<and> addr < sh_addr sect + sh_size sect"

definition sdb_help :: "'w action" where
  "sdb_help =
     seq (PRINT ''- break {instruction-address}: add a break point'')
    (seq (PRINT ''- cont: continue execution'')
    (seq (PRINT ''- delete {break-point-id}: remove a break point'')
    (seq (PRINT ''- disasm addr: disassemble instructions in a file or a memory region'')
    (seq (PRINT ''- dump addr: dump memory content'')
    (seq (PRINT ''- exit: terminate the debugger'')
    (seq (PRINT ''- get reg: get a single value from a register'')
    (seq (PRINT ''- getregs: show registers'')
    (seq (PRINT ''- getregs: show registers'')
    (seq (PRINT ''- help: show this message'')
    (seq (PRINT ''- list: list break points'')
    (seq (PRINT ''- load {path/to/a/program}: load a program'')
    (seq (PRINT ''- run: run the program'')
    (seq (PRINT ''- vmmap: show memory layout'')
    (seq (PRINT ''- set reg val: get a single value to a register'')
    (seq (PRINT ''- si: step into instruction'')
         (PRINT ''- start: start the program and stop at the first instruction''))))))))))))))))"

fun list_from :: "nat \<Rightarrow> (u64, u64) std_map \<Rightarrow> string" where
  "list_from counter [] = ''''"
| "list_from counter ((addr, code) # m) =
     ''  '' @ fmt_u counter @ '': '' @ fmt_x (unat addr) @ line_end @ list_from (Suc counter) m"

definition sdb_list :: "'w action" where
  "sdb_list e = emit (list_from 0 (addr_list (dbg e))) e"

section \<open>Loading a program\<close>

text \<open>
  \<^verbatim>\<open>fread(obj, 1, n, fp)\<close>: the bytes of the file from the position on overwrite the start of
  the object, as many as there are; \<^verbatim>\<open>fseek(fp, off, SEEK_SET)\<close> fails on a negative offset.
\<close>

definition fread_obj :: "bytes \<Rightarrow> nat \<Rightarrow> bytes \<Rightarrow> nat \<Rightarrow> bytes \<times> nat" where
  "fread_obj obj n file pos =
     (let got = take n (drop pos file) in (got @ drop (length got) obj, pos + length got))"

definition fseek_set :: "u64 \<Rightarrow> nat \<Rightarrow> nat" where
  "fseek_set off pos = (if sint off < 0 then pos else unat off)"

text \<open>The C string that starts at an offset of a block, when it ends inside the block.\<close>

definition cstr_at :: "bytes \<Rightarrow> nat \<Rightarrow> string option" where
  "cstr_at bs off =
     (let s = drop off bs; t = takeWhile (\<lambda>b. b \<noteq> 0) s
      in if length t < length s then Some (map (\<lambda>b. char_of (unat b)) t) else None)"

text \<open>The loop over the section headers; \<open>None\<close> where it reads outside the block of names.\<close>

fun find_text :: "bytes \<Rightarrow> bytes \<Rightarrow> nat \<Rightarrow> nat \<Rightarrow> bytes \<Rightarrow> bytes option" where
  "find_text file names 0 pos sect = Some sect"
| "find_text file names (Suc n) pos sect =
     (let (sect', pos') = fread_obj sect 64 file pos
      in case cstr_at names (unat (sh_name sect')) of
           None \<Rightarrow> None
         | Some s \<Rightarrow> if s = ''.text'' then Some sect' else find_text file names n pos' sect')"

definition sdb_get_code :: "'w kernel \<Rightarrow> string \<Rightarrow> 'w action" where
  "sdb_get_code K file_name e =
     (let size = k_stat_size K file_name (world e);
          (block, w) = k_malloc K size (world e);
          e1 = e\<lparr>world := w, dbg := (dbg e)\<lparr>code_size := size\<rparr>\<rparr>
      in case k_fopen K file_name w of
           None \<Rightarrow> Undef
         | Some file \<Rightarrow>
             (case block of
                None \<Rightarrow> if size = 0 then Done () (e1\<lparr>dbg := (dbg e1)\<lparr>code_text := None\<rparr>\<rparr>) else Undef
              | Some fill \<Rightarrow>
                  Done () (e1\<lparr>dbg := (dbg e1)\<lparr>code_text :=
                    Some (fst (fread_obj (map fill [0..<unat size]) (unat size) file 0))\<rparr>\<rparr>)))"

definition elf_magic :: bytes where
  "elf_magic = [0x7f, 0x45, 0x4c, 0x46]"

text \<open>
  Reading the section header table, from the point where the magic number was accepted:
  the header of the section names, the names, then the headers in order until \<^verbatim>\<open>.text\<close>.
\<close>

definition read_sections :: "'w kernel \<Rightarrow> bytes \<Rightarrow> bytes \<Rightarrow> bytes \<Rightarrow> nat \<Rightarrow> 'w \<Rightarrow> bytes option \<times> 'w" where
  "read_sections K eh sect file pos w =
     (let pos1 = fseek_set (e_shoff eh + e_shstrndx eh * 64) pos;
          (sect1, pos2) = fread_obj sect 64 file pos1;
          (block, w') = k_malloc K (sh_size sect1) w
      in case block of
           None \<Rightarrow> (None, w')
         | Some fill \<Rightarrow>
             (let pos3 = fseek_set (sh_offset sect1) pos2;
                  (names, pos4) = fread_obj (map fill [0..<unat (sh_size sect1)]) (unat (sh_size sect1)) file pos3;
                  pos5 = fseek_set (e_shoff eh) pos4
              in (find_text file names (unat (e_shnum eh)) pos5 sect1, w')))"

definition sdb_load :: "'w kernel \<Rightarrow> string \<Rightarrow> 'w action" where
  "sdb_load K file_name e =
     (if state (dbg e) \<noteq> NOT_LOADED then DEBUG ''state must be NOT LOADED'' e
      else if text_width \<le> length file_name then Undef
      else
        let e1 = e\<lparr>dbg := (dbg e)\<lparr>program_name := file_name\<rparr>\<rparr>
        in case k_fopen K file_name (world e1) of
             None \<Rightarrow> debug_buf 128 (''can not open '' @ file_name) e1
           | Some file \<Rightarrow>
               let (eh, pos) = fread_obj (elf_header (dbg e1)) 64 file 0;
                   e2 = e1\<lparr>dbg := (dbg e1)\<lparr>elf_header := eh\<rparr>\<rparr>
               in if take 4 eh \<noteq> elf_magic then debug_buf 128 (file_name @ '' is not a valid ELF file.'') e2
                  else
                    (case read_sections K eh (sect_header (dbg e2)) file pos (world e2) of
                       (None, w) \<Rightarrow> Undef
                     | (Some sect, w) \<Rightarrow>
                         seq (debug_buf 128 (''program '' @ [CHR 0x27] @ file_name @ [CHR 0x27] @
                                '' loaded. entry point 0x'' @ fmt_x (unat (e_entry eh))))
                             (sdb_get_code K file_name)
                             (e2\<lparr>world := w, dbg := (dbg e2)\<lparr>sect_header := sect, state := LOADED\<rparr>\<rparr>)))"

section \<open>Break points\<close>

text \<open>\<^verbatim>\<open>(code & 0xffffffffffffff00) | 0xcc\<close>, the word with a break-point instruction in its first byte.\<close>

definition int3_word :: "u64 \<Rightarrow> u64" where
  "int3_word code = (code AND 0xffffffffffffff00) OR 0xcc"

definition sdb_set_break :: "'w kernel \<Rightarrow> u64 \<Rightarrow> 'w action" where
  "sdb_set_break K addr e =
     (if state (dbg e) \<noteq> RUNNING then DEBUG ''state must be RUNNING'' e
      else if \<not> in_text (sect_header (dbg e)) addr then
        DEBUG ''the address is out of the range of the text segment'' e
      else if map_find addr (addr_list (dbg e)) \<noteq> None then Done () e
      else
        let code = k_peek K (pid (dbg e)) addr (world e);
            e1 = e\<lparr>dbg := (dbg e)\<lparr>addr_list := map_put addr code (addr_list (dbg e))\<rparr>\<rparr>;
            (r, w) = k_poke K (pid (dbg e)) addr (int3_word code) (world e);
            e2 = e1\<lparr>world := w\<rparr>
        in if r \<noteq> 0 then ERROR ''ptrace: PTRACE_POKETEXT failed'' 118 e2 else Done () e2)"

definition sdb_del :: "'w kernel \<Rightarrow> int \<Rightarrow> 'w action" where
  "sdb_del K bp_id e =
     (if state (dbg e) \<noteq> RUNNING then DEBUG ''state must be RUNNING'' e
      else if bp_id < 0 \<or> int (length (addr_list (dbg e))) \<le> bp_id then
        DEBUG ''the address is out of the range of the text segment'' e
      else
        let (addr, code) = addr_list (dbg e) ! nat bp_id;
            (r, w) = k_poke K (pid (dbg e)) addr code (world e);
            e1 = e\<lparr>world := w\<rparr>
        in if r \<noteq> 0 then ERROR ''ptrace: PTRACE_POKETEXT failed'' 331 e1
           else debug_buf 32 (''breakpoint '' @ fmt_d bp_id @ '' deleted.'')
                  (e1\<lparr>dbg := (dbg e1)\<lparr>addr_list := map_erase_nth (nat bp_id) (addr_list (dbg e1))\<rparr>\<rparr>))"

definition restore_bp :: "'w kernel \<Rightarrow> 'w action" where
  "restore_bp K e =
     (if pre_addr (dbg e) \<noteq> 0 then
        let a = pre_addr (dbg e);
            e1 = e\<lparr>err := err e @ ''reset bp at 0x'' @ fmt_x (unat a) @ line_end\<rparr>;
            cur_code = k_peek K (pid (dbg e)) a (world e);
            (r, w) = k_poke K (pid (dbg e)) a (int3_word cur_code) (world e);
            e2 = e1\<lparr>world := w\<rparr>
        in if r \<noteq> 0 then ERROR ''ptrace: PTRACE_POKETEXT failed'' 171 e2
           else Done () (e2\<lparr>dbg := (dbg e2)\<lparr>pre_addr := 0\<rparr>\<rparr>)
      else Done () e)"

section \<open>Starting the program\<close>

text \<open>The child's side of the \<^verbatim>\<open>fork\<close>.\<close>

definition start_child :: "'w kernel \<Rightarrow> 'w action" where
  "start_child K e =
     (let (r, w) = k_traceme K (world e); e1 = e\<lparr>world := w\<rparr>
      in if r \<noteq> 0 then ERROR ''ptrace: TRACEME failed.'' 68 e1
         else
           (case k_execvp K (program_name (dbg e1)) [program_name (dbg e1)] w of
              (None, w') \<Rightarrow> Replaced (e1\<lparr>world := w'\<rparr>)
            | (Some r', w') \<Rightarrow>
                if r' \<noteq> 0 then ERROR ''execvp failed.'' 73 (e1\<lparr>world := w'\<rparr>)
                else Done () (e1\<lparr>world := w'\<rparr>)))"

text \<open>The loop that sets the break points again, in the order of the map.\<close>

fun reset_break_points :: "'w kernel \<Rightarrow> (u64, u64) std_map \<Rightarrow> 'w action" where
  "reset_break_points K [] e = Done () e"
| "reset_break_points K ((addr, code) # m) e =
     (let cur_code = k_peek K (pid (dbg e)) (pre_addr (dbg e)) (world e);
          (r, w) = k_poke K (pid (dbg e)) addr (int3_word cur_code) (world e);
          e1 = e\<lparr>world := w\<rparr>
      in if r \<noteq> 0 then ERROR ''ptrace: PTRACE_POKETEXT failed'' 90 e1
         else reset_break_points K m e1)"

definition sdb_start :: "'w kernel \<Rightarrow> 'w action" where
  "sdb_start K e =
     (if state (dbg e) \<noteq> LOADED then DEBUG ''state must be LOADED'' e
      else
        let (p, w) = k_fork K (world e);
            e1 = e\<lparr>world := w, dbg := (dbg e)\<lparr>pid := p\<rparr>\<rparr>
        in if p < 0 then ERROR ''fork child-process failed'' 63 e1
           else if p = 0 then start_child K e1
           else
             let (r, status, w1) = k_waitpid K p w;
                 (r', w2) = k_setoptions K p w1;
                 e2 = e1\<lparr>world := w2\<rparr>
             in if r' \<noteq> 0 then ERROR ''ptrace: PTRACE_SETOPTIONS failed.'' 78 e2
                else
                  seq (debug_buf 32 (''pid '' @ fmt_d p))
                  (seq (\<lambda>e. Done () (e\<lparr>dbg := (dbg e)\<lparr>state := RUNNING\<rparr>\<rparr>))
                       (\<lambda>e. reset_break_points K (addr_list (dbg e)) e)) e2)"

section \<open>Disassembly\<close>

definition hex2 :: "u8 \<Rightarrow> string" where
  "hex2 b = zero_pad 2 (fmt_x (unat b))"

definition insn_bytes :: "insn \<Rightarrow> string" where
  "insn_bytes i =
     concat (map (\<lambda>j. if j < i_size i then hex2 (i_bytes i ! j) @ '' '' else ''   '') [0..<10])"

fun disasm_lines :: "u64 \<Rightarrow> insn list \<Rightarrow> string" where
  "disasm_lines limit [] = ''''"
| "disasm_lines limit (i # is) =
     (if limit \<le> i_address i then ''** the address is out of the range of the text segment'' @ line_end
      else ''      '' @ fmt_x (unat (i_address i)) @ '': '' @ insn_bytes i @
             pad_right 10 (i_mnemonic i) @ pad_right 10 (i_op_str i) @ line_end @
           disasm_lines limit is)"

definition sdb_disasm :: "'w kernel \<Rightarrow> u64 \<Rightarrow> nat \<Rightarrow> 'w action" where
  "sdb_disasm K addr len e =
     (if state (dbg e) \<noteq> RUNNING then DEBUG ''state must be RUNNING'' e
      else if \<not> in_text (sect_header (dbg e)) addr then
        DEBUG ''the address is out of the range of the text segment'' e
      else
        let sect = sect_header (dbg e);
            offset = sh_offset sect + addr - sh_addr sect
        in case code_text (dbg e) of
             None \<Rightarrow> Undef
           | Some text \<Rightarrow>
               if length text < unat offset then Undef
               else if \<not> k_cs_open K (world e) then ERROR ''cs_open failed'' 295 e
               else
                 (case k_cs_disasm K (drop (unat offset) text) (code_size (dbg e)) addr len of
                    [] \<Rightarrow> DEBUG ''the address is out of the range of the text segment'' e
                  | is \<Rightarrow> emit (disasm_lines (sh_addr sect + sh_size sect) is) e))"

section \<open>Running the program\<close>

text \<open>The macros of \<^verbatim>\<open>sys/wait.h\<close> on a wait status.\<close>

definition WTERMSIG :: "u32 \<Rightarrow> u32" where "WTERMSIG s = s AND 0x7f"
definition WIFEXITED :: "u32 \<Rightarrow> bool" where "WIFEXITED s \<longleftrightarrow> WTERMSIG s = 0"
definition WIFSIGNALED :: "u32 \<Rightarrow> bool" where "WIFSIGNALED s \<longleftrightarrow> 0 < WTERMSIG s \<and> WTERMSIG s < 0x7f"
definition WIFSTOPPED :: "u32 \<Rightarrow> bool" where "WIFSTOPPED s \<longleftrightarrow> s AND 0xff = 0x7f"
definition WSTOPSIG :: "u32 \<Rightarrow> u32" where "WSTOPSIG s = drop_bit 8 s AND 0xff"

text \<open>
  What \<^verbatim>\<open>check_process\<close> does at a SIGTRAP stop, once \<^verbatim>\<open>restore_bp\<close> is done: \<open>si\<close> is the call
  of the method \<^verbatim>\<open>si\<close>, which calls \<^verbatim>\<open>check_process\<close> again.
\<close>

definition hit_break :: "'w kernel \<Rightarrow> user_regs \<Rightarrow> u64 \<Rightarrow> u64 \<Rightarrow> 'w action" where
  "hit_break K regs addr code e =
     (let ori_code = code AND 0xff;
          val = (k_peek K (pid (dbg e)) addr (world e) AND 0xffffffffffffff00) OR ori_code;
          e1 = e\<lparr>dbg := (dbg e)\<lparr>pre_addr := addr, pre_val := val\<rparr>\<rparr>;
          (r, w) = k_setregs K (pid (dbg e1)) (regs\<lparr>rip := rip regs - 1\<rparr>) (world e1);
          e2 = e1\<lparr>world := w\<rparr>
      in if r \<noteq> 0 then ERROR ''ptrace: PTRACE_SETREGS failed'' 244 e2 else Done () e2)"

definition trap_stop :: "'w action \<Rightarrow> 'w kernel \<Rightarrow> 'w action" where
  "trap_stop si K e =
     (let (r, regs) = k_getregs K (pid (dbg e)) (world e)
      in if r \<noteq> 0 then ERROR ''ptrace: PTRACE_GETREGS failed'' 230 e
         else
           (case map_find (rip regs - 1) (addr_list (dbg e)) of
              Some code \<Rightarrow>
                seq (emit ''** breakpoint at @'')
               (seq (sdb_disasm K (rip regs - 1) 1)
                    (hit_break K regs (rip regs - 1) code)) e
            | None \<Rightarrow>
                (case map_find (rip regs) (addr_list (dbg e)) of
                   Some code \<Rightarrow> si e
                 | None \<Rightarrow> Done () e)))"

definition check_process_body :: "'w action \<Rightarrow> 'w kernel \<Rightarrow> 'w action" where
  "check_process_body si K e =
     (let p = pid (dbg e);
          (r, status, w) = k_waitpid K p (world e);
          e1 = e\<lparr>world := w\<rparr>
      in if r < 0 then ERROR ''waitpid failed'' 209 e1
         else if WIFEXITED status then
           seq (debug_buf 128
                  (if WIFSIGNALED status
                   then ''child process '' @ fmt_d p @ '' terminated by signal (code '' @ fmt_d (sint (WTERMSIG status)) @ '')''
                   else ''child process '' @ fmt_d p @ '' terminated normally (code '' @ fmt_d (sint status) @ '')''))
               (\<lambda>e. Done () (e\<lparr>dbg := (dbg e)\<lparr>pid := 0, state := LOADED, pre_val := 0, pre_addr := 0\<rparr>\<rparr>)) e1
         else if WIFSTOPPED status then
           if WSTOPSIG status = 5 then seq (restore_bp K) (trap_stop si K) e1
           else DEBUG ''tttttttttttttttttttttttttt'' e1
         else
           debug_buf 128
             (''child process '' @ fmt_d p @ '' terminated by signal (code '' @ fmt_d (sint (WTERMSIG status)) @ '')'') e1)"

text \<open>Putting the original instruction back before the tracee moves, as \<^verbatim>\<open>si\<close> and \<^verbatim>\<open>cont\<close> do first.\<close>

definition lift_break :: "'w kernel \<Rightarrow> nat \<Rightarrow> 'w action" where
  "lift_break K line e =
     (if pre_addr (dbg e) \<noteq> 0 then
        let (r, w) = k_poke K (pid (dbg e)) (pre_addr (dbg e)) (pre_val (dbg e)) (world e);
            e1 = e\<lparr>world := w\<rparr>
        in if r < 0 then ERROR ''ptrace: PTRACE_POKETEXT failed'' line e1 else Done () e1
      else Done () e)"

definition si_with :: "'w action \<Rightarrow> 'w kernel \<Rightarrow> 'w action" where
  "si_with check_process K e =
     (if state (dbg e) \<noteq> RUNNING then DEBUG ''state must be RUNNING'' e
      else
        seq (lift_break K 183)
            (\<lambda>e1.
               let (r, w) = k_singlestep K (pid (dbg e1)) (world e1); e2 = e1\<lparr>world := w\<rparr>
               in if r < 0 then ERROR ''ptrace: PTRACE_SINGLESTEP failed'' 186 e2 else check_process e2) e)"

text \<open>The recursion of \<^verbatim>\<open>check_process\<close> and \<^verbatim>\<open>si\<close>, with fuel for the depth of the calls.\<close>

primrec sdb_check_process :: "nat \<Rightarrow> 'w kernel \<Rightarrow> 'w action" where
  "sdb_check_process 0 K = (\<lambda>e. Timeout)"
| "sdb_check_process (Suc n) K = check_process_body (si_with (sdb_check_process n K) K) K"

definition sdb_si :: "nat \<Rightarrow> 'w kernel \<Rightarrow> 'w action" where
  "sdb_si n K = si_with (sdb_check_process n K) K"

definition sdb_cont :: "nat \<Rightarrow> 'w kernel \<Rightarrow> 'w action" where
  "sdb_cont n K e =
     (if state (dbg e) \<noteq> RUNNING then DEBUG ''state must be RUNNING'' e
      else
        seq (lift_break K 198)
            (\<lambda>e1.
               let (r, w) = k_cont K (pid (dbg e1)) (world e1); e2 = e1\<lparr>world := w\<rparr>
               in if r < 0 then ERROR ''ptrace: PTRACE_CONT failed'' 201 e2 else sdb_check_process n K e2) e)"

definition sdb_run :: "nat \<Rightarrow> 'w kernel \<Rightarrow> 'w action" where
  "sdb_run n K e =
     (if state (dbg e) = RUNNING then
        seq (debug_buf 128 (''program '' @ program_name (dbg e) @ '' is already running'')) (sdb_cont n K) e
      else if state (dbg e) = LOADED then seq (sdb_start K) (sdb_cont n K) e
      else DEBUG ''state must be LOADED or RUNNING'' e)"

section \<open>Registers\<close>

definition hex16 :: "u64 \<Rightarrow> string" where
  "hex16 v = pad_right 16 (fmt_x (unat v))"

definition sdb_getregs :: "'w kernel \<Rightarrow> 'w action" where
  "sdb_getregs K e =
     (if state (dbg e) \<noteq> RUNNING then DEBUG ''state must be RUNNING'' e
      else
        let (r, regs) = k_getregs K (pid (dbg e)) (world e)
        in if r \<noteq> 0 then ERROR ''ptrace: PTRACE_GETREGS failed'' 268 e
           else
             seq (emit (''RAX '' @ hex16 (rax regs) @ ''  RBX '' @ hex16 (rbx regs) @
                        ''  RCX '' @ hex16 (rcx regs) @ ''  RDX '' @ hex16 (rdx regs) @ line_end))
            (seq (emit (''R8  '' @ hex16 (r8 regs) @ ''  R9  '' @ hex16 (r9 regs) @
                        ''  R10 '' @ hex16 (r10 regs) @ ''  R11 '' @ hex16 (r11 regs) @ line_end))
            (seq (emit (''R12 '' @ hex16 (r12 regs) @ ''  R13 '' @ hex16 (r13 regs) @
                        ''  R14 '' @ hex16 (r14 regs) @ ''  R15 '' @ hex16 (r15 regs) @ line_end))
            (seq (emit (''RDI '' @ hex16 (rdi regs) @ ''  RSI '' @ hex16 (rsi regs) @
                        ''  RBP '' @ hex16 (rbp regs) @ ''  RSP '' @ hex16 (rsp regs) @ line_end))
                 (emit (''RIP '' @ hex16 (rip regs) @ ''  FLAGS '' @
                        zero_pad 16 (fmt_x (unat (eflags regs))) @ line_end))))) e)"

text \<open>The two chains of \<^verbatim>\<open>strcmp\<close> in \<^verbatim>\<open>get\<close> and \<^verbatim>\<open>set\<close>, \<open>None\<close> for a name neither knows.\<close>

definition reg_read :: "string \<Rightarrow> user_regs \<Rightarrow> u64 option" where
  "reg_read reg_name regs =
     (if reg_name = ''rax'' then Some (rax regs)
      else if reg_name = ''rbx'' then Some (rbx regs)
      else if reg_name = ''rcx'' then Some (rcx regs)
      else if reg_name = ''rdx'' then Some (rdx regs)
      else if reg_name = ''r8'' then Some (r8 regs)
      else if reg_name = ''r9'' then Some (r9 regs)
      else if reg_name = ''r10'' then Some (r10 regs)
      else if reg_name = ''r11'' then Some (r11 regs)
      else if reg_name = ''r12'' then Some (r12 regs)
      else if reg_name = ''r13'' then Some (r13 regs)
      else if reg_name = ''r14'' then Some (r14 regs)
      else if reg_name = ''r15'' then Some (r15 regs)
      else if reg_name = ''rdi'' then Some (rdi regs)
      else if reg_name = ''rbp'' then Some (rbp regs)
      else if reg_name = ''rsp'' then Some (rsp regs)
      else if reg_name = ''rip'' then Some (rip regs)
      else if reg_name = ''flags'' then Some (eflags regs)
      else None)"

definition reg_write :: "string \<Rightarrow> u64 \<Rightarrow> user_regs \<Rightarrow> user_regs option" where
  "reg_write reg_name val regs =
     (if reg_name = ''rax'' then Some (regs\<lparr>rax := val\<rparr>)
      else if reg_name = ''rbx'' then Some (regs\<lparr>rbx := val\<rparr>)
      else if reg_name = ''rcx'' then Some (regs\<lparr>rcx := val\<rparr>)
      else if reg_name = ''rdx'' then Some (regs\<lparr>rdx := val\<rparr>)
      else if reg_name = ''r8'' then Some (regs\<lparr>r8 := val\<rparr>)
      else if reg_name = ''r9'' then Some (regs\<lparr>r9 := val\<rparr>)
      else if reg_name = ''r10'' then Some (regs\<lparr>r10 := val\<rparr>)
      else if reg_name = ''r11'' then Some (regs\<lparr>r11 := val\<rparr>)
      else if reg_name = ''r12'' then Some (regs\<lparr>r12 := val\<rparr>)
      else if reg_name = ''r13'' then Some (regs\<lparr>r13 := val\<rparr>)
      else if reg_name = ''r14'' then Some (regs\<lparr>r14 := val\<rparr>)
      else if reg_name = ''r15'' then Some (regs\<lparr>r15 := val\<rparr>)
      else if reg_name = ''rdi'' then Some (regs\<lparr>rdi := val\<rparr>)
      else if reg_name = ''rbp'' then Some (regs\<lparr>rbp := val\<rparr>)
      else if reg_name = ''rsp'' then Some (regs\<lparr>rsp := val\<rparr>)
      else if reg_name = ''rip'' then Some (regs\<lparr>rip := val\<rparr>)
      else if reg_name = ''flags'' then Some (regs\<lparr>eflags := val\<rparr>)
      else None)"

definition sdb_get :: "'w kernel \<Rightarrow> string \<Rightarrow> 'w action" where
  "sdb_get K reg_name e =
     (if state (dbg e) \<noteq> RUNNING then DEBUG ''state must be RUNNING'' e
      else
        let (r, regs) = k_getregs K (pid (dbg e)) (world e)
        in if r < 0 then ERROR ''ptrace: PTRACE_GETREGS failed'' 389 e
           else
             (case reg_read reg_name regs of
                None \<Rightarrow> Done () e
              | Some value \<Rightarrow>
                  emit (reg_name @ '' = '' @ fmt_u (unat value) @ '' (0x'' @ fmt_x (unat value) @ '')'' @ line_end) e))"

text \<open>Writing \<^verbatim>\<open>rip\<close> also forgets the break point the program stands on; \<^verbatim>\<open>set\<close> checks no state.\<close>

definition sdb_set :: "'w kernel \<Rightarrow> string \<Rightarrow> u64 \<Rightarrow> 'w action" where
  "sdb_set K reg_name val e =
     (let (r, regs) = k_getregs K (pid (dbg e)) (world e)
      in if r \<noteq> 0 then ERROR ''ptrace: PTRACE_GETREGS failed'' 450 e
         else
           (case reg_write reg_name val regs of
              None \<Rightarrow> Done () e
            | Some regs' \<Rightarrow>
                let e1 = (if reg_name = ''rip'' then e\<lparr>dbg := (dbg e)\<lparr>pre_addr := 0, pre_val := 0\<rparr>\<rparr> else e);
                    (r', w) = k_setregs K (pid (dbg e1)) regs' (world e1);
                    e2 = e1\<lparr>world := w\<rparr>
                in if r' \<noteq> 0 then ERROR ''ptrace: PTRACE_SETREGS failed'' 494 e2 else Done () e2))"

section \<open>Memory\<close>

definition printed_char :: "u8 \<Rightarrow> char" where
  "printed_char b = (let c = char_of (unat b) in if isprint c then c else CHR ''.'')"

text \<open>One line of a dump: two words in the order of their bytes, in base 16 and as characters.\<close>

definition dump_line :: "'w kernel \<Rightarrow> int \<Rightarrow> 'w \<Rightarrow> u64 \<Rightarrow> string" where
  "dump_line K p w addr =
     (let data = map (byte_of (k_peek K p addr w)) [0..<8] @ map (byte_of (k_peek K p (addr + 8) w)) [0..<8]
      in ''      '' @ fmt_x (unat addr) @ '': '' @ concat (map (\<lambda>b. hex2 b @ '' '') data) @
         '' |'' @ map printed_char data @ ''|'' @ line_end)"

fun dump_lines :: "'w kernel \<Rightarrow> int \<Rightarrow> 'w \<Rightarrow> nat \<Rightarrow> u64 \<Rightarrow> string" where
  "dump_lines K p w 0 addr = ''''"
| "dump_lines K p w (Suc n) addr = dump_line K p w addr @ dump_lines K p w n (addr + 16)"

definition sdb_dump :: "'w kernel \<Rightarrow> u64 \<Rightarrow> 'w action" where
  "sdb_dump K addr e =
     (if state (dbg e) \<noteq> RUNNING then DEBUG ''state must be RUNNING'' e
      else if \<not> in_text (sect_header (dbg e)) addr then
        DEBUG ''the address is out of the range of the text segment'' e
      else emit (dump_lines K (pid (dbg e)) (world e) (80 div 16) addr) e)"

section \<open>The memory layout\<close>

definition map_token :: "(string \<Rightarrow> string) \<Rightarrow> string option \<Rightarrow> string" where
  "map_token f t = (case t of None \<Rightarrow> '''' | Some s \<Rightarrow> f s)"

definition vmmap_line :: "string \<Rightarrow> string" where
  "vmmap_line line =
     (let (vm_start, s1) = strtok ''-'' line;
          (vm_end, s2) = strtok '' '' s1;
          (permissions, s3) = strtok ''p'' s2;
          (off, s4) = strtok '' '' s3;
          (device, s5) = strtok '' '' s4;
          (inode, s6) = strtok '' '' s5;
          (pathname, s7) = strtok '' '' s6
      in map_token (\<lambda>t. zero_pad 16 (fmt_x (unat (strtoul16 t))) @ ''-'') vm_start @
         map_token (\<lambda>t. zero_pad 16 (fmt_x (unat (strtoul16 t))) @ '' '') vm_end @
         map_token (\<lambda>t. t @ '' '') permissions @
         map_token (\<lambda>t. pad_right 8 (fmt_x (unat (strtoul16 t))) @ ''  '') off @
         map_token (\<lambda>t. t) pathname)"

definition sdb_vmmap :: "'w kernel \<Rightarrow> 'w action" where
  "sdb_vmmap K e =
     (if state (dbg e) \<noteq> RUNNING then DEBUG ''state must be RUNNING'' e
      else
        let buf = ''/proc/'' @ fmt_d (pid (dbg e)) @ ''/maps''
        in if 64 \<le> length buf then Undef
           else
             (case k_fopen K buf (world e) of
                None \<Rightarrow> ERROR ''fopen failed'' 507 e
              | Some file \<Rightarrow> emit (concat (map vmmap_line (getlines (text_of file)))) e))"

end
