(* ===== verification/SdbBreak.thy ===== *)
theory SdbBreak
  imports Sdb
begin

text \<open>
  Break points: what planting, hitting, lifting and deleting one does to the tracee's memory
  and registers, over any kernel with the documented behaviour of \<^verbatim>\<open>ptrace\<close> (the locale
  \<open>tracee\<close>).
\<close>

section \<open>The words the debugger writes\<close>

lemma int3_word_eq [mem_simps]: "int3_word code = with_low_byte code 0xcc"
  by (simp add: int3_word_def with_low_byte_def)

lemma low_byte_of_code: "(code AND 0xff :: u64) = ucast (ucast code :: u8)"
proof -
  have "(0xff :: u64) = mask 8" by (simp add: mask_eq_exp_minus_1)
  then have "code AND 0xff = take_bit 8 code" by (simp only: take_bit_eq_mask)
  then show ?thesis by (auto intro!: bit_word_eqI simp: bit_ucast_iff bit_take_bit_iff)
qed

lemma original_word_eq: "(cur AND 0xffffffffffffff00) OR (code AND 0xff) = with_low_byte cur (ucast code)"
  by (simp only: with_low_byte_def low_byte_of_code)

section \<open>Messages\<close>

lemma emit_apply [simp]: "emit s e = Done () (e\<lparr>err := err e @ s\<rparr>)"
  by (simp add: emit_def)

lemma DEBUG_apply [simp]: "DEBUG s e = Done () (e\<lparr>err := err e @ ''** '' @ s @ line_end\<rparr>)"
  by (simp add: DEBUG_def)

lemma debug_buf_apply [simp]:
  "length s < n \<Longrightarrow> debug_buf n s e = Done () (e\<lparr>err := err e @ ''** '' @ s @ line_end\<rparr>)"
  by (simp add: debug_buf_def)

lemma seq_Done [simp]: "m s = Done x t \<Longrightarrow> seq m n s = n t"
  by (simp add: seq_def)

lemma length_fmt_d:
  assumes "0 \<le> i" and "i < 2 ^ 31"
  shows "length (fmt_d i) \<le> 10"
  using assms length_digits [of 10 "nat i" 10] by (simp add: fmt_d_def nat_less_iff)

section \<open>Memory effects\<close>

context tracee
begin

lemma set_break_effect:
  assumes "pid = Sdb.pid (dbg e)" and "state (dbg e) = RUNNING" and "in_text (sect_header (dbg e)) a"
    and "map_find a (addr_list (dbg e)) = None" and "mapped (world e) a"
  shows "\<exists>w. sdb_set_break K a e = Done () (e\<lparr>world := w, dbg := (dbg e)\<lparr>addr_list :=
        map_put a (k_peek K pid a (world e)) (addr_list (dbg e))\<rparr>\<rparr>)
    \<and> mem w = (mem (world e))(a := 0xcc)
    \<and> mapped w = mapped (world e)
    \<and> k_getregs K pid w = k_getregs K pid (world e)"
proof -
  let ?v = "int3_word (k_peek K pid a (world e))"
  obtain r w where p: "k_poke K pid a ?v (world e) = (r, w)" by fastforce
  note q = patch_byte [OF assms(5) p [unfolded int3_word_eq]]
  have "sdb_set_break K a e = Done () (e\<lparr>world := w, dbg := (dbg e)\<lparr>addr_list :=
        map_put a (k_peek K pid a (world e)) (addr_list (dbg e))\<rparr>\<rparr>)"
    using assms p q(1) by (simp add: sdb_set_break_def)
  with q show ?thesis by blast
qed

lemma restore_bp_effect:
  assumes "pid = Sdb.pid (dbg e)" and "pre_addr (dbg e) \<noteq> 0 \<Longrightarrow> mapped (world e) (pre_addr (dbg e))"
  shows "\<exists>w s. restore_bp K e = Done () (e\<lparr>err := err e @ s, world := w, dbg := (dbg e)\<lparr>pre_addr := 0\<rparr>\<rparr>)
    \<and> mem w = (if pre_addr (dbg e) = 0 then mem (world e) else (mem (world e))(pre_addr (dbg e) := 0xcc))
    \<and> mapped w = mapped (world e)
    \<and> k_getregs K pid w = k_getregs K pid (world e)"
proof (cases "pre_addr (dbg e) = 0")
  case True
  then have "restore_bp K e = Done () (e\<lparr>err := err e @ [], world := world e, dbg := (dbg e)\<lparr>pre_addr := 0\<rparr>\<rparr>)"
    by (simp add: restore_bp_def)
  with True show ?thesis by metis
next
  case False
  let ?a = "pre_addr (dbg e)"
  obtain r w where p: "k_poke K pid ?a (int3_word (k_peek K pid ?a (world e))) (world e) = (r, w)" by fastforce
  note q = patch_byte [OF assms(2) [OF False] p [unfolded int3_word_eq]]
  have "restore_bp K e = Done () (e\<lparr>err := err e @ ''reset bp at 0x'' @ fmt_x (unat ?a) @ line_end,
      world := w, dbg := (dbg e)\<lparr>pre_addr := 0\<rparr>\<rparr>)"
    using False assms(1) p q(1) by (simp add: restore_bp_def Let_def)
  with False q show ?thesis by metis
qed

lemma lift_break_effect:
  assumes "pid = Sdb.pid (dbg e)" and "mapped (world e) (pre_addr (dbg e))" and "pre_addr (dbg e) \<noteq> 0"
    and "pre_val (dbg e) = with_low_byte (k_peek K pid (pre_addr (dbg e)) (world e)) b"
  shows "\<exists>w. lift_break K line e = Done () (e\<lparr>world := w\<rparr>)
    \<and> mem w = (mem (world e))(pre_addr (dbg e) := b)
    \<and> mapped w = mapped (world e)
    \<and> k_getregs K pid w = k_getregs K pid (world e)"
proof -
  obtain r w where p: "k_poke K pid (pre_addr (dbg e)) (pre_val (dbg e)) (world e) = (r, w)" by fastforce
  note q = patch_byte [OF assms(2) p [unfolded assms(4)]]
  have "lift_break K line e = Done () (e\<lparr>world := w\<rparr>)"
    using assms(1,3) p q(1) by (simp add: lift_break_def)
  with q show ?thesis by blast
qed

lemma hit_break_effect:
  assumes "pid = Sdb.pid (dbg e)" and "k_getregs K pid (world e) = (0, rs)"
  shows "\<exists>w. hit_break K rs a code e = Done () (e\<lparr>world := w, dbg := (dbg e)\<lparr>pre_addr := a,
        pre_val := with_low_byte (k_peek K pid a (world e)) (ucast code)\<rparr>\<rparr>)
    \<and> mem w = mem (world e)
    \<and> mapped w = mapped (world e)
    \<and> k_getregs K pid w = (0, rs\<lparr>rip := rip rs - 1\<rparr>)"
proof -
  let ?rs = "rs\<lparr>rip := rip rs - 1\<rparr>"
  obtain r w where p: "k_setregs K pid ?rs (world e) = (r, w)" by fastforce
  have "r = 0" and "k_getregs K pid w = (0, ?rs)"
    using setregs_ok [OF assms(2), of ?rs] setregs_regs [OF assms(2), of ?rs] p by simp_all
  moreover have "mem w = mem (world e)" "mapped w = mapped (world e)"
    using setregs_mem [of ?rs "world e"] setregs_mapped [of ?rs "world e"] p by simp_all
  moreover have "hit_break K rs a code e = Done () (e\<lparr>world := w, dbg := (dbg e)\<lparr>pre_addr := a,
        pre_val := with_low_byte (k_peek K pid a (world e)) (ucast code)\<rparr>\<rparr>)"
    using assms(1) p \<open>r = 0\<close> by (simp add: hit_break_def original_word_eq)
  ultimately show ?thesis by blast
qed

end

section \<open>The demonstration program\<close>

text \<open>
  A closed state for the instances: a program of no-ops at \<^verbatim>\<open>0x400000\<close> that ends at
  \<^verbatim>\<open>0x400008\<close>, loaded and stopped at its first instruction.
\<close>

definition demo_sect :: bytes where
  "demo_sect =
     [1, 0, 0, 0, 1, 0, 0, 0,  6, 0, 0, 0, 0, 0, 0, 0,
      0, 0, 0x40, 0, 0, 0, 0, 0,  4, 0, 0, 0, 0, 0, 0, 0,
      16, 0, 0, 0, 0, 0, 0, 0,  0, 0, 0, 0, 0, 0, 0, 0,
      0, 0, 0, 0, 0, 0, 0, 0,  0, 0, 0, 0, 0, 0, 0, 0]"

definition demo_regs :: user_regs where
  "demo_regs =
     \<lparr> rax = 0, rbx = 0, rcx = 0, rdx = 0, r8 = 0, r9 = 0, r10 = 0, r11 = 0, r12 = 0, r13 = 0,
       r14 = 0, r15 = 0, rdi = 0, rsi = 0, rbp = 0, rsp = 0x7fffffff0000, rip = 0x400000,
       eflags = 0x202, other_regs = [] \<rparr>"

definition demo_mem :: byte_mem where
  "demo_mem = (\<lambda>a. if a = 0x400008 then 0x0f else 0x90)"

definition demo_machine :: machine where
  "demo_machine =
     \<lparr> m_mem = demo_mem, m_regs = demo_regs, m_alive = True, m_pid = 77, m_status = 0x057f,
       m_files = [(''prog'', replicate 20 0x90)] \<rparr>"

definition demo_sdb :: sdb where
  "demo_sdb =
     \<lparr> elf_header = replicate 64 0, sect_header = demo_sect, addr_list = [], pre_addr = 0,
       pre_val = 0, state = RUNNING, code_size = 20, pid = 77, program_name = ''prog'',
       code_text = Some (replicate 20 0x90) \<rparr>"

definition demo_env :: "machine env" where
  "demo_env = \<lparr> dbg = demo_sdb, err = '''', world = demo_machine \<rparr>"

lemma demo_sect_fields [simp]:
  "sh_addr demo_sect = 0x400000" "sh_size demo_sect = 16" "sh_offset demo_sect = 4"
  by (simp_all add: demo_sect_def sh_addr_def sh_size_def sh_offset_def field_def drop_Cons')

lemma demo_in_text [simp]: "in_text demo_sect a \<longleftrightarrow> 0x400000 \<le> a \<and> a < 0x400010"
  by (simp add: in_text_def)

lemma demo_mapped [simp]: "m_mapped demo_machine a \<longleftrightarrow> 0x1000 \<le> a \<and> a < 0xfffffffffffff000"
  by (simp add: m_mapped_def demo_machine_def)

lemma demo_env_simps [simp]:
  "dbg demo_env = demo_sdb" "world demo_env = demo_machine" "err demo_env = []"
  "state demo_sdb = RUNNING" "pid demo_sdb = 77" "sect_header demo_sdb = demo_sect"
  "addr_list demo_sdb = []" "pre_addr demo_sdb = 0" "pre_val demo_sdb = 0"
  by (simp_all add: demo_env_def demo_sdb_def)

text \<open>The same program, stopped by a break point at \<^verbatim>\<open>0x400004\<close>: the trap left \<^verbatim>\<open>rip\<close> behind it.\<close>

definition demo_hit_machine :: machine where
  "demo_hit_machine =
     demo_machine\<lparr>m_mem := demo_mem(0x400004 := 0xcc), m_regs := demo_regs\<lparr>rip := 0x400005\<rparr>\<rparr>"

definition demo_hit_sdb :: sdb where
  "demo_hit_sdb = demo_sdb\<lparr>addr_list := [(0x400004, 0x9090900f90909090)]\<rparr>"

definition demo_hit_env :: "machine env" where
  "demo_hit_env = \<lparr> dbg = demo_hit_sdb, err = '''', world = demo_hit_machine \<rparr>"

lemma demo_hit_simps [simp]:
  "dbg demo_hit_env = demo_hit_sdb" "world demo_hit_env = demo_hit_machine"
  "state demo_hit_sdb = RUNNING" "pid demo_hit_sdb = 77" "sect_header demo_hit_sdb = demo_sect"
  "addr_list demo_hit_sdb = [(0x400004, 0x9090900f90909090)]" "pre_addr demo_hit_sdb = 0"
  "code_text demo_hit_sdb = Some (replicate 20 0x90)" "code_text demo_sdb = Some (replicate 20 0x90)"
  "m_alive demo_hit_machine" "m_regs demo_hit_machine = demo_regs\<lparr>rip := 0x400005\<rparr>"
  "m_mem demo_hit_machine = demo_mem(0x400004 := 0xcc)" "m_status demo_hit_machine = 0x057f"
  "m_pid demo_hit_machine = 77"
  "m_mapped demo_hit_machine a \<longleftrightarrow> 0x1000 \<le> a \<and> a < 0xfffffffffffff000"
  by (simp_all add: demo_hit_env_def demo_hit_sdb_def demo_hit_machine_def demo_machine_def demo_sdb_def
      demo_env_def m_mapped_def)

lemma machine_waitpid [simp]: "k_waitpid machine_kernel p w = (p, m_status w, w)"
  by (simp add: machine_kernel_def)

lemma machine_cs_open [simp]: "k_cs_open machine_kernel w"
  by (simp add: machine_kernel_def)

lemma machine_cont [simp]: "k_cont machine_kernel = m_resume (m_run 100)"
  by (simp add: machine_kernel_def)

lemma machine_singlestep [simp]: "k_singlestep machine_kernel = m_resume m_step"
  by (simp add: machine_kernel_def)

lemma trap_status [simp]:
  "\<not> WIFEXITED 0x057f" "WIFSTOPPED 0x057f" "WSTOPSIG 0x057f = 5"
  by (simp_all add: WIFEXITED_def WTERMSIG_def WIFSTOPPED_def WSTOPSIG_def)

end
