(* ===== verification/SdbInv.thy ===== *)
theory SdbInv
  imports SdbBreak
begin

text \<open>
  The class invariant of \<^verbatim>\<open>SDB\<close> and that every method keeps it, however it ends: whatever
  the kernel answers and however deep \<^verbatim>\<open>check_process\<close> and \<^verbatim>\<open>si\<close> call each other.
\<close>

section \<open>The invariant\<close>

definition sdb_wf :: "sdb \<Rightarrow> bool" where
  "sdb_wf d \<longleftrightarrow>
     map_valid (addr_list d)
     \<and> (\<forall>a \<in> fst ` set (addr_list d). in_text (sect_header d) a)
     \<and> (pre_addr d \<noteq> 0 \<longrightarrow> in_text (sect_header d) (pre_addr d))
     \<and> (state d = NOT_LOADED \<longrightarrow> addr_list d = [] \<and> pre_addr d = 0 \<and> code_text d = None)
     \<and> (state d = RUNNING \<longrightarrow> 0 < pid d)"

definition env_wf :: "'w env \<Rightarrow> bool" where
  "env_wf e \<longleftrightarrow> sdb_wf (dbg e)"

lemma env_wf_io [simp]:
  "env_wf (e\<lparr>err := s\<rparr>) = env_wf e" "env_wf (e\<lparr>world := w\<rparr>) = env_wf e"
  by (simp_all add: env_wf_def)

lemma new_sdb_wf: "sdb_wf (new_sdb eh sh name)"
  by (simp add: sdb_wf_def new_sdb_def map_valid_def)

section \<open>Messages and reads\<close>

lemma keeps_emit [keeps_intros]: "keeps env_wf (emit s)"
  by (rule keepsI) simp

lemma keeps_PRINT [keeps_intros]: "keeps env_wf (PRINT s)"
  by (rule keepsI) (simp add: PRINT_def)

lemma keeps_DEBUG [keeps_intros]: "keeps env_wf (DEBUG s)"
  by (rule keepsI) simp

lemma keeps_ERROR [keeps_intros]: "keeps env_wf (ERROR s n)"
  by (rule keepsI) (simp add: ERROR_def)

lemma after_ERROR [simp]: "after env_wf (ERROR s n e) = env_wf e"
  by (simp add: ERROR_def)

lemma keeps_debug_buf [keeps_intros]: "keeps env_wf (debug_buf n s)"
  by (rule keepsI) (simp add: debug_buf_def)

lemma after_debug_buf: "env_wf e \<Longrightarrow> after env_wf (debug_buf n s e)"
  by (simp add: debug_buf_def)

lemma keeps_quit [keeps_intros]: "keeps env_wf (sdb_quit K)"
  by (rule keepsI) (simp add: sdb_quit_def split: prod.splits)

lemma keeps_help [keeps_intros]: "keeps env_wf sdb_help"
  unfolding sdb_help_def by (intro keeps_intros)

lemma keeps_list [keeps_intros]: "keeps env_wf sdb_list"
  by (rule keepsI) (simp add: sdb_list_def)

lemma keeps_getregs [keeps_intros]: "keeps env_wf (sdb_getregs K)"
  by (rule keepsI) (simp add: sdb_getregs_def Let_def split: prod.splits)

lemma keeps_get [keeps_intros]: "keeps env_wf (sdb_get K name)"
  by (rule keepsI) (simp add: sdb_get_def split: prod.splits option.splits)

lemma keeps_dump [keeps_intros]: "keeps env_wf (sdb_dump K a)"
  by (rule keepsI) (simp add: sdb_dump_def)

lemma keeps_vmmap [keeps_intros]: "keeps env_wf (sdb_vmmap K)"
  by (rule keepsI) (simp add: sdb_vmmap_def Let_def split: option.splits)

lemma disasm_frame:
  assumes "sdb_disasm K a n e = Done r e'"
  shows "dbg e' = dbg e \<and> world e' = world e"
  using assms
  by (auto simp: sdb_disasm_def Let_def ERROR_def split: if_splits option.splits list.splits)

lemma keeps_disasm [keeps_intros]: "keeps env_wf (sdb_disasm K a n)"
  by (rule keepsI) (auto simp: sdb_disasm_def Let_def split: option.splits list.splits)

lemma keeps_set [keeps_intros]: "keeps env_wf (sdb_set K name v)"
  by (rule keepsI)
    (auto simp: sdb_set_def Let_def env_wf_def sdb_wf_def ERROR_def split: prod.splits option.splits)

section \<open>Break points\<close>

lemma keeps_set_break [keeps_intros]: "keeps env_wf (sdb_set_break K a)"
proof (rule keepsI)
  fix e :: "'a env"
  let ?m = "map_put a (k_peek K (pid (dbg e)) a (world e)) (addr_list (dbg e))"
  assume wf: "env_wf e"
  then have v: "map_valid (addr_list (dbg e))" by (simp add: env_wf_def sdb_wf_def)
  have "sdb_wf (dbg e\<lparr>addr_list := ?m\<rparr>)" if "state (dbg e) = RUNNING" "in_text (sect_header (dbg e)) a"
    using wf that by (auto simp: env_wf_def sdb_wf_def map_valid_put set_map_put [OF v])
  with wf show "after env_wf (sdb_set_break K a e)"
    by (auto simp: sdb_set_break_def Let_def ERROR_def env_wf_def split: prod.splits)
qed

lemma keeps_del [keeps_intros]: "keeps env_wf (sdb_del K i)"
proof (rule keepsI)
  fix e :: "'a env"
  let ?m = "map_erase_nth (nat i) (addr_list (dbg e))"
  assume wf: "env_wf e"
  then have v: "map_valid (addr_list (dbg e))" by (simp add: env_wf_def sdb_wf_def)
  have "set ?m \<subseteq> set (addr_list (dbg e))"
    unfolding map_erase_nth_def using set_take_subset set_drop_subset by fastforce
  then have "sdb_wf (dbg e\<lparr>addr_list := ?m\<rparr>)" if "state (dbg e) = RUNNING"
    using wf that map_valid_erase [OF v] by (fastforce simp: env_wf_def sdb_wf_def)
  with wf show "after env_wf (sdb_del K i e)"
    by (auto simp: sdb_del_def Let_def ERROR_def debug_buf_def env_wf_def split: prod.splits)
qed

lemma keeps_restore_bp [keeps_intros]: "keeps env_wf (restore_bp K)"
  by (rule keepsI) (auto simp: restore_bp_def Let_def ERROR_def env_wf_def sdb_wf_def split: prod.splits)

lemma keeps_lift_break [keeps_intros]: "keeps env_wf (lift_break K n)"
  by (rule keepsI) (auto simp: lift_break_def Let_def split: prod.splits)

section \<open>Loading and starting\<close>

lemma keeps_get_code: "env_wf e \<Longrightarrow> state (dbg e) \<noteq> NOT_LOADED \<Longrightarrow> after env_wf (sdb_get_code K f e)"
  by (auto simp: sdb_get_code_def Let_def env_wf_def sdb_wf_def split: prod.splits option.splits)

lemma keeps_load [keeps_intros]: "keeps env_wf (sdb_load K f)"
proof (rule keepsI)
  fix e :: "'a env"
  assume wf: "env_wf e"
  show "after env_wf (sdb_load K f e)"
  proof (cases "state (dbg e) = NOT_LOADED \<and> length f < text_width")
    case False
    with wf show ?thesis by (auto simp: sdb_load_def)
  next
    case True
    have name: "env_wf (e\<lparr>dbg := (dbg e)\<lparr>program_name := f\<rparr>\<rparr>)"
      and head: "env_wf (e\<lparr>dbg := (dbg e)\<lparr>program_name := f, elf_header := eh\<rparr>\<rparr>)"
      for eh
      using wf True by (simp_all add: env_wf_def sdb_wf_def map_valid_def)
    have code: "after env_wf (sdb_get_code K f e')"
      if "dbg e' = (dbg e)\<lparr>program_name := f, elf_header := eh, sect_header := sh, state := LOADED\<rparr>" for e' eh sh
      using wf True that by (intro keeps_get_code) (simp_all add: env_wf_def sdb_wf_def map_valid_def)
    show ?thesis
      using True name head
      by (auto simp: sdb_load_def Let_def seq_def andthen_def debug_buf_def
          split: prod.splits option.splits intro!: code)
  qed
qed

lemma keeps_reset [keeps_intros]: "keeps env_wf (reset_break_points K m)"
proof (rule keepsI)
  fix e :: "'a env"
  assume "env_wf e"
  then show "after env_wf (reset_break_points K m e)"
    by (induction K m e rule: reset_break_points.induct) (auto simp: Let_def split: prod.splits)
qed

lemma keeps_start [keeps_intros]: "keeps env_wf (sdb_start K)"
proof (rule keepsI)
  fix e :: "'a env"
  assume wf: "env_wf e"
  have p: "env_wf e'" if "state (dbg e) = LOADED" "dbg e' = (dbg e)\<lparr>pid := q\<rparr>" for e' :: "'a env" and q
    using wf that by (simp add: env_wf_def sdb_wf_def)
  have child: "after env_wf (start_child K e')" if "env_wf e'" for e'
    using that by (auto simp: start_child_def Let_def split: prod.splits option.splits)
  have run: "after env_wf (reset_break_points K m e')"
    if "0 < pid (dbg e')" "dbg e' = (dbg e)\<lparr>pid := q, state := RUNNING\<rparr>" "state (dbg e) = LOADED" for e' q m
    using wf that by (intro keepsD [OF keeps_reset]) (simp add: env_wf_def sdb_wf_def)
  show "after env_wf (sdb_start K e)"
  proof (cases "state (dbg e) = LOADED")
    case False
    with wf show ?thesis by (simp add: sdb_start_def)
  next
    case True
    then show ?thesis
      using wf
      by (auto simp: sdb_start_def Let_def seq_def andthen_def debug_buf_def split: prod.splits
          intro!: child run p)
  qed
qed

section \<open>Running\<close>

lemma hit_break_wf:
  assumes "env_wf e" and "in_text (sect_header (dbg e)) a" and "state (dbg e) \<noteq> NOT_LOADED"
  shows "after env_wf (hit_break K rs a code e)"
  using assms by (auto simp: hit_break_def Let_def env_wf_def sdb_wf_def ERROR_def split: prod.splits)

lemma keeps_trap_stop [keeps_intros]:
  assumes "keeps env_wf si"
  shows "keeps env_wf (trap_stop si K)"
proof (rule keepsI)
  fix e :: "'a env"
  assume wf: "env_wf e"
  have hit: "after env_wf (seq (emit s) (seq (sdb_disasm K a 1) (hit_break K rs a code)) e)"
    if "map_find a (addr_list (dbg e)) = Some code" for s a rs code
  proof (cases "sdb_disasm K a 1 (e\<lparr>err := err e @ s\<rparr>)")
    case (Done r e')
    then have f: "dbg e' = dbg e" using disasm_frame by fastforce
    have v: "map_valid (addr_list (dbg e))" using wf by (simp add: env_wf_def sdb_wf_def)
    then have "a \<in> fst ` set (addr_list (dbg e))" using that map_find_in [OF v] by force
    then have "in_text (sect_header (dbg e')) a" and "state (dbg e') \<noteq> NOT_LOADED" and "env_wf e'"
      using wf f by (auto simp: env_wf_def sdb_wf_def)
    with Done show ?thesis by (simp add: hit_break_wf)
  next
    case (Exited c e')
    have "after env_wf (sdb_disasm K a 1 (e\<lparr>err := err e @ s\<rparr>))"
      using wf by (intro keepsD [OF keeps_disasm]) simp
    with Exited show ?thesis by (simp add: seq_def andthen_def)
  next
    case (Replaced e')
    then show ?thesis
      by (auto simp: sdb_disasm_def Let_def ERROR_def split: if_splits option.splits list.splits)
  qed (simp_all add: seq_def andthen_def)
  show "after env_wf (trap_stop si K e)"
    using wf hit keepsD [OF assms wf] by (auto simp: trap_stop_def split: prod.splits option.splits)
qed

lemma keeps_reaped: "keeps env_wf (\<lambda>e. Done () (e\<lparr>dbg := (dbg e)\<lparr>pid := 0, state := LOADED, pre_val := 0, pre_addr := 0\<rparr>\<rparr>))"
  by (rule keepsI) (simp add: env_wf_def sdb_wf_def)

lemma keeps_check_process_body [keeps_intros]:
  assumes "keeps env_wf si"
  shows "keeps env_wf (check_process_body si K)"
proof (rule keepsI)
  fix e :: "'a env"
  assume wf: "env_wf e"
  have "keeps env_wf (seq (restore_bp K) (trap_stop si K))"
    using assms by (intro keeps_intros)
  then have trap: "after env_wf (seq (restore_bp K) (trap_stop si K) (e\<lparr>world := w\<rparr>))" for w
    using wf by (intro keepsD) simp_all
  have exit: "after env_wf (seq (debug_buf 128 s) (\<lambda>e. Done () (e\<lparr>dbg := (dbg e)\<lparr>pid := 0, state := LOADED,
      pre_val := 0, pre_addr := 0\<rparr>\<rparr>)) (e\<lparr>world := w\<rparr>))" for s w
    using wf by (intro keepsD [OF keeps_seq [OF keeps_debug_buf keeps_reaped]]) simp
  show "after env_wf (check_process_body si K e)"
    using wf trap exit by (simp add: check_process_body_def Let_def after_debug_buf split: prod.splits)
qed

lemma keeps_si_with [keeps_intros]:
  assumes "keeps env_wf chk"
  shows "keeps env_wf (si_with chk K)"
proof (rule keepsI)
  fix e :: "'a env"
  assume wf: "env_wf e"
  have "keeps env_wf (\<lambda>e1. let (r, w) = k_singlestep K (pid (dbg e1)) (world e1); e2 = e1\<lparr>world := w\<rparr>
          in if r < 0 then ERROR ''ptrace: PTRACE_SINGLESTEP failed'' 186 e2 else chk e2)"
    by (rule keepsI) (auto simp: Let_def split: prod.splits intro: keepsD [OF assms])
  then have "keeps env_wf (seq (lift_break K 183) (\<lambda>e1. let (r, w) = k_singlestep K (pid (dbg e1)) (world e1); e2 = e1\<lparr>world := w\<rparr>
          in if r < 0 then ERROR ''ptrace: PTRACE_SINGLESTEP failed'' 186 e2 else chk e2))"
    by (intro keeps_intros)
  from keepsD [OF this wf] wf show "after env_wf (si_with chk K e)" by (simp add: si_with_def)
qed

lemma keeps_check_process [keeps_intros]: "keeps env_wf (sdb_check_process n K)"
proof (induction n)
  case 0
  show ?case by (simp add: keeps_def)
next
  case (Suc n)
  then show ?case by (simp add: keeps_intros)
qed

lemma keeps_si [keeps_intros]: "keeps env_wf (sdb_si n K)"
  unfolding sdb_si_def by (intro keeps_intros)

lemma keeps_cont [keeps_intros]: "keeps env_wf (sdb_cont n K)"
proof (rule keepsI)
  fix e :: "'a env"
  assume wf: "env_wf e"
  have "keeps env_wf (\<lambda>e1. let (r, w) = k_cont K (pid (dbg e1)) (world e1); e2 = e1\<lparr>world := w\<rparr>
          in if r < 0 then ERROR ''ptrace: PTRACE_CONT failed'' 201 e2 else sdb_check_process n K e2)"
    by (rule keepsI) (auto simp: Let_def split: prod.splits intro: keepsD [OF keeps_check_process])
  then have "keeps env_wf (seq (lift_break K 198) (\<lambda>e1. let (r, w) = k_cont K (pid (dbg e1)) (world e1); e2 = e1\<lparr>world := w\<rparr>
          in if r < 0 then ERROR ''ptrace: PTRACE_CONT failed'' 201 e2 else sdb_check_process n K e2))"
    by (intro keeps_intros)
  from keepsD [OF this wf] wf show "after env_wf (sdb_cont n K e)" by (simp add: sdb_cont_def)
qed

lemma keeps_run [keeps_intros]: "keeps env_wf (sdb_run n K)"
proof (rule keepsI)
  fix e :: "'a env"
  assume wf: "env_wf e"
  have a: "keeps env_wf (seq (debug_buf 128 s) (sdb_cont n K))" for s by (intro keeps_intros)
  have b: "keeps env_wf (seq (sdb_start K) (sdb_cont n K))" by (intro keeps_intros)
  show "after env_wf (sdb_run n K e)"
    using wf keepsD [OF a wf] keepsD [OF b wf] by (auto simp: sdb_run_def)
qed

end
