(* ===== verification/SdbShell.thy ===== *)
theory SdbShell
  imports SdbInv
begin

text \<open>
  The command loop of \<^verbatim>\<open>src/hw4/hw4.cpp\<close>: the tokens of a line, the dispatch on the command
  word, the arguments of the program and the loop over a script or the standard input.
\<close>

section \<open>One command\<close>

text \<open>\<^verbatim>\<open>parse_cmd\<close>: the command, or a null pointer, and its arguments.\<close>

definition parse_cmd :: "string \<Rightarrow> string option \<times> string list" where
  "parse_cmd line =
     (case strtok '' '' line of
        (None, rest) \<Rightarrow> (None, [])
      | (Some cmd, rest) \<Rightarrow> (Some cmd, strtok_all '' '' rest))"

text \<open>The chain of \<^verbatim>\<open>strcmp\<close> in \<^verbatim>\<open>main\<close>; \<open>n\<close> is the fuel of \<^verbatim>\<open>check_process\<close>.\<close>

definition dispatch :: "nat \<Rightarrow> 'w kernel \<Rightarrow> string \<Rightarrow> string list \<Rightarrow> 'w action" where
  "dispatch n K cmd args =
     (if cmd = ''break'' \<or> cmd = ''b'' then
        (if 1 \<le> length args then sdb_set_break K (strtoul16 (args ! 0)) else DEBUG ''no addr is given'')
      else if cmd = ''cont'' \<or> cmd = ''c'' then sdb_cont n K
      else if cmd = ''delete'' then
        (if 1 \<le> length args then sdb_del K (atoi (args ! 0)) else DEBUG ''no break-point-id is given'')
      else if cmd = ''disasm'' \<or> cmd = ''d'' then
        (if 1 \<le> length args then sdb_disasm K (strtoul16 (args ! 0)) 10 else DEBUG ''no addr is given'')
      else if cmd = ''dump'' \<or> cmd = ''x'' then
        (if 1 \<le> length args then sdb_dump K (strtoul16 (args ! 0)) else DEBUG ''no addr is given.'')
      else if cmd = ''exit'' \<or> cmd = ''q'' then sdb_quit K
      else if cmd = ''get'' \<or> cmd = ''g'' then
        (if 1 \<le> length args then sdb_get K (args ! 0) else DEBUG ''no register is given'')
      else if cmd = ''getregs'' then sdb_getregs K
      else if cmd = ''help'' \<or> cmd = ''h'' then sdb_help
      else if cmd = ''list'' \<or> cmd = ''l'' then sdb_list
      else if cmd = ''load'' then
        (if 1 \<le> length args then sdb_load K (args ! 0) else DEBUG ''no program path is given'')
      else if cmd = ''run'' \<or> cmd = ''r'' then sdb_run n K
      else if cmd = ''vmmap'' \<or> cmd = ''m'' then sdb_vmmap K
      else if cmd = ''set'' \<or> cmd = ''s'' then
        (if 2 \<le> length args then sdb_set K (args ! 0) (strtoul16 (args ! 1)) else DEBUG ''Not enough input arguments'')
      else if cmd = ''si'' then sdb_si n K
      else if cmd = ''start'' then sdb_start K
      else Done ())"

section \<open>The loop\<close>

text \<open>
  \<open>script\<close> is the rest of the script file when there is one, \<open>stdin\<close> the rest of the
  standard input, \<open>line\<close> the C string in the line buffer, \<open>None\<close> before the first read.
\<close>

record 'w shell =
  sh_env :: "'w env"
  script :: "string option"
  stdin :: string
  line :: "string option"

definition on_env :: "'w action \<Rightarrow> (unit, 'w shell) prog" where
  "on_env m s =
     (case m (sh_env s) of
        Done u e \<Rightarrow> Done () (s\<lparr>sh_env := e\<rparr>)
      | Exited c e \<Rightarrow> Exited c (s\<lparr>sh_env := e\<rparr>)
      | Replaced e \<Rightarrow> Replaced (s\<lparr>sh_env := e\<rparr>)
      | Undef \<Rightarrow> Undef
      | Timeout \<Rightarrow> Timeout)"

text \<open>A line as the C functions see it: up to a null byte, without a final newline.\<close>

definition chomp :: "string \<Rightarrow> string" where
  "chomp s =
     (let l = takeWhile (\<lambda>c. c \<noteq> CHR 0x00) s
      in if 0 < length l \<and> last l = nl then butlast l else l)"

text \<open>
  Running the line in the buffer.  \<^verbatim>\<open>strtok\<close> has cut the buffer after the command word when
  the command runs, which is what a failed \<^verbatim>\<open>getline\<close> leaves for the next round.
\<close>

definition run_line :: "nat \<Rightarrow> 'w kernel \<Rightarrow> string \<Rightarrow> (unit, 'w shell) prog" where
  "run_line n K raw s =
     (let l = chomp raw
      in case parse_cmd l of
           (None, args) \<Rightarrow> Done () (s\<lparr>line := Some l\<rparr>)
         | (Some cmd, args) \<Rightarrow>
             on_env (dispatch n K cmd args) (s\<lparr>line := Some (takeWhile (\<lambda>c. c = CHR '' '') l @ cmd)\<rparr>))"

text \<open>One round of \<^verbatim>\<open>while(1)\<close>: the end of a script quits, the end of the standard input is not noticed.\<close>

definition shell_round :: "nat \<Rightarrow> 'w kernel \<Rightarrow> (unit, 'w shell) prog" where
  "shell_round n K s =
     (case script s of
        Some f \<Rightarrow>
          if f = [] then on_env (sdb_quit K) s
          else let (raw, rest) = getline f in run_line n K raw (s\<lparr>script := Some rest\<rparr>)
      | None \<Rightarrow>
          let s1 = s\<lparr>sh_env := (sh_env s)\<lparr>err := err (sh_env s) @ ''sdb> ''\<rparr>\<rparr>
          in if stdin s1 = [] then
               (case line s1 of None \<Rightarrow> Undef | Some l \<Rightarrow> run_line n K l s1)
             else let (raw, rest) = getline (stdin s1) in run_line n K raw (s1\<lparr>stdin := rest\<rparr>))"

primrec shell_loop :: "nat \<Rightarrow> nat \<Rightarrow> 'w kernel \<Rightarrow> (unit, 'w shell) prog" where
  "shell_loop 0 n K = (\<lambda>s. Timeout)"
| "shell_loop (Suc m) n K = seq (shell_round n K) (shell_loop m n K)"

section \<open>The arguments of the program\<close>

text \<open>What \<^verbatim>\<open>main\<close> does before the loop; \<open>argv\<close> includes the name of the program.\<close>

definition open_script :: "'w kernel \<Rightarrow> string \<Rightarrow> nat \<Rightarrow> (unit, 'w shell) prog" where
  "open_script K f n s =
     (case k_fopen K f (world (sh_env s)) of
        None \<Rightarrow> on_env (ERROR ''can not open script file.'' n) s
      | Some bs \<Rightarrow> Done () (s\<lparr>script := Some (text_of bs)\<rparr>))"

definition main_args :: "'w kernel \<Rightarrow> string list \<Rightarrow> (unit, 'w shell) prog" where
  "main_args K argv =
     (if length argv = 4 then
        (if argv ! 1 \<noteq> ''-s'' then on_env (ERROR ''unexpected flag.'' 25)
         else seq (open_script K (argv ! 2) 28) (on_env (sdb_load K (argv ! 3))))
      else if length argv = 3 then
        (if argv ! 1 \<noteq> ''-s'' then on_env (ERROR ''unexpected flag.'' 34)
         else open_script K (argv ! 2) 37)
      else if length argv = 2 then on_env (sdb_load K (argv ! 1))
      else if length argv = 1 then Done ()
      else on_env (ERROR ''wrong parameter format.'' 45))"

definition shell_main :: "nat \<Rightarrow> nat \<Rightarrow> 'w kernel \<Rightarrow> string list \<Rightarrow> (unit, 'w shell) prog" where
  "shell_main m n K argv = seq (main_args K argv) (shell_loop m n K)"

section \<open>The invariant over the whole program\<close>

definition shell_wf :: "'w shell \<Rightarrow> bool" where
  "shell_wf s \<longleftrightarrow> env_wf (sh_env s)"

lemma shell_wf_simps [simp]:
  "shell_wf (s\<lparr>line := l\<rparr>) = shell_wf s" "shell_wf (s\<lparr>script := f\<rparr>) = shell_wf s"
  "shell_wf (s\<lparr>stdin := i\<rparr>) = shell_wf s"
  "shell_wf (s\<lparr>sh_env := e\<rparr>) = env_wf e"
  by (simp_all add: shell_wf_def)

lemma keeps_dispatch [keeps_intros]: "keeps env_wf (dispatch n K cmd args)"
  unfolding dispatch_def by (intro keeps_intros)

lemma keeps_on_env [keeps_intros]:
  assumes "keeps env_wf m"
  shows "keeps shell_wf (on_env m)"
proof (rule keepsI)
  fix s :: "'a shell"
  assume "shell_wf s"
  then have "after env_wf (m (sh_env s))" using keepsD [OF assms] by (simp add: shell_wf_def)
  then show "after shell_wf (on_env m s)" by (cases "m (sh_env s)") (simp_all add: on_env_def)
qed

lemma keeps_run_line [keeps_intros]: "keeps shell_wf (run_line n K raw)"
  by (rule keepsI)
    (auto simp: run_line_def Let_def split: prod.splits option.splits
      intro!: keepsD [OF keeps_on_env [OF keeps_dispatch]])

lemma keeps_shell_round [keeps_intros]: "keeps shell_wf (shell_round n K)"
proof (rule keepsI)
  fix s :: "'a shell"
  assume wf: "shell_wf s"
  then have "env_wf (sh_env s)" by (simp add: shell_wf_def)
  with wf show "after shell_wf (shell_round n K s)"
    by (auto simp: shell_round_def Let_def split: prod.splits option.splits
        intro!: keepsD [OF keeps_on_env [OF keeps_quit]] keepsD [OF keeps_run_line])
qed

lemma keeps_shell_loop [keeps_intros]: "keeps shell_wf (shell_loop m n K)"
proof (induction m)
  case 0
  show ?case by (simp add: keeps_def)
next
  case (Suc m)
  then show ?case by (simp add: keeps_intros)
qed

lemma keeps_open_script [keeps_intros]: "keeps shell_wf (open_script K f i)"
  by (rule keepsI)
    (auto simp: open_script_def split: option.splits intro!: keepsD [OF keeps_on_env [OF keeps_ERROR]])

lemma keeps_main_args [keeps_intros]: "keeps shell_wf (main_args K argv)"
  unfolding main_args_def by (intro keeps_intros)

lemma keeps_shell_main: "keeps shell_wf (shell_main m n K argv)"
  unfolding shell_main_def by (intro keeps_intros)

text \<open>The state \<^verbatim>\<open>main\<close> starts from.\<close>

definition new_shell :: "bytes \<Rightarrow> bytes \<Rightarrow> string \<Rightarrow> string \<Rightarrow> 'w \<Rightarrow> 'w shell" where
  "new_shell eh sh name input w =
     \<lparr> sh_env = \<lparr> dbg = new_sdb eh sh name, err = [], world = w \<rparr>, script = None, stdin = input, line = None \<rparr>"

end
