(* ===== verification/SdbScript.thy ===== *)
theory SdbScript
  imports SdbShell
begin

text \<open>
  The command language: a script is the sequence of its commands followed by \<^verbatim>\<open>exit\<close>, and the
  end of the standard input is not the end of the session.
\<close>

section \<open>Lines\<close>

text \<open>A word of a command line: no blank, no line end, no null character.\<close>

definition plain_word :: "string \<Rightarrow> bool" where
  "plain_word w \<longleftrightarrow> w \<noteq> [] \<and> CHR '' '' \<notin> set w \<and> nl \<notin> set w \<and> CHR 0x00 \<notin> set w"

type_synonym command = "string \<times> string list"

definition plain_command :: "command \<Rightarrow> bool" where
  "plain_command c \<longleftrightarrow> (\<forall>w \<in> set (fst c # snd c). plain_word w)"

definition command_line :: "command \<Rightarrow> string" where
  "command_line c = unwords (fst c # snd c)"

definition script_text :: "command list \<Rightarrow> string" where
  "script_text cs = concat (map (\<lambda>c. command_line c @ [nl]) cs)"

lemma set_unwords: "set (unwords ws) \<subseteq> insert (CHR '' '') (\<Union> (set ` set ws))"
  by (induction ws rule: unwords.induct) auto

lemma strtok_unwords:
  assumes "w \<noteq> []" and "CHR '' '' \<notin> set w"
  shows "strtok '' '' (unwords (w # ws)) = (Some w, unwords ws)"
proof (cases ws)
  case Nil
  then show ?thesis using assms strtok_last [of w "'' ''" "[]"] by simp
next
  case (Cons v vs)
  then show ?thesis using assms strtok_hit [of w "'' ''" "[]" "CHR '' ''"] by simp
qed

lemma parse_command_line:
  assumes "plain_command c"
  shows "parse_cmd (command_line c) = (Some (fst c), snd c)"
proof -
  have "fst c \<noteq> []" "CHR '' '' \<notin> set (fst c)"
    and "\<forall>w \<in> set (snd c). w \<noteq> [] \<and> CHR '' '' \<notin> set w"
    using assms by (auto simp: plain_command_def plain_word_def)
  then show ?thesis
    by (simp add: parse_cmd_def command_line_def strtok_unwords strtok_all_unwords)
qed

lemma getline_line: "nl \<notin> set l \<Longrightarrow> getline (l @ nl # r) = (l @ [nl], r)"
  by (induction l) auto

lemma chomp_line: "CHR 0x00 \<notin> set l \<Longrightarrow> chomp (l @ [nl]) = l"
proof -
  assume "CHR 0x00 \<notin> set l"
  then have "takeWhile (\<lambda>c. c \<noteq> CHR 0x00) (l @ [nl]) = l @ [nl]"
    by (subst takeWhile_append2) (auto simp: nl_def)
  then show ?thesis by (simp add: chomp_def)
qed

lemma command_line_chars:
  assumes "plain_command c"
  shows "nl \<notin> set (command_line c)" and "CHR 0x00 \<notin> set (command_line c)"
  using assms set_unwords [of "fst c # snd c"]
  by (auto simp: plain_command_def plain_word_def command_line_def nl_def)

lemma run_command_line:
  assumes "plain_command c"
  shows "\<exists>l. run_line n K (command_line c @ [nl]) s = on_env (dispatch n K (fst c) (snd c)) (s\<lparr>line := l\<rparr>)"
  using parse_command_line [OF assms] chomp_line [OF command_line_chars(2) [OF assms]]
  by (auto simp: run_line_def Let_def)

section \<open>Scripts\<close>

primrec run_commands :: "nat \<Rightarrow> 'w kernel \<Rightarrow> command list \<Rightarrow> 'w action" where
  "run_commands n K [] = Done ()"
| "run_commands n K (c # cs) = seq (dispatch n K (fst c) (snd c)) (run_commands n K cs)"

lemma seq_assoc: "seq (seq a b) c s = seq a (seq b c) s"
  by (cases "a s") (simp_all add: seq_def andthen_def)

lemma quit_exits: "\<exists>c e'. sdb_quit K e = Exited c e'"
  by (simp add: sdb_quit_def split_beta)

lemma script_round:
  assumes "plain_command c" and "script s = Some (script_text (c # cs))"
  shows "\<exists>l. shell_round n K s = on_env (dispatch n K (fst c) (snd c)) (s\<lparr>script := Some (script_text cs), line := l\<rparr>)"
proof -
  have "getline (script_text (c # cs)) = (command_line c @ [nl], script_text cs)" "script_text (c # cs) \<noteq> []"
    using getline_line [OF command_line_chars(1) [OF assms(1)]] by (simp_all add: script_text_def)
  then show ?thesis using run_command_line [OF assms(1)] assms(2) by (fastforce simp: shell_round_def)
qed

lemma script_loop:
  assumes "\<forall>c \<in> set cs. plain_command c" and "length cs < m" and "script s = Some (script_text cs)"
  shows "map_outcome (\<lambda>u. u) sh_env (shell_loop m n K s) = seq (run_commands n K cs) (sdb_quit K) (sh_env s)"
  using assms
proof (induction cs arbitrary: m s)
  case Nil
  obtain k where m: "m = Suc k" using Nil.prems(2) by (cases m) auto
  obtain c e where q: "sdb_quit K (sh_env s) = Exited c e" using quit_exits by blast
  then have "shell_round n K s = Exited c (s\<lparr>sh_env := e\<rparr>)"
    using Nil.prems(3) by (simp add: shell_round_def script_text_def on_env_def)
  then show ?case using m q by (simp add: seq_def)
next
  case (Cons c cs)
  obtain k where m: "m = Suc k" "length cs < k" using Cons.prems(2) by (cases m) auto
  have c: "plain_command c" using Cons.prems(1) by simp
  obtain l where r: "shell_round n K s =
      on_env (dispatch n K (fst c) (snd c)) (s\<lparr>script := Some (script_text cs), line := l\<rparr>)"
    using script_round [OF c Cons.prems(3)] by blast
  show ?case
  proof (cases "dispatch n K (fst c) (snd c) (sh_env s)")
    case (Done u e)
    let ?s = "s\<lparr>sh_env := e, script := Some (script_text cs), line := l\<rparr>"
    have "shell_round n K s = Done () ?s" using Done r by (simp add: on_env_def)
    moreover have "map_outcome (\<lambda>u. u) sh_env (shell_loop k n K ?s) =
        seq (run_commands n K cs) (sdb_quit K) (sh_env ?s)"
      using Cons.prems(1) m(2) by (intro Cons.IH) simp_all
    ultimately show ?thesis using m(1) Done by (simp add: seq_assoc)
  qed (use r m(1) in \<open>simp_all add: seq_def on_env_def andthen_def\<close>)
qed

text \<open>
  \<^verbatim>\<open>hw4 -s script program\<close> loads the program, runs the commands of the script in order and
  exits, which kills the program under the debugger.
\<close>

text \<open>
  C6. hw4 -s script program behaves as the sequence of the commands of the script, in order,
  after load and before quit: the loop over lines, the removal of the line end, the tokens and
  the dispatch add nothing.
\<close>

theorem script_session:
  assumes "\<forall>c \<in> set cs. plain_command c" and "length cs < m"
    and "k_fopen K f (world (sh_env s)) = Some file" and "text_of file = script_text cs"
  shows "map_outcome (\<lambda>u. u) sh_env (shell_main m n K [argv0, ''-s'', f, prog] s) =
    seq (sdb_load K prog) (seq (run_commands n K cs) (sdb_quit K)) (sh_env s)"
proof -
  let ?s = "s\<lparr>script := Some (script_text cs)\<rparr>"
  have "main_args K [argv0, ''-s'', f, prog] s = on_env (sdb_load K prog) ?s"
    using assms(3,4) by (simp add: main_args_def open_script_def)
  moreover have "map_outcome (\<lambda>u. u) sh_env (seq (on_env (sdb_load K prog)) (shell_loop m n K) ?s) =
      seq (sdb_load K prog) (seq (run_commands n K cs) (sdb_quit K)) (sh_env s)"
  proof (cases "sdb_load K prog (sh_env s)")
    case (Done u e)
    with script_loop [OF assms(1,2), of "?s\<lparr>sh_env := e\<rparr>" n K] show ?thesis
      by (simp add: seq_def on_env_def)
  qed (simp_all add: seq_def andthen_def on_env_def)
  ultimately show ?thesis by (simp add: shell_main_def seq_def andthen_def)
qed

section \<open>The end of the standard input\<close>

text \<open>
  \<^verbatim>\<open>main\<close> does not test the result of \<^verbatim>\<open>getline\<close> on the standard input: at its end the word that
  \<^verbatim>\<open>strtok\<close> left in the buffer runs again, for ever when it is a command that returns.
\<close>

text \<open>
  C17. At the end of the standard input the command word left in the line buffer runs again and
  again: with a command that returns, the loop of main never ends.
\<close>

theorem stdin_end_never_stops:
  assumes "\<And>e. \<exists>e'. dispatch n K cmd [] e = Done () e'"
    and "plain_word cmd" and "script s = None" and "stdin s = []" and "line s = Some cmd"
  shows "shell_loop m n K s = Timeout"
  using assms(3-5)
proof (induction m arbitrary: s)
  case 0
  show ?case by simp
next
  case (Suc m)
  let ?s = "s\<lparr>sh_env := (sh_env s)\<lparr>err := err (sh_env s) @ ''sdb> ''\<rparr>\<rparr>"
  have "\<forall>x\<in>set cmd. x \<noteq> CHR 0x00" "last cmd \<noteq> nl"
    using assms(2) last_in_set [of cmd] by (force simp: plain_word_def)+
  then have ch: "chomp cmd = cmd" by (simp add: chomp_def takeWhile_eq_all_conv [THEN iffD2])
  have p: "parse_cmd cmd = (Some cmd, [])"
    using parse_command_line [of "(cmd, [])"] assms(2) by (simp add: plain_command_def command_line_def)
  have t: "takeWhile (\<lambda>c. c = CHR '' '') cmd = []" using assms(2) by (cases cmd) (auto simp: plain_word_def)
  obtain e where d: "dispatch n K cmd [] (sh_env ?s) = Done () e" using assms(1) by blast
  let ?s' = "?s\<lparr>sh_env := e, line := Some cmd\<rparr>"
  have "shell_round n K s = run_line n K cmd ?s" using Suc.prems by (simp add: shell_round_def)
  also have "\<dots> = Done () ?s'" using ch p t d by (simp add: run_line_def on_env_def)
  finally have "shell_round n K s = Done () ?s'" .
  moreover have "shell_loop m n K ?s' = Timeout" using Suc.prems by (intro Suc.IH) simp_all
  ultimately show ?case by (simp add: seq_def)
qed

theorem stdin_end_never_stops_witness:
  "shell_loop 1000 2 machine_kernel
     \<lparr> sh_env = demo_env, script = None, stdin = [], line = Some ''list'' \<rparr> = Timeout"
  by (rule stdin_end_never_stops [of _ _ "''list''"])
    (simp_all add: dispatch_def sdb_list_def plain_word_def nl_def)

definition demo_commands :: "command list" where
  "demo_commands = [(''start'', []), (''get'', [''rip'']), (''si'', [])]"

definition demo_script_shell :: "machine shell" where
  "demo_script_shell =
     \<lparr> sh_env = demo_env\<lparr>world := demo_machine\<lparr>m_files := [(''cmds'', bytes_of (script_text demo_commands))]\<rparr>\<rparr>,
       script = None, stdin = [], line = None \<rparr>"

theorem script_session_witness:
  "map_outcome (\<lambda>u. u) sh_env (shell_main 9 2 machine_kernel [''hw4'', ''-s'', ''cmds'', ''prog''] demo_script_shell) =
    seq (sdb_load machine_kernel ''prog'') (seq (run_commands 2 machine_kernel demo_commands) (sdb_quit machine_kernel))
      (sh_env demo_script_shell)"
  by (rule script_session [OF _ _ _ text_of_bytes_of])
    (simp_all add: demo_commands_def demo_script_shell_def machine_kernel_def plain_command_def plain_word_def nl_def)

end
