(* ===== verification/SdbCycle.thy ===== *)
theory SdbCycle
  imports SdbBreak
begin

text \<open>
  The life of a break point: set, hit, stepped over, deleted.  Each property is stated over
  every kernel that satisfies the laws of \<open>tracee\<close>.
\<close>

section \<open>Setting and deleting\<close>

text \<open>
  C9. Setting a break point in the text section of a running program lists it with the word that
  was there and changes exactly one byte of the memory, to 0xcc, and no register.
\<close>

theorem set_break_plants:
  assumes "tracee K (pid (dbg e)) mem mapped"
    and "state (dbg e) = RUNNING" and "in_text (sect_header (dbg e)) a"
    and "map_find a (addr_list (dbg e)) = None" and "mapped (world e) a"
  shows "\<exists>w. sdb_set_break K a e =
      Done () (e\<lparr>world := w, dbg := (dbg e)\<lparr>addr_list :=
        map_put a (load64 (mem (world e)) a) (addr_list (dbg e))\<rparr>\<rparr>)
    \<and> mem w = (mem (world e))(a := 0xcc)
    \<and> k_getregs K (pid (dbg e)) w = k_getregs K (pid (dbg e)) (world e)"
  using tracee.set_break_effect [OF assms(1) refl assms(2-5)] tracee.peek_word [OF assms(1) assms(5)]
  by metis

theorem set_break_plants_witness:
  "\<exists>w. sdb_set_break machine_kernel 0x400004 demo_env =
      Done () (demo_env\<lparr>world := w, dbg := demo_sdb\<lparr>addr_list :=
        map_put 0x400004 (load64 (m_mem demo_machine) 0x400004) []\<rparr>\<rparr>)
    \<and> m_mem w = (m_mem demo_machine)(0x400004 := 0xcc)
    \<and> k_getregs machine_kernel 77 w = k_getregs machine_kernel 77 demo_machine"
  using set_break_plants [of machine_kernel demo_env m_mem m_mapped "0x400004"] mach.tracee_axioms
  by simp

text \<open>
  C4. Setting a break point at a new address of the text section and then deleting it by its
  number leaves the memory of the program and the whole debugger object as they were.
\<close>

theorem set_then_delete:
  assumes "tracee K (pid (dbg e)) mem mapped"
    and "state (dbg e) = RUNNING" and "in_text (sect_header (dbg e)) a"
    and "map_valid (addr_list (dbg e))" and "map_find a (addr_list (dbg e)) = None"
    and "mapped (world e) a" and "length (addr_list (dbg e)) < 2 ^ 31 - 1"
  shows "\<exists>e1 i e2. sdb_set_break K a e = Done () e1
    \<and> i < length (addr_list (dbg e1)) \<and> fst (addr_list (dbg e1) ! i) = a
    \<and> sdb_del K (int i) e1 = Done () e2
    \<and> mem (world e2) = mem (world e) \<and> dbg e2 = dbg e"
proof -
  let ?m = "addr_list (dbg e)" and ?code = "k_peek K (pid (dbg e)) a (world e)"
  let ?m1 = "map_put a ?code ?m"
  obtain w where s: "sdb_set_break K a e = Done () (e\<lparr>world := w, dbg := (dbg e)\<lparr>addr_list := ?m1\<rparr>\<rparr>)"
    and w: "mem w = (mem (world e))(a := 0xcc)" "mapped w = mapped (world e)"
    using tracee.set_break_effect [OF assms(1) refl assms(2,3,5,6)] by blast
  obtain i where i: "i < length ?m1" "?m1 ! i = (a, ?code)" "map_erase_nth i ?m1 = ?m"
    using smap.erase_insert [OF assms(4,5)] by blast
  have "length ?m1 = Suc (length ?m)"
    using arg_cong [OF i(3), of length] i(1) by (simp add: map_erase_nth_def)
  then have small: "int i < 2 ^ 31" using i(1) assms(7) by simp
  obtain r w2 where p: "k_poke K (pid (dbg e)) a ?code w = (r, w2)" by fastforce
  note q = tracee.patch_undo [OF assms(1,6) w p]
  have "length (''breakpoint '' @ fmt_d (int i) @ '' deleted.'') < 32"
    using length_fmt_d [of "int i"] small by simp
  then have "sdb_del K (int i) (e\<lparr>world := w, dbg := (dbg e)\<lparr>addr_list := ?m1\<rparr>\<rparr>) =
      Done () (e\<lparr>world := w2, dbg := dbg e,
        err := err e @ ''** '' @ (''breakpoint '' @ fmt_d (int i) @ '' deleted.'') @ line_end\<rparr>)"
    using i p q(1) assms(2) by (simp add: sdb_del_def)
  with s i q(2) show ?thesis by force
qed

theorem set_then_delete_witness:
  "\<exists>e1 i e2. sdb_set_break machine_kernel 0x400004 demo_env = Done () e1
    \<and> i < length (addr_list (dbg e1)) \<and> fst (addr_list (dbg e1) ! i) = 0x400004
    \<and> sdb_del machine_kernel (int i) e1 = Done () e2
    \<and> m_mem (world e2) = m_mem demo_machine \<and> dbg e2 = demo_sdb"
  using set_then_delete [of machine_kernel demo_env m_mem m_mapped "0x400004"] mach.tracee_axioms
  by (simp add: map_valid_def)

section \<open>Hitting\<close>

text \<open>The text section lies inside the file that was read, and inside the address space.\<close>

definition text_in_file :: "sdb \<Rightarrow> bool" where
  "text_in_file d \<longleftrightarrow>
     (\<exists>text. code_text d = Some text
        \<and> unat (sh_offset (sect_header d)) + unat (sh_size (sect_header d)) \<le> length text
        \<and> length text < 2 ^ 64
        \<and> unat (sh_addr (sect_header d)) + unat (sh_size (sect_header d)) < 2 ^ 64)"

lemma in_text_offset:
  assumes "in_text sect a" and "unat (sh_addr sect) + unat (sh_size sect) < 2 ^ 64"
    and "unat (sh_offset sect) + unat (sh_size sect) < 2 ^ 64"
  shows "unat (sh_offset sect + a - sh_addr sect) < unat (sh_offset sect) + unat (sh_size sect)"
proof -
  let ?d = "a - sh_addr sect"
  have "sh_addr sect \<le> a" and "a < sh_addr sect + sh_size sect" using assms(1) by (simp_all add: in_text_def)
  moreover have "unat (sh_addr sect + sh_size sect) = unat (sh_addr sect) + unat (sh_size sect)"
    using assms(2) by (simp add: unat_plus_if')
  ultimately have d: "unat ?d < unat (sh_size sect)"
    by (simp add: unat_sub word_less_nat_alt word_le_nat_alt)
  then have "unat (sh_offset sect + ?d) = unat (sh_offset sect) + unat ?d"
    using assms(3) by (simp add: unat_plus_if')
  with d show ?thesis by (simp add: algebra_simps)
qed

lemma disasm_prints:
  assumes "state (dbg e) = RUNNING" and "text_in_file (dbg e)" and "in_text (sect_header (dbg e)) a"
    and "k_cs_open K (world e)"
  obtains s where "sdb_disasm K a n e = Done () (e\<lparr>err := err e @ s\<rparr>)"
proof -
  let ?sect = "sect_header (dbg e)"
  from assms(2) obtain bs where t: "code_text (dbg e) = Some bs"
    "unat (sh_offset ?sect) + unat (sh_size ?sect) \<le> length bs" "length bs < 2 ^ 64"
    "unat (sh_addr ?sect) + unat (sh_size ?sect) < 2 ^ 64"
    unfolding text_in_file_def by blast
  have "\<not> length bs < unat (sh_offset ?sect + a - sh_addr ?sect)"
    using in_text_offset [OF assms(3) t(4)] t(2,3) by simp
  then have "\<exists>s. sdb_disasm K a n e = Done () (e\<lparr>err := err e @ s\<rparr>)"
    using assms(1,3,4) t(1)
    by (simp add: sdb_disasm_def Let_def split: list.splits) blast
  with that show ?thesis by blast
qed

text \<open>A stop at a break point, as \<^verbatim>\<open>check_process\<close> handles it.\<close>

lemma stop_at_break:
  assumes "tracee K (pid (dbg e)) mem mapped"
    and "state (dbg e) = RUNNING" and "text_in_file (dbg e)"
    and "k_waitpid K (pid (dbg e)) (world e) = (r, status, w)" and "0 \<le> r"
    and "\<not> WIFEXITED status" and "WIFSTOPPED status" and "WSTOPSIG status = 5"
    and "pre_addr (dbg e) \<noteq> 0 \<Longrightarrow> mapped w (pre_addr (dbg e))"
    and "k_getregs K (pid (dbg e)) w = (0, rs)"
    and "map_find (rip rs - 1) (addr_list (dbg e)) = Some code"
    and "in_text (sect_header (dbg e)) (rip rs - 1)" and "mapped w (rip rs - 1)"
    and "\<And>w. k_cs_open K w"
  shows "\<exists>e'. sdb_check_process (Suc n) K e = Done () e'
    \<and> dbg e' = (dbg e)\<lparr>pre_addr := rip rs - 1,
          pre_val := with_low_byte (load64 (mem (world e')) (rip rs - 1)) (ucast code)\<rparr>
    \<and> mem (world e') = (if pre_addr (dbg e) = 0 then mem w else (mem w)(pre_addr (dbg e) := 0xcc))
    \<and> mapped (world e') = mapped w
    \<and> k_getregs K (pid (dbg e)) (world e') = (0, rs\<lparr>rip := rip rs - 1\<rparr>)"
proof -
  note T = assms(1)
  let ?a = "rip rs - 1" and ?e1 = "e\<lparr>world := w\<rparr>"
  obtain w2 s2 where r: "restore_bp K ?e1 =
      Done () (?e1\<lparr>err := err ?e1 @ s2, world := w2, dbg := (dbg ?e1)\<lparr>pre_addr := 0\<rparr>\<rparr>)"
    and m2: "mem w2 = (if pre_addr (dbg e) = 0 then mem w else (mem w)(pre_addr (dbg e) := 0xcc))"
    and p2: "mapped w2 = mapped w" and g2: "k_getregs K (pid (dbg e)) w2 = (0, rs)"
    using tracee.restore_bp_effect [OF T, of ?e1] assms(9,10) by auto
  let ?e2 = "?e1\<lparr>err := err ?e1 @ s2, world := w2, dbg := (dbg ?e1)\<lparr>pre_addr := 0\<rparr>\<rparr>"
  let ?e3 = "?e2\<lparr>err := err ?e2 @ ''** breakpoint at @''\<rparr>"
  have "text_in_file (dbg ?e3)" using assms(3) by (simp add: text_in_file_def)
  then obtain s4 where d: "sdb_disasm K ?a 1 ?e3 = Done () (?e3\<lparr>err := err ?e3 @ s4\<rparr>)"
    using disasm_prints [of ?e3 ?a K 1 thesis] assms(2,12,14) by auto
  let ?e4 = "?e3\<lparr>err := err ?e3 @ s4\<rparr>"
  obtain w5 where h: "hit_break K rs ?a code ?e4 = Done () (?e4\<lparr>world := w5, dbg := (dbg ?e4)\<lparr>pre_addr := ?a,
        pre_val := with_low_byte (k_peek K (pid (dbg e)) ?a w2) (ucast code)\<rparr>\<rparr>)"
    and m5: "mem w5 = mem w2" "mapped w5 = mapped w2" and g5: "k_getregs K (pid (dbg e)) w5 = (0, rs\<lparr>rip := ?a\<rparr>)"
    using tracee.hit_break_effect [OF T, of ?e4 rs ?a code] g2 by auto
  have peek: "k_peek K (pid (dbg e)) ?a w2 = load64 (mem w2) ?a"
    using tracee.peek_word [OF T, of w2 ?a] assms(13) p2 by simp
  have "trap_stop si K ?e2 = Done () (?e4\<lparr>world := w5, dbg := (dbg ?e4)\<lparr>pre_addr := ?a,
        pre_val := with_low_byte (load64 (mem w2) ?a) (ucast code)\<rparr>\<rparr>)" for si
    using g2 assms(11) d h peek by (simp add: trap_stop_def seq_def)
  then have "sdb_check_process (Suc n) K e = Done () (?e4\<lparr>world := w5, dbg := (dbg ?e4)\<lparr>pre_addr := ?a,
        pre_val := with_low_byte (load64 (mem w2) ?a) (ucast code)\<rparr>\<rparr>)"
    using assms(4-8) r by (simp add: check_process_body_def)
  then show ?thesis using m2 p2 m5 g5 by simp
qed

text \<open>
  C3. When the program stops behind a listed break point, check_process puts the instruction
  pointer back on it, remembers its address and the word with the original first byte, and
  replants the break point that was lifted before; memory is otherwise what it was at the stop.
\<close>

theorem break_hit:
  assumes "tracee K (pid (dbg e)) mem mapped"
    and "state (dbg e) = RUNNING" and "text_in_file (dbg e)"
    and "k_waitpid K (pid (dbg e)) (world e) = (r, status, w)" and "0 \<le> r"
    and "\<not> WIFEXITED status" and "WIFSTOPPED status" and "WSTOPSIG status = 5"
    and "pre_addr (dbg e) \<noteq> 0 \<Longrightarrow> mapped w (pre_addr (dbg e))"
    and "k_getregs K (pid (dbg e)) w = (0, rs)"
    and "map_find (rip rs - 1) (addr_list (dbg e)) = Some code"
    and "in_text (sect_header (dbg e)) (rip rs - 1)" and "mapped w (rip rs - 1)"
    and "\<And>w. k_cs_open K w"
  shows "\<exists>e'. sdb_check_process (Suc n) K e = Done () e'
    \<and> dbg e' = (dbg e)\<lparr>pre_addr := rip rs - 1,
          pre_val := with_low_byte (load64 (mem (world e')) (rip rs - 1)) (ucast code)\<rparr>
    \<and> mem (world e') = (if pre_addr (dbg e) = 0 then mem w else (mem w)(pre_addr (dbg e) := 0xcc))
    \<and> mapped (world e') = mapped w
    \<and> k_getregs K (pid (dbg e)) (world e') = (0, rs\<lparr>rip := rip rs - 1\<rparr>)"
  by (rule stop_at_break [OF assms])

theorem break_hit_witness:
  "\<exists>e'. sdb_check_process 1 machine_kernel demo_hit_env = Done () e'
    \<and> pre_addr (dbg e') = 0x400004
    \<and> m_mem (world e') = demo_mem(0x400004 := 0xcc)
    \<and> k_getregs machine_kernel 77 (world e') = (0, demo_regs\<lparr>rip := 0x400004\<rparr>)"
proof -
  have t: "tracee machine_kernel (pid (dbg demo_hit_env)) m_mem m_mapped" by (rule mach.tracee_axioms)
  have f: "text_in_file (dbg demo_hit_env)" by (simp add: text_in_file_def)
  have "map_find (rip (demo_regs\<lparr>rip := 0x400005\<rparr>) - 1) (addr_list (dbg demo_hit_env)) = Some 0x9090900f90909090"
    by simp
  from break_hit [OF t _ f _ _ _ _ _ _ _ this, of 77 "0x057f" demo_hit_machine 0]
  obtain e' where "sdb_check_process (Suc 0) machine_kernel demo_hit_env = Done () e'"
    and "pre_addr (dbg e') = 0x400004" and "m_mem (world e') = demo_mem(0x400004 := 0xcc)"
    and "k_getregs machine_kernel 77 (world e') = (0, demo_regs\<lparr>rip := 0x400004\<rparr>)"
    by auto
  then show ?thesis by (intro exI [of _ e']) simp
qed

section \<open>Stepping over\<close>

theorem resume_runs_original:
  assumes "tracee K (pid (dbg e)) mem mapped"
    and "state (dbg e) = RUNNING" and "pre_addr (dbg e) \<noteq> 0"
    and "mapped (world e) (pre_addr (dbg e))"
    and "pre_val (dbg e) = with_low_byte (load64 (mem (world e)) (pre_addr (dbg e))) b"
  shows "\<exists>w. mem w = (mem (world e))(pre_addr (dbg e) := b)
    \<and> k_getregs K (pid (dbg e)) w = k_getregs K (pid (dbg e)) (world e)
    \<and> (\<forall>w'. k_cont K (pid (dbg e)) w = (0, w') \<longrightarrow>
          sdb_cont n K e = sdb_check_process n K (e\<lparr>world := w'\<rparr>))
    \<and> (\<forall>w'. k_singlestep K (pid (dbg e)) w = (0, w') \<longrightarrow>
          sdb_si n K e = sdb_check_process n K (e\<lparr>world := w'\<rparr>))"
proof -
  have v: "pre_val (dbg e) = with_low_byte (k_peek K (pid (dbg e)) (pre_addr (dbg e)) (world e)) b"
    using assms(5) tracee.peek_word [OF assms(1,4)] by simp
  obtain w where l: "lift_break K 183 e = Done () (e\<lparr>world := w\<rparr>)"
    and w: "mem w = (mem (world e))(pre_addr (dbg e) := b)"
      "k_getregs K (pid (dbg e)) w = k_getregs K (pid (dbg e)) (world e)"
    using tracee.lift_break_effect [OF assms(1) refl assms(4,3) v, of 183] by blast
  have l': "lift_break K 198 e = Done () (e\<lparr>world := w\<rparr>)"
    using l by (auto simp: lift_break_def ERROR_def Let_def split: prod.splits if_splits)
  show ?thesis
    using w l l' assms(2) by (intro exI [of _ w]) (auto simp: sdb_cont_def sdb_si_def si_with_def)
qed

theorem resume_runs_original_witness:
  "\<exists>w. m_mem w = (demo_mem(0x400004 := 0xcc))(0x400004 := 0x90)
    \<and> (\<forall>w'. m_resume (m_run 100) 77 w = (0, w') \<longrightarrow>
          sdb_cont 2 machine_kernel (demo_hit_env\<lparr>dbg := demo_hit_sdb\<lparr>pre_addr := 0x400004, pre_val := with_low_byte (load64 (demo_mem(0x400004 := 0xcc)) 0x400004) 0x90\<rparr>\<rparr>) =
          sdb_check_process 2 machine_kernel (demo_hit_env\<lparr>dbg := demo_hit_sdb\<lparr>pre_addr := 0x400004, pre_val := with_low_byte (load64 (demo_mem(0x400004 := 0xcc)) 0x400004) 0x90\<rparr>, world := w'\<rparr>))"
proof -
  let ?e = "demo_hit_env\<lparr>dbg := demo_hit_sdb\<lparr>pre_addr := 0x400004, pre_val := with_low_byte (load64 (demo_mem(0x400004 := 0xcc)) 0x400004) 0x90\<rparr>\<rparr>"
  have t: "tracee machine_kernel (pid (dbg ?e)) m_mem m_mapped" by (rule mach.tracee_axioms)
  from resume_runs_original [OF t, of "0x90" 2] show ?thesis by (simp del: fun_upd_upd) blast
qed

text \<open>
  C1. A break point does not disturb the program: when the program stops at a planted break
  point, check_process leaves the memory with the break point in it, resuming first puts exactly
  the original memory back (lift_break, which si and cont run first), and the next stop plants
  the break point again (restore_bp) and forgets it.
\<close>

theorem break_transparent:
  assumes "tracee K (pid (dbg e)) mem mapped"
    and "state (dbg e) = RUNNING" and "text_in_file (dbg e)" and "pre_addr (dbg e) = 0"
    and "k_waitpid K (pid (dbg e)) (world e) = (r, status, w)" and "0 \<le> r"
    and "\<not> WIFEXITED status" and "WIFSTOPPED status" and "WSTOPSIG status = 5"
    and "k_getregs K (pid (dbg e)) w = (0, rs)"
    and "a = rip rs - 1" and "a \<noteq> 0"
    and "map_find a (addr_list (dbg e)) = Some (load64 m a)"
    and "in_text (sect_header (dbg e)) a" and "mapped w a"
    and "mem w = m(a := 0xcc)"
    and "\<And>w. k_cs_open K w"
  shows "\<exists>e1 e2 e3. sdb_check_process (Suc n) K e = Done () e1 \<and> mem (world e1) = m(a := 0xcc)
    \<and> lift_break K line e1 = Done () e2 \<and> mem (world e2) = m
    \<and> restore_bp K e2 = Done () e3 \<and> mem (world e3) = m(a := 0xcc) \<and> pre_addr (dbg e3) = 0"
proof -
  note T = assms(1)
  let ?p = "pid (dbg e)"
  obtain e1 where c: "sdb_check_process (Suc n) K e = Done () e1"
    and d1: "dbg e1 = (dbg e)\<lparr>pre_addr := a, pre_val := with_low_byte (load64 (mem (world e1)) a) (ucast (load64 m a))\<rparr>"
    and m1: "mem (world e1) = m(a := 0xcc)" and p1: "mapped (world e1) a"
    using stop_at_break [OF T assms(2,3,5-9) _ assms(10) _ _ _ assms(17), of "load64 m a" n] assms(4,11,13-16)
    by auto
  have v: "pre_val (dbg e1) = with_low_byte (k_peek K ?p a (world e1)) (byte_of (load64 m a) 0)"
    using d1 tracee.peek_word [OF T p1] by (simp add: byte_of_0)
  obtain w2 where l: "lift_break K line e1 = Done () (e1\<lparr>world := w2\<rparr>)"
    and m2: "mem w2 = (mem (world e1))(a := byte_of (load64 m a) 0)" and p2: "mapped w2 = mapped (world e1)"
    using tracee.lift_break_effect [OF T, of e1 _ line] v d1 p1 assms(12) by auto
  have m2': "mem w2 = m" using m1 m2 by (simp add: byte_of_load64)
  obtain e3 where "restore_bp K (e1\<lparr>world := w2\<rparr>) = Done () e3" "mem (world e3) = m(a := 0xcc)"
    "pre_addr (dbg e3) = 0"
    using tracee.restore_bp_effect [OF T, of "e1\<lparr>world := w2\<rparr>"] d1 p1 p2 m2' assms(12) by auto
  with c m1 l m2' show ?thesis by auto
qed

theorem break_transparent_witness:
  "\<exists>e1 e2 e3. sdb_check_process 1 machine_kernel demo_hit_env = Done () e1
    \<and> m_mem (world e1) = demo_mem(0x400004 := 0xcc)
    \<and> lift_break machine_kernel 198 e1 = Done () e2 \<and> m_mem (world e2) = demo_mem
    \<and> restore_bp machine_kernel e2 = Done () e3 \<and> m_mem (world e3) = demo_mem(0x400004 := 0xcc)
    \<and> pre_addr (dbg e3) = 0"
proof -
  have t: "tracee machine_kernel (pid (dbg demo_hit_env)) m_mem m_mapped" by (rule mach.tracee_axioms)
  have f: "text_in_file (dbg demo_hit_env)" by (simp add: text_in_file_def)
  have code: "load64 demo_mem 0x400004 = 0x9090900f90909090"
    by (simp add: load64_def demo_mem_def upt_rec)
  show ?thesis
    using break_transparent [OF t _ f, of 77 "0x057f" demo_hit_machine "demo_regs\<lparr>rip := 0x400005\<rparr>" "0x400004" demo_mem 0 198]
    by (simp add: code)
qed

end
