(* ===== verification/SdbLoad.thy ===== *)
theory SdbLoad
  imports SdbCycle
begin

text \<open>
  Loading a program: the section header table, the search for \<^verbatim>\<open>.text\<close> and the state
  \<^verbatim>\<open>load\<close> leaves.
\<close>

section \<open>The search for the text section\<close>

text \<open>The header of section \<open>k\<close> in a table that starts at \<open>pos\<close>.\<close>

definition header_at :: "bytes \<Rightarrow> nat \<Rightarrow> nat \<Rightarrow> bytes" where
  "header_at file pos k = take 64 (drop (pos + 64 * k) file)"

definition header_name :: "bytes \<Rightarrow> bytes \<Rightarrow> nat \<Rightarrow> nat \<Rightarrow> string option" where
  "header_name file names pos k = cstr_at names (unat (sh_name (header_at file pos k)))"

lemma fread_full:
  assumes "length obj = n" and "pos + n \<le> length file"
  shows "fread_obj obj n file pos = (take n (drop pos file), pos + n)"
  using assms by (simp add: fread_obj_def Let_def)

lemma length_header: "pos + 64 * Suc k \<le> length file \<Longrightarrow> length (header_at file pos k) = 64"
  by (simp add: header_at_def)

lemma header_shift: "header_at file (pos + 64) k = header_at file pos (Suc k)"
  by (simp add: header_at_def algebra_simps)

lemma name_shift: "header_name file names (pos + 64) k = header_name file names pos (Suc k)"
  by (simp add: header_name_def header_shift)

lemma find_text_step:
  assumes "length sect = 64" and "pos + 64 \<le> length file" and "header_name file names pos 0 = Some s"
  shows "find_text file names (Suc n) pos sect =
    (if s = ''.text'' then Some (header_at file pos 0)
     else find_text file names n (pos + 64) (header_at file pos 0))"
  using assms by (simp add: fread_full header_name_def header_at_def)

lemma find_text_first:
  assumes "length sect = 64" and "pos + 64 * n \<le> length file"
    and "\<forall>k < n. header_name file names pos k \<noteq> None"
    and "i < n" and "header_name file names pos i = Some ''.text''"
    and "\<forall>k < i. header_name file names pos k \<noteq> Some ''.text''"
  shows "find_text file names n pos sect = Some (header_at file pos i)"
  using assms
proof (induction n arbitrary: pos sect i)
  case 0
  then show ?case by simp
next
  case (Suc n)
  obtain s where s: "header_name file names pos 0 = Some s" using Suc.prems(3) by blast
  note step = find_text_step [OF Suc.prems(1) _ s, of n]
  show ?case
  proof (cases i)
    case 0
    then show ?thesis using step Suc.prems(2,5) s by simp
  next
    case (Suc j)
    have "s \<noteq> ''.text''" using Suc.prems(6) Suc s by force
    moreover have "find_text file names n (pos + 64) (header_at file pos 0) = Some (header_at file (pos + 64) j)"
    proof (rule Suc.IH)
      show "length (header_at file pos 0) = 64" using Suc.prems(2) by (intro length_header) simp
    qed (use Suc.prems(2-6) Suc in \<open>auto simp: name_shift\<close>)
    ultimately show ?thesis using step Suc.prems(2) Suc by (simp add: header_shift)
  qed
qed

text \<open>Without a section of that name the last header of the table stays.\<close>

theorem find_text_absent:
  assumes "length sect = 64" and "pos + 64 * Suc n \<le> length file"
    and "\<forall>k \<le> n. \<exists>s. header_name file names pos k = Some s \<and> s \<noteq> ''.text''"
  shows "find_text file names (Suc n) pos sect = Some (header_at file pos n)"
  using assms
proof (induction n arbitrary: pos sect)
  case 0
  then obtain s where "header_name file names pos 0 = Some s" "s \<noteq> ''.text''" by auto
  with find_text_step [OF "0.prems"(1) _ this(1), of 0] "0.prems"(2) show ?case by simp
next
  case (Suc n)
  obtain s where s: "header_name file names pos 0 = Some s" "s \<noteq> ''.text''" using Suc.prems(3) by blast
  have "find_text file names (Suc n) (pos + 64) (header_at file pos 0) = Some (header_at file (pos + 64) n)"
  proof (rule Suc.IH)
    show "length (header_at file pos 0) = 64" using Suc.prems(2) by (intro length_header) simp
  qed (use Suc.prems(2,3) in \<open>auto simp: name_shift\<close>)
  with find_text_step [OF Suc.prems(1) _ s(1), of "Suc n"] s(2) Suc.prems(2) show ?case
    by (simp add: header_shift)
qed

section \<open>The state after loading\<close>

text \<open>
  A well-formed image: the magic number, a table of \<open>n\<close> headers inside the file, a block of
  names inside the file in which every header has its name.
\<close>

definition elf_image :: "bytes \<Rightarrow> bool" where
  "elf_image file \<longleftrightarrow>
     (let eh = take 64 file;
          tab = unat (e_shoff eh);
          n = unat (e_shnum eh);
          strs = header_at file tab (unat (e_shstrndx eh));
          names = take (unat (sh_size strs)) (drop (unat (sh_offset strs)) file)
      in 64 \<le> length file \<and> take 4 eh = elf_magic \<and> length file < 2 ^ 63
       \<and> unat (e_shstrndx eh) < n \<and> tab + 64 * n \<le> length file
       \<and> unat (sh_offset strs) + unat (sh_size strs) \<le> length file
       \<and> (\<forall>k < n. header_name file names tab k \<noteq> None))"

definition image_table :: "bytes \<Rightarrow> nat" where
  "image_table file = unat (e_shoff (take 64 file))"

definition image_names :: "bytes \<Rightarrow> bytes" where
  "image_names file =
     (let strs = header_at file (image_table file) (unat (e_shstrndx (take 64 file)))
      in take (unat (sh_size strs)) (drop (unat (sh_offset strs)) file))"

definition image_count :: "bytes \<Rightarrow> nat" where
  "image_count file = unat (e_shnum (take 64 file))"

lemma fseek_small:
  assumes "unat off < 2 ^ 63"
  shows "fseek_set off pos = unat off"
  using sint_small [OF assms] by (simp add: fseek_set_def)

text \<open>Reading the table of a well-formed image finds its text section.\<close>

lemma read_sections_image:
  assumes "elf_image file" and "length sect = 64" and "k_malloc K n w = (Some fill, w')"
    and "n = sh_size (header_at file (image_table file) (unat (e_shstrndx (take 64 file))))"
    and "i < image_count file"
    and "header_name file (image_names file) (image_table file) i = Some ''.text''"
    and "\<forall>k < i. header_name file (image_names file) (image_table file) k \<noteq> Some ''.text''"
  shows "read_sections K (take 64 file) sect file pos w = (Some (header_at file (image_table file) i), w')"
proof -
  let ?eh = "take 64 file" and ?tab = "image_table file"
  let ?strs = "header_at file ?tab (unat (e_shstrndx ?eh))"
  from assms(1) have wf: "length file < 2 ^ 63" "unat (e_shstrndx ?eh) < image_count file"
    "?tab + 64 * image_count file \<le> length file"
    "unat (sh_offset ?strs) + unat (sh_size ?strs) \<le> length file"
    "\<forall>k < image_count file. header_name file (image_names file) ?tab k \<noteq> None"
    unfolding elf_image_def image_table_def image_names_def image_count_def Let_def by blast+
  let ?off = "e_shoff ?eh + e_shstrndx ?eh * 64"
  have "64 * unat (e_shstrndx ?eh) + 64 \<le> 64 * image_count file" using wf(2) by simp
  then have strs_in: "?tab + 64 * unat (e_shstrndx ?eh) + 64 \<le> length file" using wf(3) by linarith
  have "unat (e_shstrndx ?eh * 64) = 64 * unat (e_shstrndx ?eh)"
    using strs_in wf(1) by (simp add: unat_word_ariths)
  then have off: "unat ?off = ?tab + 64 * unat (e_shstrndx ?eh)"
    using strs_in wf(1) by (simp add: unat_word_ariths image_table_def)
  have p1: "fseek_set ?off pos = ?tab + 64 * unat (e_shstrndx ?eh)"
    using off strs_in wf(1) by (simp add: fseek_small)
  have r1: "fread_obj sect 64 file (?tab + 64 * unat (e_shstrndx ?eh)) =
      (?strs, ?tab + 64 * unat (e_shstrndx ?eh) + 64)"
    using fread_full [OF assms(2) strs_in] by (simp add: header_at_def)
  have p3: "fseek_set (sh_offset ?strs) q = unat (sh_offset ?strs)" for q
    using wf(1,4) by (intro fseek_small) linarith
  have r3: "fread_obj (map fill [0..<unat (sh_size ?strs)]) (unat (sh_size ?strs)) file (unat (sh_offset ?strs)) =
      (image_names file, unat (sh_offset ?strs) + unat (sh_size ?strs))"
    using wf(4) by (simp add: fread_full image_names_def Let_def)
  have p5: "fseek_set (e_shoff ?eh) q = ?tab" for q
    using strs_in wf(1) unfolding image_table_def by (intro fseek_small) linarith
  have "find_text file (image_names file) (image_count file) ?tab ?strs = Some (header_at file ?tab i)"
  proof (rule find_text_first [OF _ wf(3,5) assms(5-7)])
    show "length ?strs = 64" using strs_in by (intro length_header) simp
  qed
  then show ?thesis
    using p1 r1 p3 r3 p5 assms(3,4) by (simp add: read_sections_def image_count_def)
qed

lemma length_fmt_x: "length (fmt_x (unat (v :: u64))) \<le> 16"
proof -
  have "unat v < 2 ^ 64" using unsigned_less [of v] by simp
  then have "unat v < 16 ^ 16" by simp
  then show ?thesis unfolding fmt_x_def by (intro length_digits) simp_all
qed

text \<open>
  \<^verbatim>\<open>load\<close> on a well-formed image: the object holds the file's header, the header of its first
  \<^verbatim>\<open>.text\<close> section and all its bytes.
\<close>

lemma load_image:
  assumes "state (dbg e) = NOT_LOADED" and "length f < text_width"
    and "length (elf_header (dbg e)) = 64" and "length (sect_header (dbg e)) = 64"
    and "k_fopen K f (world e) = Some file" and "elf_image file"
    and "i < image_count file"
    and "header_name file (image_names file) (image_table file) i = Some ''.text''"
    and "\<forall>k < i. header_name file (image_names file) (image_table file) k \<noteq> Some ''.text''"
    and "k_malloc K (sh_size (header_at file (image_table file) (unat (e_shstrndx (take 64 file))))) (world e) =
      (Some fill1, w1)"
    and "k_stat_size K f w1 = of_nat (length file)"
    and "k_malloc K (of_nat (length file)) w1 = (Some fill2, w2)"
    and "k_fopen K f w2 = Some file"
  shows "\<exists>s. sdb_load K f e = Done () (e\<lparr>err := s, world := w2, dbg := (dbg e)\<lparr>
      program_name := f, elf_header := take 64 file,
      sect_header := header_at file (image_table file) i, state := LOADED,
      code_size := of_nat (length file), code_text := Some file\<rparr>\<rparr>)"
proof -
  have len: "64 \<le> length file" and magic: "take 4 (take 64 file) = elf_magic" and small: "length file < 2 ^ 63"
    using assms(6) by (simp_all only: elf_image_def Let_def)
  have eh: "fread_obj (elf_header (dbg e)) 64 file 0 = (take 64 file, 64)"
    using fread_full [OF assms(3), of 0 "file"] len by simp
  note sect = read_sections_image [OF assms(6,4,10) refl assms(7-9), of 64]
  have n: "unat (of_nat (length file) :: u64) = length file" using small by (simp add: unat_of_nat)
  have code: "fread_obj (map fill2 [0..<length file]) (length file) file 0 = (file, length file)"
    by (simp add: fread_obj_def)
  have "length (''program '' @ [CHR 0x27] @ f @ [CHR 0x27] @ '' loaded. entry point 0x'' @
      fmt_x (unat (e_entry (take 64 file)))) < 128"
    using assms(2) length_fmt_x [of "e_entry (take 64 file)"] by (simp add: text_width_def)
  then show ?thesis
    using assms(1,2,5,11-13) eh magic sect n code
    by (auto simp: sdb_load_def sdb_get_code_def Let_def)
qed

text \<open>
  C10. load on a well-formed ELF image ends in the state LOADED with the header of the file, the
  section header of the first section named .text, the size of the file and all its bytes.
\<close>

theorem load_finds_text:
  assumes "state (dbg e) = NOT_LOADED" and "length f < text_width"
    and "length (elf_header (dbg e)) = 64" and "length (sect_header (dbg e)) = 64"
    and "k_fopen K f (world e) = Some file" and "elf_image file"
    and "i < image_count file"
    and "header_name file (image_names file) (image_table file) i = Some ''.text''"
    and "\<forall>k < i. header_name file (image_names file) (image_table file) k \<noteq> Some ''.text''"
    and "k_malloc K (sh_size (header_at file (image_table file) (unat (e_shstrndx (take 64 file))))) (world e) =
      (Some fill1, w1)"
    and "k_stat_size K f w1 = of_nat (length file)"
    and "k_malloc K (of_nat (length file)) w1 = (Some fill2, w2)"
    and "k_fopen K f w2 = Some file"
  shows "\<exists>s. sdb_load K f e = Done () (e\<lparr>err := s, world := w2, dbg := (dbg e)\<lparr>
      program_name := f, elf_header := take 64 file,
      sect_header := header_at file (image_table file) i, state := LOADED,
      code_size := of_nat (length file), code_text := Some file\<rparr>\<rparr>)"
  using assms by (rule load_image)

text \<open>A small image: the header, two section headers and the block of names.\<close>

definition demo_eh :: bytes where
  "demo_eh = elf_magic @ replicate 20 0 @ [0, 0, 0x40, 0, 0, 0, 0, 0] @ replicate 8 0 @
     [64, 0, 0, 0, 0, 0, 0, 0] @ replicate 12 0 @ [2, 0, 0, 0]"

definition demo_strs :: bytes where
  "demo_strs = [6, 0, 0, 0] @ replicate 20 0 @ [192, 0, 0, 0, 0, 0, 0, 0] @ [8, 0, 0, 0, 0, 0, 0, 0] @
     replicate 24 0"

definition demo_names :: bytes where
  "demo_names = [0x2e, 0x74, 0x65, 0x78, 0x74, 0, 0x61, 0]"

definition demo_text :: bytes where
  "demo_text = replicate 16 0 @ [0, 0, 0x40, 0, 0, 0, 0, 0] @ [4, 0, 0, 0, 0, 0, 0, 0] @
     [16, 0, 0, 0, 0, 0, 0, 0] @ replicate 24 0"

definition demo_image :: bytes where
  "demo_image = demo_eh @ demo_strs @ demo_text @ demo_names"


lemma demo_image_parts [simp]:
  "length demo_image = 200" "take 64 demo_image = demo_eh"
  "header_at demo_image 64 0 = demo_strs" "header_at demo_image 64 (Suc 0) = demo_text"
  "take 8 (drop 192 demo_image) = demo_names"
  by (simp_all add: demo_image_def demo_eh_def demo_strs_def demo_text_def demo_names_def header_at_def elf_magic_def)

lemma word_of_zero_bytes [simp]: "word_of_bytes (replicate n 0) = 0"
  by (induction n) simp_all

lemma demo_image_fields [simp]:
  "e_shoff demo_eh = 64" "e_shnum demo_eh = 2" "e_shstrndx demo_eh = 0"
  "sh_name demo_strs = 6" "sh_offset demo_strs = 192" "sh_size demo_strs = 8" "sh_name demo_text = 0"
  by (simp_all add: demo_eh_def demo_strs_def demo_text_def e_shoff_def e_shnum_def e_shstrndx_def sh_name_def
      sh_offset_def sh_size_def field_def elf_magic_def drop_Cons')

lemma demo_image_names [simp]:
  "cstr_at demo_names 0 = Some ''.text''" "cstr_at demo_names 6 = Some ''a''"
  by code_simp+

lemma demo_image_wf [simp]:
  "elf_image demo_image" "image_table demo_image = 64" "image_count demo_image = 2"
  "image_names demo_image = demo_names"
proof -
  show [simp]: "image_table demo_image = 64" "image_count demo_image = 2" "image_names demo_image = demo_names"
    by (simp_all add: image_table_def image_count_def image_names_def)
  have "take 4 demo_eh = elf_magic" by (simp add: demo_eh_def elf_magic_def)
  then show "elf_image demo_image"
    by (simp add: elf_image_def header_name_def less_2_cases_iff all_conj_distrib)
qed

definition demo_load_env :: "machine env" where
  "demo_load_env = \<lparr> dbg = new_sdb (replicate 64 0) (replicate 64 0) [], err = [],
     world = demo_machine\<lparr>m_files := [(''prog'', demo_image)]\<rparr> \<rparr>"

theorem load_finds_text_witness:
  "\<exists>e'. sdb_load machine_kernel ''prog'' demo_load_env = Done () e'
    \<and> state (dbg e') = LOADED \<and> sect_header (dbg e') = demo_text \<and> code_text (dbg e') = Some demo_image"
  using load_finds_text [of demo_load_env "''prog''" machine_kernel demo_image 1 "\<lambda>_. 0" "world demo_load_env"
      "\<lambda>_. 0" "world demo_load_env"]
  by (auto simp: demo_load_env_def new_sdb_def text_width_def machine_kernel_def header_name_def)

theorem find_text_absent_witness:
  "find_text demo_image demo_names 1 64 (replicate 64 0) = Some demo_strs"
  using find_text_absent [of "replicate 64 0" 64 0 demo_image demo_names] by (simp add: header_name_def)

end
