(* ===== verification/SdbStates.thy ===== *)
theory SdbStates
  imports SdbScript SdbLoad
begin

text \<open>
  The life of the debugger as a state machine: no program, a program that is loaded, a program that
  runs as a process.  Every round of \<^verbatim>\<open>main\<close> is a sequence of its steps, and between the rounds the
  class is in order: it has a process exactly when it is in the state RUNNING.
\<close>

section \<open>The state machine\<close>

text \<open>
  A loaded program is its path, the two headers, the size and the bytes of the file.  \<open>Loading\<close>,
  \<open>Starting\<close> and \<open>Ending\<close> are the only steps: nothing unloads or exchanges a program.
\<close>

type_synonym loaded = "string \<times> bytes \<times> bytes \<times> u64 \<times> bytes option"

datatype phase = Without_program | With_program loaded | In_process loaded int

inductive life :: "phase \<Rightarrow> phase \<Rightarrow> bool" where
  Loading: "life Without_program (With_program p)"
| Starting: "0 < i \<Longrightarrow> life (With_program p) (In_process p i)"
| Ending: "life (In_process p i) (With_program p)"

inductive_cases life_from_loaded [elim!]: "life (With_program p) x"
inductive_cases life_from_process [elim!]: "life (In_process p i) x"

fun holds_program :: "loaded \<Rightarrow> phase \<Rightarrow> bool" where
  "holds_program p Without_program = False"
| "holds_program p (With_program q) = (q = p)"
| "holds_program p (In_process q i) = (q = p)"

lemma life_holds: "life\<^sup>*\<^sup>* x y \<Longrightarrow> holds_program p x \<Longrightarrow> holds_program p y"
proof (induction rule: rtranclp_induct)
  case (step y z)
  then show ?case by (cases y) auto
qed

section \<open>The phase of the debugger\<close>

definition program_of :: "sdb \<Rightarrow> loaded" where
  "program_of d = (program_name d, elf_header d, sect_header d, code_size d, code_text d)"

definition phase_of :: "sdb \<Rightarrow> phase" where
  "phase_of d = (case state d of NOT_LOADED \<Rightarrow> Without_program | LOADED \<Rightarrow> With_program (program_of d)
     | RUNNING \<Rightarrow> In_process (program_of d) (pid d))"

definition tidy :: "sdb \<Rightarrow> bool" where
  "tidy d \<longleftrightarrow> (if state d = RUNNING then 0 < pid d else pid d = 0 \<and> pre_addr d = 0)"

definition onward :: "sdb \<Rightarrow> sdb \<Rightarrow> bool" where
  "onward d d' \<longleftrightarrow> life\<^sup>*\<^sup>* (phase_of d) (phase_of d') \<and> (tidy d \<longrightarrow> tidy d')"

lemma onward_refl [simp]: "onward d d"
  by (simp add: onward_def)

lemma onward_trans: "onward d d' \<Longrightarrow> onward d' d'' \<Longrightarrow> onward d d''"
  by (auto simp: onward_def intro: rtranclp_trans)

lemma onward_same:
  "state d' = state d \<Longrightarrow> pid d' = pid d \<Longrightarrow> program_of d' = program_of d \<Longrightarrow> pre_addr d' \<in> {0, pre_addr d} \<Longrightarrow> onward d d'"
  by (cases "state d") (auto simp: onward_def phase_of_def tidy_def)

lemma onward_load: "state d = NOT_LOADED \<Longrightarrow> state d' \<noteq> RUNNING \<Longrightarrow> pid d' = pid d \<Longrightarrow> pre_addr d' = pre_addr d \<Longrightarrow> onward d d'"
  by (cases "state d'") (auto simp: onward_def phase_of_def tidy_def intro: r_into_rtranclp Loading)

lemma onward_start: "state d = LOADED \<Longrightarrow> 0 < i \<Longrightarrow> onward d (d\<lparr>pid := i, state := RUNNING\<rparr>)"
  by (auto simp: onward_def phase_of_def tidy_def program_of_def intro: r_into_rtranclp Starting)

lemma onward_end: "state d = RUNNING \<Longrightarrow> onward d (d\<lparr>pid := 0, state := LOADED, pre_val := v, pre_addr := 0\<rparr>)"
  by (auto simp: onward_def phase_of_def tidy_def program_of_def intro: r_into_rtranclp Ending)

lemma onward_running: "state d = RUNNING \<Longrightarrow> onward d (d\<lparr>pre_addr := a, pre_val := v\<rparr>)"
  by (simp add: onward_def phase_of_def tidy_def program_of_def)

section \<open>Statements that leave the object alone\<close>

definition frames :: "'w action \<Rightarrow> bool" where
  "frames m \<longleftrightarrow> (\<forall>e u e'. m e = Done u e' \<longrightarrow> dbg e' = dbg e)"

definition moves :: "'w action \<Rightarrow> bool" where
  "moves m \<longleftrightarrow> (\<forall>e u e'. m e = Done u e' \<longrightarrow> onward (dbg e) (dbg e'))"

text \<open>The same where the program runs.\<close>

definition moves_running :: "'w action \<Rightarrow> bool" where
  "moves_running m \<longleftrightarrow> (\<forall>e u e'. state (dbg e) = RUNNING \<longrightarrow> m e = Done u e' \<longrightarrow> onward (dbg e) (dbg e'))"

named_theorems moves_intros

lemma framesD: "frames m \<Longrightarrow> m e = Done u e' \<Longrightarrow> dbg e' = dbg e"
  by (simp add: frames_def)

lemma movesD: "moves m \<Longrightarrow> m e = Done u e' \<Longrightarrow> onward (dbg e) (dbg e')"
  by (simp add: moves_def)

lemma seq_DoneE:
  assumes "seq m n s = Done u t"
  obtains x s' where "m s = Done x s'" "n s' = Done u t"
  using assms by (cases "m s") (simp_all add: seq_def andthen_def)

lemma frames_seq: "frames m \<Longrightarrow> frames n \<Longrightarrow> frames (seq m n)"
  unfolding frames_def by (metis seq_DoneE)

lemma moves_frames: "frames m \<Longrightarrow> moves m"
  by (simp add: frames_def moves_def)

lemma moves_if [moves_intros]: "moves m \<Longrightarrow> moves n \<Longrightarrow> moves (if b then m else n)"
  by simp

lemma frames_emit: "frames (emit s)" "frames (PRINT s)" "frames (DEBUG s)" "frames (ERROR s i)" "frames (debug_buf i s)"
  by (auto simp: frames_def emit_def PRINT_def DEBUG_def ERROR_def debug_buf_def)

lemma frames_done: "frames (Done ())"
  by (auto simp: frames_def)

lemma frames_help: "frames sdb_help"
  unfolding sdb_help_def by (intro frames_seq frames_emit)

lemma frames_disasm: "frames (sdb_disasm K a n)"
  unfolding frames_def using disasm_frame by fastforce

lemma frames_queries:
  "frames (sdb_quit K)" "frames sdb_list" "frames (sdb_getregs K)" "frames (sdb_get K name)" "frames (sdb_dump K a)"
  "frames (sdb_vmmap K)" "frames (lift_break K i)"
  by (auto simp: frames_def sdb_quit_def sdb_list_def sdb_getregs_def sdb_get_def sdb_dump_def sdb_vmmap_def lift_break_def
      ERROR_def emit_def DEBUG_def PRINT_def seq_def Let_def split: prod.splits option.splits if_splits)

lemmas moves_queries [moves_intros] = frames_emit [THEN moves_frames] frames_done [THEN moves_frames]
  frames_help [THEN moves_frames] frames_disasm [THEN moves_frames] frames_queries [THEN moves_frames]


section \<open>The methods\<close>

lemma moves_seq: "moves m \<Longrightarrow> moves n \<Longrightarrow> moves (seq m n)"
  unfolding moves_def by (blast elim: seq_DoneE intro: onward_trans)

lemma moves_guarded: "moves_running m \<Longrightarrow> moves (\<lambda>e. if state (dbg e) \<noteq> RUNNING then DEBUG s e else m e)"
  using framesD [OF frames_emit(3)] by (auto simp: moves_def moves_running_def split: if_splits)

lemma moves_set_break [moves_intros]: "moves (sdb_set_break K a)"
  by (auto simp: moves_def sdb_set_break_def DEBUG_def emit_def ERROR_def Let_def program_of_def
      split: prod.splits if_splits intro!: onward_same)

lemma debug_buf_DoneE: "debug_buf i s e = Done u e' \<Longrightarrow> dbg e' = dbg e"
  using framesD [OF frames_emit(5)] .

lemma moves_del [moves_intros]: "moves (sdb_del K i)"
  by (auto simp: moves_def sdb_del_def DEBUG_def emit_def ERROR_def Let_def program_of_def dest!: debug_buf_DoneE
      split: prod.splits if_splits intro!: onward_same)

lemma moves_set [moves_intros]: "moves (sdb_set K name v)"
  by (auto simp: moves_def sdb_set_def ERROR_def Let_def program_of_def
      split: prod.splits option.splits if_splits intro!: onward_same)

lemma get_code_frame:
  assumes "sdb_get_code K f e = Done u e'"
  shows "state (dbg e') = state (dbg e) \<and> pid (dbg e') = pid (dbg e) \<and> pre_addr (dbg e') = pre_addr (dbg e)"
  using assms by (auto simp: sdb_get_code_def Let_def split: prod.splits option.splits if_splits)

lemma moves_load [moves_intros]: "moves (sdb_load K f)"
  unfolding moves_def
proof (intro allI impI)
  fix e u e' assume l: "sdb_load K f e = Done u e'"
  show "onward (dbg e) (dbg e')"
  proof (cases "state (dbg e) = NOT_LOADED")
    case False
    then show ?thesis using l by (simp add: sdb_load_def DEBUG_def emit_def) auto
  next
    case True
    then show ?thesis using l
      by (auto simp: sdb_load_def Let_def debug_buf_def DEBUG_def emit_def seq_def dest!: get_code_frame
          split: prod.splits option.splits if_splits intro!: onward_load)
  qed
qed

lemma reset_frame: "frames (reset_break_points K m)"
proof -
  have "reset_break_points K m e = Done u e' \<Longrightarrow> dbg e' = dbg e" for e u e'
    by (induction K m e rule: reset_break_points.induct) (auto simp: Let_def ERROR_def split: prod.splits if_splits)
  then show ?thesis by (simp add: frames_def)
qed

lemma start_child_frame: "frames (start_child K)"
  by (auto simp: frames_def start_child_def ERROR_def Let_def split: prod.splits option.splits if_splits)

lemma start_cases:
  assumes "sdb_start K e = Done u e'"
  shows "dbg e' = dbg e \<or> state (dbg e) = LOADED \<and> (dbg e' = (dbg e)\<lparr>pid := 0\<rparr> \<or> (\<exists>i > 0. dbg e' = (dbg e)\<lparr>pid := i, state := RUNNING\<rparr>))"
proof (cases "state (dbg e) = LOADED")
  case False
  then show ?thesis using assms framesD [OF frames_emit(3)] by (auto simp: sdb_start_def)
next
  case True
  obtain p w where f: "k_fork K (world e) = (p, w)" by fastforce
  let ?e1 = "e\<lparr>world := w, dbg := (dbg e)\<lparr>pid := p\<rparr>\<rparr>"
  consider "p < 0" | "p = 0" | "0 < p" by linarith
  then show ?thesis
  proof cases
    case 1
    then show ?thesis using assms True f by (simp add: sdb_start_def ERROR_def)
  next
    case 2
    then have "start_child K ?e1 = Done u e'" using assms True f by (simp add: sdb_start_def)
    then show ?thesis using framesD [OF start_child_frame] True 2 by fastforce
  next
    case 3
    obtain r status w1 where w1: "k_waitpid K p w = (r, status, w1)" by (metis prod_cases3)
    obtain r' w2 where w2: "k_setoptions K p w1 = (r', w2)" by fastforce
    have "seq (debug_buf 32 (''pid '' @ fmt_d p)) (seq (\<lambda>e. Done () (e\<lparr>dbg := (dbg e)\<lparr>state := RUNNING\<rparr>\<rparr>))
        (\<lambda>e. reset_break_points K (addr_list (dbg e)) e)) (?e1\<lparr>world := w2\<rparr>) = Done u e'"
      using assms True f w1 w2 3 by (simp add: sdb_start_def ERROR_def Let_def split: if_splits)
    then obtain e2 where "dbg e2 = dbg ?e1"
      "reset_break_points K (addr_list (dbg e)) (e2\<lparr>dbg := (dbg e)\<lparr>pid := p, state := RUNNING\<rparr>\<rparr>) = Done u e'"
      by (elim seq_DoneE) (auto dest!: debug_buf_DoneE)
    then show ?thesis using framesD [OF reset_frame] 3 True by fastforce
  qed
qed

lemma moves_start [moves_intros]: "moves (sdb_start K)"
proof -
  have "onward d (d\<lparr>pid := 0\<rparr>)" if "state d = LOADED" for d
    using that by (simp add: onward_def phase_of_def program_of_def tidy_def)
  then show ?thesis unfolding moves_def using start_cases onward_start onward_refl by metis
qed

section \<open>Running\<close>

lemma moves_imp_running: "moves m \<Longrightarrow> moves_running m"
  by (simp add: moves_def moves_running_def)

lemma restore_frame:
  assumes "restore_bp K e = Done u e'"
  shows "dbg e' = dbg e \<or> dbg e' = (dbg e)\<lparr>pre_addr := 0\<rparr>"
  using assms by (auto simp: restore_bp_def Let_def ERROR_def split: prod.splits if_splits)

lemma hit_frame: "hit_break K rs a code e = Done u e' \<Longrightarrow> \<exists>v. dbg e' = (dbg e)\<lparr>pre_addr := a, pre_val := v\<rparr>"
  by (auto simp: hit_break_def Let_def ERROR_def split: prod.splits if_splits)

lemma trap_stop_running:
  assumes "moves_running si"
  shows "moves_running (trap_stop si K)"
  unfolding moves_running_def
proof (intro allI impI)
  fix e u e' assume r: "state (dbg e) = RUNNING" and t: "trap_stop si K e = Done u e'"
  consider "dbg e' = dbg e" | "si e = Done u e'"
    | s a rs code where "seq (emit s) (seq (sdb_disasm K a 1) (hit_break K rs a code)) e = Done u e'"
    using t by (auto simp: trap_stop_def ERROR_def split: prod.splits option.splits if_splits)
  then show "onward (dbg e) (dbg e')"
  proof cases
    case 2
    then show ?thesis using assms r by (simp add: moves_running_def)
  next
    case 3
    then obtain e1 where "dbg e1 = dbg e" "hit_break K rs a code e1 = Done u e'"
      by (auto elim!: seq_DoneE dest!: framesD [OF frames_disasm] framesD [OF frames_emit(1)])
    then show ?thesis using hit_frame onward_running r by metis
  qed simp
qed

lemma check_process_body_running:
  assumes "moves_running si"
  shows "moves_running (check_process_body si K)"
  unfolding moves_running_def
proof (intro allI impI)
  fix e u e' assume r: "state (dbg e) = RUNNING" and c: "check_process_body si K e = Done u e'"
  consider "dbg e' = dbg e" | v where "dbg e' = (dbg e)\<lparr>pid := 0, state := LOADED, pre_val := v, pre_addr := 0\<rparr>"
    | w where "seq (restore_bp K) (trap_stop si K) (e\<lparr>world := w\<rparr>) = Done u e'"
    using c by (auto simp: check_process_body_def Let_def ERROR_def debug_buf_def DEBUG_def emit_def seq_def
        split: prod.splits if_splits)
  then show "onward (dbg e) (dbg e')"
  proof cases
    case 3
    then obtain x e1 where "restore_bp K (e\<lparr>world := w\<rparr>) = Done x e1" and t: "trap_stop si K e1 = Done u e'"
      by (rule seq_DoneE)
    then have e1: "dbg e1 = dbg e \<or> dbg e1 = (dbg e)\<lparr>pre_addr := 0\<rparr>" using restore_frame by fastforce
    then have "onward (dbg e) (dbg e1)" by (auto intro!: onward_same simp: program_of_def)
    moreover have "state (dbg e1) = RUNNING" using e1 r by auto
    then have "onward (dbg e1) (dbg e')"
      using trap_stop_running [OF assms, of K] t unfolding moves_running_def by blast
    ultimately show ?thesis by (rule onward_trans)
  qed (simp_all add: onward_end r)
qed

lemma running_after_lift:
  assumes "moves_running chk"
  shows "moves_running (seq (lift_break K i) (\<lambda>e1. let (r, w) = f e1; e2 = e1\<lparr>world := w\<rparr> in if r < (0 :: int) then ERROR s j e2 else chk e2))"
  unfolding moves_running_def
proof (intro allI impI, elim seq_DoneE)
  fix e u e' x e1
  assume r: "state (dbg e) = RUNNING" and l: "lift_break K i e = Done x e1"
    and c: "(let (r, w) = f e1; e2 = e1\<lparr>world := w\<rparr> in if r < 0 then ERROR s j e2 else chk e2) = Done u e'"
  have "dbg e1 = dbg e" using framesD [OF frames_queries(7) l] .
  moreover from c obtain w where "chk (e1\<lparr>world := w\<rparr>) = Done u e'" by (auto simp: ERROR_def Let_def split: prod.splits if_splits)
  ultimately have "state (dbg (e1\<lparr>world := w\<rparr>)) = RUNNING" "chk (e1\<lparr>world := w\<rparr>) = Done u e'" "dbg (e1\<lparr>world := w\<rparr>) = dbg e"
    using r by simp_all
  then show "onward (dbg e) (dbg e')" using assms unfolding moves_running_def by metis
qed

lemma moves_si_with: "moves_running chk \<Longrightarrow> moves (si_with chk K)"
  unfolding si_with_def by (intro moves_guarded running_after_lift)

lemma check_process_running: "moves_running (sdb_check_process n K)"
  by (induction n) (simp add: moves_running_def, simp add: check_process_body_running moves_si_with moves_imp_running)

lemma moves_resume [moves_intros]: "moves (sdb_si n K)" "moves (sdb_cont n K)"
  unfolding sdb_si_def sdb_cont_def by (intro moves_si_with moves_guarded running_after_lift check_process_running)+

lemma moves_run [moves_intros]: "moves (sdb_run n K)"
proof -
  have "moves (seq (debug_buf 128 s) (sdb_cont n K))" "moves (seq (sdb_start K) (sdb_cont n K))" for s
    by (intro moves_seq moves_intros)+
  moreover have "moves (DEBUG s)" for s by (intro moves_intros)
  ultimately show ?thesis unfolding moves_def sdb_run_def by simp
qed

lemma moves_dispatch: "moves (dispatch n K cmd args)"
  unfolding dispatch_def by (intro moves_intros)


section \<open>The rounds of main\<close>

text \<open>\<open>next_round\<close> is one round of the loop, \<open>reached\<close> what the loop meets at its head.\<close>

inductive next_round :: "nat \<Rightarrow> 'w kernel \<Rightarrow> 'w shell \<Rightarrow> 'w shell \<Rightarrow> bool" for n K where
  round: "shell_round n K s = Done u t \<Longrightarrow> next_round n K s t"

inductive reached :: "nat \<Rightarrow> 'w kernel \<Rightarrow> string list \<Rightarrow> 'w shell \<Rightarrow> 'w shell \<Rightarrow> bool" for n K argv s where
  entry: "main_args K argv s = Done u t \<Longrightarrow> reached n K argv s t"
| again: "reached n K argv s t \<Longrightarrow> next_round n K t t' \<Longrightarrow> reached n K argv s t'"

inductive_simps next_round_iff: "next_round n K s t"

lemma on_env_onward: "moves m \<Longrightarrow> on_env m s = Done u t \<Longrightarrow> onward (dbg (sh_env s)) (dbg (sh_env t))"
  by (auto simp: on_env_def split: outcome.splits dest: movesD)

lemma run_line_onward: "run_line n K raw s = Done u t \<Longrightarrow> onward (dbg (sh_env s)) (dbg (sh_env t))"
  by (auto simp: run_line_def Let_def split: prod.splits option.splits dest: on_env_onward [OF moves_dispatch])

lemma round_onward: "next_round n K s t \<Longrightarrow> onward (dbg (sh_env s)) (dbg (sh_env t))"
  by (auto simp: next_round_iff shell_round_def Let_def split: prod.splits option.splits if_splits
      dest!: run_line_onward on_env_onward [OF frames_queries(1) [THEN moves_frames]])

lemma rounds_onward: "(next_round n K)\<^sup>*\<^sup>* s t \<Longrightarrow> onward (dbg (sh_env s)) (dbg (sh_env t))"
  by (induction rule: rtranclp_induct) (auto intro: onward_trans round_onward)

lemma open_script_frame: "open_script K f i s = Done u t \<Longrightarrow> sh_env t = sh_env s"
  by (auto simp: open_script_def on_env_def ERROR_def split: option.splits)

lemma args_onward: "main_args K argv s = Done u t \<Longrightarrow> onward (dbg (sh_env s)) (dbg (sh_env t))"
  by (auto simp: main_args_def split: if_splits elim!: seq_DoneE
      dest!: open_script_frame on_env_onward [OF moves_load] on_env_onward [OF frames_emit(4) [THEN moves_frames]])

lemma reached_onward: "reached n K argv s t \<Longrightarrow> onward (dbg (sh_env s)) (dbg (sh_env t))"
  by (induction rule: reached.induct) (auto intro: args_onward onward_trans round_onward)

lemma phase_holds: "holds_program p (phase_of d) \<longleftrightarrow> state d \<noteq> NOT_LOADED \<and> program_of d = p"
  by (cases "state d") (auto simp: phase_of_def)

text \<open>
  C7. Every round of main is a sequence of steps of a state machine that loads a program, starts
  a process of it and sees it end, and has no other step: once a program is loaded, no command
  unloads or exchanges it, its headers or its bytes.
\<close>

theorem rounds_follow_life:
  assumes "(next_round n K)\<^sup>*\<^sup>* s t"
  shows "life\<^sup>*\<^sup>* (phase_of (dbg (sh_env s))) (phase_of (dbg (sh_env t)))
    \<and> (state (dbg (sh_env s)) \<noteq> NOT_LOADED \<longrightarrow>
        state (dbg (sh_env t)) \<noteq> NOT_LOADED \<and> program_of (dbg (sh_env t)) = program_of (dbg (sh_env s)))"
proof -
  have l: "life\<^sup>*\<^sup>* (phase_of (dbg (sh_env s))) (phase_of (dbg (sh_env t)))"
    using rounds_onward [OF assms] by (simp add: onward_def)
  from life_holds [OF l, of "program_of (dbg (sh_env s))"] l show ?thesis by (simp add: phase_holds)
qed

lemma reached_wf:
  assumes "reached n K argv (new_shell eh sh name input w) t"
  shows "shell_wf t"
  using assms
proof (induction rule: reached.induct)
  case (entry u t)
  have "shell_wf (new_shell eh sh name input w)" by (simp add: new_shell_def shell_wf_def env_wf_def new_sdb_wf)
  then show ?case using keeps_DoneD [OF keeps_main_args _ entry] by blast
next
  case (again t t')
  then show ?case using keeps_DoneD [OF keeps_shell_round] by (auto simp: next_round_iff)
qed

text \<open>
  C5. At the head of the loop of main, with any script or input and any kernel: every listed
  break point and the one the program stands on lie in the text section of the loaded program,
  and without a program there is neither a list nor a text. States of the object between two
  rounds are meant; a round with undefined behaviour, as an overflow of the program name, leads
  to no such state.
\<close>

theorem breakpoints_in_text:
  assumes "reached n K argv (new_shell eh sh name input w) t"
  shows "(\<forall>a \<in> fst ` set (addr_list (dbg (sh_env t))). in_text (sect_header (dbg (sh_env t))) a)
    \<and> (pre_addr (dbg (sh_env t)) \<noteq> 0 \<longrightarrow> in_text (sect_header (dbg (sh_env t))) (pre_addr (dbg (sh_env t))))
    \<and> (state (dbg (sh_env t)) = NOT_LOADED \<longrightarrow> addr_list (dbg (sh_env t)) = [] \<and> code_text (dbg (sh_env t)) = None)"
  using reached_wf [OF assms] by (auto simp: shell_wf_def env_wf_def sdb_wf_def)

text \<open>
  C8. At the head of the loop of main the process number of the object is positive exactly in
  the state RUNNING; in the two other states it is 0 and no break point is remembered. This is
  about the fields of the object and not about the process: after a signal killed it, state and
  number stay.
\<close>

theorem pid_when_running:
  assumes "reached n K argv (new_shell eh sh name input w) t"
  shows "(state (dbg (sh_env t)) = RUNNING \<longleftrightarrow> 0 < pid (dbg (sh_env t)))
    \<and> (state (dbg (sh_env t)) \<noteq> RUNNING \<longrightarrow> pid (dbg (sh_env t)) = 0 \<and> pre_addr (dbg (sh_env t)) = 0)"
  using reached_onward [OF assms]
  by (simp add: onward_def tidy_def new_shell_def new_sdb_def split: if_splits)

lemma machine_start:
  assumes "state (dbg e) = LOADED" and "addr_list (dbg e) = []" and "m_pid (world e) = 77"
  shows "\<exists>s. sdb_start machine_kernel e = Done () (e\<lparr>world := (world e)\<lparr>m_alive := True, m_status := 0x057f\<rparr>, err := s,
      dbg := (dbg e)\<lparr>pid := 77, state := RUNNING\<rparr>\<rparr>)"
proof -
  have k: "k_fork machine_kernel w = (m_pid w, w\<lparr>m_alive := True, m_status := 0x057f\<rparr>)"
    "k_waitpid machine_kernel p w = (p, m_status w, w)" "k_setoptions machine_kernel p w = (0, w)" for p w
    by (simp_all add: machine_kernel_def)
  have "length (''pid '' @ fmt_d 77) < 32" by code_simp
  then show ?thesis using k assms
    by (intro exI [of _ "err e @ ''** pid '' @ fmt_d 77 @ line_end"])
      (simp add: sdb_start_def debug_buf_def DEBUG_def emit_def seq_def Let_def)
qed

text \<open>A script that starts the loaded program.\<close>

definition idle_shell :: "machine shell" where
  "idle_shell = \<lparr> sh_env = demo_env\<lparr>dbg := demo_sdb\<lparr>state := LOADED, pid := 0\<rparr>\<rparr>,
     script = Some (script_text [(''start'', [])]), stdin = [], line = None \<rparr>"

lemma idle_start: "\<exists>t. next_round 2 machine_kernel idle_shell t \<and> state (dbg (sh_env t)) = RUNNING \<and> pid (dbg (sh_env t)) = 77"
proof -
  have c: "plain_command (''start'', [])" by (simp add: plain_command_def plain_word_def nl_def)
  have i: "state (dbg (sh_env idle_shell)) = LOADED" "addr_list (dbg (sh_env idle_shell)) = []" "m_pid (world (sh_env idle_shell)) = 77"
    by (simp_all add: idle_shell_def demo_machine_def)
  from machine_start [OF i] script_round [OF c, of idle_shell "[]" 2 machine_kernel] show ?thesis
    by (auto simp: next_round_iff on_env_def idle_shell_def dispatch_def)
qed

theorem rounds_follow_life_witness:
  "\<exists>t. (next_round 2 machine_kernel)\<^sup>*\<^sup>* idle_shell t \<and> state (dbg (sh_env t)) = RUNNING
    \<and> life\<^sup>*\<^sup>* (phase_of (dbg (sh_env idle_shell))) (phase_of (dbg (sh_env t)))
    \<and> program_of (dbg (sh_env t)) = program_of (dbg (sh_env idle_shell))"
proof -
  obtain t where t: "next_round 2 machine_kernel idle_shell t" "state (dbg (sh_env t)) = RUNNING" using idle_start by blast
  then have r: "(next_round 2 machine_kernel)\<^sup>*\<^sup>* idle_shell t" by blast
  have "state (dbg (sh_env idle_shell)) \<noteq> NOT_LOADED" by (simp add: idle_shell_def)
  with rounds_follow_life [OF r] r t(2) show ?thesis by blast
qed

text \<open>A script that loads a program, starts it and sets a break point.\<close>

definition session_commands :: "command list" where
  "session_commands = [(''start'', []), (''break'', [''400004''])]"

definition session_world :: machine where
  "session_world = demo_machine\<lparr>m_files := [(''cmds'', bytes_of (script_text session_commands)), (''prog'', demo_image)]\<rparr>"

definition session_shell :: "machine shell" where
  "session_shell = new_shell (replicate 64 0) (replicate 64 0) '''' '''' session_world"

lemma session_load:
  "\<exists>t. main_args machine_kernel [''hw4'', ''-s'', ''cmds'', ''prog''] session_shell = Done () t
    \<and> script t = Some (script_text session_commands) \<and> world (sh_env t) = session_world
    \<and> state (dbg (sh_env t)) = LOADED \<and> addr_list (dbg (sh_env t)) = [] \<and> sect_header (dbg (sh_env t)) = demo_text"
proof -
  obtain s where "sdb_load machine_kernel ''prog'' (sh_env session_shell) = Done () ((sh_env session_shell)\<lparr>err := s, world := session_world,
      dbg := (dbg (sh_env session_shell))\<lparr>program_name := ''prog'', elf_header := demo_eh, sect_header := demo_text, state := LOADED,
        code_size := 200, code_text := Some demo_image\<rparr>\<rparr>)"
    using load_image [of "sh_env session_shell" "''prog''" machine_kernel demo_image 1 "\<lambda>_. 0" session_world "\<lambda>_. 0" session_world]
    by (auto simp: session_shell_def session_world_def new_shell_def new_sdb_def text_width_def machine_kernel_def header_name_def)
  moreover have "open_script machine_kernel ''cmds'' i session_shell = Done () (session_shell\<lparr>script := Some (script_text session_commands)\<rparr>)" for i
    by (simp add: open_script_def session_shell_def session_world_def new_shell_def machine_kernel_def text_of_bytes_of)
  ultimately show ?thesis
    by (simp add: main_args_def seq_def on_env_def) (simp add: session_shell_def new_shell_def new_sdb_def)
qed

lemma demo_text_fields [simp]: "in_text demo_text a \<longleftrightarrow> 0x400000 \<le> a \<and> a < 0x400010"
  by (simp add: in_text_def demo_text_def sh_addr_def sh_size_def field_def drop_Cons')

lemma script_next:
  assumes "plain_command c" and "script s = Some (script_text (c # cs))"
    and "dispatch n K (fst c) (snd c) (sh_env s) = Done () e"
  shows "\<exists>t. next_round n K s t \<and> sh_env t = e \<and> script t = Some (script_text cs)"
proof -
  obtain l where "shell_round n K s = on_env (dispatch n K (fst c) (snd c)) (s\<lparr>script := Some (script_text cs), line := l\<rparr>)"
    using script_round [OF assms(1,2)] by blast
  with assms(3) have "shell_round n K s = Done () (s\<lparr>script := Some (script_text cs), line := l, sh_env := e\<rparr>)"
    by (simp add: on_env_def)
  then have "next_round n K s (s\<lparr>script := Some (script_text cs), line := l, sh_env := e\<rparr>)" by (rule round)
  then show ?thesis by (intro exI [of _ "s\<lparr>script := Some (script_text cs), line := l, sh_env := e\<rparr>"]) simp
qed

lemma machine_break:
  assumes "state (dbg e) = RUNNING" and "sect_header (dbg e) = demo_text" and "addr_list (dbg e) = []" and "m_mapped (world e) 0x400004"
  shows "\<exists>w c. dispatch n machine_kernel ''break'' [''400004''] e = Done () (e\<lparr>dbg := (dbg e)\<lparr>addr_list := [(0x400004, c)]\<rparr>, world := w\<rparr>)"
proof -
  have "fmt_x 0x400004 = ''400004''" by (simp add: print_simps)
  then have "strtoul16 ''400004'' = 0x400004" using strtoul16_plain [of "0x400004"] by simp
  then have "dispatch n machine_kernel ''break'' [''400004''] e = sdb_set_break machine_kernel 0x400004 e" by (simp add: dispatch_def)
  also have "\<dots> = Done () (e\<lparr>dbg := (dbg e)\<lparr>addr_list := [(0x400004, load64 (m_mem (world e)) 0x400004)]\<rparr>,
      world := (world e)\<lparr>m_mem := store64 (m_mem (world e)) 0x400004 (int3_word (load64 (m_mem (world e)) 0x400004))\<rparr>\<rparr>)"
    using assms by (simp add: sdb_set_break_def Let_def)
  finally show ?thesis by blast
qed

lemma session_reached:
  "\<exists>t. reached 2 machine_kernel [''hw4'', ''-s'', ''cmds'', ''prog''] session_shell t
    \<and> state (dbg (sh_env t)) = RUNNING \<and> pid (dbg (sh_env t)) = 77
    \<and> fst ` set (addr_list (dbg (sh_env t))) = {0x400004} \<and> sect_header (dbg (sh_env t)) = demo_text"
proof -
  obtain t1 where t1: "main_args machine_kernel [''hw4'', ''-s'', ''cmds'', ''prog''] session_shell = Done () t1"
    "script t1 = Some (script_text session_commands)" "world (sh_env t1) = session_world"
    "state (dbg (sh_env t1)) = LOADED" "addr_list (dbg (sh_env t1)) = []" "sect_header (dbg (sh_env t1)) = demo_text"
    using session_load by blast
  have c: "plain_command (''start'', [])" "plain_command (''break'', [''400004''])"
    by (simp_all add: plain_command_def plain_word_def nl_def)
  obtain s where s: "sdb_start machine_kernel (sh_env t1) = Done () ((sh_env t1)\<lparr>world := session_world\<lparr>m_alive := True, m_status := 0x057f\<rparr>,
      err := s, dbg := (dbg (sh_env t1))\<lparr>pid := 77, state := RUNNING\<rparr>\<rparr>)"
    using machine_start [of "sh_env t1"] t1(3-5) by (auto simp: session_world_def demo_machine_def)
  define e1 where "e1 = (sh_env t1)\<lparr>world := session_world\<lparr>m_alive := True, m_status := 0x057f\<rparr>,
      err := s, dbg := (dbg (sh_env t1))\<lparr>pid := 77, state := RUNNING\<rparr>\<rparr>"
  have d1: "dispatch 2 machine_kernel ''start'' [] (sh_env t1) = Done () e1" using s by (simp add: dispatch_def e1_def)
  obtain t2 where t2: "next_round 2 machine_kernel t1 t2" "sh_env t2 = e1" "script t2 = Some (script_text [(''break'', [''400004''])])"
    using script_next [OF c(1), of t1 "[(''break'', [''400004''])]" 2 machine_kernel e1] t1(2) d1
    unfolding session_commands_def fst_conv snd_conv by blast
  have f: "state (dbg e1) = RUNNING" "pid (dbg e1) = 77" "addr_list (dbg e1) = []" "sect_header (dbg e1) = demo_text"
    "m_mapped (world e1) 0x400004"
    using t1(5,6) by (simp_all add: e1_def m_mapped_def)
  obtain e2 where e2: "dispatch 2 machine_kernel ''break'' [''400004''] e1 = Done () e2"
    "state (dbg e2) = RUNNING" "pid (dbg e2) = 77" "fst ` set (addr_list (dbg e2)) = {0x400004}" "sect_header (dbg e2) = demo_text"
  proof -
    obtain w c where "dispatch 2 machine_kernel ''break'' [''400004''] e1 = Done () (e1\<lparr>dbg := (dbg e1)\<lparr>addr_list := [(0x400004, c)]\<rparr>, world := w\<rparr>)"
      using machine_break [OF f(1,4,3,5)] by blast
    then show thesis by (rule that) (use f in simp_all)
  qed
  obtain t3 where "next_round 2 machine_kernel t2 t3" "sh_env t3 = e2"
    using script_next [OF c(2) t2(3), of 2 machine_kernel e2] e2(1) t2(2) unfolding fst_conv snd_conv by blast
  then show ?thesis using e2 reached.again [OF reached.again [OF reached.entry [OF t1(1)] t2(1)]] by blast
qed

theorem breakpoints_in_text_witness:
  "\<exists>t. reached 2 machine_kernel [''hw4'', ''-s'', ''cmds'', ''prog''] session_shell t
    \<and> fst ` set (addr_list (dbg (sh_env t))) = {0x400004} \<and> in_text (sect_header (dbg (sh_env t))) 0x400004"
  using session_reached breakpoints_in_text [of 2 machine_kernel _ "replicate 64 0" "replicate 64 0" "''''" "''''" session_world]
  unfolding session_shell_def by (metis singletonI)

theorem pid_when_running_witness:
  "\<exists>t. reached 2 machine_kernel [''hw4'', ''-s'', ''cmds'', ''prog''] session_shell t
    \<and> state (dbg (sh_env t)) = RUNNING \<and> 0 < pid (dbg (sh_env t))"
  using session_reached pid_when_running [of 2 machine_kernel _ "replicate 64 0" "replicate 64 0" "''''" "''''" session_world]
  unfolding session_shell_def by metis

end
