(* ===== verification/SdbFuel.thy ===== *)
theory SdbFuel
  imports SdbCycle
begin

text \<open>
  The recursion of \<^verbatim>\<open>check_process\<close> through \<^verbatim>\<open>si\<close> stops: on a processor that executes
  \<^verbatim>\<open>int3\<close>, two activations are enough, and more fuel changes nothing.
\<close>

section \<open>More fuel changes nothing\<close>

lemma seq_Timeout_iff: "seq m n s = Timeout \<longleftrightarrow> m s = Timeout \<or> (\<exists>x t. m s = Done x t \<and> n t = Timeout)"
  by (auto simp: seq_def andthen_def split: outcome.splits)

lemma seq_cong_tail: "(\<And>x t. m s = Done x t \<Longrightarrow> n t = n' t) \<Longrightarrow> seq m n s = seq m n' s"
  by (auto simp: seq_def andthen_def split: outcome.splits)

lemma trap_stop_mono:
  assumes "\<And>e. si e \<noteq> Timeout \<Longrightarrow> si' e = si e" and "trap_stop si K e \<noteq> Timeout"
  shows "trap_stop si' K e = trap_stop si K e"
  using assms by (auto simp: trap_stop_def split: prod.splits option.splits if_splits)

lemma check_process_body_mono:
  assumes "\<And>e. si e \<noteq> Timeout \<Longrightarrow> si' e = si e" and "check_process_body si K e \<noteq> Timeout"
  shows "check_process_body si' K e = check_process_body si K e"
proof -
  have "seq (restore_bp K) (trap_stop si' K) e' = seq (restore_bp K) (trap_stop si K) e'"
    if "seq (restore_bp K) (trap_stop si K) e' \<noteq> Timeout" for e'
    using that by (intro seq_cong_tail trap_stop_mono [OF assms(1)]) (auto simp: seq_Timeout_iff)
  then show ?thesis using assms(2)
    by (auto simp: check_process_body_def Let_def split: prod.splits if_splits)
qed

lemma si_with_mono:
  assumes "\<And>e. chk e \<noteq> Timeout \<Longrightarrow> chk' e = chk e" and "si_with chk K e \<noteq> Timeout"
  shows "si_with chk' K e = si_with chk K e"
proof (cases "state (dbg e) = RUNNING")
  case True
  show ?thesis
    using assms True unfolding si_with_def
    by (auto simp: seq_Timeout_iff Let_def split: prod.splits intro!: seq_cong_tail)
qed (simp add: si_with_def)

lemma check_process_Suc:
  "sdb_check_process n K e \<noteq> Timeout \<Longrightarrow> sdb_check_process (Suc n) K e = sdb_check_process n K e"
proof (induction n arbitrary: e)
  case 0
  then show ?case by simp
next
  case (Suc n)
  have "check_process_body (si_with (sdb_check_process (Suc n) K) K) K e =
      check_process_body (si_with (sdb_check_process n K) K) K e"
    using Suc by (intro check_process_body_mono si_with_mono) (auto simp del: sdb_check_process.simps(2), simp)
  then show ?case by simp
qed

lemma check_process_mono:
  assumes "sdb_check_process n K e \<noteq> Timeout" and "n \<le> m"
  shows "sdb_check_process m K e = sdb_check_process n K e"
  using assms(2)
proof (induction m rule: dec_induct)
  case base
  show ?case by simp
next
  case (step m)
  with assms(1) check_process_Suc [of m K e] show ?case by simp
qed

section \<open>Two activations are enough\<close>

text \<open>
  The Intel manual on \<^verbatim>\<open>int3\<close>: a step on a byte \<^verbatim>\<open>0xcc\<close> stops the process by SIGTRAP with
  \<^verbatim>\<open>rip\<close> after that byte.
\<close>

locale int3_tracee = tracee +
  assumes step_int3: "mapped w a \<Longrightarrow> mem w a = 0xcc \<Longrightarrow> k_getregs K pid w = (0, rs) \<Longrightarrow> rip rs = a \<Longrightarrow>
    \<exists>w1 r status w2. k_singlestep K pid w = (0, w1) \<and> k_waitpid K pid w1 = (r, status, w2) \<and> 0 \<le> r
      \<and> \<not> WIFEXITED status \<and> WIFSTOPPED status \<and> WSTOPSIG status = 5
      \<and> (\<exists>rs'. k_getregs K pid w2 = (0, rs') \<and> rip rs' = a + 1)"
begin

text \<open>After a trap with no break point to restore, stepping onto a planted break point ends.\<close>

lemma step_onto_break:
  assumes "pid = Sdb.pid (dbg e)" and "state (dbg e) = RUNNING" and "pre_addr (dbg e) = 0"
    and "k_getregs K pid (world e) = (0, rs)" and "mapped (world e) (rip rs)" and "mem (world e) (rip rs) = 0xcc"
    and "map_find (rip rs) (addr_list (dbg e)) = Some code"
  shows "si_with (sdb_check_process (Suc 0) K) K e \<noteq> Timeout"
proof -
  obtain w1 r status w2 rs' where s: "k_singlestep K pid (world e) = (0, w1)"
    "k_waitpid K pid w1 = (r, status, w2)" "0 \<le> r" "\<not> WIFEXITED status" "WIFSTOPPED status"
    "WSTOPSIG status = 5" "k_getregs K pid w2 = (0, rs')" "rip rs' = rip rs + 1"
    using step_int3 [OF assms(5,6,4) refl] by blast
  let ?e = "e\<lparr>world := w2\<rparr>"
  have "lift_break K 183 e = Done () e" using assms(3) by (simp add: lift_break_def)
  moreover have "restore_bp K ?e = Done () ?e" using assms(3) by (simp add: restore_bp_def)
  moreover have "trap_stop si K ?e \<noteq> Timeout" for si
    using s(7,8) assms(1,7)
    by (auto simp: trap_stop_def seq_Timeout_iff sdb_disasm_def hit_break_def ERROR_def Let_def
        split: prod.splits option.splits list.splits if_splits)
  ultimately show ?thesis
    using s(1-6) assms(1,2) by (simp add: si_with_def check_process_body_def)
qed

end

text \<open>The break points are planted, but for the one the program stands on.\<close>

definition planted :: "byte_mem \<Rightarrow> sdb \<Rightarrow> bool" where
  "planted m d \<longleftrightarrow> (\<forall>a \<in> fst ` set (addr_list d). (pre_addr d \<noteq> 0 \<and> a = pre_addr d) \<or> m a = 0xcc)"

lemma planted_iff:
  "planted m d \<longleftrightarrow> (\<forall>(a, code) \<in> set (addr_list d). (pre_addr d \<noteq> 0 \<and> a = pre_addr d) \<or> m a = 0xcc)"
  by (auto simp: planted_def)

text \<open>
  C2. check_process and si call each other; on a processor whose int3 instruction stops the
  process behind the trap byte, with every listed break point planted but the one the program
  stands on, two activations are enough: check_process returns (it ends, with or without an
  error) for every fuel from 2 on.
\<close>

theorem check_process_returns:
  assumes "int3_tracee K (pid (dbg e)) mem mapped"
    and "state (dbg e) = RUNNING" and "map_valid (addr_list (dbg e))"
    and "\<And>r status w. k_waitpid K (pid (dbg e)) (world e) = (r, status, w) \<Longrightarrow> planted (mem w) (dbg e)"
    and "\<And>r status w a. k_waitpid K (pid (dbg e)) (world e) = (r, status, w) \<Longrightarrow>
        a = pre_addr (dbg e) \<and> a \<noteq> 0 \<or> a \<in> fst ` set (addr_list (dbg e)) \<Longrightarrow> mapped w a"
    and "2 \<le> n"
  shows "sdb_check_process n K e \<noteq> Timeout"
proof -
  have T: "tracee K (pid (dbg e)) mem mapped" using assms(1) by (simp add: int3_tracee_def)
  obtain r status w where wp: "k_waitpid K (pid (dbg e)) (world e) = (r, status, w)" by (metis prod_cases3)
  let ?e1 = "e\<lparr>world := w\<rparr>" and ?si = "si_with (sdb_check_process (Suc 0) K) K"
  have "seq (restore_bp K) (trap_stop ?si K) ?e1 \<noteq> Timeout"
  proof -
    obtain w2 s where r: "restore_bp K ?e1 = Done () (?e1\<lparr>err := err ?e1 @ s, world := w2, dbg := (dbg ?e1)\<lparr>pre_addr := 0\<rparr>\<rparr>)"
      and m2: "mem w2 = (if pre_addr (dbg e) = 0 then mem w else (mem w)(pre_addr (dbg e) := 0xcc))"
      and p2: "mapped w2 = mapped w"
      using tracee.restore_bp_effect [OF T, of ?e1] assms(5) [OF wp] by auto
    let ?e2 = "?e1\<lparr>err := err ?e1 @ s, world := w2, dbg := (dbg ?e1)\<lparr>pre_addr := 0\<rparr>\<rparr>"
    have si: "?si ?e2 \<noteq> Timeout"
      if g: "k_getregs K (pid (dbg e)) w2 = (0, rs)" and f: "map_find (rip rs) (addr_list (dbg e)) = Some code" for rs code
    proof (rule int3_tracee.step_onto_break [OF assms(1)])
      have mem: "rip rs \<in> fst ` set (addr_list (dbg e))" using f map_find_in [OF assms(3)] by force
      show "mapped (world ?e2) (rip rs)" using assms(5) [OF wp] mem p2 by simp
      show "mem (world ?e2) (rip rs) = 0xcc"
        using assms(4) [OF wp] mem m2 by (auto simp: planted_def)
    qed (use g f assms(2) in simp_all)
    have "trap_stop ?si K ?e2 \<noteq> Timeout"
      using si by (auto simp: trap_stop_def seq_Timeout_iff sdb_disasm_def hit_break_def ERROR_def Let_def
        split: prod.splits option.splits list.splits if_splits)
    with r show ?thesis by simp
  qed
  then have "sdb_check_process 2 K e \<noteq> Timeout"
    using wp by (auto simp: numeral_2_eq_2 check_process_body_def Let_def seq_Timeout_iff debug_buf_def ERROR_def)
  then show ?thesis using check_process_mono [of 2 K e n] assms(6) by simp
qed

lemma machine_step_int3: "m_mem w (rip (m_regs w)) = 0xcc \<Longrightarrow>
    m_step w = w\<lparr>m_regs := (m_regs w)\<lparr>rip := rip (m_regs w) + 1\<rparr>, m_status := 0x057f\<rparr>"
  by (simp add: m_step_def)

interpretation mach3: int3_tracee machine_kernel 77 m_mem "\<lambda>w a. m_mapped w a \<and> m_pid w = 77"
proof (unfold_locales)
  fix w :: machine and a rs
  assume "m_mapped w a \<and> m_pid w = 77" and "m_mem w a = 0xcc" and "k_getregs machine_kernel 77 w = (0, rs)"
    and "rip rs = a"
  then show "\<exists>w1 r status w2. k_singlestep machine_kernel 77 w = (0, w1) \<and>
      k_waitpid machine_kernel 77 w1 = (r, status, w2) \<and> 0 \<le> r
      \<and> \<not> WIFEXITED status \<and> WIFSTOPPED status \<and> WSTOPSIG status = 5
      \<and> (\<exists>rs'. k_getregs machine_kernel 77 w2 = (0, rs') \<and> rip rs' = a + 1)"
    by (auto simp: m_resume_def m_mapped_def machine_step_int3)
qed (auto simp: m_mapped_def fun_eq_iff split: if_splits)

theorem check_process_returns_witness:
  "sdb_check_process 2 machine_kernel demo_hit_env \<noteq> Timeout"
  using check_process_returns [of machine_kernel demo_hit_env m_mem "\<lambda>w a. m_mapped w a \<and> m_pid w = 77" 2]
    mach3.int3_tracee_axioms
  by (simp add: map_valid_def planted_def)

theorem check_process_fuel:
  assumes "sdb_check_process n K e \<noteq> Timeout" and "n \<le> m"
  shows "sdb_check_process m K e = sdb_check_process n K e"
  by (rule check_process_mono [OF assms])

theorem check_process_fuel_witness:
  "sdb_check_process 7 machine_kernel demo_hit_env = sdb_check_process 2 machine_kernel demo_hit_env"
proof -
  have "sdb_check_process 1 machine_kernel demo_hit_env \<noteq> Timeout"
    by (auto simp: check_process_body_def restore_bp_def trap_stop_def seq_Timeout_iff sdb_disasm_def
        hit_break_def ERROR_def Let_def split: list.splits)
  then have "sdb_check_process 2 machine_kernel demo_hit_env \<noteq> Timeout"
    using check_process_Suc [of 1 machine_kernel demo_hit_env] by (simp add: numeral_2_eq_2)
  then show ?thesis by (rule check_process_fuel) simp
qed

end
