(* ===== verification/SdbFaults.thy ===== *)
theory SdbFaults
  imports SdbFuel
begin

text \<open>
  What keeps the break points planted, and the places where the code does not: the restart
  of a program, the deletion of a break point the program stands on or that has a close
  neighbour, single steps over one-byte instructions and programs killed by a signal.
\<close>

section \<open>Planted break points\<close>

text \<open>
  C11. Setting a break point keeps every listed break point planted, but for the one the program
  stands on.
\<close>

theorem set_break_keeps_planted:
  assumes "tracee K (pid (dbg e)) mem mapped"
    and "state (dbg e) = RUNNING" and "map_valid (addr_list (dbg e))" and "mapped (world e) a"
    and "planted (mem (world e)) (dbg e)" and "sdb_set_break K a e = Done u e'"
  shows "planted (mem (world e')) (dbg e')"
proof (cases "in_text (sect_header (dbg e)) a \<and> map_find a (addr_list (dbg e)) = None")
  case True
  then have t: "in_text (sect_header (dbg e)) a" and n: "map_find a (addr_list (dbg e)) = None" by simp_all
  from tracee.set_break_effect [OF assms(1) refl assms(2) t n assms(4)] obtain w where
    "sdb_set_break K a e = Done () (e\<lparr>world := w, dbg := (dbg e)\<lparr>addr_list :=
        map_put a (k_peek K (pid (dbg e)) a (world e)) (addr_list (dbg e))\<rparr>\<rparr>)"
    and "mem w = (mem (world e))(a := 0xcc)" by blast
  with assms(5,6) show ?thesis by (force simp: planted_iff set_map_put [OF assms(3)])
next
  case False
  then show ?thesis using assms(2,5,6) by (auto simp: sdb_set_break_def split: if_splits)
qed

theorem set_break_keeps_planted_witness:
  "\<exists>e'. sdb_set_break machine_kernel 0x400004 demo_env = Done () e' \<and> planted (m_mem (world e')) (dbg e')"
proof -
  have t: "tracee machine_kernel (pid (dbg demo_env)) m_mem m_mapped" by (rule mach.tracee_axioms)
  obtain e' where e': "sdb_set_break machine_kernel 0x400004 demo_env = Done () e'"
    using mach.set_break_effect [OF refl, of demo_env "0x400004"] by auto
  have "planted (m_mem (world e')) (dbg e')"
    by (rule set_break_keeps_planted [OF t _ _ _ _ e']) (simp_all add: map_valid_def planted_def)
  with e' show ?thesis by blast
qed

text \<open>Deleting a break point rewrites eight bytes, so it keeps the others when none is in those.\<close>

lemma del_effect:
  assumes "tracee K (pid (dbg e)) mem mapped" and "state (dbg e) = RUNNING"
    and "i < length (addr_list (dbg e))" and "int i < 2 ^ 31"
    and "addr_list (dbg e) ! i = (a, code)" and "mapped (world e) a"
  shows "\<exists>w s. sdb_del K (int i) e = Done () (e\<lparr>world := w, err := s,
        dbg := (dbg e)\<lparr>addr_list := map_erase_nth i (addr_list (dbg e))\<rparr>\<rparr>)
    \<and> mem w = store64 (mem (world e)) a code \<and> mapped w = mapped (world e)
    \<and> k_getregs K (pid (dbg e)) w = k_getregs K (pid (dbg e)) (world e)"
proof -
  obtain r w where p: "k_poke K (pid (dbg e)) a code (world e) = (r, w)" by fastforce
  have "r = 0" using tracee.poke_ok [OF assms(1,6), of code] p by simp
  moreover have "length (''breakpoint '' @ fmt_d (int i) @ '' deleted.'') < 32"
    using length_fmt_d [of "int i"] assms(4) by simp
  ultimately have "sdb_del K (int i) e = Done () (e\<lparr>world := w, err := err e @ ''** '' @
        (''breakpoint '' @ fmt_d (int i) @ '' deleted.'') @ line_end,
        dbg := (dbg e)\<lparr>addr_list := map_erase_nth i (addr_list (dbg e))\<rparr>\<rparr>)"
    using assms(2,3,5) p by (simp add: sdb_del_def)
  moreover have "mem w = store64 (mem (world e)) a code" "mapped w = mapped (world e)"
    "k_getregs K (pid (dbg e)) w = k_getregs K (pid (dbg e)) (world e)"
    using tracee.poke_mem [OF assms(1,6), of code] tracee.poke_mapped [OF assms(1,6), of code]
      tracee.poke_regs [OF assms(1,6), of code] p by simp_all
  ultimately show ?thesis by blast
qed

text \<open>
  C12. Deleting a break point removes exactly it from the list and keeps the others planted when
  none of them lies in the seven bytes behind it.
\<close>

theorem delete_keeps_planted:
  assumes "tracee K (pid (dbg e)) mem mapped" and "state (dbg e) = RUNNING"
    and "map_valid (addr_list (dbg e))"
    and "i < length (addr_list (dbg e))" and "int i < 2 ^ 31"
    and "addr_list (dbg e) ! i = (a, code)" and "mapped (world e) a"
    and "planted (mem (world e)) (dbg e)"
    and "\<forall>b \<in> fst ` set (addr_list (dbg e)). b \<noteq> a \<longrightarrow> 8 \<le> unat (b - a)"
  shows "\<exists>e'. sdb_del K (int i) e = Done () e' \<and> planted (mem (world e')) (dbg e')
    \<and> fst ` set (addr_list (dbg e')) = fst ` set (addr_list (dbg e)) - {a}"
proof -
  let ?m = "addr_list (dbg e)" and ?m' = "map_erase_nth i (addr_list (dbg e))"
  obtain w s where d: "sdb_del K (int i) e = Done () (e\<lparr>world := w, err := s, dbg := (dbg e)\<lparr>addr_list := ?m'\<rparr>\<rparr>)"
    and m: "mem w = store64 (mem (world e)) a code"
    using del_effect [OF assms(1,2,4-7)] by blast
  have "set ?m' = set ?m - {(a, code)}" using smap.set_erase [OF assms(3,4)] assms(6) by simp
  moreover have "inj_on fst (set ?m)" using smap.distinct_keys [OF assms(3)] by (simp add: distinct_map)
  moreover have "(a, code) \<in> set ?m" using assms(4,6) nth_mem by fastforce
  ultimately have keys: "fst ` set ?m' = fst ` set ?m - {a}"
    by (simp add: inj_on_image_set_diff [where C = "set ?m"])
  have "mem w b = 0xcc" if "b \<in> fst ` set ?m'" "\<not> (pre_addr (dbg e) \<noteq> 0 \<and> b = pre_addr (dbg e))" for b
  proof -
    have b: "b \<in> fst ` set ?m" "b \<noteq> a" using that(1) by (simp_all add: keys)
    then have "mem (world e) b = 0xcc" using assms(8) that(2) unfolding planted_def by blast
    moreover have "8 \<le> unat (b - a)" using assms(9) b by blast
    ultimately show ?thesis by (simp add: m store64_off)
  qed
  then have "planted (mem w) ((dbg e)\<lparr>addr_list := ?m'\<rparr>)" by (auto simp: planted_def)
  with d keys show ?thesis by auto
qed

theorem delete_keeps_planted_witness:
  "\<exists>e'. sdb_del machine_kernel 0 demo_hit_env = Done () e' \<and> planted (m_mem (world e')) (dbg e')
    \<and> fst ` set (addr_list (dbg e')) = {}"
proof -
  have t: "tracee machine_kernel (pid (dbg demo_hit_env)) m_mem m_mapped" by (rule mach.tracee_axioms)
  show ?thesis
    using delete_keeps_planted [OF t, of 0 "0x400004" "0x9090900f90909090"]
    by (simp add: map_valid_def planted_def)
qed

section \<open>Deleting, the other cases\<close>

text \<open>A neighbour within seven bytes that was set later loses its break-point instruction.\<close>

text \<open>
  C14. Deleting a break point that was set less than eight bytes before a later one takes the
  int3 of the later one away although it stays in the list: the whole word saved at setting time
  is written back.
\<close>

theorem delete_erases_neighbour:
  assumes "tracee K (pid (dbg e)) mem mapped" and "state (dbg e) = RUNNING"
    and "in_text (sect_header (dbg e)) a" and "in_text (sect_header (dbg e)) b"
    and "addr_list (dbg e) = []" and "mapped (world e) a" and "mapped (world e) b"
    and "a < b" and "unat (b - a) < 8"
    and "pre_addr (dbg e) = 0" and "mem (world e) b \<noteq> 0xcc"
  shows "\<exists>e1 e2 e3. sdb_set_break K a e = Done () e1 \<and> sdb_set_break K b e1 = Done () e2
    \<and> sdb_del K 0 e2 = Done () e3 \<and> planted (mem (world e2)) (dbg e2)
    \<and> map fst (addr_list (dbg e3)) = [b] \<and> mem (world e3) b = mem (world e) b
    \<and> \<not> planted (mem (world e3)) (dbg e3)"
proof -
  note T = assms(1)
  let ?p = "pid (dbg e)"
  let ?ca = "k_peek K ?p a (world e)"
  have a: "map_find a (addr_list (dbg e)) = None" by (simp add: assms(5))
  obtain w1 where s1: "sdb_set_break K a e = Done () (e\<lparr>world := w1, dbg := (dbg e)\<lparr>addr_list := [(a, ?ca)]\<rparr>\<rparr>)"
    and w1: "mem w1 = (mem (world e))(a := 0xcc)" "mapped w1 = mapped (world e)"
    using tracee.set_break_effect [OF T refl assms(2,3) a assms(6)] by (auto simp: assms(5))
  let ?e1 = "e\<lparr>world := w1, dbg := (dbg e)\<lparr>addr_list := [(a, ?ca)]\<rparr>\<rparr>"
  let ?cb = "k_peek K ?p b w1"
  have ne: "b \<noteq> a" "\<not> b < a" using assms(8) by auto
  then have "map_find b (addr_list (dbg ?e1)) = None" by simp
  then obtain w2 where s2: "sdb_set_break K b ?e1 = Done () (?e1\<lparr>world := w2, dbg := (dbg ?e1)\<lparr>addr_list := [(a, ?ca), (b, ?cb)]\<rparr>\<rparr>)"
    and w2: "mem w2 = (mem w1)(b := 0xcc)" "mapped w2 = mapped w1"
    using tracee.set_break_effect [OF T, of ?e1 b] assms(2,4,7) ne w1(2) by auto
  let ?e2 = "?e1\<lparr>world := w2, dbg := (dbg ?e1)\<lparr>addr_list := [(a, ?ca), (b, ?cb)]\<rparr>\<rparr>"
  obtain w3 s where s3: "sdb_del K 0 ?e2 = Done () (?e2\<lparr>world := w3, err := s,
        dbg := (dbg ?e2)\<lparr>addr_list := [(b, ?cb)]\<rparr>\<rparr>)"
    and w3: "mem w3 = store64 (mem w2) a ?ca"
    using del_effect [of K ?e2 mem mapped 0 a ?ca] T assms(2,6) w1(2) w2(2)
    by (auto simp: map_erase_nth_def)
  have "mem w3 b = byte_of (load64 (mem (world e)) a) (unat (b - a))"
    using assms(9) by (simp add: w3 store64_at tracee.peek_word [OF T assms(6)])
  then have b: "mem w3 b = mem (world e) b" using assms(9) by (simp add: byte_of_load64)
  have "planted (mem w2) (dbg ?e2)" by (auto simp: planted_def w1 w2)
  moreover have "\<not> planted (mem w3) ((dbg ?e2)\<lparr>addr_list := [(b, ?cb)]\<rparr>)"
    using b assms(10,11) by (simp add: planted_def)
  ultimately show ?thesis using s1 s2 s3 b by auto
qed

theorem delete_erases_neighbour_witness:
  "\<exists>e1 e2 e3. sdb_set_break machine_kernel 0x400002 demo_env = Done () e1
    \<and> sdb_set_break machine_kernel 0x400004 e1 = Done () e2
    \<and> sdb_del machine_kernel 0 e2 = Done () e3 \<and> map fst (addr_list (dbg e3)) = [0x400004]
    \<and> m_mem (world e3) 0x400004 = 0x90"
proof -
  have t: "tracee machine_kernel (pid (dbg demo_env)) m_mem m_mapped" by (rule mach.tracee_axioms)
  have m: "m_mem demo_machine 0x400004 = 0x90" by (simp add: demo_machine_def demo_mem_def)
  show ?thesis
    using delete_erases_neighbour [OF t, of "0x400002" "0x400004"] m by auto
qed

text \<open>
  Deleting the break point the program stands on: \<^verbatim>\<open>pre_addr\<close> is left, so the next stop writes
  the break-point instruction back although no break point is listed there.
\<close>

theorem delete_leaves_stale_break:
  assumes "tracee K (pid (dbg e)) mem mapped" and "state (dbg e) = RUNNING"
    and "map_valid (addr_list (dbg e))"
    and "i < length (addr_list (dbg e))" and "int i < 2 ^ 31"
    and "addr_list (dbg e) ! i = (a, code)" and "mapped (world e) a"
    and "pre_addr (dbg e) = a" and "a \<noteq> 0"
  shows "\<exists>e1 e2. sdb_del K (int i) e = Done () e1 \<and> map_find a (addr_list (dbg e1)) = None
    \<and> restore_bp K e1 = Done () e2 \<and> mem (world e2) a = 0xcc \<and> map_find a (addr_list (dbg e2)) = None"
proof -
  let ?m' = "map_erase_nth i (addr_list (dbg e))"
  obtain w s where d: "sdb_del K (int i) e = Done () (e\<lparr>world := w, err := s, dbg := (dbg e)\<lparr>addr_list := ?m'\<rparr>\<rparr>)"
    and p: "mapped w = mapped (world e)"
    using del_effect [OF assms(1,2,4-7)] by blast
  let ?e1 = "e\<lparr>world := w, err := s, dbg := (dbg e)\<lparr>addr_list := ?m'\<rparr>\<rparr>"
  have f: "map_find a ?m' = None" using smap.lookup_erase [OF assms(3,4), of a] assms(6) by simp
  obtain w2 s2 where "restore_bp K ?e1 = Done () (?e1\<lparr>err := err ?e1 @ s2, world := w2, dbg := (dbg ?e1)\<lparr>pre_addr := 0\<rparr>\<rparr>)"
    and "mem w2 = (mem w)(a := 0xcc)"
    using tracee.restore_bp_effect [OF assms(1), of ?e1] assms(7-9) p by auto
  with d f show ?thesis by auto
qed

theorem delete_leaves_stale_break_witness:
  "\<exists>e1 e2. sdb_del machine_kernel 0 (demo_hit_env\<lparr>dbg := demo_hit_sdb\<lparr>pre_addr := 0x400004\<rparr>\<rparr>) = Done () e1
    \<and> map_find 0x400004 (addr_list (dbg e1)) = None
    \<and> restore_bp machine_kernel e1 = Done () e2 \<and> m_mem (world e2) 0x400004 = 0xcc
    \<and> map_find 0x400004 (addr_list (dbg e2)) = None"
proof -
  let ?e = "demo_hit_env\<lparr>dbg := demo_hit_sdb\<lparr>pre_addr := 0x400004\<rparr>\<rparr>"
  have t: "tracee machine_kernel (pid (dbg ?e)) m_mem m_mapped" by (rule mach.tracee_axioms)
  show ?thesis
    using delete_leaves_stale_break [OF t, of 0 "0x400004" "0x9090900f90909090"] by (simp add: map_valid_def)
qed

section \<open>Starting again\<close>

text \<open>
  A restart writes the break points again with the word it reads at \<^verbatim>\<open>pre_addr\<close>, which is 0
  once a program has ended: the read fails with all bits set, and the seven bytes after the
  break point are overwritten with \<^verbatim>\<open>0xff\<close>.
\<close>

text \<open>
  C13. Starting a program again with a break point in the list writes seven bytes 0xff behind
  the break point: start reads the word at pre_addr, which is 0 then, instead of the word at the
  break point.
\<close>

theorem restart_corrupts:
  assumes "k_fork K (world e) = (p, w0)" and "0 < p" and "p < 2 ^ 31"
    and "k_waitpid K p w0 = (r, status, w1)" and "k_setoptions K p w1 = (0, w2)"
    and "tracee K p mem mapped" and "k_peek K p 0 w2 = - 1"
    and "state (dbg e) = LOADED" and "pre_addr (dbg e) = 0" and "addr_list (dbg e) = [(a, code)]"
    and "mapped w2 a"
  shows "\<exists>e'. sdb_start K e = Done () e' \<and> state (dbg e') = RUNNING
    \<and> mem (world e') a = 0xcc
    \<and> (\<forall>j. 0 < j \<and> j < 8 \<longrightarrow> mem (world e') (a + of_nat j) = 0xff)"
proof -
  obtain r' w3 where k: "k_poke K p a (int3_word (- 1)) w2 = (r', w3)" by fastforce
  have "r' = 0" using tracee.poke_ok [OF assms(6,11), of "int3_word (- 1)"] k by simp
  moreover have m: "mem w3 = store64 (mem w2) a (with_low_byte (- 1) 0xcc)"
    using tracee.poke_mem [OF assms(6,11), of "int3_word (- 1)"] k by (simp add: int3_word_eq)
  moreover have "length (''pid '' @ fmt_d p) < 32" using length_fmt_d [of p] assms(2,3) by simp
  ultimately have "\<exists>s. sdb_start K e = Done () (e\<lparr>err := s, dbg := (dbg e)\<lparr>pid := p, state := RUNNING\<rparr>, world := w3\<rparr>)"
    using assms(1-5,7-10) k by (auto simp: sdb_start_def)
  moreover have "mem w3 (a + of_nat j) = (if j = 0 then 0xcc else 0xff)" if "j < 8" for j
  proof -
    have "unat (of_nat j :: u64) = j" using that by (simp add: unat_of_nat)
    moreover have "byte_of (- 1) j = - 1"
      using that by (intro bit_word_eqI) (auto simp: bit_byte_of)
    ultimately show ?thesis using that by (simp add: m store64_def byte_of_with_low_byte)
  qed
  from this [of 0] this have "mem w3 a = 0xcc"
    and "\<forall>j. 0 < j \<and> j < 8 \<longrightarrow> mem w3 (a + of_nat j) = 0xff" by simp_all
  ultimately show ?thesis by auto
qed

text \<open>The demonstration program after its first run, with one break point left in the list.\<close>

definition demo_ended_env :: "machine env" where
  "demo_ended_env =
     \<lparr> dbg = demo_hit_sdb\<lparr>state := LOADED, pid := 0\<rparr>, err = [], world = demo_machine \<rparr>"

theorem restart_corrupts_witness:
  "\<exists>e'. sdb_start machine_kernel demo_ended_env = Done () e' \<and> state (dbg e') = RUNNING
    \<and> m_mem (world e') 0x400004 = 0xcc
    \<and> (\<forall>j. 0 < j \<and> j < 8 \<longrightarrow> m_mem (world e') (0x400004 + of_nat j) = 0xff)"
proof -
  have t: "tracee machine_kernel 77 m_mem m_mapped" by (rule mach.tracee_axioms)
  let ?w = "demo_machine\<lparr>m_alive := True, m_status := 0x057f\<rparr>"
  have f: "k_fork machine_kernel (world demo_ended_env) = (77, ?w)"
    and s: "k_setoptions machine_kernel 77 ?w = (0, ?w)"
    by (simp_all add: machine_kernel_def demo_ended_env_def demo_machine_def)
  show ?thesis
    by (rule restart_corrupts [OF f _ _ machine_waitpid s t])
      (simp_all add: demo_ended_env_def m_mapped_def)
qed

section \<open>Single steps\<close>

text \<open>
  A single step over a one-byte instruction that carries a break point ends one byte further,
  is taken for the break point's own trap, and the program is put back where it was.
\<close>

text \<open>
  C15. si from a break point on an instruction of one byte is taken for the break point's own
  trap: the program is put back where it was, and si makes no progress.
\<close>

theorem step_over_one_byte_repeats:
  assumes "tracee K (pid (dbg e)) mem mapped"
    and "state (dbg e) = RUNNING" and "text_in_file (dbg e)"
    and "pre_addr (dbg e) = a" and "a \<noteq> 0"
    and "map_find a (addr_list (dbg e)) = Some code" and "in_text (sect_header (dbg e)) a"
    and "k_poke K (pid (dbg e)) a (pre_val (dbg e)) (world e) = (0, w)"
    and "k_singlestep K (pid (dbg e)) w = (0, w1)"
    and "k_waitpid K (pid (dbg e)) w1 = (r, status, w2)" and "0 \<le> r"
    and "\<not> WIFEXITED status" and "WIFSTOPPED status" and "WSTOPSIG status = 5"
    and "mapped w2 a" and "k_getregs K (pid (dbg e)) w2 = (0, rs)" and "rip rs = a + 1"
    and "\<And>w. k_cs_open K w"
  shows "\<exists>e'. sdb_si (Suc n) K e = Done () e' \<and> pre_addr (dbg e') = a
    \<and> k_getregs K (pid (dbg e)) (world e') = (0, rs\<lparr>rip := a\<rparr>) \<and> mem (world e') = (mem w2)(a := 0xcc)"
proof -
  let ?e1 = "e\<lparr>world := w1\<rparr>"
  have "lift_break K 183 e = Done () (e\<lparr>world := w\<rparr>)" using assms(4,5,8) by (simp add: lift_break_def)
  then have si: "sdb_si (Suc n) K e = sdb_check_process (Suc n) K ?e1"
    using assms(2,9) by (simp add: sdb_si_def si_with_def)
  have "text_in_file (dbg ?e1)" using assms(3) by simp
  then have "\<exists>e'. sdb_check_process (Suc n) K ?e1 = Done () e' \<and> pre_addr (dbg e') = a
      \<and> mem (world e') = (mem w2)(a := 0xcc)
      \<and> k_getregs K (pid (dbg e)) (world e') = (0, rs\<lparr>rip := a\<rparr>)"
    using stop_at_break [of K ?e1 mem mapped r status w2 rs code n] assms(1,2,4-7,10-18) by auto
  with si show ?thesis by metis
qed

theorem step_over_one_byte_repeats_witness:
  "\<exists>e'. sdb_si 1 machine_kernel (demo_hit_env\<lparr>
        dbg := demo_hit_sdb\<lparr>pre_addr := 0x400004, pre_val := 0x9090900f90909090\<rparr>,
        world := demo_hit_machine\<lparr>m_regs := demo_regs\<lparr>rip := 0x400004\<rparr>\<rparr>\<rparr>) = Done () e'
    \<and> pre_addr (dbg e') = 0x400004
    \<and> k_getregs machine_kernel 77 (world e') = (0, demo_regs\<lparr>rip := 0x400004\<rparr>)"
proof -
  let ?e = "demo_hit_env\<lparr>dbg := demo_hit_sdb\<lparr>pre_addr := 0x400004, pre_val := 0x9090900f90909090\<rparr>,
        world := demo_hit_machine\<lparr>m_regs := demo_regs\<lparr>rip := 0x400004\<rparr>\<rparr>\<rparr>"
  let ?m = "store64 (demo_mem(0x400004 := 0xcc)) 0x400004 0x9090900f90909090"
  let ?w = "(world ?e)\<lparr>m_mem := ?m\<rparr>"
  let ?w1 = "?w\<lparr>m_regs := demo_regs\<lparr>rip := 0x400005\<rparr>, m_status := 0x057f\<rparr>"
  have t: "tracee machine_kernel (pid (dbg ?e)) m_mem m_mapped" by (rule mach.tracee_axioms)
  have f: "text_in_file (dbg ?e)" by (simp add: text_in_file_def)
  have pk: "k_poke machine_kernel (pid (dbg ?e)) 0x400004 (pre_val (dbg ?e)) (world ?e) = (0, ?w)"
    by (simp add: m_mapped_def)
  have "?m 0x400004 = 0x90" by (simp add: store64_def byte_of_0)
  then have st: "k_singlestep machine_kernel (pid (dbg ?e)) ?w = (0, ?w1)"
    by (simp add: m_resume_def m_step_def)
  have g: "k_getregs machine_kernel (pid (dbg ?e)) ?w1 = (0, demo_regs\<lparr>rip := 0x400005\<rparr>)" by simp
  have "\<exists>e'. sdb_si (Suc 0) machine_kernel ?e = Done () e' \<and> pre_addr (dbg e') = 0x400004
      \<and> k_getregs machine_kernel (pid (dbg ?e)) (world e') = (0, demo_regs\<lparr>rip := 0x400005\<rparr>\<lparr>rip := 0x400004\<rparr>)
      \<and> m_mem (world e') = (m_mem ?w1)(0x400004 := 0xcc)"
    by (rule step_over_one_byte_repeats [OF t _ f _ _ _ _ pk st machine_waitpid _ _ _ _ _ g])
      (simp_all add: m_mapped_def)
  then obtain e' where "sdb_si (Suc 0) machine_kernel ?e = Done () e'" and "pre_addr (dbg e') = 0x400004"
    and "k_getregs machine_kernel 77 (world e') = (0, demo_regs\<lparr>rip := 0x400004\<rparr>)" by auto
  then show ?thesis by (intro exI [of _ e']) simp
qed

text \<open>The program ends by a signal: the debugger still takes it for running.\<close>

text \<open>
  C16. When the program is ended by a signal, check_process prints that the process was
  terminated by a signal with the number of the signal, and leaves the state RUNNING and the
  process number as they were; the branch for signals inside the one for normal exits is never
  taken.
\<close>

theorem killed_stays_running:
  assumes "k_waitpid K (pid (dbg e)) (world e) = (r, status, w)" and "0 \<le> r"
    and "WIFSIGNALED status" and "\<not> WIFSTOPPED status"
    and "0 < pid (dbg e)" and "pid (dbg e) < 2 ^ 31"
  shows "sdb_check_process (Suc n) K e = Done () (e\<lparr>world := w,
      err := err e @ ''** child process '' @ fmt_d (pid (dbg e)) @ '' terminated by signal (code '' @
        fmt_d (uint (status AND 0x7f)) @ '')'' @ line_end\<rparr>) \<and> \<not> WIFEXITED status"
proof -
  have ne: "\<not> WIFEXITED status" using assms(3) by (auto simp: WIFEXITED_def WIFSIGNALED_def)
  have "WTERMSIG status < 0x7f" using assms(3) by (simp add: WIFSIGNALED_def)
  then have u: "uint (WTERMSIG status) < 127" by (simp add: word_less_def)
  then have sc: "sint (WTERMSIG status) = uint (status AND 0x7f)"
  proof -
    have "0 \<le> uint (WTERMSIG status)" by simp
    then have "- (2 ^ 31) \<le> uint (WTERMSIG status)" by (rule order_trans [rotated]) simp
    moreover have "uint (WTERMSIG status) < 2 ^ 31" using u by (rule less_trans) simp
    ultimately have "signed_take_bit 31 (uint (WTERMSIG status)) = uint (WTERMSIG status)"
      by (rule signed_take_bit_int_eq_self)
    then show ?thesis by (simp add: sint_uint WTERMSIG_def)
  qed
  with u have "length (fmt_d (sint (WTERMSIG status))) \<le> 10" by (intro length_fmt_d) (simp_all add: WTERMSIG_def)
  moreover have "length (fmt_d (pid (dbg e))) \<le> 10" using assms(5,6) by (intro length_fmt_d) simp_all
  ultimately have "length (''child process '' @ fmt_d (pid (dbg e)) @ '' terminated by signal (code '' @
      fmt_d (sint (WTERMSIG status)) @ '')'') < 128" by simp
  with assms(1,2,4) ne show ?thesis by (simp add: check_process_body_def sc del: append.simps)
qed

theorem killed_stays_running_witness:
  "sdb_check_process 1 machine_kernel (demo_env\<lparr>world := demo_machine\<lparr>m_status := 11\<rparr>\<rparr>) =
      Done () (demo_env\<lparr>world := demo_machine\<lparr>m_status := 11\<rparr>,
        err := ''** child process '' @ fmt_d 77 @ '' terminated by signal (code '' @ fmt_d 11 @ '')'' @ line_end\<rparr>) \<and> \<not> WIFEXITED 11"
  using killed_stays_running [of machine_kernel "demo_env\<lparr>world := demo_machine\<lparr>m_status := 11\<rparr>\<rparr>" 77 11 "demo_machine\<lparr>m_status := 11\<rparr>" 0]
  by (simp add: WIFSIGNALED_def WTERMSIG_def WIFSTOPPED_def)

end
