(* ===== verification/SdbCommands.thy ===== *)
theory SdbCommands
  imports SdbCycle
begin

text \<open>
  The commands one by one: the guard on the state, the registers, the numbering of the break
  points, the end of the program, the memory dump, the disassembly and the memory layout.
\<close>

section \<open>The guard\<close>

theorem refused_unless_running:
  assumes "state (dbg e) \<noteq> RUNNING"
    and "m \<in> {sdb_set_break K a, sdb_del K i, sdb_si n K, sdb_cont n K, sdb_getregs K, sdb_get K r,
              sdb_disasm K a len, sdb_dump K a, sdb_vmmap K}"
  shows "m e = Done () (e\<lparr>err := err e @ ''** state must be RUNNING'' @ line_end\<rparr>)"
  using assms
  by (auto simp: sdb_set_break_def sdb_del_def sdb_si_def si_with_def sdb_cont_def sdb_getregs_def
      sdb_get_def sdb_disasm_def sdb_dump_def sdb_vmmap_def)

theorem refused_unless_running_witness:
  "sdb_cont 2 machine_kernel (demo_env\<lparr>dbg := demo_sdb\<lparr>state := LOADED\<rparr>\<rparr>) =
     Done () (demo_env\<lparr>dbg := demo_sdb\<lparr>state := LOADED\<rparr>, err := ''** state must be RUNNING'' @ line_end\<rparr>)"
  using refused_unless_running [of "demo_env\<lparr>dbg := demo_sdb\<lparr>state := LOADED\<rparr>\<rparr>"
      "sdb_cont 2 machine_kernel" machine_kernel 0 0 2 "[]" 0]
  by simp

text \<open>\<^verbatim>\<open>set\<close> alone has no such guard: without a process it ends the debugger.\<close>

theorem set_without_process_exits:
  assumes "fst (k_getregs K (pid (dbg e)) (world e)) \<noteq> 0"
  shows "\<exists>s. sdb_set K r v e = Exited 1 (e\<lparr>err := s\<rparr>)"
  using assms by (auto simp: sdb_set_def ERROR_def split: prod.splits)

theorem set_without_process_exits_witness:
  "\<exists>s. sdb_set machine_kernel ''rax'' 1 (demo_env\<lparr>dbg := new_sdb [] [] [], world := demo_machine\<lparr>m_alive := False\<rparr>\<rparr>) =
     Exited 1 (demo_env\<lparr>dbg := new_sdb [] [] [], world := demo_machine\<lparr>m_alive := False\<rparr>, err := s\<rparr>)"
  using set_without_process_exits [of machine_kernel
      "demo_env\<lparr>dbg := new_sdb [] [] [], world := demo_machine\<lparr>m_alive := False\<rparr>\<rparr>" "''rax''" 1]
  by simp

section \<open>Registers\<close>

lemma reg_read_write_same: "reg_write n v rs = Some rs' \<Longrightarrow> reg_read n rs' = Some v"
  by (auto simp: reg_write_def reg_read_def split: if_splits)

lemma reg_read_write_other: "reg_write n v rs = Some rs' \<Longrightarrow> n' \<noteq> n \<Longrightarrow> reg_read n' rs' = reg_read n' rs"
  by (simp only: reg_write_def option.inject option.distinct split: if_split_asm; hypsubst;
      simp add: reg_read_def cong: if_cong split del: if_split)

lemma reg_write_other_regs: "reg_write n v rs = Some rs' \<Longrightarrow> other_regs rs' = other_regs rs"
  by (auto simp: reg_write_def split: if_splits)

lemma reg_write_eflags: "reg_write n v rs = Some rs' \<Longrightarrow> n \<noteq> ''flags'' \<Longrightarrow> eflags rs' = eflags rs"
  by (auto simp: reg_write_def split: if_splits)

lemma reg_write_rsi: "reg_write n v rs = Some rs' \<Longrightarrow> rsi rs' = rsi rs"
  by (auto simp: reg_write_def split: if_splits)

lemma reg_known_iff: "reg_write n v rs = None \<longleftrightarrow> reg_read n rs = None"
  by (simp add: reg_write_def reg_read_def)

text \<open>
  C18. After set of a register that get and set know, but for flags, of which the processor
  decides what is kept, get prints the value that was set in base 10 and 16; the memory and
  every other register, rsi and the flags included, are unchanged, and setting rip also forgets
  the break point the program stands on.
\<close>

theorem set_then_get:
  assumes "tracee K (pid (dbg e)) mem mapped" and "state (dbg e) = RUNNING"
    and "k_getregs K (pid (dbg e)) (world e) = (0, rs)"
    and "reg_read name rs \<noteq> None" and "name \<noteq> ''flags''"
  shows "\<exists>e1 rs'. sdb_set K name v e = Done () e1 \<and> mem (world e1) = mem (world e)
    \<and> k_getregs K (pid (dbg e)) (world e1) = (0, rs')
    \<and> (\<forall>other. other \<noteq> name \<longrightarrow> reg_read other rs' = reg_read other rs)
    \<and> rsi rs' = rsi rs \<and> eflags rs' = eflags rs \<and> other_regs rs' = other_regs rs
    \<and> sdb_get K name e1 = Done () (e1\<lparr>err := err e1 @
        name @ '' = '' @ fmt_u (unat v) @ '' (0x'' @ fmt_x (unat v) @ '')'' @ line_end\<rparr>)
    \<and> pre_addr (dbg e1) = (if name = ''rip'' then 0 else pre_addr (dbg e))"
proof -
  note T = assms(1)
  obtain rs' where w: "reg_write name v rs = Some rs'"
    using assms(4) reg_known_iff [of name v rs] by auto
  obtain r w' where p: "k_setregs K (pid (dbg e)) rs' (world e) = (r, w')" by fastforce
  note other = reg_write_eflags [OF w assms(5)] reg_write_other_regs [OF w]
  have "r = 0" and g: "k_getregs K (pid (dbg e)) w' = (0, rs')" and m: "mem w' = mem (world e)"
    using tracee.setregs_ok [OF T assms(3) other] tracee.setregs_regs [OF T assms(3) other]
      tracee.setregs_mem [OF T, of rs' "world e"] p by simp_all
  define e1 where "e1 = (if name = ''rip'' then e\<lparr>dbg := (dbg e)\<lparr>pre_addr := 0, pre_val := 0\<rparr>\<rparr> else e)\<lparr>world := w'\<rparr>"
  have "sdb_set K name v e = Done () e1"
    using assms(3) w p \<open>r = 0\<close> by (simp add: sdb_set_def e1_def Let_def)
  moreover have "state (dbg e1) = RUNNING" "pid (dbg e1) = pid (dbg e)" "world e1 = w'"
    using assms(2) by (simp_all add: e1_def)
  then have "sdb_get K name e1 = Done () (e1\<lparr>err := err e1 @
        name @ '' = '' @ fmt_u (unat v) @ '' (0x'' @ fmt_x (unat v) @ '')'' @ line_end\<rparr>)"
    using g reg_read_write_same [OF w] by (simp add: sdb_get_def)
  ultimately show ?thesis
    using g m reg_read_write_other [OF w] other reg_write_rsi [OF w] by (auto simp: e1_def)
qed

theorem set_then_get_witness:
  "\<exists>e1. sdb_set machine_kernel ''rdx'' 5678 demo_env = Done () e1
    \<and> sdb_get machine_kernel ''rdx'' e1 = Done () (e1\<lparr>err := err e1 @ ''rdx = 5678 (0x162e)'' @ line_end\<rparr>)"
proof -
  have t: "tracee machine_kernel (pid (dbg demo_env)) m_mem m_mapped" by (rule mach.tracee_axioms)
  have f: "fmt_u 5678 = ''5678''" "fmt_x 5678 = ''162e''"
    by (simp_all add: print_simps)
  have g: "k_getregs machine_kernel (pid (dbg demo_env)) (world demo_env) = (0, demo_regs)"
    by (simp add: demo_machine_def)
  have k: "reg_read ''rdx'' demo_regs \<noteq> None" by (simp add: reg_read_def)
  have st: "state (dbg demo_env) = RUNNING" and nf: "''rdx'' \<noteq> ''flags''" by simp_all
  obtain e1 where "sdb_set machine_kernel ''rdx'' 5678 demo_env = Done () e1"
    and "sdb_get machine_kernel ''rdx'' e1 = Done () (e1\<lparr>err := err e1 @
        ''rdx'' @ '' = '' @ fmt_u (unat (5678 :: u64)) @ '' (0x'' @ fmt_x (unat (5678 :: u64)) @ '')'' @ line_end\<rparr>)"
    using set_then_get [OF t st g k nf, of 5678] by blast
  then show ?thesis by (intro exI [of _ e1]) (simp add: f)
qed

section \<open>Numbers of break points\<close>

definition list_line :: "nat \<Rightarrow> u64 \<Rightarrow> string" where
  "list_line i a = ''  '' @ fmt_u i @ '': '' @ fmt_x (unat a) @ line_end"

lemma list_from_lines:
  "list_from c m = concat (map (\<lambda>i. list_line (c + i) (fst (m ! i))) [0..<length m])"
proof (induction m arbitrary: c)
  case Nil
  then show ?case by simp
next
  case (Cons e m)
  have "[0..<length (e # m)] = 0 # map Suc [0..<length m]" by (simp add: upt_conv_Cons map_Suc_upt del: upt_Suc)
  with Cons show ?case by (cases e) (simp add: list_line_def comp_def del: upt_Suc)
qed

text \<open>
  C19. The numbers list prints are the ones delete takes: deleting number i removes exactly the
  address printed in line i.
\<close>

theorem list_numbers_delete:
  assumes "tracee K (pid (dbg e)) mem mapped" and "state (dbg e) = RUNNING"
    and "map_valid (addr_list (dbg e))"
    and "i < length (addr_list (dbg e))" and "int i < 2 ^ 31"
    and "mapped (world e) (fst (addr_list (dbg e) ! i))"
  shows "sdb_list e = Done () (e\<lparr>err := err e @
      concat (map (\<lambda>j. list_line j (fst (addr_list (dbg e) ! j))) [0..<length (addr_list (dbg e))])\<rparr>)
    \<and> (\<exists>e'. sdb_del K (int i) e = Done () e'
        \<and> (\<forall>a. map_find a (addr_list (dbg e')) =
              (if a = fst (addr_list (dbg e) ! i) then None else map_find a (addr_list (dbg e)))))"
proof
  show "sdb_list e = Done () (e\<lparr>err := err e @
      concat (map (\<lambda>j. list_line j (fst (addr_list (dbg e) ! j))) [0..<length (addr_list (dbg e))])\<rparr>)"
    using list_from_lines [of 0 "addr_list (dbg e)"] by (simp add: sdb_list_def)
  obtain a code where ac: "addr_list (dbg e) ! i = (a, code)" by fastforce
  obtain r w where p: "k_poke K (pid (dbg e)) a code (world e) = (r, w)" by fastforce
  have "r = 0" using tracee.poke_ok [OF assms(1), of "world e" a code] assms(6) ac p by simp
  moreover have "length (''breakpoint '' @ fmt_d (int i) @ '' deleted.'') < 32"
    using length_fmt_d [of "int i"] assms(5) by simp
  ultimately have "\<exists>e'. sdb_del K (int i) e = Done () e' \<and> addr_list (dbg e') = map_erase_nth i (addr_list (dbg e))"
    using assms(2,4) ac p by (simp add: sdb_del_def)
  then show "\<exists>e'. sdb_del K (int i) e = Done () e'
        \<and> (\<forall>a. map_find a (addr_list (dbg e')) =
              (if a = fst (addr_list (dbg e) ! i) then None else map_find a (addr_list (dbg e))))"
    using smap.lookup_erase [OF assms(3,4)] by auto
qed

theorem list_numbers_delete_witness:
  "sdb_list demo_hit_env = Done () (demo_hit_env\<lparr>err := list_line 0 0x400004\<rparr>)
    \<and> (\<exists>e'. sdb_del machine_kernel 0 demo_hit_env = Done () e' \<and> map_find 0x400004 (addr_list (dbg e')) = None)"
proof -
  have t: "tracee machine_kernel (pid (dbg demo_hit_env)) m_mem m_mapped" by (rule mach.tracee_axioms)
  have "err demo_hit_env = []" by (simp add: demo_hit_env_def)
  then show ?thesis using list_numbers_delete [OF t, of 0] by (auto simp: map_valid_def)
qed

section \<open>The end of the program\<close>

text \<open>
  C21. When the program exits with code c, the debugger goes back to LOADED, forgets the process
  and the break point it stood on, and prints the raw wait status 256 * c, not c.
\<close>

theorem process_exits:
  assumes "k_waitpid K (pid (dbg e)) (world e) = (r, push_bit 8 (of_nat c), w)" and "0 \<le> r"
    and "c < 256" and "0 < pid (dbg e)" and "pid (dbg e) < 2 ^ 31"
  shows "sdb_check_process (Suc n) K e = Done () (e\<lparr>world := w,
      err := err e @ ''** child process '' @ fmt_d (pid (dbg e)) @ '' terminated normally (code '' @
        fmt_d (256 * int c) @ '')'' @ line_end,
      dbg := (dbg e)\<lparr>pid := 0, state := LOADED, pre_val := 0, pre_addr := 0\<rparr>\<rparr>)"
proof -
  let ?s = "push_bit 8 (of_nat c) :: u32"
  have t: "WTERMSIG ?s = 0"
  proof (rule bit_word_eqI)
    fix n
    have "(0x7f :: u32) = mask 7" by (simp add: mask_eq_exp_minus_1)
    then have "bit (WTERMSIG ?s) n \<longleftrightarrow> bit (?s AND mask 7) n" by (simp add: WTERMSIG_def)
    then show "bit (WTERMSIG ?s) n \<longleftrightarrow> bit 0 n" by (auto simp: bit_and_iff bit_push_bit_iff bit_mask_iff)
  qed
  have "?s = of_nat (256 * c)" by (simp add: push_bit_eq_mult)
  then have "sint ?s = signed_take_bit 31 (int (256 * c))" by (simp only: signed_of_nat len_num1 len_bit0) simp
  also have "\<dots> = 256 * int c" using assms(3) by (subst signed_take_bit_int_eq_self) simp_all
  finally have sc: "sint ?s = 256 * int c" .
  have "length (fmt_d (256 * int c)) \<le> 10" using assms(3) by (intro length_fmt_d) simp_all
  moreover have "length (fmt_d (pid (dbg e))) \<le> 10" using assms(4,5) by (intro length_fmt_d) simp_all
  ultimately have l: "length (''child process '' @ fmt_d (pid (dbg e)) @ '' terminated normally (code '' @
      fmt_d (256 * int c) @ '')'') < 128" by simp
  have "WIFEXITED ?s" "\<not> WIFSIGNALED ?s" using t by (simp_all add: WIFEXITED_def WIFSIGNALED_def)
  with assms(1,2) l show ?thesis by (simp add: check_process_body_def sc del: append.simps)
qed

theorem process_exits_witness:
  "\<exists>s. sdb_check_process 1 machine_kernel (demo_env\<lparr>world := demo_machine\<lparr>m_status := 0x100\<rparr>\<rparr>) =
      Done () (demo_env\<lparr>world := demo_machine\<lparr>m_status := 0x100\<rparr>,
        err := ''** child process '' @ fmt_d 77 @ '' terminated normally (code '' @ fmt_d 256 @ '')'' @ line_end,
        dbg := demo_sdb\<lparr>pid := 0, state := LOADED, pre_val := 0, pre_addr := 0\<rparr>\<rparr>)"
  using process_exits [of machine_kernel "demo_env\<lparr>world := demo_machine\<lparr>m_status := 0x100\<rparr>\<rparr>" 77 1
      "demo_machine\<lparr>m_status := 0x100\<rparr>" 0]
  by (simp add: push_bit_eq_mult)

section \<open>Memory dumps\<close>

text \<open>A line of a dump as the sixteen bytes from its address on.\<close>

definition dump_text :: "u64 \<Rightarrow> bytes \<Rightarrow> string" where
  "dump_text addr data =
     ''      '' @ fmt_x (unat addr) @ '': '' @ concat (map (\<lambda>b. hex2 b @ '' '') data) @
     '' |'' @ map printed_char data @ ''|'' @ line_end"

lemma bytes_of_load64: "map (byte_of (load64 m a)) [0..<8] = map (\<lambda>i. m (a + of_nat i)) [0..<8]"
  by (rule map_cong) (simp_all add: byte_of_load64)

lemma dump_line_bytes:
  assumes "tracee K p mem mapped" and "mapped w a" and "mapped w (a + 8)"
  shows "dump_line K p w a = dump_text a (map (\<lambda>i. mem w (a + of_nat i)) [0..<16])"
proof -
  have s: "[0..<16] = [0..<8] @ map (\<lambda>i. i + 8) [0..<8]" by (simp add: upt_rec)
  have "map (\<lambda>i. mem w (a + 8 + of_nat i)) [0..<8] = map (\<lambda>i. mem w (a + of_nat i)) (map (\<lambda>i. i + 8) [0..<8])"
    by (simp add: add.assoc add.commute [of 8])
  then have "map (byte_of (k_peek K p a w)) [0..<8] @ map (byte_of (k_peek K p (a + 8) w)) [0..<8] =
      map (\<lambda>i. mem w (a + of_nat i)) [0..<16]"
    by (simp only: tracee.peek_word [OF assms(1,2)] tracee.peek_word [OF assms(1,3)] bytes_of_load64 s map_append)
  then show ?thesis by (simp only: dump_line_def dump_text_def Let_def)
qed

text \<open>
  C20. dump of an address of the text section of a running program prints the 80 bytes of its
  memory from there on in order, where they are mapped, sixteen to a line, as two hexadecimal
  digits and as characters; for any other address, of the stack for example, it prints one
  message and no memory.
\<close>

theorem dump_shows_memory:
  assumes "tracee K (pid (dbg e)) mem mapped" and "state (dbg e) = RUNNING"
    and "in_text (sect_header (dbg e)) a"
    and "\<forall>k < 10. mapped (world e) (a + 8 * of_nat k)"
  shows "sdb_dump K a e = Done () (e\<lparr>err := err e @ concat (map (\<lambda>k.
      dump_text (a + 16 * of_nat k) (map (\<lambda>i. mem (world e) (a + 16 * of_nat k + of_nat i)) [0..<16])) [0..<5])\<rparr>)
    \<and> (\<not> in_text (sect_header (dbg e)) b \<longrightarrow>
        sdb_dump K b e = Done () (e\<lparr>err := err e @ ''** the address is out of the range of the text segment'' @ line_end\<rparr>))"
proof -
  have l: "dump_line K (pid (dbg e)) (world e) (a + 16 * of_nat k) =
      dump_text (a + 16 * of_nat k) (map (\<lambda>i. mem (world e) (a + 16 * of_nat k + of_nat i)) [0..<16])"
    if "k < 5" for k
  proof (rule dump_line_bytes [OF assms(1)])
    have "2 * k < 10" and "2 * k + 1 < 10" using that by simp_all
    then have "mapped (world e) (a + 8 * of_nat (2 * k))" and "mapped (world e) (a + 8 * of_nat (2 * k + 1))"
      using assms(4) by blast+
    then show "mapped (world e) (a + 16 * of_nat k)" and "mapped (world e) (a + 16 * of_nat k + 8)"
      by (simp_all add: algebra_simps)
  qed
  have "dump_lines K (pid (dbg e)) (world e) 5 a = concat (map (\<lambda>k. dump_line K (pid (dbg e)) (world e) (a + 16 * of_nat k)) [0..<5])"
    by (simp add: upt_rec numeral_eq_Suc algebra_simps)
  also have "\<dots> = concat (map (\<lambda>k. dump_text (a + 16 * of_nat k) (map (\<lambda>i. mem (world e) (a + 16 * of_nat k + of_nat i)) [0..<16])) [0..<5])"
    using l by (intro arg_cong [where f = concat] map_cong) simp_all
  finally show ?thesis using assms(2,3) by (simp add: sdb_dump_def DEBUG_def emit_def)
qed

theorem dump_shows_memory_witness:
  "sdb_dump machine_kernel 0x400000 demo_env = Done () (demo_env\<lparr>err := concat (map (\<lambda>k.
      dump_text (0x400000 + 16 * of_nat k) (map (\<lambda>i. m_mem demo_machine (0x400000 + 16 * of_nat k + of_nat i)) [0..<16])) [0..<5])\<rparr>)
    \<and> sdb_dump machine_kernel 0x7fffffff0000 demo_env =
        Done () (demo_env\<lparr>err := ''** the address is out of the range of the text segment'' @ line_end\<rparr>)"
proof -
  have t: "tracee machine_kernel (pid (dbg demo_env)) m_mem m_mapped" by (rule mach.tracee_axioms)
  have "\<forall>k < 10. m_mapped (world demo_env) (0x400000 + 8 * of_nat k)"
  proof (intro allI impI)
    fix k :: nat assume "k < 10"
    then have "k = 0 \<or> k = 1 \<or> k = 2 \<or> k = 3 \<or> k = 4 \<or> k = 5 \<or> k = 6 \<or> k = 7 \<or> k = 8 \<or> k = 9" by arith
    then show "m_mapped (world demo_env) (0x400000 + 8 * of_nat k)" by auto
  qed
  with dump_shows_memory [OF t, of "0x400000" "0x7fffffff0000"] show ?thesis by simp
qed

section \<open>Disassembly\<close>

text \<open>
  With the section inside the file the code pointer stays inside the buffer.  The length that
  is passed on is that of the whole buffer, which is too much by the offset of the pointer.
\<close>

theorem disasm_stays_in_buffer:
  assumes "state (dbg e) = RUNNING" and "text_in_file (dbg e)" and "in_text (sect_header (dbg e)) a"
    and "k_cs_open K (world e)"
  shows "\<exists>buf s. code_text (dbg e) = Some buf
    \<and> sdb_disasm K a n e = Done () (e\<lparr>err := s\<rparr>)
    \<and> unat (sh_offset (sect_header (dbg e)) + a - sh_addr (sect_header (dbg e))) < length buf
    \<and> (code_size (dbg e) = of_nat (length buf) \<longrightarrow>
        unat (code_size (dbg e)) =
          length (drop (unat (sh_offset (sect_header (dbg e)) + a - sh_addr (sect_header (dbg e)))) buf)
          + unat (sh_offset (sect_header (dbg e)) + a - sh_addr (sect_header (dbg e))))"
proof -
  let ?sect = "sect_header (dbg e)"
  let ?off = "sh_offset ?sect + a - sh_addr ?sect"
  from assms(2) obtain buf where b: "code_text (dbg e) = Some buf"
    "unat (sh_offset ?sect) + unat (sh_size ?sect) \<le> length buf" "length buf < 2 ^ 64"
    "unat (sh_addr ?sect) + unat (sh_size ?sect) < 2 ^ 64"
    unfolding text_in_file_def by blast
  have off: "unat ?off < length buf" using in_text_offset [OF assms(3) b(4)] b(2,3) by simp
  obtain s where "sdb_disasm K a n e = Done () (e\<lparr>err := err e @ s\<rparr>)"
    using disasm_prints [OF assms] by blast
  moreover have "unat (of_nat (length buf) :: u64) = length buf" using b(3) by (simp add: unat_of_nat)
  ultimately show ?thesis using b(1) off by auto
qed

theorem disasm_stays_in_buffer_witness:
  "\<exists>s. sdb_disasm machine_kernel 0x400004 1 demo_env = Done () (demo_env\<lparr>err := s\<rparr>)"
proof -
  have "text_in_file (dbg demo_env)" by (simp add: text_in_file_def)
  then show ?thesis using disasm_stays_in_buffer [of demo_env "0x400004" machine_kernel 1] by auto
qed

section \<open>The memory layout\<close>

text \<open>A line of \<^verbatim>\<open>/proc/<pid>/maps\<close>, with the kind of the mapping (\<^verbatim>\<open>p\<close> or \<^verbatim>\<open>s\<close>) as the last permission.\<close>

definition maps_line :: "nat \<Rightarrow> nat \<Rightarrow> string \<Rightarrow> string \<Rightarrow> nat \<Rightarrow> string \<Rightarrow> string \<Rightarrow> string \<Rightarrow> string \<Rightarrow> string" where
  "maps_line first limit perms kind off device inode gap path =
     fmt_x first @ ''-'' @ fmt_x limit @ '' '' @ perms @ kind @ '' '' @ fmt_x off @ '' '' @
     device @ '' '' @ inode @ '' '' @ gap @ path"

lemma fmt_x_chars: "c \<in> set (fmt_x n) \<Longrightarrow> c \<noteq> CHR '' '' \<and> c \<noteq> CHR ''-'' \<and> c \<noteq> CHR ''p''"
proof -
  assume "c \<in> set (fmt_x n)"
  then obtain d where d: "d < 16" "c = digit_char d" using digits_chars [of 16 c n] by (auto simp: fmt_x_def)
  have "ascii (digit_char d) \<noteq> ascii (CHR ''p'')"
    using d(1) by (simp only: ascii_digit_char) (simp add: ascii_def)
  then have "c \<noteq> CHR ''p''" using d(2) by metis
  then show ?thesis using d digit_char_not_space [of d] digit_char_not_sign [of d] by simp
qed

lemma fmt_x_nonempty: "fmt_x n \<noteq> []"
  by (simp add: fmt_x_def)

theorem vmmap_private_line:
  assumes "first < 2 ^ 64" and "limit < 2 ^ 64" and "off < 2 ^ 64"
    and "perms \<noteq> []" and "set perms \<subseteq> {CHR ''r'', CHR ''w'', CHR ''x'', CHR ''-''}"
    and "device \<noteq> []" and "CHR '' '' \<notin> set device" and "inode \<noteq> []" and "CHR '' '' \<notin> set inode"
    and "set gap \<subseteq> {CHR '' ''}" and "path \<noteq> []" and "CHR '' '' \<notin> set path"
  shows "vmmap_line (maps_line first limit perms ''p'' off device inode gap path) =
    zero_pad 16 (fmt_x first) @ ''-'' @ zero_pad 16 (fmt_x limit) @ '' '' @ perms @ '' '' @
    pad_right 8 (fmt_x off) @ ''  '' @ path"
proof -
  let ?s5 = "inode @ CHR '' '' # gap @ path"
  let ?s4 = "device @ CHR '' '' # ?s5"
  let ?s3 = "CHR '' '' # fmt_x off @ CHR '' '' # ?s4"
  let ?s2 = "perms @ CHR ''p'' # ?s3"
  let ?s1 = "fmt_x limit @ CHR '' '' # ?s2"
  have l: "maps_line first limit perms ''p'' off device inode gap path = fmt_x first @ CHR ''-'' # ?s1"
    by (simp add: maps_line_def)
  have t1: "strtok ''-'' (fmt_x first @ CHR ''-'' # ?s1) = (Some (fmt_x first), ?s1)"
    using strtok_hit [of "fmt_x first" "''-''" "[]" "CHR ''-''" ?s1] fmt_x_nonempty fmt_x_chars by auto
  have t2: "strtok '' '' ?s1 = (Some (fmt_x limit), ?s2)"
    using strtok_hit [of "fmt_x limit" "'' ''" "[]" "CHR '' ''" ?s2] fmt_x_nonempty fmt_x_chars by auto
  have t3: "strtok ''p'' ?s2 = (Some perms, ?s3)"
    using strtok_hit [of perms "''p''" "[]" "CHR ''p''" ?s3] assms(4,5) by auto
  have t4: "strtok '' '' ?s3 = (Some (fmt_x off), ?s4)"
    using strtok_hit [of "fmt_x off" "'' ''" "'' ''" "CHR '' ''" ?s4] fmt_x_nonempty fmt_x_chars by auto
  have t5: "strtok '' '' ?s4 = (Some device, ?s5)"
    using strtok_hit [of device "'' ''" "[]" "CHR '' ''" ?s5] assms(6,7) by auto
  have t6: "strtok '' '' ?s5 = (Some inode, gap @ path)"
    using strtok_hit [of inode "'' ''" "[]" "CHR '' ''" "gap @ path"] assms(8,9) by auto
  have t7: "strtok '' '' (gap @ path) = (Some path, [])"
    using strtok_last [of path "'' ''" gap] assms(10-12) by auto
  have n: "unat (of_nat first :: u64) = first" "unat (of_nat limit :: u64) = limit" "unat (of_nat off :: u64) = off"
    using assms(1-3) by (simp_all add: unat_of_nat)
  show ?thesis
    by (simp only: vmmap_line_def l t1 t2 t3 t4 t5 t6 t7 prod.case Let_def map_token_def option.case
        strtoul16_plain [OF assms(1)] strtoul16_plain [OF assms(2)] strtoul16_plain [OF assms(3)] n) simp
qed

theorem vmmap_private_line_witness:
  "vmmap_line (maps_line 0x400000 0x401000 ''r-x'' ''p'' 0 ''08:02'' ''12'' ''   '' ''/bin/x'') =
    zero_pad 16 (fmt_x 0x400000) @ ''-'' @ zero_pad 16 (fmt_x 0x401000) @ '' '' @ ''r-x'' @ '' '' @
    pad_right 8 (fmt_x 0) @ ''  '' @ ''/bin/x''"
  by (rule vmmap_private_line) simp_all

text \<open>A shared mapping has no \<^verbatim>\<open>p\<close> there: the permissions run on to the first \<^verbatim>\<open>p\<close> of the line.\<close>

theorem vmmap_shared_line:
  assumes "set perms \<subseteq> {CHR ''r'', CHR ''w'', CHR ''x'', CHR ''-''}" and "perms \<noteq> []"
    and "first < 2 ^ 64" and "limit < 2 ^ 64"
    and "CHR ''p'' \<notin> set device" and "CHR ''p'' \<notin> set inode" and "CHR ''p'' \<notin> set path"
    and "set gap \<subseteq> {CHR '' ''}"
  shows "vmmap_line (maps_line first limit perms ''s'' off device inode gap path) =
    zero_pad 16 (fmt_x first) @ ''-'' @ zero_pad 16 (fmt_x limit) @ '' '' @
    perms @ ''s '' @ fmt_x off @ '' '' @ device @ '' '' @ inode @ '' '' @ gap @ path @ '' ''"
proof -
  let ?s2 = "perms @ CHR ''s'' # CHR '' '' # fmt_x off @ CHR '' '' # device @ CHR '' '' # inode @ CHR '' '' # gap @ path"
  let ?s1 = "fmt_x limit @ CHR '' '' # ?s2"
  have l: "maps_line first limit perms ''s'' off device inode gap path = fmt_x first @ CHR ''-'' # ?s1"
    by (simp add: maps_line_def)
  have t1: "strtok ''-'' (fmt_x first @ CHR ''-'' # ?s1) = (Some (fmt_x first), ?s1)"
    using strtok_hit [of "fmt_x first" "''-''" "[]" "CHR ''-''" ?s1] fmt_x_nonempty fmt_x_chars by auto
  have t2: "strtok '' '' ?s1 = (Some (fmt_x limit), ?s2)"
    using strtok_hit [of "fmt_x limit" "'' ''" "[]" "CHR '' ''" ?s2] fmt_x_nonempty fmt_x_chars by auto
  have t3: "strtok ''p'' ?s2 = (Some ?s2, [])"
    using strtok_last [of ?s2 "''p''" "[]"] assms(1,2,5-8) fmt_x_chars [of _ off] by auto
  have t: "strtok d [] = (None, [])" for d by (simp add: strtok_def)
  have n: "unat (of_nat first :: u64) = first" "unat (of_nat limit :: u64) = limit"
    using assms(3,4) by (simp_all add: unat_of_nat)
  show ?thesis
    by (simp only: vmmap_line_def l t1 t2 t3 t prod.case Let_def map_token_def option.case
        strtoul16_plain [OF assms(3)] strtoul16_plain [OF assms(4)] n) simp
qed

theorem vmmap_shared_line_witness:
  "vmmap_line (maps_line 0x400000 0x401000 ''rw-'' ''s'' 0 ''08:02'' ''12'' ''   '' ''/dev/shm/x'') =
    zero_pad 16 (fmt_x 0x400000) @ ''-'' @ zero_pad 16 (fmt_x 0x401000) @ '' '' @
    ''rw-'' @ ''s '' @ fmt_x 0 @ '' '' @ ''08:02'' @ '' '' @ ''12'' @ '' '' @ ''   '' @ ''/dev/shm/x'' @ '' ''"
  by (rule vmmap_shared_line) simp_all

end
