(* ===== verification/Mini.thy ===== *)
theory Mini
  imports CPrelude CText
begin

text \<open>
  The C library of \<^verbatim>\<open>src/hw3\<close>: \<^verbatim>\<open>libmini.c\<close> and \<^verbatim>\<open>libmini.h\<close>, without the signals and jumps.
  Pointers are addresses of a flat memory that the kernel shares; \<^verbatim>\<open>int\<close> is 32 bits wide,
  \<^verbatim>\<open>long\<close>, \<^verbatim>\<open>size_t\<close> (a \<^verbatim>\<open>long long\<close> here) and pointers are 64 bits wide.
\<close>

section \<open>The process and its kernel\<close>

text \<open>
  \<open>user_mem\<close> is the memory of the process, \<open>errno\<close> the variable of that name and \<open>os\<close>
  whatever the kernel keeps.
\<close>

record 'w proc =
  user_mem :: byte_mem
  errno :: u64
  os :: 'w

text \<open>
  A kernel: the number of a system call and its arguments as the registers hold them, the memory
  and the kernel's state; the result is the value left in \<^verbatim>\<open>rax\<close>, the memory and the state.
  \<^verbatim>\<open>gensys\<close> of \<^verbatim>\<open>libmini64.asm\<close> gives each call its number and moves the fourth argument.
\<close>

type_synonym 'w syscalls = "nat \<Rightarrow> u64 list \<Rightarrow> byte_mem \<Rightarrow> 'w \<Rightarrow> u64 \<times> byte_mem \<times> 'w"

definition sys_call :: "'w syscalls \<Rightarrow> nat \<Rightarrow> u64 list \<Rightarrow> (u64, 'w proc) prog" where
  "sys_call S nr args p =
     (let (ret, m, w) = S nr args (user_mem p) (os p) in Done ret (p\<lparr>user_mem := m, os := w\<rparr>))"

text \<open>The two macros that end a wrapper.\<close>

definition WRAPPER_RETval :: "u64 \<Rightarrow> ('r::len word, 'w proc) prog" where
  "WRAPPER_RETval ret p =
     (let p0 = p\<lparr>errno := 0\<rparr>
      in if ret <s 0 then Done (- 1) (p0\<lparr>errno := - ret\<rparr>) else Done (ucast ret) p0)"

definition WRAPPER_RETptr :: "u64 \<Rightarrow> (u64, 'w proc) prog" where
  "WRAPPER_RETptr ret p =
     (let p0 = p\<lparr>errno := 0\<rparr>
      in if ret <s 0 then Done 0 (p0\<lparr>errno := - ret\<rparr>) else Done ret p0)"

section \<open>The wrappers\<close>

text \<open>An \<^verbatim>\<open>int\<close> argument is sign-extended to its register, an \<^verbatim>\<open>unsigned int\<close> is not.\<close>

definition mini_read :: "'w syscalls \<Rightarrow> u32 \<Rightarrow> u64 \<Rightarrow> u64 \<Rightarrow> (u64, 'w proc) prog" where
  "mini_read S fd buf count = andthen (sys_call S 0 [scast fd, buf, count]) WRAPPER_RETval"

definition mini_write :: "'w syscalls \<Rightarrow> u32 \<Rightarrow> u64 \<Rightarrow> u64 \<Rightarrow> (u64, 'w proc) prog" where
  "mini_write S fd buf count = andthen (sys_call S 1 [scast fd, buf, count]) WRAPPER_RETval"

definition mini_close :: "'w syscalls \<Rightarrow> u32 \<Rightarrow> (u32, 'w proc) prog" where
  "mini_close S fd = andthen (sys_call S 3 [ucast fd]) WRAPPER_RETval"

definition mini_mmap :: "'w syscalls \<Rightarrow> u64 \<Rightarrow> u64 \<Rightarrow> u32 \<Rightarrow> u32 \<Rightarrow> u32 \<Rightarrow> u64 \<Rightarrow> (u64, 'w proc) prog" where
  "mini_mmap S addr len prot flags fd off = andthen (sys_call S 9 [addr, len, scast prot, scast flags, scast fd, off]) WRAPPER_RETptr"

definition mini_mprotect :: "'w syscalls \<Rightarrow> u64 \<Rightarrow> u64 \<Rightarrow> u32 \<Rightarrow> (u32, 'w proc) prog" where
  "mini_mprotect S addr len prot = andthen (sys_call S 10 [addr, len, scast prot]) WRAPPER_RETval"

definition mini_munmap :: "'w syscalls \<Rightarrow> u64 \<Rightarrow> u64 \<Rightarrow> (u32, 'w proc) prog" where
  "mini_munmap S addr len = andthen (sys_call S 11 [addr, len]) WRAPPER_RETval"

definition mini_pipe :: "'w syscalls \<Rightarrow> u64 \<Rightarrow> (u32, 'w proc) prog" where
  "mini_pipe S filedes = andthen (sys_call S 22 [filedes]) WRAPPER_RETval"

definition mini_dup :: "'w syscalls \<Rightarrow> u32 \<Rightarrow> (u32, 'w proc) prog" where
  "mini_dup S filedes = andthen (sys_call S 32 [scast filedes]) WRAPPER_RETval"

definition mini_dup2 :: "'w syscalls \<Rightarrow> u32 \<Rightarrow> u32 \<Rightarrow> (u32, 'w proc) prog" where
  "mini_dup2 S oldfd newfd = andthen (sys_call S 33 [scast oldfd, scast newfd]) WRAPPER_RETval"

definition mini_pause :: "'w syscalls \<Rightarrow> (u32, 'w proc) prog" where
  "mini_pause S = andthen (sys_call S 34 []) WRAPPER_RETval"

definition mini_nanosleep :: "'w syscalls \<Rightarrow> u64 \<Rightarrow> u64 \<Rightarrow> (u32, 'w proc) prog" where
  "mini_nanosleep S rqtp rmtp = andthen (sys_call S 35 [rqtp, rmtp]) WRAPPER_RETval"

definition mini_fork :: "'w syscalls \<Rightarrow> (u32, 'w proc) prog" where
  "mini_fork S = andthen (sys_call S 57 []) WRAPPER_RETval"

definition mini_getcwd :: "'w syscalls \<Rightarrow> u64 \<Rightarrow> u64 \<Rightarrow> (u64, 'w proc) prog" where
  "mini_getcwd S buf sz = andthen (sys_call S 79 [buf, sz]) WRAPPER_RETptr"

definition mini_chdir :: "'w syscalls \<Rightarrow> u64 \<Rightarrow> (u32, 'w proc) prog" where
  "mini_chdir S pathname = andthen (sys_call S 80 [pathname]) WRAPPER_RETval"

definition mini_rename :: "'w syscalls \<Rightarrow> u64 \<Rightarrow> u64 \<Rightarrow> (u32, 'w proc) prog" where
  "mini_rename S oldname newname = andthen (sys_call S 82 [oldname, newname]) WRAPPER_RETval"

definition mini_mkdir :: "'w syscalls \<Rightarrow> u64 \<Rightarrow> u32 \<Rightarrow> (u32, 'w proc) prog" where
  "mini_mkdir S pathname mode = andthen (sys_call S 83 [pathname, scast mode]) WRAPPER_RETval"

definition mini_rmdir :: "'w syscalls \<Rightarrow> u64 \<Rightarrow> (u32, 'w proc) prog" where
  "mini_rmdir S pathname = andthen (sys_call S 84 [pathname]) WRAPPER_RETval"

definition mini_creat :: "'w syscalls \<Rightarrow> u64 \<Rightarrow> u32 \<Rightarrow> (u32, 'w proc) prog" where
  "mini_creat S pathname mode = andthen (sys_call S 85 [pathname, scast mode]) WRAPPER_RETval"

definition mini_link :: "'w syscalls \<Rightarrow> u64 \<Rightarrow> u64 \<Rightarrow> (u32, 'w proc) prog" where
  "mini_link S oldname newname = andthen (sys_call S 86 [oldname, newname]) WRAPPER_RETval"

definition mini_unlink :: "'w syscalls \<Rightarrow> u64 \<Rightarrow> (u32, 'w proc) prog" where
  "mini_unlink S pathname = andthen (sys_call S 88 [pathname]) WRAPPER_RETval"

definition mini_readlink :: "'w syscalls \<Rightarrow> u64 \<Rightarrow> u64 \<Rightarrow> u64 \<Rightarrow> (u64, 'w proc) prog" where
  "mini_readlink S path buf bufsz = andthen (sys_call S 89 [path, buf, bufsz]) WRAPPER_RETval"

definition mini_chmod :: "'w syscalls \<Rightarrow> u64 \<Rightarrow> u32 \<Rightarrow> (u32, 'w proc) prog" where
  "mini_chmod S filename mode = andthen (sys_call S 90 [filename, scast mode]) WRAPPER_RETval"

definition mini_chown :: "'w syscalls \<Rightarrow> u64 \<Rightarrow> u32 \<Rightarrow> u32 \<Rightarrow> (u32, 'w proc) prog" where
  "mini_chown S filename user grp = andthen (sys_call S 92 [filename, scast user, scast grp]) WRAPPER_RETval"

definition mini_umask :: "'w syscalls \<Rightarrow> u32 \<Rightarrow> (u32, 'w proc) prog" where
  "mini_umask S msk = andthen (sys_call S 95 [scast msk]) WRAPPER_RETval"

definition mini_gettimeofday :: "'w syscalls \<Rightarrow> u64 \<Rightarrow> u64 \<Rightarrow> (u32, 'w proc) prog" where
  "mini_gettimeofday S tv tz = andthen (sys_call S 96 [tv, tz]) WRAPPER_RETval"

definition mini_getuid :: "'w syscalls \<Rightarrow> (u32, 'w proc) prog" where
  "mini_getuid S = andthen (sys_call S 102 []) WRAPPER_RETval"

definition mini_getgid :: "'w syscalls \<Rightarrow> (u32, 'w proc) prog" where
  "mini_getgid S = andthen (sys_call S 104 []) WRAPPER_RETval"

definition mini_setuid :: "'w syscalls \<Rightarrow> u32 \<Rightarrow> (u32, 'w proc) prog" where
  "mini_setuid S uid = andthen (sys_call S 105 [scast uid]) WRAPPER_RETval"

definition mini_setgid :: "'w syscalls \<Rightarrow> u32 \<Rightarrow> (u32, 'w proc) prog" where
  "mini_setgid S gid = andthen (sys_call S 106 [scast gid]) WRAPPER_RETval"

definition mini_geteuid :: "'w syscalls \<Rightarrow> (u32, 'w proc) prog" where
  "mini_geteuid S = andthen (sys_call S 107 []) WRAPPER_RETval"

definition mini_getegid :: "'w syscalls \<Rightarrow> (u32, 'w proc) prog" where
  "mini_getegid S = andthen (sys_call S 108 []) WRAPPER_RETval"

definition mini_alarm :: "'w syscalls \<Rightarrow> u32 \<Rightarrow> (u32, 'w proc) prog" where
  "mini_alarm S seconds = andthen (sys_call S 37 [ucast seconds]) WRAPPER_RETval"

definition mini_sigprocmask :: "'w syscalls \<Rightarrow> u32 \<Rightarrow> u64 \<Rightarrow> u64 \<Rightarrow> (u32, 'w proc) prog" where
  "mini_sigprocmask S how set_ptr oldset = andthen (sys_call S 14 [scast how, set_ptr, oldset, 8]) WRAPPER_RETval"

definition mini_sigpending :: "'w syscalls \<Rightarrow> u64 \<Rightarrow> (u32, 'w proc) prog" where
  "mini_sigpending S set_ptr = andthen (sys_call S 127 [set_ptr, 8]) WRAPPER_RETval"

text \<open>\<^verbatim>\<open>exit\<close>: the call does not return.\<close>

definition mini_exit :: "'w syscalls \<Rightarrow> u32 \<Rightarrow> (unit, 'w proc) prog" where
  "mini_exit S error_code p =
     (let (ret, m, w) = S 60 [scast error_code] (user_mem p) (os p)
      in Exited (sint error_code) (p\<lparr>user_mem := m, os := w\<rparr>))"

text \<open>\<^verbatim>\<open>open\<close> of \<^verbatim>\<open>libmini64.asm\<close>: the result is compared with 0 and negated in a register.\<close>

definition mini_open :: "'w syscalls \<Rightarrow> u64 \<Rightarrow> u32 \<Rightarrow> u32 \<Rightarrow> (u32, 'w proc) prog" where
  "mini_open S filename flags mode =
     andthen (sys_call S 2 [filename, scast flags, scast mode])
       (\<lambda>rax p. if 0 \<le>s rax then Done (ucast rax) (p\<lparr>errno := 0\<rparr>)
                 else Done (- 1) (p\<lparr>errno := - rax\<rparr>))"

section \<open>What the wrappers do\<close>

text \<open>Both macros as one equation on the outcome of the system call.\<close>

lemma RETval_call:
  assumes "S nr args (user_mem p) (os p) = (ret, m, w)"
  shows "andthen (sys_call S nr args) WRAPPER_RETval p =
    (if ret <s 0 then Done (- 1) (p\<lparr>errno := - ret, user_mem := m, os := w\<rparr>)
     else Done (ucast ret) (p\<lparr>errno := 0, user_mem := m, os := w\<rparr>))"
  using assms by (simp add: sys_call_def WRAPPER_RETval_def Let_def)

lemma RETptr_call:
  assumes "S nr args (user_mem p) (os p) = (ret, m, w)"
  shows "andthen (sys_call S nr args) WRAPPER_RETptr p =
    (if ret <s 0 then Done 0 (p\<lparr>errno := - ret, user_mem := m, os := w\<rparr>)
     else Done ret (p\<lparr>errno := 0, user_mem := m, os := w\<rparr>))"
  using assms by (simp add: sys_call_def WRAPPER_RETptr_def Let_def)

lemma open_is_RETval:
  "mini_open S filename flags mode = andthen (sys_call S 2 [filename, scast flags, scast mode]) WRAPPER_RETval"
proof
  fix p :: "'a proc"
  obtain ret m w where k: "S 2 [filename, scast flags, scast mode] (user_mem p) (os p) = (ret, m, w)"
    by (metis prod_cases3)
  have "ret <s 0 \<longleftrightarrow> \<not> 0 \<le>s ret" by (simp add: word_sless_alt word_sle_eq not_le)
  then show "mini_open S filename flags mode p =
      andthen (sys_call S 2 [filename, scast flags, scast mode]) WRAPPER_RETval p"
    using k by (simp add: mini_open_def sys_call_def WRAPPER_RETval_def Let_def)
qed

section \<open>Memory and strings\<close>

text \<open>\<^verbatim>\<open>size_t\<close> is signed in \<^verbatim>\<open>libmini.h\<close>: \<^verbatim>\<open>bzero\<close> does nothing for a size that is negative.\<close>

lemma sint_pred:
  assumes "0 <s (n :: u64)"
  shows "sint (n - 1) = sint n - 1"
proof -
  have "0 < sint n" using assms by (simp add: word_sless_alt)
  moreover have "sint n < 2 ^ 63" using sint_lt [of n] by simp
  ultimately have "- (2 ^ 63) \<le> sint n - 1" "sint n - 1 < 2 ^ 63" by simp_all
  then have "signed_take_bit 63 (sint n - 1) = sint n - 1" by (rule signed_take_bit_int_eq_self)
  then show ?thesis by (simp add: sint_word_ariths)
qed

function bzero :: "u64 \<Rightarrow> u64 \<Rightarrow> byte_mem \<Rightarrow> byte_mem" where
  "bzero s n m = (if 0 <s n then bzero (s + 1) (n - 1) (m(s := 0)) else m)"
  by pat_completeness auto

termination
  by (relation "measure (\<lambda>(s, n, m). nat (sint n))") (auto simp: sint_pred word_sless_alt)

declare bzero.simps [simp del]

lemma unat_shift: "x \<noteq> s \<Longrightarrow> int (unat (x - (s + 1))) = int (unat (x - s)) - 1" for x s :: u64
proof -
  assume "x \<noteq> s"
  then have z: "x - s \<noteq> 0" by simp
  then have "unat (x - s - 1) = unat (x - s) - 1" by (rule unat_minus_one)
  moreover have "0 < unat (x - s)" using z by (simp only: unat_gt_0 not_False_eq_True)
  moreover have "x - (s + 1) = x - s - 1" by (simp only: diff_diff_eq)
  ultimately have "unat (x - (s + 1)) = unat (x - s) - 1" "0 < unat (x - s)" by (simp_all only:)
  then show ?thesis by linarith
qed

lemma bzero_range:
  "bzero s n m = (\<lambda>x. if int (unat (x - s)) < sint n then 0 else m x)"
proof (induction s n m rule: bzero.induct)
  case (1 s n m)
  show ?case
  proof (cases "0 <s n")
    case True
    then have pos: "0 < sint n" by (simp add: word_sless_alt)
    have "bzero s n m = bzero (s + 1) (n - 1) (m(s := 0))" using True by (subst bzero.simps) simp
    also have "\<dots> = (\<lambda>x. if int (unat (x - (s + 1))) < sint n - 1 then 0 else (m(s := 0)) x)"
      using 1 [OF True] True by (simp only: sint_pred)
    also have "\<dots> = (\<lambda>x. if int (unat (x - s)) < sint n then 0 else m x)"
    proof
      fix x
      show "(if int (unat (x - (s + 1))) < sint n - 1 then 0 else (m(s := 0)) x) =
          (if int (unat (x - s)) < sint n then 0 else m x)"
        using unat_shift [of x s] pos by (cases "x = s") auto
    qed
    finally show ?thesis .
  next
    case False
    then have "sint n \<le> 0" by (simp add: word_sless_alt)
    then have "\<not> int (unat (x - s)) < sint n" for x by linarith
    then show ?thesis using False by (subst bzero.simps) simp
  qed
qed

text \<open>\<^verbatim>\<open>strlen\<close> looks for a null byte; \<open>None\<close> when there is none in the whole address space.\<close>

partial_function (option) strlen_from :: "byte_mem \<Rightarrow> u64 \<Rightarrow> u64 \<Rightarrow> u64 option" where
  "strlen_from m s count = (if m s = 0 then Some count else strlen_from m (s + 1) (count + 1))"

definition mini_strlen :: "byte_mem \<Rightarrow> u64 \<Rightarrow> u64 option" where
  "mini_strlen m s = strlen_from m s 0"

text \<open>The bytes that stand in memory from an address on.\<close>

fun holds :: "byte_mem \<Rightarrow> u64 \<Rightarrow> bytes \<Rightarrow> bool" where
  "holds m a [] \<longleftrightarrow> True"
| "holds m a (b # bs) \<longleftrightarrow> m a = b \<and> holds m (a + 1) bs"

definition cstring :: "byte_mem \<Rightarrow> u64 \<Rightarrow> string \<Rightarrow> bool" where
  "cstring m a s \<longleftrightarrow> CHR 0x00 \<notin> set s \<and> holds m a (bytes_of s @ [0])"

lemma holds_append: "holds m a (xs @ ys) \<longleftrightarrow> holds m a xs \<and> holds m (a + of_nat (length xs)) ys"
  by (induction xs arbitrary: a) (auto simp: algebra_simps)

lemma holds_nth: "holds m a bs \<Longrightarrow> i < length bs \<Longrightarrow> m (a + of_nat i) = bs ! i"
proof (induction bs arbitrary: a i)
  case Nil
  then show ?case by simp
next
  case (Cons b bs)
  then show ?case by (cases i) (force simp: algebra_simps)+
qed

lemma holds_read: "holds m a bs \<Longrightarrow> map (\<lambda>i. m (a + of_nat i)) [0..<length bs] = bs"
  by (rule nth_equalityI) (simp_all add: holds_nth)

lemma strlen_from_holds:
  assumes "0 \<notin> set bs" and "holds m a (bs @ [0])"
  shows "strlen_from m a c = Some (c + of_nat (length bs))"
  using assms
proof (induction bs arbitrary: a c)
  case Nil
  then show ?case by (subst strlen_from.simps) simp
next
  case (Cons b bs)
  then show ?case by (subst strlen_from.simps) (auto simp: algebra_simps)
qed

theorem strlen_counts:
  assumes "cstring m a s"
  shows "mini_strlen m a = Some (of_nat (length s))"
  using assms strlen_from_holds [of "bytes_of s" m a 0]
  by (simp add: cstring_def mini_strlen_def bytes_of_null)

section \<open>Messages of errors\<close>

definition errmsg :: "string list" where
  "errmsg =
     [''Success'', ''Operation not permitted'', ''No such file or directory'', ''No such process'',
      ''Interrupted system call'', ''I/O error'', ''No such device or address'', ''Argument list too long'',
      ''Exec format error'', ''Bad file number'', ''No child processes'', ''Try again'', ''Out of memory'',
      ''Permission denied'', ''Bad address'', ''Block device required'', ''Device or resource busy'',
      ''File exists'', ''Cross-device link'', ''No such device'', ''Not a directory'', ''Is a directory'',
      ''Invalid argument'', ''File table overflow'', ''Too many open files'', ''Not a typewriter'',
      ''Text file busy'', ''File too large'', ''No space left on device'', ''Illegal seek'',
      ''Read-only file system'', ''Too many links'', ''Broken pipe'', ''Math argument out of domain of func'',
      ''Math result not representable'']"

text \<open>\<^verbatim>\<open>write(fd, s, strlen(s))\<close>, which every program of hw3 uses to print a string.\<close>

definition write_string :: "'w syscalls \<Rightarrow> u32 \<Rightarrow> u64 \<Rightarrow> (u64, 'w proc) prog" where
  "write_string S fd s p =
     (case mini_strlen (user_mem p) s of
        None \<Rightarrow> Timeout
      | Some n \<Rightarrow> mini_write S fd s n p)"

text \<open>
  \<open>lit\<close> is where the linker put the string literals.  The range test reads \<^verbatim>\<open>errno\<close> after the
  prefix was written, the index is the value from before: past the table the access is undefined.
\<close>

definition mini_perror :: "'w syscalls \<Rightarrow> (string \<Rightarrow> u64) \<Rightarrow> u64 \<Rightarrow> (u64, 'w proc) prog" where
  "mini_perror S lit prefix p =
     (let backup = errno p
      in seq (if prefix \<noteq> 0 then seq (write_string S 2 prefix) (seq (mini_write S 2 (lit '': '') 2) skip) else skip)
        (seq (\<lambda>p1. if errno p1 <s 0 \<or> 34 <s errno p1 then write_string S 2 (lit ''Unknown'') p1
                   else if backup <s 0 \<or> int (length errmsg) \<le> sint backup then Undef
                   else write_string S 2 (lit (errmsg ! nat (sint backup))) p1)
             (mini_write S 2 (lit [nl]) 1)) p)"

text \<open>A kernel that writes all it is asked to write to a terminal, and nothing into the process.\<close>

locale terminal =
  fixes S :: "'w syscalls" and out :: "'w \<Rightarrow> bytes"
  assumes write_law: "fd \<in> {1, 2} \<Longrightarrow> unat n < 2 ^ 31 \<Longrightarrow>
    \<exists>w'. S 1 [fd, buf, n] m w = (n, m, w') \<and> out w' = out w @ map (\<lambda>i. m (buf + of_nat i)) [0..<unat n]"
begin

lemma write_holds:
  assumes "fd \<in> {1, 2}" and "holds (user_mem p) buf bs" and "length bs < 2 ^ 31"
  shows "\<exists>w. mini_write S fd buf (of_nat (length bs)) p =
      Done (of_nat (length bs)) (p\<lparr>errno := 0, os := w\<rparr>) \<and> out w = out (os p) @ bs"
proof -
  have u: "unat (of_nat (length bs) :: u64) = length bs" using assms(3) by (simp add: unat_of_nat)
  have "0 \<le> sint (of_nat (length bs) :: u64)" using assms(3) by (subst sint_of_nat_small) simp_all
  then have nn: "\<not> (of_nat (length bs) :: u64) <s 0" by (simp add: word_sless_alt)
  have "scast fd \<in> {1, 2 :: u64}" using assms(1) by auto
  then obtain w where "S 1 [scast fd, buf, of_nat (length bs)] (user_mem p) (os p) = (of_nat (length bs), user_mem p, w)"
    "out w = out (os p) @ map (\<lambda>i. user_mem p (buf + of_nat i)) [0..<length bs]"
    using write_law [of "scast fd" "of_nat (length bs)" buf "user_mem p" "os p"] u assms(3) by auto
  then show ?thesis using nn holds_read [OF assms(2)] by (auto simp: mini_write_def RETval_call)
qed

lemma write_string_holds:
  assumes "fd \<in> {1, 2}" and "cstring (user_mem p) buf s" and "length s < 2 ^ 31"
  shows "\<exists>w. write_string S fd buf p =
      Done (of_nat (length s)) (p\<lparr>errno := 0, os := w\<rparr>) \<and> out w = out (os p) @ bytes_of s"
proof -
  have "mini_strlen (user_mem p) buf = Some (of_nat (length s))"
    using assms(2) strlen_from_holds [of "bytes_of s" "user_mem p" buf 0]
    by (simp add: cstring_def mini_strlen_def bytes_of_null)
  moreover have "holds (user_mem p) buf (bytes_of s)" using assms(2) by (simp add: cstring_def holds_append)
  ultimately show ?thesis using write_holds [OF assms(1), of p buf "bytes_of s"] assms(3) by (simp add: write_string_def)
qed

end

text \<open>The literals of a program are in its memory where the linker put them.\<close>

definition literals :: "byte_mem \<Rightarrow> (string \<Rightarrow> u64) \<Rightarrow> string set \<Rightarrow> bool" where
  "literals m lit ls \<longleftrightarrow> (\<forall>s \<in> ls. cstring m (lit s) s)"

lemma errmsg_facts: "length errmsg = 35" "\<forall>s \<in> set errmsg. length s < 2 ^ 31"
  by (simp_all add: errmsg_def)

text \<open>The three writes of \<^verbatim>\<open>perror\<close> for an error number of the table.\<close>

text \<open>
  C27. perror writes the prefix, a colon, the message of the error number and a line end, for
  every number of the table.
\<close>

theorem perror_prints:
  assumes "terminal S out"
    and "cstring (user_mem p) prefix s" and "prefix \<noteq> 0" and "length s < 2 ^ 31"
    and "literals (user_mem p) lit (set errmsg \<union> {'': '', [nl]})"
    and "errno p = of_nat n" and "n \<le> 34"
  shows "\<exists>w. mini_perror S lit prefix p = Done 1 (p\<lparr>errno := 0, os := w\<rparr>)
    \<and> out w = out (os p) @ bytes_of (s @ '': '' @ errmsg ! n @ [nl])"
proof -
  have e: "\<not> errno p <s 0" "sint (errno p) = int n" using assms(6,7) by (simp_all add: word_sless_alt sint_of_nat_small)
  have lits: "cstring (user_mem p) (lit '': '') '': ''" "cstring (user_mem p) (lit [nl]) [nl]"
    "cstring (user_mem p) (lit (errmsg ! n)) (errmsg ! n)" "length (errmsg ! n) < 2 ^ 31"
    using assms(5,7) errmsg_facts by (simp_all add: literals_def)
  obtain w1 where w1: "write_string S 2 prefix p = Done (of_nat (length s)) (p\<lparr>errno := 0, os := w1\<rparr>)"
    "out w1 = out (os p) @ bytes_of s"
    using terminal.write_string_holds [OF assms(1) _ assms(2,4), of 2] by auto
  let ?p1 = "p\<lparr>errno := 0, os := w1\<rparr>"
  have "holds (user_mem ?p1) (lit '': '') (bytes_of '': '')" using lits(1) by (simp add: cstring_def holds_append)
  from terminal.write_holds [OF assms(1) _ this, of 2] obtain w2 where
    w2: "mini_write S 2 (lit '': '') 2 ?p1 = Done 2 (p\<lparr>errno := 0, os := w2\<rparr>)" "out w2 = out w1 @ bytes_of '': ''"
    by auto
  let ?p2 = "p\<lparr>errno := 0, os := w2\<rparr>"
  obtain w3 where w3: "write_string S 2 (lit (errmsg ! n)) ?p2 =
      Done (of_nat (length (errmsg ! n))) (p\<lparr>errno := 0, os := w3\<rparr>)" "out w3 = out w2 @ bytes_of (errmsg ! n)"
    using terminal.write_string_holds [OF assms(1) _ _ lits(4), of 2 ?p2 "lit (errmsg ! n)"] lits(3) by auto
  let ?p3 = "p\<lparr>errno := 0, os := w3\<rparr>"
  have "holds (user_mem ?p3) (lit [nl]) (bytes_of [nl])" using lits(2) by (simp add: cstring_def holds_append)
  from terminal.write_holds [OF assms(1) _ this, of 2] obtain w4 where
    w4: "mini_write S 2 (lit [nl]) 1 ?p3 = Done 1 (p\<lparr>errno := 0, os := w4\<rparr>)" "out w4 = out w3 @ bytes_of [nl]"
    by auto
  have "mini_perror S lit prefix p = Done 1 (p\<lparr>errno := 0, os := w4\<rparr>)"
    using assms(3,7) e w1(1) w2(1) w3(1) w4(1) errmsg_facts(1)
    by (simp add: mini_perror_def seq_def word_sless_alt)
  then show ?thesis using w1(2) w2(2) w3(2) w4(2) by (intro exI [of _ w4]) (simp add: bytes_of_def)
qed

text \<open>
  With a prefix and an error number past the table the prefix is written, which resets
  \<^verbatim>\<open>errno\<close>, the test passes and the table is read out of bounds.
\<close>

text \<open>
  C28. perror with a prefix and an error number past the table reads the table out of bounds:
  its writes have reset the errno that the range test looks at.
\<close>

theorem perror_overruns:
  assumes "terminal S out"
    and "cstring (user_mem p) prefix s" and "prefix \<noteq> 0" and "length s < 2 ^ 31"
    and "literals (user_mem p) lit {'': ''}"
    and "errno p = of_nat n" and "34 < n" and "n \<le> 4095"
  shows "mini_perror S lit prefix p = Undef"
proof -
  have e: "\<not> errno p <s 0" "sint (errno p) = int n" using assms(6,8) by (simp_all add: word_sless_alt sint_of_nat_small)
  obtain w1 where w1: "write_string S 2 prefix p = Done (of_nat (length s)) (p\<lparr>errno := 0, os := w1\<rparr>)"
    using terminal.write_string_holds [OF assms(1) _ assms(2,4), of 2] by auto
  have "holds (user_mem (p\<lparr>errno := 0, os := w1\<rparr>)) (lit '': '') (bytes_of '': '')"
    using assms(5) by (simp add: literals_def cstring_def holds_append)
  from terminal.write_holds [OF assms(1) _ this, of 2] obtain w2 where
    "mini_write S 2 (lit '': '') 2 (p\<lparr>errno := 0, os := w1\<rparr>) = Done 2 (p\<lparr>errno := 0, os := w2\<rparr>)" by auto
  then show ?thesis
    using assms(3,7) e w1 errmsg_facts(1) by (simp add: mini_perror_def seq_def word_sless_alt)
qed

section \<open>A program in memory\<close>

text \<open>A memory with a list of strings, each in a slot of 64 bytes, from address 64 on.\<close>

definition slot_mem :: "string list \<Rightarrow> byte_mem" where
  "slot_mem L a =
     (let k = unat a div 64; j = unat a mod 64
      in if 0 < k \<and> k \<le> length L \<and> j < length (L ! (k - 1)) then bytes_of (L ! (k - 1)) ! j else 0)"

definition slot_addr :: "string list \<Rightarrow> string \<Rightarrow> u64" where
  "slot_addr L s = of_nat (64 * Suc (length (takeWhile (\<lambda>t. t \<noteq> s) L)))"

lemma holds_iff: "holds m a bs \<longleftrightarrow> (\<forall>i < length bs. m (a + of_nat i) = bs ! i)"
proof (induction bs arbitrary: a)
  case Nil
  show ?case by simp
next
  case (Cons b bs)
  show ?case by (auto simp: Cons less_Suc_eq_0_disj nth_Cons algebra_simps split: nat.splits)
qed

lemma takeWhile_hits: "s \<in> set L \<Longrightarrow> length (takeWhile (\<lambda>t. t \<noteq> s) L) < length L"
  by (induction L) auto

lemma slot_string:
  assumes "s \<in> set L" and "length s < 64" and "CHR 0x00 \<notin> set s" and "length L < 2 ^ 32"
  shows "cstring (slot_mem L) (slot_addr L s) s"
proof -
  let ?k = "length (takeWhile (\<lambda>t. t \<noteq> s) L)"
  have k: "?k < length L" "L ! ?k = s"
    using assms(1) takeWhile_hits [of s L] nth_length_takeWhile [of "\<lambda>t. t \<noteq> s" L] by auto
  have "slot_mem L (slot_addr L s + of_nat j) = (bytes_of s @ [0]) ! j" if "j < Suc (length s)" for j
  proof -
    have "64 * Suc ?k + j < 2 ^ 64" using k(1) assms(2,4) that by simp
    then have u: "unat (slot_addr L s + of_nat j) = 64 * Suc ?k + j"
      by (simp only: slot_addr_def of_nat_add [symmetric] unat_of_nat) simp
    have "j < 64" using that assms(2) by simp
    then have "(64 * Suc ?k + j) div 64 = Suc ?k" "(64 * Suc ?k + j) mod 64 = j"
      by (simp_all only: div_mult_self4 mod_mult_self4 mod_less div_less)
    then show ?thesis using u k that by (auto simp: slot_mem_def Let_def nth_append less_Suc_eq_le)
  qed
  then have "holds (slot_mem L) (slot_addr L s) (bytes_of s @ [0])" by (simp add: holds_iff)
  then show ?thesis using assms(3) by (simp add: cstring_def)
qed

text \<open>A kernel with a console, the signals of one process and a clock that runs while it sleeps.\<close>

record mini_world =
  console :: bytes
  blocked :: u64
  pending :: u64
  action :: "u64 \<Rightarrow> u64 \<times> u32 \<times> u64 \<times> u64"
  alarm_in :: u64

definition sigalrm_bit :: u64 where
  "sigalrm_bit = push_bit 13 1"

definition mini_kernel :: "mini_world syscalls" where
  "mini_kernel nr args m w =
     (if nr = 1 then (args ! 2, m, w\<lparr>console := console w @ map (\<lambda>i. m (args ! 1 + of_nat i)) [0..<unat (args ! 2)]\<rparr>)
      else if nr = 13 then
        (0, if args ! 2 = 0 then m
            else (let (h, f, r, k) = action w (args ! 0); a = args ! 2
                  in store64 (store64 (store32 (store64 m a h) (a + 8) f) (a + 16) r) (a + 24) k),
         if args ! 1 = 0 then w
         else w\<lparr>action := (action w)(args ! 0 := (let a = args ! 1
            in (load64 m a, load32 m (a + 8), load64 m (a + 16), load64 m (a + 24))))\<rparr>)
      else if nr = 14 then
        (0, if args ! 2 = 0 then m else store64 m (args ! 2) (blocked w),
         if args ! 1 = 0 then w
         else w\<lparr>blocked := (let v = load64 m (args ! 1)
            in if args ! 0 = 0 then blocked w OR v else if args ! 0 = 1 then blocked w AND NOT v else v)\<rparr>)
      else if nr = 35 then
        (0, m, if 0 < alarm_in w \<and> alarm_in w \<le> load64 m (args ! 0)
               then w\<lparr>alarm_in := 0, pending := pending w OR sigalrm_bit\<rparr> else w)
      else if nr = 37 then (take_bit 32 (alarm_in w), m, w\<lparr>alarm_in := args ! 0\<rparr>)
      else if nr = 127 then (0, store64 m (args ! 0) (pending w), w)
      else (- 38, m, w))"

interpretation mini_terminal: terminal mini_kernel console
  by unfold_locales (simp add: mini_kernel_def)

definition mini_start :: "string list \<Rightarrow> mini_world proc" where
  "mini_start L =
     \<lparr> user_mem = slot_mem L, errno = 0,
       os = \<lparr> console = [], blocked = 0, pending = 0, action = (\<lambda>_. (0, 0, 0, 0)), alarm_in = 0 \<rparr> \<rparr>"

lemma mini_start_simps [simp]:
  "user_mem (mini_start L) = slot_mem L" "errno (mini_start L) = 0" "console (os (mini_start L)) = []"
  by (simp_all add: mini_start_def)

text \<open>The memory of a program that calls \<^verbatim>\<open>perror("read")\<close>.\<close>

definition perror_strings :: "string list" where
  "perror_strings = ''read'' # '': '' # [nl] # errmsg"

lemma perror_strings_ok:
  "s \<in> set perror_strings \<Longrightarrow> length s < 64 \<and> CHR 0x00 \<notin> set s"
  by (auto simp: perror_strings_def errmsg_def nl_def)

lemma perror_literals: "literals (slot_mem perror_strings) (slot_addr perror_strings) (set perror_strings)"
  unfolding literals_def using slot_string [of _ perror_strings] perror_strings_ok
  by (simp add: perror_strings_def errmsg_def)

theorem perror_prints_witness:
  "\<exists>w. mini_perror mini_kernel (slot_addr perror_strings) 64 ((mini_start perror_strings)\<lparr>errno := 13\<rparr>) =
      Done 1 ((mini_start perror_strings)\<lparr>errno := 0, os := w\<rparr>)
    \<and> console w = bytes_of (''read: Permission denied'' @ [nl])"
proof -
  let ?p = "(mini_start perror_strings)\<lparr>errno := 13\<rparr>"
  have a: "slot_addr perror_strings ''read'' = 64" by (simp add: slot_addr_def perror_strings_def)
  have "cstring (user_mem ?p) 64 ''read''"
    using perror_literals a by (simp add: literals_def perror_strings_def)
  moreover have "literals (user_mem ?p) (slot_addr perror_strings) (set errmsg \<union> {'': '', [nl]})"
    using perror_literals by (simp add: literals_def perror_strings_def)
  moreover have "errmsg ! 13 = ''Permission denied''" by (simp add: errmsg_def)
  ultimately show ?thesis
    using perror_prints [OF mini_terminal.terminal_axioms, of ?p 64 "''read''" "slot_addr perror_strings" 13]
    by (simp add: bytes_of_def)
qed

theorem perror_overruns_witness:
  "mini_perror mini_kernel (slot_addr perror_strings) 64 ((mini_start perror_strings)\<lparr>errno := 38\<rparr>) = Undef"
proof -
  let ?p = "(mini_start perror_strings)\<lparr>errno := 38\<rparr>"
  have a: "slot_addr perror_strings ''read'' = 64" by (simp add: slot_addr_def perror_strings_def)
  have "cstring (user_mem ?p) 64 ''read''"
    using perror_literals a by (simp add: literals_def perror_strings_def)
  moreover have "literals (user_mem ?p) (slot_addr perror_strings) {'': ''}"
    using perror_literals by (simp add: literals_def perror_strings_def)
  ultimately show ?thesis
    using perror_overruns [OF mini_terminal.terminal_axioms, of ?p 64 "''read''" "slot_addr perror_strings" 38]
    by simp
qed

theorem strlen_counts_witness: "mini_strlen (slot_mem [''ab'']) 64 = Some 2"
  using strlen_counts [OF slot_string [of "''ab''" "[''ab'']"]] by (simp add: slot_addr_def)


end
