(* ===== verification/MiniSignal.thy ===== *)
theory MiniSignal
  imports Mini
begin

text \<open>
  The signals of \<^verbatim>\<open>src/hw3/libmini.c\<close>: signal sets in memory, \<^verbatim>\<open>sigaction\<close> and \<^verbatim>\<open>signal\<close>; the C
  version of \<^verbatim>\<open>sleep\<close> and arrays of characters.
\<close>

section \<open>Signal sets\<close>

text \<open>A \<^verbatim>\<open>sigset_t\<close> is one word of eight bytes at an address; a null pointer may not be followed.\<close>

definition sigmask :: "u32 \<Rightarrow> u64" where
  "sigmask sig = push_bit (nat (sint sig - 1)) 1"

definition bad_signal :: "u32 \<Rightarrow> bool" where
  "bad_signal signum \<longleftrightarrow> sint signum \<le> 0 \<or> 64 \<le> sint signum"

definition EINVAL :: u64 where
  "EINVAL = 22"

definition mini_sigemptyset :: "u64 \<Rightarrow> (u32, 'w proc) prog" where
  "mini_sigemptyset set_ptr p =
     (if set_ptr = 0 then Done (- 1) (p\<lparr>errno := 1\<rparr>)
      else Done 0 (p\<lparr>errno := 0, user_mem := bzero set_ptr 8 (user_mem p)\<rparr>))"

text \<open>
  \<^verbatim>\<open>sigfillset\<close> declares \<^verbatim>\<open>char *ptr = (char *)ptr\<close> and writes \<^verbatim>\<open>sizeof(set)\<close>, that is eight, bytes
  through this uninitialised pointer: the behaviour of every call is undefined.
\<close>

definition mini_sigfillset :: "u64 \<Rightarrow> (u32, 'w proc) prog" where
  "mini_sigfillset set_ptr p = Undef"

definition mini_sigaddset :: "u64 \<Rightarrow> u32 \<Rightarrow> (u32, 'w proc) prog" where
  "mini_sigaddset set_ptr signum p =
     (if bad_signal signum then Done (- 1) (p\<lparr>errno := EINVAL\<rparr>)
      else if set_ptr = 0 then Undef
      else Done 0 (p\<lparr>errno := 0, user_mem :=
             store64 (user_mem p) set_ptr (load64 (user_mem p) set_ptr OR sigmask signum)\<rparr>))"

definition mini_sigdelset :: "u64 \<Rightarrow> u32 \<Rightarrow> (u32, 'w proc) prog" where
  "mini_sigdelset set_ptr signum p =
     (if bad_signal signum then Done (- 1) (p\<lparr>errno := EINVAL\<rparr>)
      else if set_ptr = 0 then Undef
      else Done 0 (p\<lparr>errno := 0, user_mem :=
             store64 (user_mem p) set_ptr (load64 (user_mem p) set_ptr AND NOT (sigmask signum))\<rparr>))"

definition mini_sigismember :: "u64 \<Rightarrow> u32 \<Rightarrow> (u32, 'w proc) prog" where
  "mini_sigismember set_ptr signum p =
     (if bad_signal signum then Done (- 1) (p\<lparr>errno := EINVAL\<rparr>)
      else if set_ptr = 0 then Undef
      else Done (if load64 (user_mem p) set_ptr AND sigmask signum \<noteq> 0 then 1 else 0) (p\<lparr>errno := 0\<rparr>))"

section \<open>What a signal set means\<close>

text \<open>The contract of a signal set over a type of words, as POSIX states it for \<^verbatim>\<open>sigset_t\<close>.\<close>

locale signal_set =
  fixes none :: "'s" and add :: "u32 \<Rightarrow> 's \<Rightarrow> 's" and del :: "u32 \<Rightarrow> 's \<Rightarrow> 's"
    and has :: "u32 \<Rightarrow> 's \<Rightarrow> bool" and valid :: "u32 \<Rightarrow> bool"
  assumes has_none: "valid s \<Longrightarrow> \<not> has s none"
    and has_add: "valid s \<Longrightarrow> valid t \<Longrightarrow> has s (add t v) \<longleftrightarrow> s = t \<or> has s v"
    and has_del: "valid s \<Longrightarrow> valid t \<Longrightarrow> has s (del t v) \<longleftrightarrow> s \<noteq> t \<and> has s v"
begin

text \<open>A sequence of changes: \<open>True\<close> adds, \<open>False\<close> deletes.\<close>

primrec build :: "(bool \<times> u32) list \<Rightarrow> 's \<Rightarrow> 's" where
  "build [] v = v"
| "build (c # cs) v = build cs (if fst c then add (snd c) v else del (snd c) v)"

lemma has_build:
  assumes "valid s" and "\<forall>c \<in> set cs. valid (snd c)"
  shows "has s (build cs v) \<longleftrightarrow>
    (case find (\<lambda>c. snd c = s) (rev cs) of None \<Rightarrow> has s v | Some c \<Rightarrow> fst c)"
  using assms(2)
proof (induction cs arbitrary: v)
  case Nil
  then show ?case by simp
next
  case (Cons c cs)
  then show ?case
    using assms(1) by (auto simp: find_snoc has_add has_del split: option.splits)
qed

end

lemma sigmask_bit:
  assumes "\<not> bad_signal s" and "n < 64"
  shows "bit (sigmask s) n \<longleftrightarrow> n = nat (sint s - 1)"
  using assms by (auto simp: sigmask_def bad_signal_def bit_exp_iff)

lemma and_sigmask:
  assumes "\<not> bad_signal s"
  shows "v AND sigmask s \<noteq> 0 \<longleftrightarrow> bit v (nat (sint s - 1))"
proof -
  have "nat (sint s - 1) < 64" using assms by (auto simp: bad_signal_def)
  then have "v AND sigmask s = (if bit v (nat (sint s - 1)) then sigmask s else 0)"
    using assms by (intro bit_word_eqI) (auto simp: bit_and_iff sigmask_bit)
  moreover have "sigmask s \<noteq> 0"
    using sigmask_bit [OF assms \<open>nat (sint s - 1) < 64\<close>] assms by (auto simp: bad_signal_def)
  ultimately show ?thesis by simp
qed

interpretation words: signal_set "0 :: u64" "\<lambda>s v. v OR sigmask s" "\<lambda>s v. v AND NOT (sigmask s)"
  "\<lambda>s v. v AND sigmask s \<noteq> 0" "\<lambda>s. \<not> bad_signal s"
proof (unfold_locales)
  fix s t :: u32 and v :: u64
  assume s: "\<not> bad_signal s" and t: "\<not> bad_signal t"
  have n: "nat (sint s - 1) < 64" using s by (auto simp: bad_signal_def)
  have "sint s = sint t" if "nat (sint s - 1) = nat (sint t - 1)"
    using that s t unfolding bad_signal_def by linarith
  then have eq: "nat (sint s - 1) = nat (sint t - 1) \<longleftrightarrow> s = t" by (metis signed_word_eqI)
  show "(v OR sigmask t) AND sigmask s \<noteq> 0 \<longleftrightarrow> s = t \<or> v AND sigmask s \<noteq> 0"
    using n eq by (auto simp: and_sigmask [OF s] bit_or_iff sigmask_bit [OF t])
  show "(v AND NOT (sigmask t)) AND sigmask s \<noteq> 0 \<longleftrightarrow> s \<noteq> t \<and> v AND sigmask s \<noteq> 0"
    using n eq by (auto simp: and_sigmask [OF s] bit_and_iff bit_not_iff sigmask_bit [OF t])
qed simp

section \<open>Sets in memory\<close>

lemma bzero_word: "bzero a 8 m = store64 m a 0"
proof
  fix x
  have s8: "sint (8 :: u64) = 8" by simp
  have "byte_of 0 j = 0" for j by (simp add: byte_of_def)
  moreover have "int (unat (x - a)) < sint (8 :: u64) \<longleftrightarrow> unat (x - a) < 8"
    unfolding s8 by linarith
  ultimately show "bzero a 8 m x = store64 m a 0 x" by (simp only: bzero_range store64_def)
qed

text \<open>A sequence of \<^verbatim>\<open>sigaddset\<close> (\<open>True\<close>) and \<^verbatim>\<open>sigdelset\<close> (\<open>False\<close>) on one set.\<close>

primrec change_set :: "u64 \<Rightarrow> (bool \<times> u32) list \<Rightarrow> (unit, 'w proc) prog" where
  "change_set set_ptr [] = skip"
| "change_set set_ptr (c # cs) =
     seq (if fst c then mini_sigaddset set_ptr (snd c) else mini_sigdelset set_ptr (snd c)) (change_set set_ptr cs)"

lemma change_set_builds:
  assumes "set_ptr \<noteq> 0" and "\<forall>c \<in> set cs. \<not> bad_signal (snd c)" and "errno p = 0"
  shows "change_set set_ptr cs p = Done () (p\<lparr>user_mem :=
    store64 (user_mem p) set_ptr (words.build cs (load64 (user_mem p) set_ptr))\<rparr>)"
  using assms(2,3)
proof (induction cs arbitrary: p)
  case Nil
  then show ?case by (simp add: mem_simps)
next
  case (Cons c cs)
  let ?v = "load64 (user_mem p) set_ptr"
  let ?v' = "if fst c then ?v OR sigmask (snd c) else ?v AND NOT (sigmask (snd c))"
  let ?p = "p\<lparr>user_mem := store64 (user_mem p) set_ptr ?v'\<rparr>"
  have "(if fst c then mini_sigaddset set_ptr (snd c) else mini_sigdelset set_ptr (snd c)) p = Done 0 ?p"
    using Cons.prems assms(1) by (simp add: mini_sigaddset_def mini_sigdelset_def)
  moreover have "change_set set_ptr cs ?p = Done () (?p\<lparr>user_mem :=
      store64 (user_mem ?p) set_ptr (words.build cs (load64 (user_mem ?p) set_ptr))\<rparr>)"
    using Cons.prems by (intro Cons.IH) simp_all
  ultimately show ?case by (simp add: seq_def mem_simps)
qed

text \<open>
  C23. After sigemptyset and any sequence of sigaddset and sigdelset with valid signals,
  sigismember tells the last change of that signal, no other signal interferes, and no memory
  outside the set is written.
\<close>

theorem signal_set_history:
  assumes "set_ptr \<noteq> 0" and "\<not> bad_signal s" and "\<forall>c \<in> set cs. \<not> bad_signal (snd c)"
  shows "\<exists>m. seq (mini_sigemptyset set_ptr) (seq (change_set set_ptr cs) (mini_sigismember set_ptr s)) p =
      Done (case find (\<lambda>c. snd c = s) (rev cs) of None \<Rightarrow> 0 | Some c \<Rightarrow> if fst c then 1 else 0)
        (p\<lparr>errno := 0, user_mem := m\<rparr>)
    \<and> (\<forall>x. 8 \<le> unat (x - set_ptr) \<longrightarrow> m x = user_mem p x)"
proof -
  let ?p1 = "p\<lparr>errno := 0, user_mem := store64 (user_mem p) set_ptr 0\<rparr>"
  let ?m = "store64 (user_mem p) set_ptr (words.build cs 0)"
  have "mini_sigemptyset set_ptr p = Done 0 ?p1" using assms(1) by (simp add: mini_sigemptyset_def bzero_word)
  moreover have "change_set set_ptr cs ?p1 = Done () (p\<lparr>errno := 0, user_mem := ?m\<rparr>)"
    using change_set_builds [OF assms(1,3), of ?p1] by (simp add: mem_simps)
  moreover have "mini_sigismember set_ptr s (p\<lparr>errno := 0, user_mem := ?m\<rparr>) =
      Done (case find (\<lambda>c. snd c = s) (rev cs) of None \<Rightarrow> 0 | Some c \<Rightarrow> if fst c then 1 else 0)
        (p\<lparr>errno := 0, user_mem := ?m\<rparr>)"
    using assms(1,2) words.has_build [OF assms(2,3), of 0]
    by (auto simp: mini_sigismember_def mem_simps split: option.splits)
  ultimately show ?thesis by (intro exI [of _ ?m]) (simp add: seq_def store64_off)
qed

theorem signal_set_history_witness:
  "\<exists>m. seq (mini_sigemptyset 128) (seq (change_set 128 [(True, 2), (True, 14), (False, 2)]) (mini_sigismember 128 14)) (mini_start []) =
      Done 1 ((mini_start [])\<lparr>errno := 0, user_mem := m\<rparr>)"
  using signal_set_history [of 128 14 "[(True, 2), (True, 14), (False, 2)]" "mini_start []"]
  by (auto simp: bad_signal_def)

theorem bad_signal_refused:
  assumes "sint signum \<le> 0 \<or> 64 \<le> sint signum"
    and "f \<in> {mini_sigaddset set_ptr signum, mini_sigdelset set_ptr signum, mini_sigismember set_ptr signum}"
  shows "f p = Done (- 1) (p\<lparr>errno := 22\<rparr>)"
  using assms by (auto simp: mini_sigaddset_def mini_sigdelset_def mini_sigismember_def bad_signal_def EINVAL_def)

theorem bad_signal_refused_witness:
  "mini_sigaddset 128 64 (mini_start []) = Done (- 1) ((mini_start [])\<lparr>errno := 22\<rparr>)"
  using bad_signal_refused [of 64 "mini_sigaddset 128 64" 128 "mini_start []"] by simp

section \<open>Handlers\<close>

text \<open>The members of \<^verbatim>\<open>struct sigaction\<close>; \<^verbatim>\<open>sa_handler\<close> is at offset 0.\<close>

definition sa_flags :: "u64 \<Rightarrow> u64" where "sa_flags act = act + 8"
definition sa_restorer :: "u64 \<Rightarrow> u64" where "sa_restorer act = act + 16"
definition sa_mask :: "u64 \<Rightarrow> u64" where "sa_mask act = act + 24"

definition SA_RESTART :: u32 where "SA_RESTART = 0x10000000"
definition SA_RESTORER :: u32 where "SA_RESTORER = 0x04000000"

definition put_mem :: "(byte_mem \<Rightarrow> byte_mem) \<Rightarrow> (unit, 'w proc) prog" where
  "put_mem f p = Done () (p\<lparr>user_mem := f (user_mem p)\<rparr>)"

text \<open>\<open>myrt\<close> is the address of \<^verbatim>\<open>__myrt\<close>, the function a handler returns to.\<close>

definition mini_sigaction :: "'w syscalls \<Rightarrow> u64 \<Rightarrow> u32 \<Rightarrow> u64 \<Rightarrow> u64 \<Rightarrow> (u32, 'w proc) prog" where
  "mini_sigaction S myrt signum act oldact =
     (if act = 0 then (\<lambda>p. Undef)
      else
        seq (put_mem (\<lambda>m. store32 m (sa_flags act) (load32 m (sa_flags act) OR SA_RESTORER)))
       (seq (put_mem (\<lambda>m. store64 m (sa_restorer act) myrt))
            (andthen (sys_call S 13 [scast signum, act, oldact, 8]) WRAPPER_RETval)))"

text \<open>\<open>act\<close> and \<open>oact\<close> are where the two local structures stand on the stack.\<close>

definition mini_signal :: "'w syscalls \<Rightarrow> u64 \<Rightarrow> u64 \<Rightarrow> u64 \<Rightarrow> u32 \<Rightarrow> u64 \<Rightarrow> (u64, 'w proc) prog" where
  "mini_signal S myrt act oact signum h p =
     (if bad_signal signum then Done (- 1) (p\<lparr>errno := EINVAL\<rparr>)
      else
        seq (put_mem (\<lambda>m. store64 m act h))
       (seq (mini_sigemptyset (sa_mask act))
       (seq (mini_sigaddset (sa_mask act) signum)
       (seq (put_mem (\<lambda>m. store32 m (sa_flags act) SA_RESTART))
            (andthen (mini_sigaction S myrt signum act oact)
               (\<lambda>r p. Done (if r <s 0 then - 1 else load64 (user_mem p) oact) p))))) p)"

text \<open>
  What the kernel keeps of a signal: the handler, the flags, the restorer and the mask; and what
  \<^verbatim>\<open>rt_sigaction(2)\<close> documents for a signal whose action may be changed.
\<close>

type_synonym disposition = "u64 \<times> u32 \<times> u64 \<times> u64"

definition action_at :: "byte_mem \<Rightarrow> u64 \<Rightarrow> disposition" where
  "action_at m act = (load64 m act, load32 m (sa_flags act), load64 m (sa_restorer act), load64 m (sa_mask act))"

locale handler_kernel =
  fixes S :: "'w syscalls" and disp :: "'w \<Rightarrow> u64 \<Rightarrow> disposition"
  assumes sigaction_law: "1 \<le> sig \<Longrightarrow> sig \<le> 64 \<Longrightarrow> sig \<noteq> 9 \<Longrightarrow> sig \<noteq> 19 \<Longrightarrow> act \<noteq> 0 \<Longrightarrow> oact \<noteq> 0 \<Longrightarrow>
    \<exists>m' w'. S 13 [sig, act, oact, 8] m w = (0, m', w')
      \<and> disp w' = (disp w)(sig := action_at m act) \<and> load64 m' oact = fst (disp w sig)"

lemma far_of_nat:
  "(j :: nat) < 8 \<Longrightarrow> 4 \<le> unat (of_nat j - 8 :: u64)"
  "j < 8 \<Longrightarrow> 4 \<le> unat (of_nat j + 8 :: u64)"
  "j < 8 \<Longrightarrow> 4 \<le> unat (of_nat j + 16 :: u64)"
  "j < 4 \<Longrightarrow> 8 \<le> unat (of_nat j + 8 :: u64)"
  "j < 4 \<Longrightarrow> 8 \<le> unat (of_nat j - 8 :: u64)"
  "j < 4 \<Longrightarrow> 8 \<le> unat (of_nat j - 16 :: u64)"
proof -
  have "j < 8 \<Longrightarrow> j \<in> {0, 1, 2, 3, 4, 5, 6, 7}" and "j < 4 \<Longrightarrow> j \<in> {0, 1, 2, 3}" for j :: nat by auto
  note cases = this
  show "j < 8 \<Longrightarrow> 4 \<le> unat (of_nat j - 8 :: u64)" by (drule cases(1)) (auto simp: unsigned_minus_1_eq_mask mask_eq_exp_minus_1)
  show "j < 8 \<Longrightarrow> 4 \<le> unat (of_nat j + 8 :: u64)" by (drule cases(1)) (auto simp: unsigned_minus_1_eq_mask mask_eq_exp_minus_1)
  show "j < 8 \<Longrightarrow> 4 \<le> unat (of_nat j + 16 :: u64)" by (drule cases(1)) (auto simp: unsigned_minus_1_eq_mask mask_eq_exp_minus_1)
  show "j < 4 \<Longrightarrow> 8 \<le> unat (of_nat j + 8 :: u64)" by (drule cases(2)) (auto simp: unsigned_minus_1_eq_mask mask_eq_exp_minus_1)
  show "j < 4 \<Longrightarrow> 8 \<le> unat (of_nat j - 8 :: u64)" by (drule cases(2)) (auto simp: unsigned_minus_1_eq_mask mask_eq_exp_minus_1)
  show "j < 4 \<Longrightarrow> 8 \<le> unat (of_nat j - 16 :: u64)" by (drule cases(2)) (auto simp: unsigned_minus_1_eq_mask mask_eq_exp_minus_1)
qed

lemma sa_apart:
  "load64 (store32 m (sa_flags act) v) act = load64 m act"
  "load64 (store32 m (sa_flags act) v) (sa_restorer act) = load64 m (sa_restorer act)"
  "load64 (store32 m (sa_flags act) v) (sa_mask act) = load64 m (sa_mask act)"
  "load32 (store64 m act u) (sa_flags act) = load32 m (sa_flags act)"
  "load32 (store64 m (sa_restorer act) u) (sa_flags act) = load32 m (sa_flags act)"
  "load32 (store64 m (sa_mask act) u) (sa_flags act) = load32 m (sa_flags act)"
  "load64 (store64 m (sa_restorer act) u) act = load64 m act"
  "load64 (store64 m (sa_restorer act) u) (sa_mask act) = load64 m (sa_mask act)"
  "load64 (store64 m (sa_mask act) u) act = load64 m act"
  "load64 (store64 m (sa_mask act) u) (sa_restorer act) = load64 m (sa_restorer act)"
  "load64 (store64 m act u) (sa_restorer act) = load64 m (sa_restorer act)"
  "load64 (store64 m act u) (sa_mask act) = load64 m (sa_mask act)"
proof -
  have "\<And>j. act + of_nat j - sa_flags act = of_nat j - 8"
    "\<And>j. sa_restorer act + of_nat j - sa_flags act = of_nat j + 8"
    "\<And>j. sa_mask act + of_nat j - sa_flags act = of_nat j + 16"
    "\<And>j. sa_flags act + of_nat j - act = of_nat j + 8"
    "\<And>j. sa_flags act + of_nat j - sa_restorer act = of_nat j - 8"
    "\<And>j. sa_flags act + of_nat j - sa_mask act = of_nat j - 16"
    by (simp_all add: sa_flags_def sa_restorer_def sa_mask_def)
  note d = this
  have "apart act (sa_restorer act)" "apart act (sa_mask act)" "apart (sa_restorer act) (sa_mask act)"
    by (simp_all add: apart_def sa_restorer_def sa_mask_def)
  then show "load64 (store32 m (sa_flags act) v) act = load64 m act"
    "load64 (store32 m (sa_flags act) v) (sa_restorer act) = load64 m (sa_restorer act)"
    "load64 (store32 m (sa_flags act) v) (sa_mask act) = load64 m (sa_mask act)"
    "load32 (store64 m act u) (sa_flags act) = load32 m (sa_flags act)"
    "load32 (store64 m (sa_restorer act) u) (sa_flags act) = load32 m (sa_flags act)"
    "load32 (store64 m (sa_mask act) u) (sa_flags act) = load32 m (sa_flags act)"
    "load64 (store64 m (sa_restorer act) u) act = load64 m act"
    "load64 (store64 m (sa_restorer act) u) (sa_mask act) = load64 m (sa_mask act)"
    "load64 (store64 m (sa_mask act) u) act = load64 m act"
    "load64 (store64 m (sa_mask act) u) (sa_restorer act) = load64 m (sa_restorer act)"
    "load64 (store64 m act u) (sa_restorer act) = load64 m (sa_restorer act)"
    "load64 (store64 m act u) (sa_mask act) = load64 m (sa_mask act)"
    by (simp_all only: load64_store32_apart load32_store64_apart load64_store64_apart d far_of_nat apart_sym)
qed

lemma good_signal:
  assumes "\<not> bad_signal s" and "s \<noteq> 9" and "s \<noteq> 19"
  shows "1 \<le> (scast s :: u64)" and "(scast s :: u64) \<le> 64" and "(scast s :: u64) \<noteq> 9" and "(scast s :: u64) \<noteq> 19"
proof -
  define n where "n = nat (sint s)"
  have n: "1 \<le> n" "n \<le> 63" "sint s = int n" using assms(1) by (auto simp: n_def bad_signal_def)
  have c: "(scast s :: u64) = of_nat n" by (metis n(3) of_int_sint of_int_of_nat_eq)
  have u: "unat (of_nat n :: u64) = n" using n(2) by (simp add: unat_of_nat)
  have "s = of_nat n" by (metis n(3) of_int_sint of_int_of_nat_eq scast_id)
  then have "n \<noteq> 9" "n \<noteq> 19" using assms(2,3) by auto
  then show "1 \<le> (scast s :: u64)" "(scast s :: u64) \<le> 64" "(scast s :: u64) \<noteq> 9" "(scast s :: u64) \<noteq> 19"
    using n(1,2) u unfolding c by (auto simp: word_le_nat_alt word_unat_eq_iff)
qed

text \<open>
  C24. signal gives the kernel the handler, the flags SA_RESTART and SA_RESTORER, the trampoline
  and the mask of the signal itself, changes no other signal, and returns the handler that was
  installed before.
\<close>

theorem signal_installs:
  assumes "handler_kernel S disp" and "\<not> bad_signal signum" and "signum \<noteq> 9" and "signum \<noteq> 19"
    and "act \<noteq> 0" and "oact \<noteq> 0" and "act + 24 \<noteq> 0"
  shows "\<exists>p'. mini_signal S myrt act oact signum h p = Done (fst (disp (os p) (scast signum))) p'
    \<and> errno p' = 0
    \<and> disp (os p') = (disp (os p))(scast signum :=
        (h, SA_RESTART OR SA_RESTORER, myrt, sigmask signum))"
proof -
  let ?m1 = "store64 (user_mem p) act h" and ?mask = "sa_mask act"
  let ?m2 = "store64 (store64 ?m1 ?mask 0) ?mask (0 OR sigmask signum)"
  let ?m3 = "store32 (store32 ?m2 (sa_flags act) SA_RESTART) (sa_flags act) (SA_RESTART OR SA_RESTORER)"
  let ?m4 = "store64 ?m3 (sa_restorer act) myrt"
  have at: "action_at ?m4 act = (h, SA_RESTART OR SA_RESTORER, myrt, sigmask signum)"
    by (simp add: action_at_def sa_apart mem_simps)
  let ?s = "scast signum :: u64"
  note s = good_signal [OF assms(2-4)]
  obtain m' w' where k: "S 13 [?s, act, oact, 8] ?m4 (os p) = (0, m', w')"
    and d: "disp w' = (disp (os p))(?s := action_at ?m4 act)" and l: "load64 m' oact = fst (disp (os p) ?s)"
    using handler_kernel.sigaction_law [OF assms(1) s assms(5,6)] by blast
  let ?p3 = "p\<lparr>errno := 0, user_mem := store32 ?m2 (sa_flags act) SA_RESTART\<rparr>"
  let ?p4 = "p\<lparr>errno := 0, user_mem := ?m4\<rparr>" and ?p5 = "p\<lparr>errno := 0, user_mem := m', os := w'\<rparr>"
  have "andthen (sys_call S 13 [?s, act, oact, 8]) WRAPPER_RETval ?p4 = Done (0 :: u32) ?p5"
    using k by (subst RETval_call [of _ _ _ _ 0 m' w']) simp_all
  then have a: "mini_sigaction S myrt signum act oact ?p3 = Done 0 ?p5"
    using assms(5) by (simp add: mini_sigaction_def seq_def put_mem_def mem_simps)
  have "mini_signal S myrt act oact signum h p = Done (load64 m' oact) ?p5"
    using assms(2,7) a
    by (simp add: mini_signal_def seq_def put_mem_def mini_sigemptyset_def mini_sigaddset_def bzero_word mem_simps
        sa_mask_def [symmetric])
  with d l at show ?thesis by auto
qed

interpretation mini_handlers: handler_kernel mini_kernel action
proof (unfold_locales)
  fix sig act oact :: u64 and m :: byte_mem and w :: mini_world
  assume "1 \<le> sig" "sig \<le> 64" "sig \<noteq> 9" "sig \<noteq> 19" "act \<noteq> (0 :: u64)" "oact \<noteq> (0 :: u64)"
  moreover obtain h f r k where a: "action w sig = (h, f, r, k)" by (metis prod_cases4)
  moreover have "load64 (store64 (store64 (store32 (store64 m oact h) (oact + 8) f) (oact + 16) r) (oact + 24) k) oact = h"
    using sa_apart [of _ oact] by (simp add: sa_flags_def sa_restorer_def sa_mask_def mem_simps)
  ultimately show "\<exists>m' w'. mini_kernel 13 [sig, act, oact, 8] m w = (0, m', w')
      \<and> action w' = (action w)(sig := action_at m act) \<and> load64 m' oact = fst (action w sig)"
    by (simp add: mini_kernel_def action_at_def sa_flags_def sa_restorer_def sa_mask_def)
qed

theorem signal_installs_witness:
  "\<exists>p'. mini_signal mini_kernel 0x1000 4096 8192 14 0x2000 (mini_start []) = Done 0 p'
    \<and> action (os p') 14 = (0x2000, 0x14000000, 0x1000, 0x2000)"
  using signal_installs [OF mini_handlers.handler_kernel_axioms, where signum = 14 and act = 4096
      and oact = 8192 and myrt = "0x1000" and h = "0x2000" and p = "mini_start []"]
  by (auto simp: bad_signal_def mini_start_def SA_RESTART_def SA_RESTORER_def sigmask_def)

section \<open>Sleeping and local arrays\<close>

text \<open>
  \<^verbatim>\<open>sleep\<close> as the part of \<^verbatim>\<open>libmini.c\<close> that is switched off writes it: \<open>req\<close> and \<open>rem\<close> are the
  addresses of its two local structures.
\<close>

definition mini_sleep :: "'w syscalls \<Rightarrow> u64 \<Rightarrow> u64 \<Rightarrow> u32 \<Rightarrow> (u32, 'w proc) prog" where
  "mini_sleep S req rem seconds =
     seq (put_mem (\<lambda>m. store64 m req (ucast seconds)))
    (seq (put_mem (\<lambda>m. store64 m (req + 8) 0))
         (andthen (sys_call S 35 [req, rem])
            (\<lambda>ret p. if 0 \<le>s ret then Done (ucast ret) p
                     else if ret = - 4 then Done (ucast (load64 (user_mem p) rem)) p
                     else Done 0 p)))"

text \<open>Filling a local array of characters with a string literal.\<close>

fun put_bytes :: "u64 \<Rightarrow> bytes \<Rightarrow> byte_mem \<Rightarrow> byte_mem" where
  "put_bytes a [] m = m"
| "put_bytes a (b # bs) m = put_bytes (a + 1) bs (m(a := b))"

lemma put_bytes_range:
  "length bs < 2 ^ 64 \<Longrightarrow> put_bytes a bs m = (\<lambda>x. if unat (x - a) < length bs then bs ! unat (x - a) else m x)"
proof (induction bs arbitrary: a m)
  case Nil
  show ?case by simp
next
  case (Cons b bs)
  show ?case
  proof
    fix x
    have ih: "put_bytes (a + 1) bs (m(a := b)) x =
        (if unat (x - (a + 1)) < length bs then bs ! unat (x - (a + 1)) else (m(a := b)) x)"
      using Cons.prems by (subst Cons.IH) simp_all
    show "put_bytes a (b # bs) m x = (if unat (x - a) < length (b # bs) then (b # bs) ! unat (x - a) else m x)"
    proof (cases "x = a")
      case True
      have "a - (a + 1) = - 1" by simp
      then have "\<not> unat (a - (a + 1)) < length bs"
        using Cons.prems by (simp add: unsigned_minus_1_eq_mask mask_eq_exp_minus_1)
      then show ?thesis using ih True by simp
    next
      case False
      then have "int (unat (x - (a + 1))) = int (unat (x - a)) - 1" by (rule unat_shift)
      then have u: "unat (x - a) = Suc (unat (x - (a + 1)))" by linarith
      show ?thesis using ih False by (simp only: put_bytes.simps u length_Cons nth_Cons_Suc Suc_less_eq fun_upd_apply if_False)
    qed
  qed
qed

lemma holds_put_bytes: "length bs < 2 ^ 64 \<Longrightarrow> holds (put_bytes a bs m) a bs"
  by (simp add: holds_iff put_bytes_range unat_of_nat)

definition char_array :: "u64 \<Rightarrow> string \<Rightarrow> (unit, 'w proc) prog" where
  "char_array a s = put_mem (put_bytes a (bytes_of s @ [0]))"

context terminal
begin

lemma print_array:
  assumes "length t < 2 ^ 31" and "CHR 0x00 \<notin> set t"
  shows "\<exists>w. seq (char_array a t) (write_string S 1 a) p = Done (of_nat (length t))
      (p\<lparr>user_mem := put_bytes a (bytes_of t @ [0]) (user_mem p), errno := 0, os := w\<rparr>)
    \<and> out w = out (os p) @ bytes_of t"
proof -
  let ?p = "p\<lparr>user_mem := put_bytes a (bytes_of t @ [0]) (user_mem p)\<rparr>"
  have "cstring (user_mem ?p) a t"
    using holds_put_bytes [of "bytes_of t @ [0]" a "user_mem p"] assms by (simp add: cstring_def)
  from write_string_holds [OF _ this assms(1), of 1] show ?thesis
    by (auto simp: seq_def char_array_def put_mem_def)
qed

end

end
