(* ===== verification/MiniAsm.thy ===== *)
theory MiniAsm
  imports MiniSignal Tracee
begin

text \<open>
  The functions of \<^verbatim>\<open>src/hw3\<close> that \<^verbatim>\<open>libmini64.asm\<close> writes in assembly and \<^verbatim>\<open>libmini.h\<close>
  declares: \<^verbatim>\<open>sleep\<close>, \<^verbatim>\<open>setjmp\<close> and \<^verbatim>\<open>longjmp\<close>, instruction by instruction over the registers
  and the memory, and the program \<^verbatim>\<open>jmp1.c\<close> that uses them.
\<close>

section \<open>Instructions\<close>

record 'w cpu =
  regs :: user_regs
  ram :: byte_mem
  sys :: 'w

definition reg :: "(user_regs \<Rightarrow> user_regs) \<Rightarrow> 'w cpu \<Rightarrow> 'w cpu" where
  "reg f c = c\<lparr>regs := f (regs c)\<rparr>"

definition mov_mem :: "u64 \<Rightarrow> u64 \<Rightarrow> 'w cpu \<Rightarrow> 'w cpu" where
  "mov_mem a v c = c\<lparr>ram := store64 (ram c) a v\<rparr>"

definition push :: "u64 \<Rightarrow> 'w cpu \<Rightarrow> 'w cpu" where
  "push v c =
     (let sp = rsp (regs c) - 8 in c\<lparr>regs := (regs c)\<lparr>rsp := sp\<rparr>, ram := store64 (ram c) sp v\<rparr>)"

definition top :: "'w cpu \<Rightarrow> u64" where
  "top c = load64 (ram c) (rsp (regs c))"

definition pop :: "(u64 \<Rightarrow> user_regs \<Rightarrow> user_regs) \<Rightarrow> 'w cpu \<Rightarrow> 'w cpu" where
  "pop f c = reg (\<lambda>r. f (top c) (r\<lparr>rsp := rsp r + 8\<rparr>)) c"

text \<open>\<^verbatim>\<open>ret\<close>: the next instruction is the one at the address on the stack.\<close>

definition ret :: "'w cpu \<Rightarrow> 'w cpu" where
  "ret = pop (\<lambda>v. rip_update (\<lambda>_. v))"

text \<open>
  \<^verbatim>\<open>call sys_...\<close> with the function \<^verbatim>\<open>gensys\<close> makes: \<open>next_ip\<close> is the return address, \<open>nr\<close> and
  \<open>n\<close> the number and the count of arguments of the call; the processor leaves the address after
  \<^verbatim>\<open>syscall\<close> and the flags in \<open>rcx\<close> and \<open>r11\<close>, given as \<open>cl\<close>.
\<close>

definition call_sys :: "'w syscalls \<Rightarrow> u64 \<times> u64 \<Rightarrow> u64 \<Rightarrow> nat \<Rightarrow> nat \<Rightarrow> 'w cpu \<Rightarrow> 'w cpu" where
  "call_sys S cl next_ip nr n c =
     (let c1 = push next_ip c;
          c2 = push (r10 (regs c1)) c1;
          c3 = reg (\<lambda>r. r\<lparr>r10 := rcx r, rax := of_nat nr\<rparr>) c2;
          r = regs c3;
          (v, m, w) = S nr (take n [rdi r, rsi r, rdx r, r10 r, r8 r, r9 r]) (ram c3) (sys c3);
          c4 = reg (\<lambda>r. r\<lparr>rax := v, rcx := fst cl, r11 := snd cl\<rparr>) (c3\<lparr>ram := m, sys := w\<rparr>);
          c5 = pop (\<lambda>v. r10_update (\<lambda>_. v)) c4
      in ret c5)"

section \<open>sleep\<close>

definition asm_sleep :: "'w syscalls \<Rightarrow> u64 \<times> u64 \<Rightarrow> u64 \<Rightarrow> 'w cpu \<Rightarrow> 'w cpu" where
  "asm_sleep S cl next_ip c =
     (let c1 = reg (\<lambda>r. r\<lparr>rsp := rsp r - 32\<rparr>) c;
          sp = rsp (regs c1);
          c2 = mov_mem sp (rdi (regs c1)) c1;
          c3 = mov_mem (sp + 8) 0 c2;
          c4 = reg (\<lambda>r. r\<lparr>rdi := rsp r, rsi := rsp r + 16\<rparr>) c3;
          c5 = call_sys S cl next_ip 35 2 c4;
          c6 = (if 0 \<le>s rax (regs c5) then c5
                else let c' = reg (\<lambda>r. r\<lparr>rax := - rax r\<rparr>) c5
                     in if rax (regs c') = 4
                        then let c'' = reg (\<lambda>r. r\<lparr>rsi := rsp r + 16\<rparr>) c'
                             in reg (\<lambda>r. r\<lparr>rax := load64 (ram c'') (rsi r)\<rparr>) c''
                        else reg (\<lambda>r. r\<lparr>rax := 0\<rparr>) c')
      in ret (reg (\<lambda>r. r\<lparr>rsp := rsp r + 32\<rparr>) c6))"

lemma of_nat_less64:
  "i < 2 ^ 64 \<Longrightarrow> j < 2 ^ 64 \<Longrightarrow> (of_nat i :: u64) < of_nat j \<longleftrightarrow> i < j"
  "i < 2 ^ 64 \<Longrightarrow> j < 2 ^ 64 \<Longrightarrow> (of_nat i :: u64) \<le> of_nat j \<longleftrightarrow> i \<le> j"
  by (simp_all add: word_less_nat_alt word_le_nat_alt unat_of_nat)

text \<open>The words around a stack pointer that is not near the ends of the address space.\<close>

lemma around_stack:
  fixes sp :: u64
  assumes "48 \<le> sp" and "sp < - 48" and "(j :: nat) < 8"
  shows "sp - 8 + of_nat j < sp" and "sp - 16 + of_nat j < sp"
    and "sp - 8 + of_nat j < sp + 16" and "sp - 16 + of_nat j < sp + 16" and "sp + 32 \<le> sp + 32 + of_nat j"
    and "sp \<le> sp + 32 + of_nat j"
proof -
  define u where "u = unat sp"
  have s: "sp = of_nat u" by (simp add: u_def)
  have u: "48 \<le> u" "u < 2 ^ 64 - 48"
    using assms(1,2) by (simp_all add: u_def word_le_nat_alt word_less_nat_alt)
  have e: "sp - 8 + of_nat j = of_nat (u - 8 + j)" "sp - 16 + of_nat j = of_nat (u - 16 + j)"
    "sp + 16 = of_nat (u + 16)" "sp + 32 = of_nat (u + 32)" "sp + 32 + of_nat j = of_nat (u + 32 + j)"
    using u(1) by (simp_all add: s of_nat_diff)
  show "sp - 8 + of_nat j < sp" "sp - 16 + of_nat j < sp"
    "sp - 8 + of_nat j < sp + 16" "sp - 16 + of_nat j < sp + 16"
    unfolding e unfolding s by (rule of_nat_less64(1) [THEN iffD2]; use u assms(3) in simp)+
  show "sp + 32 \<le> sp + 32 + of_nat j" "sp \<le> sp + 32 + of_nat j"
    unfolding e(5) unfolding e(4) unfolding s by (rule of_nat_less64(2) [THEN iffD2]; use u assms(3) in simp)+
qed

lemma above_unpushed:
  fixes sp x :: u64
  assumes "48 \<le> sp" and "sp \<le> x"
  shows "8 \<le> unat (x - (sp - 8))" and "8 \<le> unat (x - (sp - 16))"
proof -
  have "unat sp \<le> unat x" "48 \<le> unat sp" using assms by (simp_all add: word_le_nat_alt)
  moreover have "unat (sp - 8) = unat sp - 8" "unat (sp - 16) = unat sp - 16"
    using assms(1) by (simp_all add: unat_sub word_le_nat_alt)
  moreover have "sp - 8 \<le> x" "sp - 16 \<le> x" using calculation by (simp_all add: word_le_nat_alt)
  ultimately show "8 \<le> unat (x - (sp - 8))" "8 \<le> unat (x - (sp - 16))" by (simp_all add: unat_sub)
qed

text \<open>
  The C version and the assembly version give the kernel the same request and return the same
  number, when the kernel writes to no part of the stack but the structure \<open>rem\<close>.  The stack
  pointer is not near the ends of the address space, and the kernel does not look at the two
  words below the structures that the call pushes.
\<close>

text \<open>
  C26. The sleep of libmini.c (switched off) and the one in assembly that replaces it give the
  kernel the same request and return the same number, and the assembly returns to its caller
  with the stack as it was.
\<close>

theorem sleep_versions_agree:
  fixes c :: "'w cpu" and p :: "'w proc"
  assumes "\<And>m m' w. (\<And>x. sp \<le> x \<Longrightarrow> m x = m' x) \<Longrightarrow>
      \<exists>v n n' w'. S 35 [sp, sp + 16] m w = (v, n, w') \<and> S 35 [sp, sp + 16] m' w = (v, n', w')
        \<and> load64 n (sp + 16) = load64 n' (sp + 16)
        \<and> (\<forall>x. x < sp + 16 \<or> sp + 32 \<le> x \<longrightarrow> n' x = m' x)"
    and "rsp (regs c) = sp + 32" and "48 \<le> sp" and "sp < - 48"
    and "rdi (regs c) = ucast seconds" and "user_mem p = ram c" and "os p = sys c"
  shows "\<exists>v p'. mini_sleep S sp (sp + 16) seconds p = Done v p'
    \<and> ucast (rax (regs (asm_sleep S cl next_ip c))) = v
    \<and> sys (asm_sleep S cl next_ip c) = os p'
    \<and> rip (regs (asm_sleep S cl next_ip c)) = load64 (ram c) (sp + 32)
    \<and> rsp (regs (asm_sleep S cl next_ip c)) = sp + 40"
proof -
  let ?m = "store64 (store64 (ram c) sp (ucast seconds)) (sp + 8) 0"
  let ?m' = "store64 (store64 ?m (sp - 8) next_ip) (sp - 16) (r10 (regs c))"
  have eq: "?m x = ?m' x" if "sp \<le> x" for x
    using above_unpushed [OF assms(3) that] by (simp add: store64_off)
  from assms(1) [of ?m ?m' "sys c"] eq obtain v n n' w' where
    k: "S 35 [sp, sp + 16] ?m (sys c) = (v, n, w')" "S 35 [sp, sp + 16] ?m' (sys c) = (v, n', w')"
    and r: "load64 n (sp + 16) = load64 n' (sp + 16)"
    and f: "\<And>x. x < sp + 16 \<or> sp + 32 \<le> x \<Longrightarrow> n' x = ?m' x" by blast
  have a: "apart (sp - 16) (sp - 8)" by (simp add: apart_def)
  have "load64 n' (sp - 8) = load64 ?m' (sp - 8)" "load64 n' (sp - 16) = load64 ?m' (sp - 16)"
    by (rule load64_cong; use f around_stack [OF assms(3,4)] in blast)+
  then have st: "load64 n' (sp - 8) = next_ip" "load64 n' (sp - 16) = r10 (regs c)"
    using a by (simp_all add: mem_simps)
  have "n' (sp + 32 + of_nat j) = ram c (sp + 32 + of_nat j)" if j: "j < 8" for j
  proof -
    note b = around_stack(5,6) [OF assms(3,4) j]
    have "apart (sp + 32) sp" "apart (sp + 32) (sp + 8)" by (simp_all add: apart_def)
    from this [THEN apart_offset, OF j] above_unpushed [OF assms(3) b(2)] b(1) f show ?thesis
      by (simp add: store64_off)
  qed
  then have frame: "load64 n' (sp + 32) = load64 (ram c) (sp + 32)" by (rule load64_cong)
  have m4: "- v = 4 \<longleftrightarrow> v = - 4" by (metis minus_minus)
  have "mini_sleep S sp (sp + 16) seconds p =
      Done (if 0 \<le>s v then ucast v else if v = - 4 then ucast (load64 n (sp + 16)) else 0)
        (p\<lparr>user_mem := n, os := w'\<rparr>)"
    using k(1) assms(6,7) by (simp add: mini_sleep_def seq_def put_mem_def sys_call_def)
  moreover have "regs (asm_sleep S cl next_ip c) = (regs c)\<lparr>rax := if 0 \<le>s v then v else if v = - 4 then load64 n (sp + 16) else 0,
      rdi := sp, rsi := sp + 16, rcx := fst cl, r11 := snd cl, rsp := sp + 40, rip := load64 (ram c) (sp + 32)\<rparr>
    \<and> sys (asm_sleep S cl next_ip c) = w'"
  proof -
    let ?c4 = "c\<lparr>ram := ?m, regs := (regs c)\<lparr>rsp := sp, rdi := sp, rsi := sp + 16\<rparr>\<rparr>"
    let ?c5 = "c\<lparr>regs := (regs c)\<lparr>rsp := sp, rdi := sp, rsi := sp + 16, rax := v, rcx := fst cl, r11 := snd cl,
      rip := next_ip\<rparr>, ram := n', sys := w'\<rparr>"
    have c5: "call_sys S cl next_ip 35 2 ?c4 = ?c5"
      using k(2) st by (simp add: call_sys_def ret_def pop_def push_def top_def reg_def Let_def)
    have "asm_sleep S cl next_ip c = (let c6 = (if 0 \<le>s v then ?c5
        else let c' = reg (\<lambda>r. r\<lparr>rax := - rax r\<rparr>) ?c5
             in if rax (regs c') = 4
                then let c'' = reg (\<lambda>r. r\<lparr>rsi := rsp r + 16\<rparr>) c'
                     in reg (\<lambda>r. r\<lparr>rax := load64 (ram c'') (rsi r)\<rparr>) c''
                else reg (\<lambda>r. r\<lparr>rax := 0\<rparr>) c')
      in ret (reg (\<lambda>r. r\<lparr>rsp := rsp r + 32\<rparr>) c6))"
      using assms(2,5) c5 by (simp add: asm_sleep_def mov_mem_def reg_def)
    then show ?thesis
      using frame r m4 by (simp add: ret_def pop_def top_def reg_def Let_def)
  qed
  ultimately show ?thesis by simp
qed

text \<open>Registers for the instances.\<close>

definition asm_regs :: user_regs where
  "asm_regs =
     \<lparr> rax = 0, rbx = 11, rcx = 0, rdx = 0, r8 = 0, r9 = 0, r10 = 0, r11 = 0, r12 = 12, r13 = 13,
       r14 = 14, r15 = 15, rdi = 5, rsi = 0, rbp = 16, rsp = 0x7ffe0020, rip = 0x400000,
       eflags = 0x202, other_regs = [] \<rparr>"

lemma load64_agree:
  assumes "\<And>x. (0x7ffe0000 :: u64) \<le> x \<Longrightarrow> m x = m' x" and "a = 0x7ffe0000 \<or> a = 0x7ffe0010"
  shows "load64 m a = load64 m' a"
proof (rule load64_cong)
  fix j :: nat assume "j < 8"
  then have "j \<in> {0, 1, 2, 3, 4, 5, 6, 7}" by auto
  then have "0x7ffe0000 \<le> a + of_nat j" using assms(2) by auto
  then show "m (a + of_nat j) = m' (a + of_nat j)" by (rule assms(1))
qed

theorem sleep_versions_agree_witness:
  "\<exists>v p'. mini_sleep mini_kernel 0x7ffe0000 0x7ffe0010 5 (mini_start []) = Done v p'
    \<and> ucast (rax (regs (asm_sleep mini_kernel (0, 0) 0x401000
        \<lparr> regs = asm_regs, ram = slot_mem [], sys = os (mini_start []) \<rparr>))) = v"
proof -
  have "\<exists>v n n' w'. mini_kernel 35 [0x7ffe0000, 0x7ffe0000 + 16] m w = (v, n, w')
        \<and> mini_kernel 35 [0x7ffe0000, 0x7ffe0000 + 16] m' w = (v, n', w')
        \<and> load64 n (0x7ffe0000 + 16) = load64 n' (0x7ffe0000 + 16)
        \<and> (\<forall>x. x < 0x7ffe0000 + 16 \<or> 0x7ffe0000 + 32 \<le> x \<longrightarrow> n' x = m' x)"
    if "\<And>x. 0x7ffe0000 \<le> x \<Longrightarrow> m x = m' x" for m m' w
    using load64_agree [of m m' "0x7ffe0000", OF that] load64_agree [of m m' "0x7ffe0010", OF that]
    by (simp add: mini_kernel_def)
  note k = this
  have "\<exists>v p'. mini_sleep mini_kernel 0x7ffe0000 (0x7ffe0000 + 16) 5 (mini_start []) = Done v p'
    \<and> ucast (rax (regs (asm_sleep mini_kernel (0, 0) 0x401000
        \<lparr> regs = asm_regs, ram = slot_mem [], sys = os (mini_start []) \<rparr>))) = v
    \<and> sys (asm_sleep mini_kernel (0, 0) 0x401000 \<lparr> regs = asm_regs, ram = slot_mem [], sys = os (mini_start []) \<rparr>) = os p'
    \<and> rip (regs (asm_sleep mini_kernel (0, 0) 0x401000 \<lparr> regs = asm_regs, ram = slot_mem [], sys = os (mini_start []) \<rparr>)) =
        load64 (ram \<lparr> regs = asm_regs, ram = slot_mem [], sys = os (mini_start []) \<rparr>) (0x7ffe0000 + 32)
    \<and> rsp (regs (asm_sleep mini_kernel (0, 0) 0x401000 \<lparr> regs = asm_regs, ram = slot_mem [], sys = os (mini_start []) \<rparr>)) =
        0x7ffe0000 + 40"
    by (rule sleep_versions_agree [of "0x7ffe0000" mini_kernel]; (rule k, assumption)?)
      (simp_all add: asm_regs_def)
  then show ?thesis by auto
qed

section \<open>setjmp and longjmp\<close>

text \<open>
  Both compute the address of the signal mask from \<open>rdi\<close> after \<open>rdi\<close> was overwritten with the
  first argument of the system call.
\<close>

definition asm_setjmp :: "'w syscalls \<Rightarrow> u64 \<times> u64 \<Rightarrow> u64 \<Rightarrow> 'w cpu \<Rightarrow> 'w cpu" where
  "asm_setjmp S cl next_ip c =
     (let b = rdi (regs c); r = regs c;
          c1 = mov_mem b (rbx r) c;
          c2 = mov_mem (b + 8) (rsp r) c1;
          c3 = mov_mem (b + 16) (rbp r) c2;
          c4 = mov_mem (b + 24) (r12 r) c3;
          c5 = mov_mem (b + 32) (r13 r) c4;
          c6 = mov_mem (b + 40) (r14 r) c5;
          c7 = mov_mem (b + 48) (r15 r) c6;
          c8 = push (top c7) c7;
          c9 = mov_mem (b + 56) (top c8) (reg (\<lambda>r. r\<lparr>rsp := rsp r + 8\<rparr>) c8);
          c10 = push (rcx r) (push (rdx r) (push (rsi r) (push (rdi r) c9)));
          c11 = reg (\<lambda>r. r\<lparr>rdi := 0, rsi := 0\<rparr>) c10;
          c12 = reg (\<lambda>r. r\<lparr>rdx := rdi r + 64, rcx := 8\<rparr>) c11;
          c13 = call_sys S cl next_ip 14 4 c12;
          c14 = pop (\<lambda>v. rdi_update (\<lambda>_. v)) (pop (\<lambda>v. rsi_update (\<lambda>_. v))
                  (pop (\<lambda>v. rdx_update (\<lambda>_. v)) (pop (\<lambda>v. rcx_update (\<lambda>_. v)) c13)))
      in ret (reg (\<lambda>r. r\<lparr>rax := 0\<rparr>) c14))"

definition asm_longjmp :: "'w syscalls \<Rightarrow> u64 \<times> u64 \<Rightarrow> u64 \<Rightarrow> 'w cpu \<Rightarrow> 'w cpu" where
  "asm_longjmp S cl next_ip c =
     (let b = rdi (regs c); m = ram c;
          c1 = reg (\<lambda>r. r\<lparr>rbx := load64 m b, rsp := load64 m (b + 8), rbp := load64 m (b + 16),
                 r12 := load64 m (b + 24), r13 := load64 m (b + 32), r14 := load64 m (b + 40),
                 r15 := load64 m (b + 48)\<rparr>) c;
          c2 = push (load64 m (b + 56)) c1;
          c3 = (let v = top c2; c' = reg (\<lambda>r. r\<lparr>rsp := rsp r + 8\<rparr>) c2 in mov_mem (rsp (regs c')) v c');
          c4 = push (rdx (regs c3)) (push (rsi (regs c3)) (push (rdi (regs c3)) c3));
          c5 = reg (\<lambda>r. r\<lparr>rdi := 2\<rparr>) c4;
          c6 = reg (\<lambda>r. r\<lparr>rsi := rdi r + 64, rdx := 0\<rparr>) c5;
          c7 = call_sys S cl next_ip 14 4 c6;
          c8 = pop (\<lambda>v. rdi_update (\<lambda>_. v)) (pop (\<lambda>v. rsi_update (\<lambda>_. v)) (pop (\<lambda>v. rdx_update (\<lambda>_. v)) c7))
      in ret (reg (\<lambda>r. r\<lparr>rax := rsi r\<rparr>) c8))"

text \<open>The eight words of a \<^verbatim>\<open>jmp_buf\<close> and what \<^verbatim>\<open>setjmp\<close> puts there; \<open>ra\<close> is its return address.\<close>

definition env_words :: "u64 \<Rightarrow> u64 list" where
  "env_words b = [b, b + 8, b + 16, b + 24, b + 32, b + 40, b + 48, b + 56]"

definition saved_env :: "byte_mem \<Rightarrow> u64 \<Rightarrow> u64 list" where
  "saved_env m b = map (load64 m) (env_words b)"

definition env_of :: "user_regs \<Rightarrow> u64 \<Rightarrow> u64 list" where
  "env_of r ra = [rbx r, rsp r, rbp r, r12 r, r13 r, r14 r, r15 r, ra]"

text \<open>The buffer does not overlap the stack both functions use.\<close>

definition off_stack :: "u64 \<Rightarrow> u64 \<Rightarrow> bool" where
  "off_stack b sp \<longleftrightarrow>
     (\<forall>x \<in> set (env_words b). \<forall>y \<in> {sp, sp - 8, sp - 16, sp - 24, sp - 32, sp - 40, sp - 48}. apart x y)"

lemma apart_shift:
  "apart (b + x) (b + y) = apart x y" "apart b (b + y) = apart 0 y" "apart (b + x) b = apart x 0"
  "apart (s - x) (s - y) = apart y x" "apart s (s - y) = apart y 0" "apart (s - x) s = apart 0 x"
  by (auto simp: apart_def)

lemma apart_numeral:
  "apart 0 (numeral y) \<longleftrightarrow> 8 \<le> unat (- numeral y :: u64) \<and> 8 \<le> unat (numeral y :: u64)"
  "apart (numeral x) 0 \<longleftrightarrow> 8 \<le> unat (numeral x :: u64) \<and> 8 \<le> unat (- numeral x :: u64)"
  "apart (numeral x) (numeral y) \<longleftrightarrow>
    8 \<le> unat (numeral x - numeral y :: u64) \<and> 8 \<le> unat (numeral y - numeral x :: u64)"
  by (simp_all add: apart_def)

lemmas asm_simps = mov_mem_def push_def top_def pop_def reg_def ret_def Let_def mem_simps apart_shift apart_numeral

lemma setjmp_effect:
  assumes "\<And>m w. S 14 [0, 0, 64, 8] m w = (- 14, m, w)"
    and "rdi (regs c) = b" and "rsp (regs c) = sp" and "off_stack b sp"
  shows "\<exists>m. asm_setjmp S cl next_ip c = c\<lparr>ram := m, regs := (regs c)\<lparr>r11 := snd cl, rdi := b, rax := 0,
        rsp := 8 + sp, rip := load64 (ram c) sp\<rparr>\<rparr>
    \<and> saved_env m b = env_of (regs c) (load64 (ram c) sp)
    \<and> (\<forall>a. (\<forall>x \<in> set (env_words b) \<union> {sp - 8, sp - 16, sp - 24, sp - 32, sp - 40, sp - 48}. apart x a) \<longrightarrow>
          load64 m a = load64 (ram c) a)"
proof -
  have sep: "\<forall>x \<in> set (env_words b). \<forall>y \<in> {sp, sp - 8, sp - 16, sp - 24, sp - 32, sp - 40, sp - 48}. apart x y \<and> apart y x"
    using assms(4) apart_sym unfolding off_stack_def by blast
  note F = sep [unfolded env_words_def, simplified]
  show ?thesis
    by (simp add: asm_setjmp_def call_sys_def asm_simps assms(1-3) F, rule exI, rule conjI, rule refl)
      (simp add: saved_env_def env_words_def env_of_def asm_simps assms(2,3) F)
qed

lemma longjmp_effect:
  assumes "\<And>k m w. S 14 [2, 66, 0, k] m w = (er k, m, w)"
    and "rdi (regs c) = b" and "saved_env (ram c) b = env_of r ra" and "off_stack b (rsp r)"
  shows "\<exists>m. asm_longjmp S cl next_ip c = c\<lparr>ram := m, regs := (regs c)\<lparr>
      rbx := rbx r, rbp := rbp r, r12 := r12 r, r13 := r13 r, r14 := r14 r, r15 := r15 r,
      rcx := fst cl, r11 := snd cl, rax := rsi (regs c), rsp := 8 + rsp r, rip := ra\<rparr>\<rparr>
    \<and> saved_env m b = env_of r ra"
proof -
  let ?sp = "rsp r"
  have sep: "\<forall>x \<in> set (env_words b). \<forall>y \<in> {?sp, ?sp - 8, ?sp - 16, ?sp - 24, ?sp - 32, ?sp - 40, ?sp - 48}. apart x y \<and> apart y x"
    using assms(4) apart_sym unfolding off_stack_def by blast
  note F = sep [unfolded env_words_def, simplified]
  have e: "load64 (ram c) b = rbx r" "load64 (ram c) (b + 8) = rsp r" "load64 (ram c) (b + 16) = rbp r"
    "load64 (ram c) (b + 24) = r12 r" "load64 (ram c) (b + 32) = r13 r" "load64 (ram c) (b + 40) = r14 r"
    "load64 (ram c) (b + 48) = r15 r" "load64 (ram c) (b + 56) = ra"
    using assms(3) by (simp_all add: saved_env_def env_words_def env_of_def)
  show ?thesis
    by (simp add: asm_longjmp_def call_sys_def asm_simps assms(1,2) e F, rule exI, rule conjI, rule refl)
      (simp add: saved_env_def env_words_def env_of_def asm_simps e F)
qed

text \<open>
  C22. longjmp to a buffer that setjmp filled continues behind the call of setjmp with its stack
  pointer and its callee-saved registers and returns the second argument, while setjmp itself
  returned 0: both instruction by instruction, over any state in between that left the eight
  words of the buffer alone.
\<close>

theorem jump_roundtrip:
  assumes "\<And>m w. S 14 [0, 0, 64, 8] m w = (- 14, m, w)" and "\<And>k m w. S 14 [2, 66, 0, k] m w = (er k, m, w)"
    and "rdi (regs c) = b" and "off_stack b (rsp (regs c))"
    and "rdi (regs d) = b" and "saved_env (ram d) b = saved_env (ram (asm_setjmp S cl ip c)) b"
  shows "let r0 = regs c; r1 = regs (asm_setjmp S cl ip c); r2 = regs (asm_longjmp S cl' ip' d)
    in rip r1 = load64 (ram c) (rsp r0) \<and> rsp r1 = rsp r0 + 8 \<and> rax r1 = 0
     \<and> rip r2 = rip r1 \<and> rsp r2 = rsp r1 \<and> rax r2 = rsi (regs d)
     \<and> [rbx r2, rbp r2, r12 r2, r13 r2, r14 r2, r15 r2] = [rbx r0, rbp r0, r12 r0, r13 r0, r14 r0, r15 r0]
     \<and> [rbx r1, rbp r1, r12 r1, r13 r1, r14 r1, r15 r1] = [rbx r0, rbp r0, r12 r0, r13 r0, r14 r0, r15 r0]"
proof -
  let ?ra = "load64 (ram c) (rsp (regs c))"
  obtain m where s: "asm_setjmp S cl ip c = c\<lparr>ram := m, regs := (regs c)\<lparr>r11 := snd cl, rdi := b, rax := 0,
        rsp := 8 + rsp (regs c), rip := ?ra\<rparr>\<rparr>" "saved_env m b = env_of (regs c) ?ra"
    using setjmp_effect [of S c b "rsp (regs c)" cl ip] assms(1,3,4) by blast
  have "saved_env (ram d) b = env_of (regs c) ?ra" using assms(6) s by simp
  then obtain m' where
    "asm_longjmp S cl' ip' d = d\<lparr>ram := m', regs := (regs d)\<lparr>rbx := rbx (regs c), rbp := rbp (regs c),
      r12 := r12 (regs c), r13 := r13 (regs c), r14 := r14 (regs c), r15 := r15 (regs c),
      rcx := fst cl', r11 := snd cl', rax := rsi (regs d), rsp := 8 + rsp (regs c), rip := ?ra\<rparr>\<rparr>"
    using longjmp_effect [of S er d b "regs c" ?ra cl' ip'] assms(2,4,5) by blast
  then show ?thesis using s(1) by (simp add: Let_def)
qed

text \<open>The word after the eight registers, the mask of the buffer, is not written.\<close>

theorem setjmp_leaves_mask:
  assumes "\<And>m w. S 14 [0, 0, 64, 8] m w = (- 14, m, w)"
    and "rdi (regs c) = b" and "rsp (regs c) = sp" and "off_stack b sp"
    and "\<forall>x \<in> {sp - 8, sp - 16, sp - 24, sp - 32, sp - 40, sp - 48}. apart x (b + 64)"
  shows "load64 (ram (asm_setjmp S cl ip c)) (b + 64) = load64 (ram c) (b + 64)"
proof -
  have "\<forall>x \<in> set (env_words b) \<union> {sp - 8, sp - 16, sp - 24, sp - 32, sp - 40, sp - 48}. apart x (b + 64)"
    using assms(5) by (auto simp: env_words_def apart_shift apart_numeral)
  with setjmp_effect [of S c b sp cl ip] assms(1-4) show ?thesis by auto
qed

text \<open>A kernel that refuses the addresses of the first page, as Linux does.\<close>

definition efault_kernel :: "unit syscalls" where
  "efault_kernel nr args m w = (- 14, m, w)"

definition jump_cpu :: "unit cpu" where
  "jump_cpu = \<lparr> regs = asm_regs\<lparr>rdi := 0x5000\<rparr>, ram = (\<lambda>_. 0)(0x7ffe0021 := 0x40), sys = () \<rparr>"

lemma jump_off_stack: "off_stack 0x5000 0x7ffe0020"
  by (simp add: off_stack_def env_words_def apart_def)

theorem jump_roundtrip_witness:
  "let d = (asm_setjmp efault_kernel (0, 0) 0x401000 jump_cpu)\<lparr>regs := asm_regs\<lparr>rdi := 0x5000, rsi := 7, rbx := 99, rsp := 0x7ffd0000\<rparr>\<rparr>;
       r2 = regs (asm_longjmp efault_kernel (0, 0) 0x402000 d)
   in rip r2 = load64 (ram jump_cpu) 0x7ffe0020 \<and> rsp r2 = 0x7ffe0028 \<and> rax r2 = 7 \<and> rbx r2 = 11"
  using jump_roundtrip [of efault_kernel "\<lambda>_. - 14" jump_cpu "0x5000"
      "(asm_setjmp efault_kernel (0, 0) 0x401000 jump_cpu)\<lparr>regs := asm_regs\<lparr>rdi := 0x5000, rsi := 7, rbx := 99, rsp := 0x7ffd0000\<rparr>\<rparr>"
      "(0, 0)" "0x401000" "(0, 0)" "0x402000"] jump_off_stack
  by (simp add: Let_def efault_kernel_def jump_cpu_def asm_regs_def)

theorem setjmp_leaves_mask_witness:
  "load64 (ram (asm_setjmp efault_kernel (0, 0) 0x401000 jump_cpu)) 0x5040 = load64 (ram jump_cpu) 0x5040"
  using setjmp_leaves_mask [of efault_kernel jump_cpu "0x5000" "0x7ffe0020" "(0, 0)" "0x401000"] jump_off_stack
  by (simp add: efault_kernel_def jump_cpu_def asm_regs_def apart_def)

section \<open>A program that jumps\<close>

text \<open>
  \<^verbatim>\<open>jmp1.c\<close>: each call of \<^verbatim>\<open>longjmp(jb, from)\<close> is a return of \<^verbatim>\<open>setjmp\<close> with the value \<open>from\<close>;
  \<open>i\<close> is the local variable \<^verbatim>\<open>i\<close>, which the jump keeps.
\<close>

definition fun_texts :: "string list" where
  "fun_texts = map (\<lambda>l. ''This is function '' @ [l] @ ''().'' @ [nl]) ''abcdefghij''"

function jmp1_from :: "'w syscalls \<Rightarrow> (string \<Rightarrow> u64) \<Rightarrow> nat \<Rightarrow> nat \<Rightarrow> (u32, 'w proc) prog" where
  "jmp1_from S lit i returned =
     (let i' = (if returned \<noteq> 0 then i + 1 else i)
      in if i' < 10 then seq (write_string S 1 (lit (fun_texts ! i'))) (jmp1_from S lit i' (i' + 1))
         else Done 0)"
  by pat_completeness auto

termination
  by (relation "measure (\<lambda>(S, lit, i, r). if r = 0 then 11 - i else 10 - i)") auto

declare jmp1_from.simps [simp del]

definition jmp1_main :: "'w syscalls \<Rightarrow> (string \<Rightarrow> u64) \<Rightarrow> (u32, 'w proc) prog" where
  "jmp1_main S lit = jmp1_from S lit 0 0"

lemma length_fun_texts [simp]: "length fun_texts = 10"
  by (simp add: fun_texts_def)

context terminal
begin

lemma print_text:
  assumes "i < 10" and "literals (user_mem p) lit (set fun_texts)"
  shows "\<exists>w. write_string S 1 (lit (fun_texts ! i)) p = Done (of_nat (length (fun_texts ! i))) (p\<lparr>errno := 0, os := w\<rparr>)
    \<and> out w = out (os p) @ bytes_of (fun_texts ! i)"
proof -
  have m: "fun_texts ! i \<in> set fun_texts" using assms(1) by simp
  then have "cstring (user_mem p) (lit (fun_texts ! i)) (fun_texts ! i)" using assms(2) by (simp add: literals_def)
  moreover have "length (fun_texts ! i) < 2 ^ 31" using m by (auto simp: fun_texts_def)
  ultimately show ?thesis by (intro write_string_holds) simp_all
qed

lemma print_texts:
  assumes "i < 10" and "literals (user_mem p) lit (set fun_texts)"
  shows "\<exists>p'. jmp1_from S lit i (i + 1) p = Done 0 p'
    \<and> out (os p') = out (os p) @ bytes_of (concat (drop (Suc i) fun_texts))"
  using assms
proof (induction "10 - i" arbitrary: i p)
  case 0
  then show ?case by simp
next
  case (Suc k)
  show ?case
  proof (cases "i + 1 < 10")
    case True
    obtain w where w: "write_string S 1 (lit (fun_texts ! (i + 1))) p =
        Done (of_nat (length (fun_texts ! (i + 1)))) (p\<lparr>errno := 0, os := w\<rparr>)"
      "out w = out (os p) @ bytes_of (fun_texts ! (i + 1))"
      using print_text [OF True Suc.prems(2)] by blast
    have "k = 10 - (i + 1)" using Suc.hyps(2) by simp
    from Suc.hyps(1) [OF this True, of "p\<lparr>errno := 0, os := w\<rparr>"] Suc.prems(2) obtain p' where
      "jmp1_from S lit (i + 1) (i + 1 + 1) (p\<lparr>errno := 0, os := w\<rparr>) = Done 0 p'"
      "out (os p') = out w @ bytes_of (concat (drop (Suc (i + 1)) fun_texts))" by auto
    moreover have "drop (Suc i) fun_texts = fun_texts ! (i + 1) # drop (Suc (i + 1)) fun_texts"
      using Cons_nth_drop_Suc [of "Suc i" fun_texts] True by simp
    ultimately show ?thesis
      using w True by (subst jmp1_from.simps) (simp add: seq_def)
  next
    case False
    then have "drop (Suc i) fun_texts = []" by simp
    then show ?thesis using False by (subst jmp1_from.simps) simp
  qed
qed

end

theorem jmp1_prints:
  assumes "terminal S out" and "literals (user_mem p) lit (set fun_texts)"
  shows "\<exists>p'. jmp1_main S lit p = Done 0 p' \<and> out (os p') = out (os p) @ bytes_of (concat fun_texts)"
proof -
  obtain w where w: "write_string S 1 (lit (fun_texts ! 0)) p =
      Done (of_nat (length (fun_texts ! 0))) (p\<lparr>errno := 0, os := w\<rparr>)" "out w = out (os p) @ bytes_of (fun_texts ! 0)"
    using terminal.print_text [OF assms(1) _ assms(2), of 0] by auto
  obtain p' where "jmp1_from S lit 0 1 (p\<lparr>errno := 0, os := w\<rparr>) = Done 0 p'"
    "out (os p') = out w @ bytes_of (concat (drop 1 fun_texts))"
    using terminal.print_texts [OF assms(1), of 0 "p\<lparr>errno := 0, os := w\<rparr>" lit] assms(2) by auto
  moreover have "fun_texts = fun_texts ! 0 # drop 1 fun_texts" by (simp add: fun_texts_def)
  then have "concat fun_texts = fun_texts ! 0 @ concat (drop 1 fun_texts)" by (metis concat.simps(2))
  ultimately show ?thesis
    using w unfolding jmp1_main_def by (subst jmp1_from.simps) (simp add: seq_def)
qed

theorem jmp1_prints_witness:
  "\<exists>p'. jmp1_main mini_kernel (slot_addr fun_texts) (mini_start fun_texts) = Done 0 p'
    \<and> console (os p') = bytes_of (concat fun_texts)"
proof -
  have "cstring (slot_mem fun_texts) (slot_addr fun_texts s) s" if "s \<in> set fun_texts" for s
    by (rule slot_string [OF that]) (use that in \<open>auto simp: fun_texts_def nl_def\<close>)
  then have "literals (user_mem (mini_start fun_texts)) (slot_addr fun_texts) (set fun_texts)"
    by (simp add: literals_def)
  from jmp1_prints [OF mini_terminal.terminal_axioms this] show ?thesis by simp
qed

end
