(* ===== verification/MiniAlarm.thy ===== *)
theory MiniAlarm
  imports MiniAsm
begin

text \<open>
  Calls of the assembly \<^verbatim>\<open>sleep\<close> from C, and the programs \<^verbatim>\<open>alarm1.c\<close>, \<^verbatim>\<open>alarm2.c\<close> and
  \<^verbatim>\<open>alarm3.c\<close> of \<^verbatim>\<open>src/hw3\<close>.
\<close>

section \<open>A call of sleep\<close>

text \<open>
  What the compiler and the linker decide for a call: the registers at the call, the address behind
  it and the one behind \<^verbatim>\<open>call sys_nanosleep\<close>, and what \<^verbatim>\<open>syscall\<close> leaves in \<open>rcx\<close> and \<open>r11\<close>.
\<close>

record call_site =
  site_regs :: user_regs
  return_to :: u64
  nano_next :: u64
  clobbered :: "u64 \<times> u64"

definition at_call :: "call_site \<Rightarrow> u32 \<Rightarrow> 'w proc \<Rightarrow> 'w cpu" where
  "at_call site seconds p =
     push (return_to site)
       \<lparr> regs = (site_regs site)\<lparr>rdi := ucast seconds\<rparr>, ram = user_mem p, sys = os p \<rparr>"

text \<open>
  \<^verbatim>\<open>sleep\<close> as the programs are linked with it.  If it does not come back to its caller with the
  caller's stack, the behaviour of the program is undefined.
\<close>

definition linked_sleep :: "'w syscalls \<Rightarrow> call_site \<Rightarrow> u32 \<Rightarrow> (u32, 'w proc) prog" where
  "linked_sleep S site seconds p =
     (let c = asm_sleep S (clobbered site) (nano_next site) (at_call site seconds p)
      in if rip (regs c) = return_to site \<and> rsp (regs c) = rsp (site_regs site)
         then Done (ucast (rax (regs c))) (p\<lparr>user_mem := ram c, os := sys c\<rparr>)
         else Undef)"

text \<open>The structure \<open>req\<close> of the call; \<open>rem\<close> follows it.\<close>

definition sleep_req :: "call_site \<Rightarrow> u64" where
  "sleep_req site = rsp (site_regs site) - 40"

text \<open>The 56 bytes of stack a call uses.\<close>

definition in_sleep_frame :: "call_site \<Rightarrow> u64 \<Rightarrow> bool" where
  "in_sleep_frame site x \<longleftrightarrow> unat (x - (rsp (site_regs site) - 56)) < 56"

text \<open>The memory the kernel sees: the request on the stack, below it what the two calls pushed.\<close>

definition sleep_mem :: "call_site \<Rightarrow> u32 \<Rightarrow> byte_mem \<Rightarrow> byte_mem" where
  "sleep_mem site seconds m =
     (let q = sleep_req site
      in store64 (store64 (store64 (store64 (store64 m (q + 32) (return_to site)) q (ucast seconds)) (q + 8) 0)
           (q - 8) (nano_next site)) (q - 16) (r10 (site_regs site)))"

lemma outside_word:
  fixes x b :: u64
  assumes "56 \<le> unat (x - b)" and "unat d \<le> 48"
  shows "8 \<le> unat (x - (b + d))"
proof -
  have "d \<le> x - b" using assms by (simp add: word_le_nat_alt)
  then have "unat (x - b - d) = unat (x - b) - unat d" by (rule unat_sub)
  then show ?thesis using assms by (simp add: diff_diff_eq)
qed

lemma sleep_mem_frame: "\<not> in_sleep_frame site x \<Longrightarrow> sleep_mem site seconds m x = m x"
proof -
  let ?b = "rsp (site_regs site) - 56"
  assume "\<not> in_sleep_frame site x"
  then have b: "56 \<le> unat (x - ?b)" by (simp add: in_sleep_frame_def)
  have "8 \<le> unat (x - (?b + 0))" "8 \<le> unat (x - (?b + 8))" "8 \<le> unat (x - (?b + 16))" "8 \<le> unat (x - (?b + 24))"
    "8 \<le> unat (x - (?b + 48))"
    by (rule outside_word [OF b], simp)+
  then show ?thesis by (simp add: sleep_mem_def sleep_req_def Let_def store64_off)
qed

lemma sleep_mem_words:
  "load64 (sleep_mem site seconds m) (sleep_req site) = ucast seconds"
  "load64 (sleep_mem site seconds m) (sleep_req site + 32) = return_to site"
  "load64 (sleep_mem site seconds m) (sleep_req site - 8) = nano_next site"
  "load64 (sleep_mem site seconds m) (sleep_req site - 16) = r10 (site_regs site)"
proof -
  let ?q = "sleep_req site"
  have "apart (?q + 8) ?q" "apart (?q - 8) ?q" "apart (?q - 16) ?q" "apart ?q (?q + 32)" "apart (?q + 8) (?q + 32)"
    "apart (?q - 8) (?q + 32)" "apart (?q - 16) (?q + 32)" "apart (?q - 16) (?q - 8)"
    by (simp_all add: apart_def)
  then show "load64 (sleep_mem site seconds m) ?q = ucast seconds"
    "load64 (sleep_mem site seconds m) (?q + 32) = return_to site"
    "load64 (sleep_mem site seconds m) (?q - 8) = nano_next site"
    "load64 (sleep_mem site seconds m) (?q - 16) = r10 (site_regs site)"
    by (simp_all add: sleep_mem_def Let_def mem_simps)
qed

lemma outside_rem:
  fixes q :: u64
  assumes "\<And>x. 16 \<le> unat (x - (q + 16)) \<Longrightarrow> n x = m x"
  shows "load64 n (q + 32) = load64 m (q + 32)" "load64 n (q - 8) = load64 m (q - 8)" "load64 n (q - 16) = load64 m (q - 16)"
proof -
  have "16 \<le> unat (16 + of_nat j :: u64)" "16 \<le> unat (of_nat j - 24 :: u64)" "16 \<le> unat (of_nat j - 32 :: u64)" if "j < 8" for j
  proof -
    from that have "j \<in> {0, 1, 2, 3, 4, 5, 6, 7}" by auto
    then show "16 \<le> unat (16 + of_nat j :: u64)" "16 \<le> unat (of_nat j - 24 :: u64)" "16 \<le> unat (of_nat j - 32 :: u64)"
      by auto
  qed
  moreover have "q + 32 + of_nat j - (q + 16) = 16 + of_nat j" "q - 8 + of_nat j - (q + 16) = of_nat j - 24"
    "q - 16 + of_nat j - (q + 16) = of_nat j - 32" for j
    by simp_all
  ultimately show "load64 n (q + 32) = load64 m (q + 32)" "load64 n (q - 8) = load64 m (q - 8)" "load64 n (q - 16) = load64 m (q - 16)"
    by (auto intro!: load64_cong assms)
qed

text \<open>
  When the kernel writes to no memory but \<open>rem\<close>, the call comes back, and changes only its
  part of the stack.
\<close>

lemma linked_sleep_returns:
  assumes k: "S 35 [sleep_req site, sleep_req site + 16] (sleep_mem site seconds (user_mem p)) (os p) = (v, n, w)"
    and f: "\<And>x. 16 \<le> unat (x - (sleep_req site + 16)) \<Longrightarrow> n x = sleep_mem site seconds (user_mem p) x"
  shows "\<exists>r. linked_sleep S site seconds p = Done r (p\<lparr>user_mem := n, os := w\<rparr>)"
    and "\<not> in_sleep_frame site x \<Longrightarrow> n x = user_mem p x"
proof -
  let ?q = "sleep_req site" and ?sp = "rsp (site_regs site)"
  let ?r = "(site_regs site)\<lparr>rdi := ucast seconds\<rparr>"
  have w: "load64 n (?q + 32) = return_to site" "load64 n (?q - 8) = nano_next site" "load64 n (?q - 16) = r10 (site_regs site)"
    using outside_rem [of "sleep_req site" n] f by (simp_all add: sleep_mem_words)
  have q: "?sp = ?q + 40" by (simp add: sleep_req_def)
  let ?c4 = "\<lparr>regs = ?r\<lparr>rsp := ?q, rdi := ?q, rsi := ?q + 16\<rparr>,
    ram = store64 (store64 (store64 (user_mem p) (?q + 32) (return_to site)) ?q (ucast seconds)) (?q + 8) 0, sys = os p\<rparr>"
  let ?c5 = "\<lparr>regs = ?r\<lparr>rsp := ?q, rdi := ?q, rsi := ?q + 16, rax := v, rcx := fst (clobbered site),
    r11 := snd (clobbered site), rip := nano_next site\<rparr>, ram = n, sys = w\<rparr>"
  have c5: "call_sys S (clobbered site) (nano_next site) 35 2 ?c4 = ?c5"
    using k w by (simp add: call_sys_def ret_def pop_def push_def top_def reg_def Let_def sleep_mem_def)
  have "asm_sleep S (clobbered site) (nano_next site) (at_call site seconds p) =
    (let c6 = (if 0 \<le>s v then ?c5
        else let c' = reg (\<lambda>r. r\<lparr>rax := - rax r\<rparr>) ?c5
             in if rax (regs c') = 4
                then let c'' = reg (\<lambda>r. r\<lparr>rsi := rsp r + 16\<rparr>) c'
                     in reg (\<lambda>r. r\<lparr>rax := load64 (ram c'') (rsi r)\<rparr>) c''
                else reg (\<lambda>r. r\<lparr>rax := 0\<rparr>) c')
      in ret (reg (\<lambda>r. r\<lparr>rsp := rsp r + 32\<rparr>) c6))"
    using c5 [unfolded add.commute [of ?q 32]]
    by (simp add: asm_sleep_def at_call_def push_def mov_mem_def reg_def q Let_def)
  then have "rip (regs (asm_sleep S (clobbered site) (nano_next site) (at_call site seconds p))) = return_to site
    \<and> rsp (regs (asm_sleep S (clobbered site) (nano_next site) (at_call site seconds p))) = ?sp
    \<and> ram (asm_sleep S (clobbered site) (nano_next site) (at_call site seconds p)) = n
    \<and> sys (asm_sleep S (clobbered site) (nano_next site) (at_call site seconds p)) = w"
    using w(1) by (simp add: ret_def pop_def top_def reg_def Let_def q)
  then show "\<exists>r. linked_sleep S site seconds p = Done r (p\<lparr>user_mem := n, os := w\<rparr>)"
    by (simp add: linked_sleep_def Let_def)
  assume x: "\<not> in_sleep_frame site x"
  have "16 \<le> unat (x - (?q + 16))"
  proof -
    have b: "56 \<le> unat (x - (?sp - 56))" using x by (simp add: in_sleep_frame_def)
    then have "32 \<le> x - (?sp - 56)" by (simp add: word_le_nat_alt)
    then have "unat (x - (?sp - 56) - 32) = unat (x - (?sp - 56)) - unat (32 :: u64)" by (rule unat_sub)
    moreover have "x - (?q + 16) = x - (?sp - 56) - 32" by (simp add: q)
    ultimately show ?thesis using b by (simp only:) simp
  qed
  then show "n x = user_mem p x" using f sleep_mem_frame [OF x] by simp
qed

section \<open>Programs\<close>

text \<open>\<^verbatim>\<open>alarm1.c\<close>.\<close>

definition alarm1_main :: "'w syscalls \<Rightarrow> (u32, 'w proc) prog" where
  "alarm1_main S = seq (mini_alarm S 3) (seq (mini_pause S) (Done 0))"

text \<open>\<^verbatim>\<open>alarm2.c\<close>; \<open>s\<close> and \<open>m\<close> are the addresses of local variables.\<close>

definition report_pending :: "'w syscalls \<Rightarrow> (string \<Rightarrow> u64) \<Rightarrow> u64 \<Rightarrow> u64 \<Rightarrow> (u32, 'w proc) prog" where
  "report_pending S lit s m =
     seq (andthen (mini_sigpending S s) (\<lambda>r. if r <s 0 then seq (mini_perror S lit (lit ''sigpending'')) skip else skip))
    (seq (andthen (mini_sigismember s 14)
            (\<lambda>r. seq (char_array m (if r \<noteq> 0 then ''sigalrm is pending.'' @ [nl] else ''sigalrm is not pending.'' @ [nl]))
                     (write_string S 1 m)))
         (Done 0))"

definition alarm2_main :: "'w syscalls \<Rightarrow> (string \<Rightarrow> u64) \<Rightarrow> call_site \<Rightarrow> u64 \<Rightarrow> u64 \<Rightarrow> (u32, 'w proc) prog" where
  "alarm2_main S lit site s m =
     seq (mini_sigemptyset s)
    (seq (mini_sigaddset s 14)
    (seq (mini_sigprocmask S 0 s 0)
    (seq (mini_alarm S 3)
    (seq (linked_sleep S site 5)
         (report_pending S lit s m)))))"

text \<open>\<^verbatim>\<open>alarm3.c\<close>; the handler of SIGINT and \<^verbatim>\<open>SIG_IGN\<close> are addresses.\<close>

definition alarm3_main ::
  "'w syscalls \<Rightarrow> (string \<Rightarrow> u64) \<Rightarrow> u64 \<Rightarrow> u64 \<Rightarrow> u64 \<Rightarrow> u64 \<Rightarrow> u64 \<Rightarrow> u64 \<Rightarrow> (u32, 'w proc) prog" where
  "alarm3_main S lit myrt fun_handler s act oact m =
     seq (mini_sigemptyset s)
    (seq (mini_sigaddset s 14)
    (seq (mini_sigprocmask S 0 s 0)
    (seq (mini_signal S myrt act oact 14 1)
    (seq (mini_signal S myrt act oact 2 fun_handler)
    (seq (mini_alarm S 1)
    (seq (mini_pause S)
         (report_pending S lit s m)))))))"

text \<open>
  What the manual pages say of a signal that is blocked while its alarm goes off: it is pending
  afterwards.  \<open>held\<close> are the blocked signals, \<open>waiting\<close> the pending ones, \<open>due\<close> the time left.
\<close>

locale alarm_kernel = terminal S out for S :: "'w syscalls" and out :: "'w \<Rightarrow> bytes" +
  fixes held waiting :: "'w \<Rightarrow> u64" and due :: "'w \<Rightarrow> u64"
  assumes block_law: "set_ptr \<noteq> 0 \<Longrightarrow> \<exists>w'. S 14 [0, set_ptr, 0, 8] m w = (0, m, w')
      \<and> held w' = held w OR load64 m set_ptr \<and> out w' = out w"
    and alarm_law: "0 < n \<Longrightarrow> \<exists>ret w'. S 37 [n] m w = (ret, m, w') \<and> 0 \<le>s ret \<and> due w' = n
      \<and> held w' = held w \<and> out w' = out w"
    and sleep_law: "0 < due w \<Longrightarrow> due w \<le> load64 m req \<Longrightarrow> bit (held w) 13 \<Longrightarrow>
      \<exists>ret m' w'. S 35 [req, rem] m w = (ret, m', w') \<and> (\<forall>x. 16 \<le> unat (x - rem) \<longrightarrow> m' x = m x)
        \<and> bit (waiting w') 13 \<and> out w' = out w"
    and pending_law: "\<exists>w'. S 127 [set_ptr, 8] m w = (0, store64 m set_ptr (waiting w), w') \<and> out w' = out w"
begin

end

context alarm_kernel
begin

lemma report_pending_prints:
  assumes "s \<noteq> 0" and "bit (waiting (os p)) 13"
  shows "\<exists>p'. report_pending S lit s m p = Done 0 p' \<and> out (os p') = out (os p) @ bytes_of (''sigalrm is pending.'' @ [nl])"
proof -
  let ?text = "''sigalrm is pending.'' @ [nl]"
  obtain w1 where w1: "S 127 [s, 8] (user_mem p) (os p) = (0, store64 (user_mem p) s (waiting (os p)), w1)" "out w1 = out (os p)"
    using pending_law [of s "user_mem p" "os p"] by blast
  let ?p1 = "p\<lparr>errno := 0, user_mem := store64 (user_mem p) s (waiting (os p)), os := w1\<rparr>"
  have "mini_sigpending S s p = Done 0 ?p1"
    unfolding mini_sigpending_def using w1(1) by (subst RETval_call [of _ _ _ _ 0]) simp_all
  moreover have g: "\<not> bad_signal 14" by (simp add: bad_signal_def)
  then have "mini_sigismember s 14 ?p1 = Done 1 ?p1"
    using assms by (simp add: mini_sigismember_def mem_simps and_sigmask)
  moreover obtain w2 where "seq (char_array m ?text) (write_string S 1 m) ?p1 = Done (of_nat (length ?text))
      (?p1\<lparr>user_mem := put_bytes m (bytes_of ?text @ [0]) (user_mem ?p1), errno := 0, os := w2\<rparr>)"
    and "out w2 = out (os ?p1) @ bytes_of ?text"
    using print_array [of ?text m ?p1] by (auto simp: nl_def)
  ultimately show ?thesis
    using w1(2) by (simp add: report_pending_def seq_def)
qed

end

text \<open>
  C25. alarm2: on a kernel where an alarm that goes off during nanosleep makes the blocked
  signal pending, the program, linked with the assembly sleep, ends with status 0 and prints
  that SIGALRM is pending. The kernel gives the call of nanosleep at least the time the alarm
  needs and writes to no memory but the structure rem.
\<close>

theorem alarm2_reports:
  assumes "alarm_kernel S out held waiting due" and "s \<noteq> 0"
  shows "\<exists>p'. alarm2_main S lit site s m p = Done 0 p'
    \<and> out (os p') = out (os p) @ bytes_of (''sigalrm is pending.'' @ [nl])"
proof -
  note A = assms(1)
  have g: "\<not> bad_signal 14" by (simp add: bad_signal_def)
  let ?m2 = "store64 (user_mem p) s (sigmask 14)"
  obtain w1 where w1: "S 14 [0, s, 0, 8] ?m2 (os p) = (0, ?m2, w1)" "held w1 = held (os p) OR sigmask 14" "out w1 = out (os p)"
    using alarm_kernel.block_law [OF A assms(2), of ?m2 "os p"] by (auto simp: mem_simps)
  obtain r w2 where w2: "S 37 [3] ?m2 w1 = (r, ?m2, w2)" "0 \<le>s r" "due w2 = 3" "held w2 = held w1" "out w2 = out w1"
    using alarm_kernel.alarm_law [OF A, of 3 ?m2 w1] by auto
  have b: "bit (held w2) 13" using w1(2) w2(4) sigmask_bit [OF g, of 13] by (simp add: bit_or_iff)
  let ?p2 = "p\<lparr>user_mem := ?m2, os := w2, errno := 0\<rparr>" and ?q = "sleep_req site"
  have "load64 (sleep_mem site 5 ?m2) ?q = 5" by (simp add: sleep_mem_words)
  then obtain r3 m3 w3 where w3: "S 35 [?q, ?q + 16] (sleep_mem site 5 ?m2) w2 = (r3, m3, w3)"
    "\<forall>x. 16 \<le> unat (x - (?q + 16)) \<longrightarrow> m3 x = sleep_mem site 5 ?m2 x" "bit (waiting w3) 13" "out w3 = out w2"
    using alarm_kernel.sleep_law [OF A, of w2 "sleep_mem site 5 ?m2" ?q "?q + 16"] w2(3) b by auto
  let ?p4 = "?p2\<lparr>user_mem := m3, os := w3\<rparr>"
  obtain v where p4: "linked_sleep S site 5 ?p2 = Done v ?p4"
    using linked_sleep_returns(1) [of S site 5 ?p2 r3 m3 w3] w3(1,2) by auto
  obtain p5 where p5: "report_pending S lit s m ?p4 = Done 0 p5"
    "out (os p5) = out w3 @ bytes_of (''sigalrm is pending.'' @ [nl])"
    using alarm_kernel.report_pending_prints [OF A assms(2), of ?p4 lit m] w3(3) by auto
  have "alarm2_main S lit site s m p = Done 0 p5"
    using assms(2) g w1(1) w2(1,2) p4 p5(1)
    by (simp add: alarm2_main_def seq_def mini_sigemptyset_def mini_sigaddset_def bzero_word mem_simps
        mini_sigprocmask_def mini_alarm_def sys_call_def WRAPPER_RETval_def word_sless_alt word_sle_eq not_less)
  then show ?thesis using p5(2) w1(3) w2(5) w3(4) by auto
qed

interpretation mini_alarm: alarm_kernel mini_kernel console blocked pending alarm_in
proof (unfold_locales)
  fix m :: byte_mem and w :: mini_world and n set_ptr req rem :: u64
  show "set_ptr \<noteq> 0 \<Longrightarrow> \<exists>w'. mini_kernel 14 [0, set_ptr, 0, 8] m w = (0, m, w')
      \<and> blocked w' = blocked w OR load64 m set_ptr \<and> console w' = console w"
    by (simp add: mini_kernel_def)
next
  fix m :: byte_mem and w :: mini_world and n :: u64
  have "unat (take_bit 32 (alarm_in w)) < 2 ^ 32"
    using take_bit_nat_less_exp [of 32 "unat (alarm_in w)"] by (simp add: unsigned_take_bit_eq)
  then have "0 \<le>s take_bit 32 (alarm_in w)" by (simp add: word_sle_eq sint_small)
  then show "\<exists>ret w'. mini_kernel 37 [n] m w = (ret, m, w') \<and> 0 \<le>s ret \<and> alarm_in w' = n
      \<and> blocked w' = blocked w \<and> console w' = console w"
    by (simp add: mini_kernel_def)
qed (auto simp: mini_kernel_def sigalrm_bit_def bit_or_iff)

definition demo_site :: call_site where
  "demo_site = \<lparr> site_regs = asm_regs, return_to = 0x400100, nano_next = 0x401000, clobbered = (0x401010, 0x202) \<rparr>"

theorem alarm2_reports_witness:
  "\<exists>p'. alarm2_main mini_kernel (slot_addr []) demo_site 4096 12288 (mini_start []) = Done 0 p'
    \<and> console (os p') = bytes_of (''sigalrm is pending.'' @ [nl])"
  using alarm2_reports [OF mini_alarm.alarm_kernel_axioms, of 4096 "slot_addr []" demo_site 12288 "mini_start []"]
  by simp

end
