(* ===== verification/MiniSig1.thy ===== *)
theory MiniSig1
  imports MiniAlarm
begin

text \<open>
  The programs \<^verbatim>\<open>src/hw3/sig1.c\<close>, whose handler runs when the kernel delivers a signal, and
  \<^verbatim>\<open>src/hw3/write1.c\<close>, with the start code of \<^verbatim>\<open>src/hw3/start.asm\<close>.
\<close>

section \<open>The programs\<close>

text \<open>
  \<open>d_take\<close> is the signal the kernel delivers next with the handler that is installed for it and the
  state in which the handler runs, and \<open>d_return\<close> the return from the handler through \<^verbatim>\<open>__myrt\<close>.
\<close>

record 'w delivery =
  d_take :: "'w \<Rightarrow> (u32 \<times> u64 \<times> 'w) option"
  d_return :: "'w \<Rightarrow> 'w"

text \<open>A local array of characters and its output; \<open>loc\<close> gives the addresses of the local variables.\<close>

definition say_array :: "'w syscalls \<Rightarrow> u64 \<Rightarrow> string \<Rightarrow> (unit, 'w proc) prog" where
  "say_array S a s = seq (char_array a s) (seq (write_string S 1 a) skip)"

definition sig_quit :: "'w syscalls \<Rightarrow> (string \<Rightarrow> u64) \<Rightarrow> u32 \<Rightarrow> (unit, 'w proc) prog" where
  "sig_quit S loc signo =
     (if signo = 3 then say_array S (loc ''sig_quit m'') (''handler catched'' @ [nl])
      else say_array S (loc ''sig_quit m'') (''No way...'' @ [nl]))"

text \<open>
  The kernel delivers at the end of a call, one signal after the other; \<open>n\<close> bounds their number.
  \<open>quit\<close> is the address of \<^verbatim>\<open>sig_quit\<close>.  A signal whose handler is the default, \<^verbatim>\<open>SIG_DFL\<close>, ends the
  process, which is written as an exit with its negative number; no other code is at hand to run.
\<close>

primrec handle_signals :: "'w delivery \<Rightarrow> 'w syscalls \<Rightarrow> u64 \<Rightarrow> (string \<Rightarrow> u64) \<Rightarrow> nat \<Rightarrow> (unit, 'w proc) prog" where
  "handle_signals D S quit loc 0 = (\<lambda>p. Timeout)"
| "handle_signals D S quit loc (Suc n) =
     (\<lambda>p. case d_take D (os p) of
            None \<Rightarrow> Done () p
          | Some (signo, h, w) \<Rightarrow>
              if h = 0 then Exited (- sint signo) (p\<lparr>os := w\<rparr>)
              else if h = quit then
                seq (sig_quit S loc signo) (seq (\<lambda>p. Done () (p\<lparr>os := d_return D (os p)\<rparr>)) (handle_signals D S quit loc n)) (p\<lparr>os := w\<rparr>)
              else Undef)"

definition point :: "'w delivery \<Rightarrow> 'w syscalls \<Rightarrow> u64 \<Rightarrow> (string \<Rightarrow> u64) \<Rightarrow> nat \<Rightarrow> ('a, 'w proc) prog \<Rightarrow> ('a, 'w proc) prog" where
  "point D S quit loc n m = andthen m (\<lambda>r. seq (handle_signals D S quit loc n) (Done r))"

definition checked ::
  "'w delivery \<Rightarrow> 'w syscalls \<Rightarrow> u64 \<Rightarrow> (string \<Rightarrow> u64) \<Rightarrow> nat \<Rightarrow> (string \<Rightarrow> u64) \<Rightarrow> string \<Rightarrow> (u32, 'w proc) prog \<Rightarrow> (unit, 'w proc) prog" where
  "checked D S quit loc n lit msg m =
     andthen (point D S quit loc n m)
       (\<lambda>r. if r <s 0 then seq (point D S quit loc n (mini_perror S lit (lit (msg @ [nl])))) skip else skip)"

text \<open>\<open>site\<close> are the three calls of \<^verbatim>\<open>sleep\<close>.\<close>

definition sig1_main ::
  "'w delivery \<Rightarrow> 'w syscalls \<Rightarrow> (string \<Rightarrow> u64) \<Rightarrow> u64 \<Rightarrow> u64 \<Rightarrow> (string \<Rightarrow> u64) \<Rightarrow> (string \<Rightarrow> call_site) \<Rightarrow> nat \<Rightarrow> (unit, 'w proc) prog" where
  "sig1_main D S lit myrt quit loc site n =
     seq (andthen (point D S quit loc n (mini_signal S myrt (loc ''act'') (loc ''oact'') 3 quit))
            (\<lambda>r. if r = - 1 then seq (point D S quit loc n (mini_perror S lit (lit (''signal error'' @ [nl])))) skip else skip))
    (seq (mini_sigemptyset (loc ''newmask''))
    (seq (mini_sigaddset (loc ''newmask'') 3)
    (seq (checked D S quit loc n lit ''SIG_BLOCK error'' (mini_sigprocmask S 0 (loc ''newmask'') (loc ''oldmask'')))
    (seq (point D S quit loc n (linked_sleep S (site ''first'') 5))
    (seq (checked D S quit loc n lit ''sigpending error'' (mini_sigpending S (loc ''pendmask'')))
    (seq (andthen (mini_sigismember (loc ''pendmask'') 3)
            (\<lambda>r. if r \<noteq> 0 then point D S quit loc n (say_array S (loc ''m'') (''SIGQUIT pending'' @ [nl])) else skip))
    (seq (checked D S quit loc n lit ''SIG_SETMASK error'' (mini_sigprocmask S 2 (loc ''oldmask'') 0))
    (seq (point D S quit loc n (say_array S (loc ''mse'') (''SIGQUIT unblocked'' @ [nl])))
    (seq (point D S quit loc n (linked_sleep S (site ''second'') 10))
    (seq (point D S quit loc n (say_array S (loc ''mse2'') (''del SIGQUIT signal'' @ [nl])))
    (seq (mini_sigdelset (loc ''newmask'') 3)
    (seq (andthen (mini_sigismember (loc ''newmask'') 3)
            (\<lambda>r. if r \<noteq> 0 then seq (point D S quit loc n (mini_perror S lit (lit (''sigdelset error'' @ [nl])))) skip else skip))
    (seq (checked D S quit loc n lit ''SIG_BLOCK error'' (mini_sigprocmask S 0 (loc ''newmask'') (loc ''oldmask'')))
    (seq (point D S quit loc n (linked_sleep S (site ''third'') 5))
    (seq (point D S quit loc n (say_array S (loc ''mse3'') (''end'' @ [nl])))
         (mini_exit S 0))))))))))))))))"

text \<open>\<^verbatim>\<open>write1.c\<close>; the start code passes the result of \<^verbatim>\<open>main\<close> to \<^verbatim>\<open>exit\<close>.\<close>

definition hello_list :: "string list" where
  "hello_list = [''Hello'', '' '', ''world'', ''!'' @ [nl]]"

primrec write_list :: "'w syscalls \<Rightarrow> (string \<Rightarrow> u64) \<Rightarrow> string list \<Rightarrow> (unit, 'w proc) prog" where
  "write_list S lit [] = skip"
| "write_list S lit (s # ss) = seq (write_string S 1 (lit s)) (write_list S lit ss)"

definition write1_main :: "'w syscalls \<Rightarrow> (string \<Rightarrow> u64) \<Rightarrow> (u32, 'w proc) prog" where
  "write1_main S lit = seq (write_list S lit hello_list) (Done 0)"

text \<open>\<open>sp\<close> is the stack pointer the kernel starts the process with.\<close>

definition start_code :: "'w syscalls \<Rightarrow> u64 \<Rightarrow> (u64 \<Rightarrow> u64 \<Rightarrow> (u32, 'w proc) prog) \<Rightarrow> (unit, 'w proc) prog" where
  "start_code S sp main p = andthen (main (load64 (user_mem p) sp) (sp + 8)) (mini_exit S) p"

section \<open>The contract of the kernel\<close>

text \<open>
  What the manual pages say of one signal, SIGQUIT: \<open>handler\<close> is the handler that is installed for it,
  \<open>held\<close> is the mask, \<open>waiting\<close> the set of pending signals, and \<open>typed\<close> tells for each of the sleeps to come whether the signal is sent
  during it.  Only \<^verbatim>\<open>rt_sigaction\<close> changes the handler; a signal that is not blocked is delivered to
  the handler that is installed then.  A handler runs with its signal blocked and returns to the mask before.
\<close>

locale quit_kernel = terminal S out for S :: "'w syscalls" and out :: "'w \<Rightarrow> bytes" +
  fixes D :: "'w delivery" and handler :: "'w \<Rightarrow> u64" and held waiting :: "'w \<Rightarrow> u64" and typed :: "'w \<Rightarrow> bool list"
  assumes write_quiet: "\<And>m w v m' w'. S 1 args m w = (v, m', w') \<Longrightarrow> handler w' = handler w \<and> held w' = held w \<and> waiting w' = waiting w \<and> typed w' = typed w"
    and action_law: "act \<noteq> 0 \<Longrightarrow> oact \<noteq> 0 \<Longrightarrow> \<exists>m' w'. S 13 [3, act, oact, 8] m w = (0, m', w') \<and> load64 m' oact = handler w
      \<and> handler w' = load64 m act \<and> held w' = held w \<and> waiting w' = waiting w \<and> typed w' = typed w \<and> out w' = out w"
    and block_law: "set_ptr \<noteq> 0 \<Longrightarrow> old \<noteq> 0 \<Longrightarrow> \<exists>w'. S 14 [0, set_ptr, old, 8] m w = (0, store64 m old (held w), w')
      \<and> handler w' = handler w \<and> held w' = held w OR load64 m set_ptr \<and> waiting w' = waiting w \<and> typed w' = typed w \<and> out w' = out w"
    and setmask_law: "set_ptr \<noteq> 0 \<Longrightarrow> \<exists>w'. S 14 [2, set_ptr, 0, 8] m w = (0, m, w')
      \<and> handler w' = handler w \<and> held w' = load64 m set_ptr \<and> waiting w' = waiting w \<and> typed w' = typed w \<and> out w' = out w"
    and sleep_law: "\<exists>v m' w'. S 35 [req, rem] m w = (v, m', w')
      \<and> (\<forall>x. 16 \<le> unat (x - rem) \<longrightarrow> m' x = m x)
      \<and> bit (waiting w') 2 = (bit (waiting w) 2 \<or> typed w \<noteq> [] \<and> hd (typed w)) \<and> typed w' = tl (typed w)
      \<and> handler w' = handler w \<and> held w' = held w \<and> out w' = out w"
    and pending_law: "\<exists>w'. S 127 [set_ptr, 8] m w = (0, store64 m set_ptr (waiting w), w')
      \<and> handler w' = handler w \<and> held w' = held w \<and> waiting w' = waiting w \<and> typed w' = typed w \<and> out w' = out w"
    and exit_law: "\<exists>v m' w'. S 60 [c] m w = (v, m', w') \<and> out w' = out w"
    and take_none: "bit (held w) 2 \<or> \<not> bit (waiting w) 2 \<Longrightarrow> d_take D w = None"
    and take_quit: "\<not> bit (held w) 2 \<Longrightarrow> bit (waiting w) 2 \<Longrightarrow> handler w \<noteq> 1 \<Longrightarrow>
      \<exists>w'. d_take D w = Some (3, handler w, w') \<and> handler w' = handler w
      \<and> bit (held w') 2 \<and> \<not> bit (waiting w') 2 \<and> typed w' = typed w \<and> out w' = out w"
    and return_law: "handler (d_return D w) = handler w \<and> \<not> bit (held (d_return D w)) 2 \<and> waiting (d_return D w) = waiting w \<and> typed (d_return D w) = typed w
      \<and> out (d_return D w) = out w"
begin

end

text \<open>
  The frame of \<^verbatim>\<open>main\<close>: no local variable written while it is live and no call of \<^verbatim>\<open>sleep\<close> overlaps
  the saved mask, \<open>quit\<close> is neither \<^verbatim>\<open>SIG_DFL\<close> nor \<^verbatim>\<open>SIG_IGN\<close>, and at most \<open>n\<close> signals less one are
  delivered at one point.
\<close>

locale sig1_process = quit_kernel +
  fixes quit :: u64 and loc :: "string \<Rightarrow> u64" and site :: "string \<Rightarrow> call_site" and n :: nat
  assumes quit_there: "quit \<noteq> 0" "quit \<noteq> 1"
    and sets_there: "loc ''newmask'' \<noteq> 0" "loc ''oldmask'' \<noteq> 0" "loc ''pendmask'' \<noteq> 0"
    and acts_there: "loc ''act'' \<noteq> 0" "loc ''act'' + 24 \<noteq> 0" "loc ''oact'' \<noteq> 0"
    and mask_apart: "apart (loc ''oldmask'') (loc ''pendmask'')"
    and frames_apart: "j < 8 \<Longrightarrow> \<not> in_sleep_frame (site i) (loc ''oldmask'' + of_nat j)"
    and arrays_apart: "name \<in> {''m'', ''mse'', ''mse2'', ''mse3'', ''sig_quit m''} \<Longrightarrow> j < 8 \<Longrightarrow>
      20 \<le> unat (loc ''oldmask'' + of_nat j - loc name)"
    and enough: "2 \<le> n"
begin

text \<open>
  What is known at a point of the program: \<open>quit\<close> is the handler; the signal is blocked, is pending, what is sent during
  the sleeps to come, the output so far, and whether the saved mask lacks the signal.
\<close>

definition at :: "bool \<Rightarrow> bool \<Rightarrow> bool list \<Rightarrow> bytes \<Rightarrow> bool \<Rightarrow> 'a proc \<Rightarrow> bool" where
  "at h q ty o' k p \<longleftrightarrow> handler (os p) = quit \<and> bit (held (os p)) 2 = h \<and> bit (waiting (os p)) 2 = q \<and> typed (os p) = ty \<and> out (os p) = o'
     \<and> (k \<longrightarrow> \<not> bit (load64 (user_mem p) (loc ''oldmask'')) 2)"

text \<open>What is known when \<^verbatim>\<open>main\<close> starts; the handler is anything but \<^verbatim>\<open>SIG_ERR\<close>.\<close>

definition ready :: "bool list \<Rightarrow> bytes \<Rightarrow> 'a proc \<Rightarrow> bool" where
  "ready ty o' p \<longleftrightarrow> handler (os p) \<noteq> - 1 \<and> \<not> bit (held (os p)) 2 \<and> \<not> bit (waiting (os p)) 2
     \<and> typed (os p) = ty \<and> out (os p) = o'"

definition caught :: "bool \<Rightarrow> bool \<Rightarrow> bytes" where
  "caught h q = (if q \<and> \<not> h then bytes_of (''handler catched'' @ [nl]) else [])"

lemma write_string_by_S:
  "write_string S 1 a p = Done r p' \<Longrightarrow> \<exists>v args. S 1 args (user_mem p) (os p) = (v, user_mem p', os p')"
  by (auto simp: write_string_def mini_write_def sys_call_def WRAPPER_RETval_def andthen_def Let_def
      split: option.splits prod.splits if_splits) metis+

lemma say_at:
  assumes "name \<in> {''m'', ''mse'', ''mse2'', ''mse3'', ''sig_quit m''}" and "length t < 20" and "CHR 0x00 \<notin> set t"
  shows "runs (at h q ty o' k) (say_array S (loc name) t) (\<lambda>_. at h q ty (o' @ bytes_of t) k)"
proof (rule runsI)
  fix p assume p: "at h q ty o' k p"
  let ?p1 = "p\<lparr>user_mem := put_bytes (loc name) (bytes_of t @ [0]) (user_mem p)\<rparr>"
  obtain w where w: "seq (char_array (loc name) t) (write_string S 1 (loc name)) p =
      Done (of_nat (length t)) (?p1\<lparr>errno := 0, os := w\<rparr>)" "out w = out (os p) @ bytes_of t"
    using print_array [of t "loc name" p] assms(2,3) by auto
  then have ws: "write_string S 1 (loc name) ?p1 = Done (of_nat (length t)) (?p1\<lparr>errno := 0, os := w\<rparr>)"
    by (simp add: seq_def char_array_def put_mem_def)
  then obtain v args where "S 1 args (user_mem ?p1) (os p) = (v, user_mem ?p1, w)"
    using write_string_by_S [OF ws] by auto
  then have quiet: "handler w = handler (os p)" "held w = held (os p)" "waiting w = waiting (os p)" "typed w = typed (os p)"
    using write_quiet by blast+
  have "load64 (user_mem ?p1) (loc ''oldmask'') = load64 (user_mem p) (loc ''oldmask'')"
  proof (rule load64_cong)
    fix j :: nat assume "j < 8"
    then have "\<not> unat (loc ''oldmask'' + of_nat j - loc name) < length (bytes_of t @ [0])"
      using arrays_apart [OF assms(1)] assms(2) by fastforce
    moreover have "length (bytes_of t @ [0]) < 2 ^ 64" using assms(2) by simp
    ultimately show "user_mem ?p1 (loc ''oldmask'' + of_nat j) = user_mem p (loc ''oldmask'' + of_nat j)"
      by (simp only: put_bytes_range) simp
  qed
  then show "\<exists>x u. say_array S (loc name) t p = Done x u \<and> at h q ty (o' @ bytes_of t) k u"
    using ws w(2) quiet p by (simp add: say_array_def seq_def char_array_def put_mem_def at_def)
qed

lemma handle_blocked: "0 < m \<Longrightarrow> bit (held (os p)) 2 \<or> \<not> bit (waiting (os p)) 2 \<Longrightarrow> handle_signals D S quit loc m p = Done () p"
  using take_none by (cases m) simp_all

lemma handle_at: "runs (at h q ty o' k) (handle_signals D S quit loc n) (\<lambda>_. at h (q \<and> h) ty (o' @ caught h q) k)"
proof (rule runsI)
  fix p assume p: "at h q ty o' k p"
  show "\<exists>x u. handle_signals D S quit loc n p = Done x u \<and> at h (q \<and> h) ty (o' @ caught h q) k u"
  proof (cases "h \<or> \<not> q")
    case True
    then show ?thesis using p handle_blocked [of n p] enough by (auto simp: at_def caught_def)
  next
    case False
    let ?t = "''handler catched'' @ [nl]"
    obtain m where m: "n = Suc (Suc m)" using enough by (metis add_2_eq_Suc le_Suc_ex)
    obtain w where w: "d_take D (os p) = Some (3, quit, w)" "handler w = quit" "bit (held w) 2" "\<not> bit (waiting w) 2" "typed w = ty" "out w = o'"
      using take_quit [of "os p"] p False quit_there by (auto simp: at_def)
    have "at True False ty o' k (p\<lparr>os := w\<rparr>)" using p w by (simp add: at_def)
    then obtain x u where u: "say_array S (loc ''sig_quit m'') ?t (p\<lparr>os := w\<rparr>) = Done x u" "at True False ty (o' @ bytes_of ?t) k u"
      using runsD [OF say_at [of "''sig_quit m''" ?t True False ty o' k]] by (auto simp: nl_def)
    let ?u = "u\<lparr>os := d_return D (os u)\<rparr>"
    have a: "at False False ty (o' @ bytes_of ?t) k ?u" using u(2) return_law [of "os u"] by (simp add: at_def)
    then have "handle_signals D S quit loc (Suc m) ?u = Done () ?u" by (intro handle_blocked) (simp_all add: at_def)
    then have "handle_signals D S quit loc n p = Done () ?u"
      using w(1) u(1) quit_there by (simp add: m seq_def sig_quit_def)
    then show ?thesis using a False by (simp add: caught_def)
  qed
qed

end

context sig1_process
begin

lemma point_at:
  assumes "runs P m (\<lambda>r p. R r \<and> at h q ty o' k p)"
  shows "runs P (point D S quit loc n m) (\<lambda>r p. R r \<and> at h (q \<and> h) ty (o' @ caught h q) k p)"
  unfolding point_def
proof (rule runs_andthen [OF assms])
  fix r
  show "runs (\<lambda>p. R r \<and> at h q ty o' k p) (seq (handle_signals D S quit loc n) (Done r))
      (\<lambda>r p. R r \<and> at h (q \<and> h) ty (o' @ caught h q) k p)"
  proof (rule runsI)
    fix p assume p: "R r \<and> at h q ty o' k p"
    then obtain x u where "handle_signals D S quit loc n p = Done x u" "at h (q \<and> h) ty (o' @ caught h q) k u"
      using runsD [OF handle_at] by blast
    then show "\<exists>x t. seq (handle_signals D S quit loc n) (Done r) p = Done x t \<and> R x \<and> at h (q \<and> h) ty (o' @ caught h q) k t"
      using p by (simp add: seq_def)
  qed
qed

text \<open>With the signal blocked nothing runs at the point.\<close>

lemma point_blocked:
  assumes "runs P m (\<lambda>r p. R r p \<and> at True q ty o' k p)"
  shows "runs P (point D S quit loc n m) (\<lambda>r p. R r p \<and> at True q ty o' k p)"
proof (rule runsI)
  fix p assume "P p"
  then obtain r u where u: "m p = Done r u" "R r u" "at True q ty o' k u" using runsD [OF assms] by blast
  then have "handle_signals D S quit loc n u = Done () u" using enough by (intro handle_blocked) (simp_all add: at_def)
  then show "\<exists>x t. point D S quit loc n m p = Done x t \<and> R x t \<and> at True q ty o' k t"
    using u by (simp add: point_def seq_def)
qed

lemma checked_ok:
  assumes "runs P (point D S quit loc n m) (\<lambda>r p. \<not> r <s 0 \<and> Q p)"
  shows "runs P (checked D S quit loc n lit msg m) (\<lambda>_. Q)"
  unfolding checked_def by (rule runs_andthen [OF assms]) (simp add: runs_def)

lemma signal_at:
  "runs (ready ty o') (mini_signal S myrt (loc ''act'') (loc ''oact'') 3 quit)
    (\<lambda>r p. r \<noteq> - 1 \<and> at False False ty o' False p)"
proof (rule runsI)
  fix p assume p: "ready ty o' p"
  let ?a = "loc ''act''"
  let ?m = "store32 (store64 (store64 (store64 (user_mem p) ?a quit) (sa_mask ?a) 0) (sa_mask ?a) (sigmask 3)) (sa_flags ?a) SA_RESTART"
  let ?m' = "store64 (store32 ?m (sa_flags ?a) (SA_RESTART OR SA_RESTORER)) (sa_restorer ?a) myrt"
  obtain m w where w: "S 13 [3, ?a, loc ''oact'', 8] ?m' (os p) = (0, m, w)" "load64 m (loc ''oact'') = handler (os p)"
    "handler w = load64 ?m' ?a" "held w = held (os p)" "waiting w = waiting (os p)" "typed w = typed (os p)" "out w = out (os p)"
    using action_law [OF acts_there(1,3)] by blast
  have h: "load64 ?m' ?a = quit" by (simp add: sa_apart mem_simps)
  let ?p3 = "p\<lparr>errno := 0, user_mem := ?m\<rparr>" and ?p5 = "p\<lparr>errno := 0, user_mem := m, os := w\<rparr>"
  have "andthen (sys_call S 13 [3, ?a, loc ''oact'', 8]) WRAPPER_RETval (p\<lparr>errno := 0, user_mem := ?m'\<rparr>) = Done (0 :: u32) ?p5"
    using w(1) by (subst RETval_call [of _ _ _ _ 0 m w]) simp_all
  then have a: "mini_sigaction S myrt 3 ?a (loc ''oact'') ?p3 = Done 0 ?p5"
    using acts_there(1) by (simp add: mini_sigaction_def seq_def put_mem_def mem_simps)
  have "\<not> bad_signal 3" by (simp add: bad_signal_def)
  then have "mini_signal S myrt ?a (loc ''oact'') 3 quit p = Done (load64 m (loc ''oact'')) ?p5"
    using acts_there(2) a
    by (simp add: mini_signal_def seq_def put_mem_def mini_sigemptyset_def mini_sigaddset_def bzero_word mem_simps sa_mask_def [symmetric])
  then show "\<exists>x t. mini_signal S myrt ?a (loc ''oact'') 3 quit p = Done x t \<and> x \<noteq> - 1 \<and> at False False ty o' False t"
    using w p h by (simp add: at_def ready_def)
qed

text \<open>The set with the signal, and without it.\<close>

definition in_newmask :: "'a proc \<Rightarrow> bool" where
  "in_newmask p \<longleftrightarrow> bit (load64 (user_mem p) (loc ''newmask'')) 2"

lemma bit_sigmask_3: "bit (sigmask 3) 2"
  by (simp add: sigmask_def bit_exp_iff)

lemma good_3: "\<not> bad_signal 3"
  by (simp add: bad_signal_def)

lemma emptyset_at: "runs (at h q ty o' False) (mini_sigemptyset (loc ''newmask'')) (\<lambda>_. at h q ty o' False)"
  using sets_there by (intro runsI) (simp add: mini_sigemptyset_def at_def)

lemma addset_at: "runs (at h q ty o' False) (mini_sigaddset (loc ''newmask'') 3) (\<lambda>_ p. at h q ty o' False p \<and> in_newmask p)"
  using sets_there good_3 by (intro runsI) (simp add: mini_sigaddset_def at_def in_newmask_def mem_simps bit_or_iff bit_sigmask_3)

lemma delset_at: "runs (at h q ty o' k) (mini_sigdelset (loc ''newmask'') 3) (\<lambda>_ p. at h q ty o' False p \<and> \<not> in_newmask p)"
  using sets_there good_3
  by (intro runsI) (simp add: mini_sigdelset_def at_def in_newmask_def mem_simps bit_and_iff bit_not_iff bit_sigmask_3)

lemma ismember_new_at:
  "runs (\<lambda>p. at h q ty o' False p \<and> \<not> in_newmask p) (mini_sigismember (loc ''newmask'') 3)
    (\<lambda>r p. r = 0 \<and> at h q ty o' False p \<and> \<not> in_newmask p)"
  using sets_there good_3 and_sigmask [OF good_3]
  by (intro runsI) (simp add: mini_sigismember_def at_def in_newmask_def)

lemma block_at:
  "runs (\<lambda>p. at h q ty o' k p \<and> in_newmask p = b) (mini_sigprocmask S 0 (loc ''newmask'') (loc ''oldmask''))
    (\<lambda>r p. \<not> r <s 0 \<and> at (h \<or> b) q ty o' (\<not> h) p)"
proof (rule runsI)
  fix p assume p: "at h q ty o' k p \<and> in_newmask p = b"
  obtain w where w: "S 14 [0, loc ''newmask'', loc ''oldmask'', 8] (user_mem p) (os p) =
      (0, store64 (user_mem p) (loc ''oldmask'') (held (os p)), w)"
    "handler w = handler (os p)" "held w = held (os p) OR load64 (user_mem p) (loc ''newmask'')" "waiting w = waiting (os p)" "typed w = typed (os p)" "out w = out (os p)"
    using block_law [OF sets_there(1,2)] by blast
  then have "mini_sigprocmask S 0 (loc ''newmask'') (loc ''oldmask'') p =
      Done 0 (p\<lparr>errno := 0, user_mem := store64 (user_mem p) (loc ''oldmask'') (held (os p)), os := w\<rparr>)"
    by (simp add: mini_sigprocmask_def RETval_call)
  then show "\<exists>x t. mini_sigprocmask S 0 (loc ''newmask'') (loc ''oldmask'') p = Done x t \<and> \<not> x <s 0 \<and> at (h \<or> b) q ty o' (\<not> h) t"
    using p w by (simp add: at_def in_newmask_def bit_or_iff mem_simps)
qed

lemma setmask_at:
  "runs (at h q ty o' True) (mini_sigprocmask S 2 (loc ''oldmask'') 0) (\<lambda>r p. \<not> r <s 0 \<and> at False q ty o' True p)"
proof (rule runsI)
  fix p assume p: "at h q ty o' True p"
  obtain w where w: "S 14 [2, loc ''oldmask'', 0, 8] (user_mem p) (os p) = (0, user_mem p, w)"
    "handler w = handler (os p)" "held w = load64 (user_mem p) (loc ''oldmask'')" "waiting w = waiting (os p)" "typed w = typed (os p)" "out w = out (os p)"
    using setmask_law [OF sets_there(2)] by blast
  then have "mini_sigprocmask S 2 (loc ''oldmask'') 0 p = Done 0 (p\<lparr>errno := 0, user_mem := user_mem p, os := w\<rparr>)"
    unfolding mini_sigprocmask_def by (subst RETval_call [of _ _ _ _ 0 "user_mem p" w]) simp_all
  then show "\<exists>x t. mini_sigprocmask S 2 (loc ''oldmask'') 0 p = Done x t \<and> \<not> x <s 0 \<and> at False q ty o' True t"
    using p w by (simp add: at_def)
qed

lemma sleep_at:
  "runs (at h q ty o' k) (linked_sleep S (site i) secs) (\<lambda>_. at h (q \<or> ty \<noteq> [] \<and> hd ty) (tl ty) o' k)"
proof (rule runsI)
  fix p assume p: "at h q ty o' k p"
  let ?q = "sleep_req (site i)" and ?m = "sleep_mem (site i) secs (user_mem p)"
  obtain v m w where w: "S 35 [?q, ?q + 16] ?m (os p) = (v, m, w)" "\<And>x. 16 \<le> unat (x - (?q + 16)) \<Longrightarrow> m x = ?m x"
    "bit (waiting w) 2 = (bit (waiting (os p)) 2 \<or> typed (os p) \<noteq> [] \<and> hd (typed (os p)))" "typed w = tl (typed (os p))"
    "handler w = handler (os p)" "held w = held (os p)" "out w = out (os p)"
    using sleep_law [of ?q "?q + 16" ?m "os p"] by blast
  obtain r where r: "linked_sleep S (site i) secs p = Done r (p\<lparr>user_mem := m, os := w\<rparr>)"
    using linked_sleep_returns(1) [of S "site i" secs p v m w] w(1,2) by blast
  have "load64 m (loc ''oldmask'') = load64 (user_mem p) (loc ''oldmask'')"
    using linked_sleep_returns(2) [of S "site i" secs p v m w] w(1,2) frames_apart by (intro load64_cong) blast
  then show "\<exists>x t. linked_sleep S (site i) secs p = Done x t \<and> at h (q \<or> ty \<noteq> [] \<and> hd ty) (tl ty) o' k t"
    using w p r by (auto simp: at_def)
qed

definition in_pendmask :: "'a proc \<Rightarrow> bool" where
  "in_pendmask p \<longleftrightarrow> bit (load64 (user_mem p) (loc ''pendmask'')) 2"

lemma pending_at:
  "runs (at h q ty o' k) (mini_sigpending S (loc ''pendmask'')) (\<lambda>r p. (\<not> r <s 0 \<and> in_pendmask p = q) \<and> at h q ty o' k p)"
proof (rule runsI)
  fix p assume p: "at h q ty o' k p"
  obtain w where w: "S 127 [loc ''pendmask'', 8] (user_mem p) (os p) = (0, store64 (user_mem p) (loc ''pendmask'') (waiting (os p)), w)"
    "handler w = handler (os p)" "held w = held (os p)" "waiting w = waiting (os p)" "typed w = typed (os p)" "out w = out (os p)"
    using pending_law by blast
  then have "mini_sigpending S (loc ''pendmask'') p =
      Done 0 (p\<lparr>errno := 0, user_mem := store64 (user_mem p) (loc ''pendmask'') (waiting (os p)), os := w\<rparr>)"
    by (simp add: mini_sigpending_def RETval_call)
  moreover have "load64 (store64 (user_mem p) (loc ''pendmask'') (waiting (os p))) (loc ''oldmask'') = load64 (user_mem p) (loc ''oldmask'')"
    using mask_apart by (simp add: mem_simps apart_sym)
  ultimately show "\<exists>x t. mini_sigpending S (loc ''pendmask'') p = Done x t \<and> (\<not> x <s 0 \<and> in_pendmask t = q) \<and> at h q ty o' k t"
    using p w by (simp add: at_def in_pendmask_def mem_simps)
qed

lemma ismember_pend_at:
  "runs (\<lambda>p. in_pendmask p = q \<and> at h q ty o' k p) (mini_sigismember (loc ''pendmask'') 3)
    (\<lambda>r p. (r \<noteq> 0) = q \<and> at h q ty o' k p)"
  using sets_there good_3 and_sigmask [OF good_3]
  by (intro runsI) (auto simp: mini_sigismember_def at_def in_pendmask_def)

end

text \<open>A program that ends by a call of \<^verbatim>\<open>exit\<close>.\<close>

definition exits :: "('s \<Rightarrow> bool) \<Rightarrow> ('a, 's) prog \<Rightarrow> int \<Rightarrow> ('s \<Rightarrow> bool) \<Rightarrow> bool" where
  "exits P m c Q \<longleftrightarrow> (\<forall>s. P s \<longrightarrow> (\<exists>t. m s = Exited c t \<and> Q t))"

lemma exits_seq: "runs P m (\<lambda>_. R) \<Longrightarrow> exits R rest c Q \<Longrightarrow> exits P (seq m rest) c Q"
  unfolding exits_def runs_def seq_def by (metis andthen_Done)

context sig1_process
begin

lemma point_at_unit:
  "runs P m (\<lambda>_. at h q ty o' k) \<Longrightarrow> runs P (point D S quit loc n m) (\<lambda>_. at h (q \<and> h) ty (o' @ caught h q) k)"
  using point_at [of P m "\<lambda>_. True"] by simp

lemma caught_none: "caught h False = []" "caught True q = []"
  by (simp_all add: caught_def)

lemma say_point:
  assumes "name \<in> {''m'', ''mse'', ''mse2'', ''mse3''}" and "length t < 20" and "CHR 0x00 \<notin> set t" and "h \<or> \<not> q"
  shows "runs (at h q ty o' k) (point D S quit loc n (say_array S (loc name) t)) (\<lambda>_. at h q ty (o' @ bytes_of t) k)"
  using point_at_unit [OF say_at [of name t h q ty o' k]] assms by (auto simp: caught_none)

lemma signal_point:
  "runs (ready ty o')
     (andthen (point D S quit loc n (mini_signal S myrt (loc ''act'') (loc ''oact'') 3 quit))
        (\<lambda>r. if r = - 1 then seq (point D S quit loc n (mini_perror S lit msg)) skip else skip))
     (\<lambda>_. at False False ty o' False)"
proof (rule runs_andthen)
  show "runs (ready ty o') (point D S quit loc n (mini_signal S myrt (loc ''act'') (loc ''oact'') 3 quit))
      (\<lambda>r p. r \<noteq> - 1 \<and> at False False ty o' False p)"
    using point_at [OF signal_at [of ty o' myrt]] by (simp add: caught_none)
qed (simp add: runs_def)

lemma report_point:
  "runs (\<lambda>p. in_pendmask p = q \<and> at True q ty o' k p)
     (andthen (mini_sigismember (loc ''pendmask'') 3)
        (\<lambda>r. if r \<noteq> 0 then point D S quit loc n (say_array S (loc ''m'') (''SIGQUIT pending'' @ [nl])) else skip))
     (\<lambda>_. at True q ty (o' @ (if q then bytes_of (''SIGQUIT pending'' @ [nl]) else [])) k)"
proof (rule runs_andthen [OF ismember_pend_at])
  fix r :: u32
  have "runs (at True q ty o' k) (point D S quit loc n (say_array S (loc ''m'') (''SIGQUIT pending'' @ [nl])))
      (\<lambda>_. at True q ty (o' @ bytes_of (''SIGQUIT pending'' @ [nl])) k)"
    by (rule say_point) (simp_all add: nl_def)
  then show "runs (\<lambda>p. (r \<noteq> 0) = q \<and> at True q ty o' k p)
      (if r \<noteq> 0 then point D S quit loc n (say_array S (loc ''m'') (''SIGQUIT pending'' @ [nl])) else skip)
      (\<lambda>_. at True q ty (o' @ (if q then bytes_of (''SIGQUIT pending'' @ [nl]) else [])) k)"
    by (auto simp: runs_def)
qed

lemma newmask_point:
  "runs (\<lambda>p. at h q ty o' False p \<and> \<not> in_newmask p)
     (andthen (mini_sigismember (loc ''newmask'') 3)
        (\<lambda>r. if r \<noteq> 0 then seq (point D S quit loc n (mini_perror S lit msg)) skip else skip))
     (\<lambda>_ p. at h q ty o' False p \<and> \<not> in_newmask p)"
  by (rule runs_andthen [OF ismember_new_at]) (simp add: runs_def)

lemma exit_at: "exits (at h q ty o' k) (mini_exit S 0) 0 (\<lambda>p. out (os p) = o')"
  unfolding exits_def
proof (intro allI impI)
  fix p assume p: "at h q ty o' k p"
  obtain v m w where "S 60 [0] (user_mem p) (os p) = (v, m, w)" "out w = out (os p)" using exit_law by blast
  then show "\<exists>t. mini_exit S 0 p = Exited 0 t \<and> out (os t) = o'" using p by (simp add: mini_exit_def at_def)
qed

lemmas sleep_point = point_at_unit [OF sleep_at]
  and block_point = checked_ok [OF point_at [OF block_at]]
  and setmask_point = checked_ok [OF point_at [OF setmask_at]]

lemma pending_point:
  "runs (at True q ty o' k) (checked D S quit loc n lit msg (mini_sigpending S (loc ''pendmask'')))
    (\<lambda>_ p. in_pendmask p = q \<and> at True q ty o' k p)"
  using point_blocked [OF pending_at [of True q ty o' k]] by (intro checked_ok) (simp add: conj_assoc)

text \<open>The output before and after each point; a signal that is sent while it is not blocked is caught at once.\<close>

lemma sig1_steps:
  fixes a b c :: bool and o' :: bytes
  defines "o1 \<equiv> o' @ (if a then bytes_of (''SIGQUIT pending'' @ [nl]) else [])"
  defines "o2 \<equiv> (o1 @ caught False a) @ bytes_of (''SIGQUIT unblocked'' @ [nl])"
  defines "o3 \<equiv> (o2 @ caught False b) @ bytes_of (''del SIGQUIT signal'' @ [nl])"
  defines "o4 \<equiv> (o3 @ caught False c) @ bytes_of (''end'' @ [nl])"
  shows "exits (ready [a, b, c] o') (sig1_main D S lit myrt quit loc site n) 0 (\<lambda>p. out (os p) = o4)"
proof -
  note chain = exits_seq [OF signal_point [of "[a, b, c]" o']] exits_seq [OF emptyset_at [of False False "[a, b, c]" o']]
    exits_seq [OF addset_at [of False False "[a, b, c]" o']]
    exits_seq [OF block_point [of False False "[a, b, c]" o' False True, simplified caught_none, simplified]]
    exits_seq [OF sleep_point [of True False "[a, b, c]" o' True "''first''" 5, simplified caught_none, simplified]]
    exits_seq [OF pending_point [of a "[b, c]" o' True]]
    exits_seq [OF report_point [of a "[b, c]" o' True, folded o1_def]]
    exits_seq [OF setmask_point [of True a "[b, c]" o1, simplified]]
    exits_seq [OF sleep_point [of False False "[b, c]" o2 True "''second''" 10, simplified]]
    exits_seq [OF sleep_point [of False False "[c]" o3 True "''third''" 5, simplified]]
    exits_seq [OF delset_at [of False False "[c]" o3 True]] exits_seq [OF newmask_point [of False False "[c]" o3]]
    exits_seq [OF block_point [of False False "[c]" o3 False False, simplified caught_none, simplified]]
    exit_at [of False False "[]" o4 True]
  have says: "runs (at False False [b, c] (o1 @ caught False a) True) (point D S quit loc n (say_array S (loc ''mse'') (''SIGQUIT unblocked'' @ [nl])))
      (\<lambda>_. at False False [b, c] o2 True)"
    "runs (at False False [c] (o2 @ caught False b) True) (point D S quit loc n (say_array S (loc ''mse2'') (''del SIGQUIT signal'' @ [nl])))
      (\<lambda>_. at False False [c] o3 True)"
    "runs (at False False [] (o3 @ caught False c) True) (point D S quit loc n (say_array S (loc ''mse3'') (''end'' @ [nl])))
      (\<lambda>_. at False False [] o4 True)"
    unfolding o2_def o3_def o4_def by (rule say_point; simp add: nl_def)+
  show ?thesis unfolding sig1_main_def by (rule chain says [THEN exits_seq])+
qed

end

text \<open>
  C40. sig1, started with the signal neither blocked nor pending and whatever its handler was,
  ends with status 0 and prints, for every choice of the sleeps during which SIGQUIT is sent:
  during the first it is held back, reported as pending and caught when the saved mask is put
  back, before the next line of output; during the other two it is caught at once, also in the
  last, for sigdelset took it from the set that is blocked. The kernel delivers a signal at the
  end of a system call, to the handler that rt_sigaction installed; without a handler it would
  end the program.
\<close>

theorem sig1_session:
  assumes "sig1_process S out D handler held waiting typed quit loc site n" and "handler (os p) \<noteq> - 1"
    and "\<not> bit (held (os p)) 2" and "\<not> bit (waiting (os p)) 2" and "typed (os p) = [a, b, c]"
  shows "\<exists>p'. sig1_main D S lit myrt quit loc site n p = Exited 0 p' \<and> out (os p') = out (os p) @ bytes_of (
      (if a then ''SIGQUIT pending'' @ line_end @ ''handler catched'' @ line_end else []) @ ''SIGQUIT unblocked'' @ line_end @
      (if b then ''handler catched'' @ line_end else []) @ ''del SIGQUIT signal'' @ line_end @
      (if c then ''handler catched'' @ line_end else []) @ ''end'' @ line_end)"
proof -
  have "sig1_process.ready out handler held waiting typed [a, b, c] (out (os p)) p"
    using assms(2-5) by (simp add: sig1_process.ready_def [OF assms(1)])
  with sig1_process.sig1_steps [OF assms(1), of a b c "out (os p)" lit myrt] obtain p' where
    "sig1_main D S lit myrt quit loc site n p = Exited 0 p'" "out (os p') = ((((((out (os p) @
        (if a then bytes_of (''SIGQUIT pending'' @ [nl]) else [])) @ sig1_process.caught False a) @ bytes_of (''SIGQUIT unblocked'' @ [nl])) @
        sig1_process.caught False b) @ bytes_of (''del SIGQUIT signal'' @ [nl])) @ sig1_process.caught False c) @ bytes_of (''end'' @ [nl])"
    unfolding exits_def by auto
  then show ?thesis by (auto simp: sig1_process.caught_def [OF assms(1)] line_end_def bytes_of_def)
qed

section \<open>A kernel that sends the signal\<close>

record quit_world =
  q_console :: bytes
  q_handler :: u64
  q_held :: u64
  q_waiting :: u64
  q_typed :: "bool list"

definition quit_syscalls :: "quit_world syscalls" where
  "quit_syscalls nr args m w =
     (if nr = 1 then (args ! 2, m, w\<lparr>q_console := q_console w @ map (\<lambda>i. m (args ! 1 + of_nat i)) [0..<unat (args ! 2)]\<rparr>)
      else if nr = 13 then (0, store64 m (args ! 2) (q_handler w), w\<lparr>q_handler := load64 m (args ! 1)\<rparr>)
      else if nr = 14 then
        (0, if args ! 2 = 0 then m else store64 m (args ! 2) (q_held w),
         w\<lparr>q_held := if args ! 0 = 0 then q_held w OR load64 m (args ! 1) else load64 m (args ! 1)\<rparr>)
      else if nr = 35 then
        (0, m, w\<lparr>q_waiting := if q_typed w \<noteq> [] \<and> hd (q_typed w) then q_waiting w OR sigmask 3 else q_waiting w, q_typed := tl (q_typed w)\<rparr>)
      else if nr = 127 then (0, store64 m (args ! 0) (q_waiting w), w)
      else (0, m, w))"

definition quit_delivery :: "quit_world delivery" where
  "quit_delivery =
     \<lparr> d_take = (\<lambda>w. if bit (q_waiting w) 2 \<and> \<not> bit (q_held w) 2 \<and> q_handler w \<noteq> 1
         then Some (3, q_handler w, w\<lparr>q_held := q_held w OR sigmask 3, q_waiting := q_waiting w AND NOT (sigmask 3)\<rparr>) else None),
       d_return = (\<lambda>w. w\<lparr>q_held := q_held w AND NOT (sigmask 3)\<rparr>) \<rparr>"

definition sig1_names :: "string list" where
  "sig1_names = [''newmask'', ''oldmask'', ''pendmask'', ''act'', ''oact'', ''req'', ''rem'', ''m'', ''mse'', ''mse2'', ''mse3'', ''sig_quit m'']"

definition sig1_loc :: "string \<Rightarrow> u64" where
  "sig1_loc s = 4096 * of_nat (Suc (length (takeWhile (\<lambda>t. t \<noteq> s) sig1_names)))"

lemma bit_sigmask3: "bit (sigmask 3) 2"
  by (simp add: sigmask_def bit_exp_iff)

interpretation quit_demo: quit_kernel quit_syscalls q_console quit_delivery q_handler q_held q_waiting q_typed
  by unfold_locales
    (auto simp: quit_syscalls_def quit_delivery_def mem_simps bit_or_iff bit_and_iff bit_not_iff bit_sigmask3)

lemma sig1_loc_simps:
  "sig1_loc ''newmask'' = 4096" "sig1_loc ''oldmask'' = 8192" "sig1_loc ''pendmask'' = 12288" "sig1_loc ''act'' = 16384"
  "sig1_loc ''oact'' = 20480" "sig1_loc ''req'' = 24576" "sig1_loc ''rem'' = 28672" "sig1_loc ''m'' = 32768"
  "sig1_loc ''mse'' = 36864" "sig1_loc ''mse2'' = 40960" "sig1_loc ''mse3'' = 45056" "sig1_loc ''sig_quit m'' = 49152"
  by (simp_all add: sig1_loc_def sig1_names_def)

interpretation sig1_demo: sig1_process quit_syscalls q_console quit_delivery q_handler q_held q_waiting q_typed "0x2000" sig1_loc "\<lambda>_. demo_site" 2
proof unfold_locales
  fix name :: string and j :: nat
  assume "name \<in> {''m'', ''mse'', ''mse2'', ''mse3'', ''sig_quit m''}" and "j < 8"
  moreover from \<open>j < 8\<close> have "j \<in> {0, 1, 2, 3, 4, 5, 6, 7}" by auto
  ultimately show "20 \<le> unat (sig1_loc ''oldmask'' + of_nat j - sig1_loc name)"
    by (auto simp: sig1_loc_simps)
next
  fix j :: nat and i :: string assume "j < 8"
  then have "j \<in> {0, 1, 2, 3, 4, 5, 6, 7}" by auto
  then show "\<not> in_sleep_frame demo_site (sig1_loc ''oldmask'' + of_nat j)"
    by (auto simp: sig1_loc_simps in_sleep_frame_def demo_site_def asm_regs_def)
qed (simp_all add: sig1_loc_simps apart_def)

theorem sig1_session_witness:
  "\<exists>p'. sig1_main quit_delivery quit_syscalls (\<lambda>_. 0) 0x1000 0x2000 sig1_loc (\<lambda>_. demo_site) 2
      \<lparr> user_mem = (\<lambda>_. 0), errno = 0, os = \<lparr> q_console = [], q_handler = 0, q_held = 0, q_waiting = 0, q_typed = [True, False, True] \<rparr> \<rparr> = Exited 0 p'
    \<and> q_console (os p') = bytes_of (''SIGQUIT pending'' @ line_end @ ''handler catched'' @ line_end @ ''SIGQUIT unblocked'' @ line_end @
        ''del SIGQUIT signal'' @ line_end @ ''handler catched'' @ line_end @ ''end'' @ line_end)"
  using sig1_session [OF sig1_demo.sig1_process_axioms, of "\<lparr> user_mem = (\<lambda>_. 0), errno = 0,
      os = \<lparr> q_console = [], q_handler = 0, q_held = 0, q_waiting = 0, q_typed = [True, False, True] \<rparr> \<rparr>" True False True "\<lambda>_. 0" "0x1000"]
  by simp

section \<open>Writing a list of strings\<close>

context terminal
begin

lemma write_list_out:
  assumes "\<forall>s \<in> set ss. length s < 2 ^ 31" and "literals (user_mem p) lit (set ss)"
  shows "\<exists>w. write_list S lit ss p = Done () (p\<lparr>errno := if ss = [] then errno p else 0, os := w\<rparr>)
    \<and> out w = out (os p) @ bytes_of (concat ss)"
  using assms
proof (induction ss arbitrary: p)
  case Nil
  show ?case by (intro exI [of _ "os p"]) simp
next
  case (Cons s ss)
  have c: "cstring (user_mem p) (lit s) s" "length s < 2 ^ 31" using Cons.prems by (simp_all add: literals_def)
  obtain w where w: "write_string S 1 (lit s) p = Done (of_nat (length s)) (p\<lparr>errno := 0, os := w\<rparr>)" "out w = out (os p) @ bytes_of s"
    using write_string_holds [OF _ c, of 1] by auto
  obtain w' where "write_list S lit ss (p\<lparr>errno := 0, os := w\<rparr>) = Done () (p\<lparr>errno := 0, os := w'\<rparr>)"
    "out w' = out w @ bytes_of (concat ss)"
    using Cons.IH [of "p\<lparr>errno := 0, os := w\<rparr>"] Cons.prems by (auto simp: literals_def)
  then show ?case using w by (auto simp: seq_def intro!: exI [of _ w'])
qed

end

text \<open>The program says hello and its start code ends it with status 0.\<close>

theorem write1_says_hello:
  assumes "terminal S out" and "literals (user_mem p) lit (set hello_list)" and "\<And>m w. out (snd (snd (S 60 [0] m w))) = out w"
  shows "\<exists>p'. start_code S sp (\<lambda>argc argv. write1_main S lit) p = Exited 0 p'
    \<and> out (os p') = out (os p) @ bytes_of (''Hello world!'' @ line_end)"
proof -
  obtain w where w: "write_list S lit hello_list p = Done () (p\<lparr>errno := 0, os := w\<rparr>)" "out w = out (os p) @ bytes_of (concat hello_list)"
    using terminal.write_list_out [OF assms(1) _ assms(2)] by (auto simp: hello_list_def)
  have "mini_exit S 0 (p\<lparr>errno := 0, os := w\<rparr>) = Exited 0 (p\<lparr>errno := 0, user_mem := fst (snd (S 60 [0] (user_mem p) w)), os := snd (snd (S 60 [0] (user_mem p) w))\<rparr>)"
    by (simp add: mini_exit_def split: prod.split)
  then show ?thesis using w assms(3) [of "user_mem p" w]
    by (simp add: start_code_def write1_main_def seq_def hello_list_def line_end_def)
qed

theorem write1_says_hello_witness:
  "\<exists>p'. start_code mini_kernel 0x7ffe0000 (\<lambda>argc argv. write1_main mini_kernel (slot_addr hello_list)) (mini_start hello_list) = Exited 0 p'
    \<and> console (os p') = bytes_of (''Hello world!'' @ line_end)"
proof -
  have "cstring (slot_mem hello_list) (slot_addr hello_list s) s" if "s \<in> set hello_list" for s
    by (rule slot_string [OF that]) (use that in \<open>auto simp: hello_list_def nl_def\<close>)
  then have "literals (user_mem (mini_start hello_list)) (slot_addr hello_list) (set hello_list)" by (simp add: literals_def)
  from write1_says_hello [OF mini_terminal.terminal_axioms this, of "0x7ffe0000"] show ?thesis by (simp add: mini_kernel_def)
qed

end
