(* ===== verification/Logger.thy ===== *)
theory Logger
  imports CPrelude CText
begin

text \<open>
  The library \<^verbatim>\<open>logger.so\<close> of \<^verbatim>\<open>src/hw2\<close>: eighteen functions of libc replaced by functions that
  call the original one and write a line about the call.
\<close>

section \<open>The program and its libc\<close>

text \<open>The calls of a program that the library replaces; a \<^verbatim>\<open>FILE *\<close> is its address.\<close>

datatype call =
    Chmod string u32
  | Chown string u32 u32
  | Close int
  | Creat string u32
  | Creat64 string u32
  | Fclose u64
  | Fopen string string
  | Fopen64 string string
  | Fread u64 nat nat u64
  | Fwrite u64 nat nat u64
  | Open string u32 u32
  | Open64 string u32 u32
  | Read int u64 nat
  | Remove string
  | Rename string string
  | Tmpfile
  | Tmpfile64
  | Write int u64 nat

text \<open>
  libc and the system, over a world \<open>'w\<close> that holds the memory of the program and its \<^verbatim>\<open>errno\<close>
  too.  \<open>l_real\<close> is the original function of a call with its result; \<open>l_realpath\<close> and
  \<open>l_readlink\<close> give \<open>None\<close> where the call fails, \<open>l_dlopen\<close> and \<open>l_dlsym\<close> whether the pointer
  is not null.  Any of them may set \<^verbatim>\<open>errno\<close>; \<^verbatim>\<open>getpid\<close> and \<^verbatim>\<open>getenv\<close> do not.  \<open>l_mem\<close> is \<open>None\<close> at
  an address that cannot be read.
\<close>

record 'w libc =
  l_real :: "call \<Rightarrow> 'w \<Rightarrow> int \<times> 'w"
  l_dlopen :: "'w \<Rightarrow> bool \<times> 'w"
  l_dlsym :: "string \<Rightarrow> 'w \<Rightarrow> bool \<times> 'w"
  l_realpath :: "string \<Rightarrow> 'w \<Rightarrow> string option \<times> 'w"
  l_readlink :: "string \<Rightarrow> 'w \<Rightarrow> string option \<times> 'w"
  l_getpid :: "'w \<Rightarrow> int"
  l_fileno :: "u64 \<Rightarrow> 'w \<Rightarrow> int \<times> 'w"
  l_stderr :: u64
  l_getenv :: "string \<Rightarrow> 'w \<Rightarrow> string option"
  l_dprintf :: "int \<Rightarrow> string \<Rightarrow> 'w \<Rightarrow> 'w"
  l_mem :: "'w \<Rightarrow> u64 \<Rightarrow> u8 option"

text \<open>The static variables of the library: the descriptor, and which pointers are not null.\<close>

record 'w logger =
  fd :: int
  found :: "string list"
  lworld :: 'w

section \<open>Helpers\<close>

definition BUFSIZE :: nat where
  "BUFSIZE = 256"

text \<open>The name in the buffer after \<^verbatim>\<open>getAbsPath\<close>; \<^verbatim>\<open>realpath\<close> is not told how long the buffer is.\<close>

definition getAbsPath :: "'w libc \<Rightarrow> string \<Rightarrow> (string, 'w logger) prog" where
  "getAbsPath K path s =
     (let (r_path, w) = l_realpath K path (lworld s); s1 = s\<lparr>lworld := w\<rparr>
      in case r_path of
           None \<Rightarrow> Done ''untouched'' s1
         | Some name \<Rightarrow> if BUFSIZE \<le> length name then Undef else Done name s1)"

text \<open>\<^verbatim>\<open>atoi(getenv("LOGGER"))\<close>, as long as the descriptor is negative.\<close>

definition getFD :: "'w libc \<Rightarrow> (int, 'w logger) prog" where
  "getFD K s =
     (if fd s < 0 then
        (case l_getenv K ''LOGGER'' (lworld s) of
           None \<Rightarrow> Undef
         | Some v \<Rightarrow> Done (atoi v) (s\<lparr>fd := atoi v\<rparr>))
      else Done (fd s) s)"

text \<open>\<^verbatim>\<open>readlink\<close> ends no string: a name that fills the buffer is read past its end.\<close>

definition fd_path :: "'w libc \<Rightarrow> int \<Rightarrow> 'w \<Rightarrow> string" where
  "fd_path K fildes w = ''/proc/'' @ fmt_d (l_getpid K w) @ ''/fd/'' @ fmt_d fildes"

definition FD2name :: "'w libc \<Rightarrow> int \<Rightarrow> (string, 'w logger) prog" where
  "FD2name K fildes s =
     (let (link, w) = l_readlink K (fd_path K fildes (lworld s)) (lworld s); s1 = s\<lparr>lworld := w\<rparr>
      in case link of
           None \<Rightarrow> Done '''' s1
         | Some name \<Rightarrow> if BUFSIZE \<le> length name then Undef else Done name s1)"

definition FILE2name :: "'w libc \<Rightarrow> u64 \<Rightarrow> (string, 'w logger) prog" where
  "FILE2name K stream s =
     (let (fildes, w) = l_fileno K stream (lworld s) in FD2name K fildes (s\<lparr>lworld := w\<rparr>))"

definition dprintf :: "'w libc \<Rightarrow> int \<Rightarrow> string \<Rightarrow> (unit, 'w logger) prog" where
  "dprintf K d text s = Done () (s\<lparr>lworld := l_dprintf K d text (lworld s)\<rparr>)"

text \<open>\<^verbatim>\<open>find_fptr\<close> and the macro \<^verbatim>\<open>CHECKER\<close> behind it.\<close>

definition find_fptr :: "'w libc \<Rightarrow> string \<Rightarrow> (unit, 'w logger) prog" where
  "find_fptr K f_name s =
     (if f_name \<in> set (found s) then Done () s
      else
        let (handle, w) = l_dlopen K (lworld s)
        in if \<not> handle then Exited 1 (s\<lparr>lworld := l_dprintf K 2 (''dlopen failed.'' @ line_end) w\<rparr>)
           else
             let (f, w') = l_dlsym K f_name w
             in if \<not> f then
                  Exited 1 (s\<lparr>lworld := l_dprintf K 2 (''function pointer of '' @ f_name @ '' not found.'' @ line_end) w'\<rparr>)
                else Done () (s\<lparr>found := f_name # found s, lworld := w'\<rparr>))"

text \<open>The original function through its pointer.\<close>

definition original :: "'w libc \<Rightarrow> call \<Rightarrow> (int, 'w logger) prog" where
  "original K c s = (let (r, w) = l_real K c (lworld s) in Done r (s\<lparr>lworld := w\<rparr>))"

definition log_text :: "'w libc \<Rightarrow> string \<Rightarrow> (unit, 'w logger) prog" where
  "log_text K text = andthen (getFD K) (\<lambda>d. dprintf K d text)"

definition quoted :: "string \<Rightarrow> string" where
  "quoted s = [CHR 0x22] @ s @ [CHR 0x22]"

definition fmt_p :: "int \<Rightarrow> string" where
  "fmt_p r = (if r = 0 then ''(nil)'' else ''0x'' @ fmt_x (nat r))"

section \<open>The functions\<close>

text \<open>\<^verbatim>\<open>chmod\<close>, \<^verbatim>\<open>chown\<close> and \<^verbatim>\<open>remove\<close> resolve the path before the original call.\<close>

definition log_chmod :: "'w libc \<Rightarrow> string \<Rightarrow> u32 \<Rightarrow> (int, 'w logger) prog" where
  "log_chmod K path mode =
     seq (find_fptr K ''chmod'')
    (andthen (getAbsPath K path) (\<lambda>r_path.
     andthen (original K (Chmod path mode)) (\<lambda>result.
     seq (log_text K (''[logger] chmod('' @ quoted r_path @ '', '' @ fmt_o (unat mode) @ '') = '' @ fmt_d result @ line_end))
         (Done result))))"

definition log_chown :: "'w libc \<Rightarrow> string \<Rightarrow> u32 \<Rightarrow> u32 \<Rightarrow> (int, 'w logger) prog" where
  "log_chown K path owner grp =
     seq (find_fptr K ''chown'')
    (andthen (getAbsPath K path) (\<lambda>r_path.
     andthen (original K (Chown path owner grp)) (\<lambda>result.
     seq (log_text K (''[logger] chown('' @ quoted r_path @ '', '' @ fmt_u (unat owner) @ '', '' @ fmt_u (unat grp) @
            '') = '' @ fmt_d result @ line_end))
         (Done result))))"

definition log_remove :: "'w libc \<Rightarrow> string \<Rightarrow> (int, 'w logger) prog" where
  "log_remove K path =
     seq (find_fptr K ''remove'')
    (andthen (getAbsPath K path) (\<lambda>r_path.
     andthen (original K (Remove path)) (\<lambda>result.
     seq (log_text K (''[logger] remove('' @ quoted r_path @ '') = '' @ fmt_d result @ line_end))
         (Done result))))"

text \<open>Standard error stays open: the library may still write to it.\<close>

definition log_close :: "'w libc \<Rightarrow> int \<Rightarrow> (int, 'w logger) prog" where
  "log_close K fildes =
     seq (find_fptr K ''close'')
    (andthen (FD2name K fildes) (\<lambda>name.
     andthen (if fildes \<noteq> 2 then original K (Close fildes) else Done 0) (\<lambda>result.
     seq (log_text K (''[logger] close('' @ quoted name @ '') = '' @ fmt_d result @ line_end))
         (Done result))))"

definition log_fclose :: "'w libc \<Rightarrow> u64 \<Rightarrow> (int, 'w logger) prog" where
  "log_fclose K stream =
     seq (find_fptr K ''fclose'')
    (andthen (FILE2name K stream) (\<lambda>name.
     andthen (if stream \<noteq> l_stderr K then original K (Fclose stream) else Done 0) (\<lambda>result.
     seq (log_text K (''[logger] fclose('' @ quoted name @ '') = '' @ fmt_d result @ line_end))
         (Done result))))"

text \<open>The functions that may create the file resolve its path after the original call.\<close>

definition log_creat :: "'w libc \<Rightarrow> string \<Rightarrow> u32 \<Rightarrow> (int, 'w logger) prog" where
  "log_creat K path mode =
     seq (find_fptr K ''creat'')
    (andthen (original K (Creat path mode)) (\<lambda>result.
     andthen (getAbsPath K path) (\<lambda>r_path.
     seq (log_text K (''[logger] creat('' @ quoted r_path @ '', '' @ fmt_o (unat mode) @ '') = '' @ fmt_d result @ line_end))
         (Done result))))"

definition log_creat64 :: "'w libc \<Rightarrow> string \<Rightarrow> u32 \<Rightarrow> (int, 'w logger) prog" where
  "log_creat64 K path mode =
     seq (find_fptr K ''creat64'')
    (andthen (original K (Creat64 path mode)) (\<lambda>result.
     andthen (getAbsPath K path) (\<lambda>r_path.
     seq (log_text K (''[logger] creat64('' @ quoted r_path @ '', '' @ fmt_o (unat mode) @ '') = '' @ fmt_d result @ line_end))
         (Done result))))"

definition log_fopen :: "'w libc \<Rightarrow> string \<Rightarrow> string \<Rightarrow> (int, 'w logger) prog" where
  "log_fopen K path mode =
     seq (find_fptr K ''fopen'')
    (andthen (original K (Fopen path mode)) (\<lambda>result.
     andthen (getAbsPath K path) (\<lambda>r_path.
     seq (log_text K (''[logger] fopen('' @ quoted r_path @ '', '' @ quoted mode @ '') = '' @ fmt_p result @ line_end))
         (Done result))))"

definition log_fopen64 :: "'w libc \<Rightarrow> string \<Rightarrow> string \<Rightarrow> (int, 'w logger) prog" where
  "log_fopen64 K path mode =
     seq (find_fptr K ''fopen64'')
    (andthen (original K (Fopen64 path mode)) (\<lambda>result.
     andthen (getAbsPath K path) (\<lambda>r_path.
     seq (log_text K (''[logger] fopen64('' @ quoted r_path @ '', '' @ quoted mode @ '') = '' @ fmt_p result @ line_end))
         (Done result))))"

text \<open>\<^verbatim>\<open>__OPEN_NEEDS_MODE\<close> of \<^verbatim>\<open>fcntl.h\<close>; without need the variable argument is not read.\<close>

definition OPEN_NEEDS_MODE :: "u32 \<Rightarrow> bool" where
  "OPEN_NEEDS_MODE flags \<longleftrightarrow> flags AND 0x40 \<noteq> 0 \<or> flags AND 0x410000 = 0x410000"

definition log_open :: "'w libc \<Rightarrow> string \<Rightarrow> u32 \<Rightarrow> u32 \<Rightarrow> (int, 'w logger) prog" where
  "log_open K path flags vararg =
     (let mode = (if OPEN_NEEDS_MODE flags then vararg else 0)
      in seq (find_fptr K ''open'')
        (andthen (original K (Open path flags mode)) (\<lambda>result.
         andthen (getAbsPath K path) (\<lambda>r_path.
         seq (log_text K (''[logger] open('' @ quoted r_path @ '', '' @ fmt_o (unat flags) @ '', '' @ fmt_o (unat mode) @
                '') = '' @ fmt_d result @ line_end))
             (Done result)))))"

definition log_open64 :: "'w libc \<Rightarrow> string \<Rightarrow> u32 \<Rightarrow> u32 \<Rightarrow> (int, 'w logger) prog" where
  "log_open64 K path flags vararg =
     (let mode = (if OPEN_NEEDS_MODE flags then vararg else 0)
      in seq (find_fptr K ''open64'')
        (andthen (original K (Open64 path flags mode)) (\<lambda>result.
         andthen (getAbsPath K path) (\<lambda>r_path.
         seq (log_text K (''[logger] open64('' @ quoted r_path @ '', '' @ fmt_o (unat flags) @ '', '' @ fmt_o (unat mode) @
                '') = '' @ fmt_d result @ line_end))
             (Done result)))))"

definition log_rename :: "'w libc \<Rightarrow> string \<Rightarrow> string \<Rightarrow> (int, 'w logger) prog" where
  "log_rename K old new =
     seq (find_fptr K ''rename'')
    (andthen (getAbsPath K old) (\<lambda>r_old.
     andthen (original K (Rename old new)) (\<lambda>result.
     andthen (getAbsPath K new) (\<lambda>r_new.
     seq (log_text K (''[logger] rename('' @ quoted r_old @ '', '' @ quoted r_new @ '') = '' @ fmt_d result @ line_end))
         (Done result)))))"

definition log_tmpfile :: "'w libc \<Rightarrow> (int, 'w logger) prog" where
  "log_tmpfile K =
     seq (find_fptr K ''tmpfile'')
    (andthen (original K Tmpfile) (\<lambda>result.
     seq (log_text K (''[logger] tmpfile() = '' @ fmt_p result @ line_end)) (Done result)))"

definition log_tmpfile64 :: "'w libc \<Rightarrow> (int, 'w logger) prog" where
  "log_tmpfile64 K =
     seq (find_fptr K ''tmpfile64'')
    (andthen (original K Tmpfile64) (\<lambda>result.
     seq (log_text K (''[logger] tmpfile64() = '' @ fmt_p result @ line_end)) (Done result)))"

text \<open>
  The loop over the first bytes of the data.  The index is a \<^verbatim>\<open>size_t\<close>, so the comparison with
  the result converts the result: a failed \<^verbatim>\<open>read\<close> or \<^verbatim>\<open>write\<close> counts as \<open>2 ^ 64 - 1\<close>.  Reading a byte
  at an address the program may not read is undefined.
\<close>

definition shown_char :: "u8 \<Rightarrow> char" where
  "shown_char b = (let c = char_of (unat b) in if isprint c then c else CHR ''.'')"

definition shown_count :: "nat \<Rightarrow> int \<Rightarrow> nat" where
  "shown_count n result = min (min n 32) (nat (result mod 2 ^ 64))"

primrec log_chars :: "'w libc \<Rightarrow> u64 \<Rightarrow> nat list \<Rightarrow> (unit, 'w logger) prog" where
  "log_chars K ptr [] = skip"
| "log_chars K ptr (i # is) =
     seq (\<lambda>s. case l_mem K (lworld s) (ptr + of_nat i) of
                 None \<Rightarrow> Undef
               | Some b \<Rightarrow> log_text K [shown_char b] s)
         (log_chars K ptr is)"

definition log_data :: "'w libc \<Rightarrow> u64 \<Rightarrow> nat \<Rightarrow> int \<Rightarrow> (unit, 'w logger) prog" where
  "log_data K ptr n result = log_chars K ptr [0..<shown_count n result]"

definition log_fread :: "'w libc \<Rightarrow> u64 \<Rightarrow> nat \<Rightarrow> nat \<Rightarrow> u64 \<Rightarrow> (int, 'w logger) prog" where
  "log_fread K ptr sz nmemb stream =
     seq (find_fptr K ''fread'')
    (andthen (original K (Fread ptr sz nmemb stream)) (\<lambda>result.
     andthen (FILE2name K stream) (\<lambda>name.
     seq (log_text K (''[logger] fread('' @ [CHR 0x22]))
    (seq (log_data K ptr nmemb result)
    (seq (log_text K ([CHR 0x22] @ '', '' @ fmt_u sz @ '', '' @ fmt_u nmemb @ '', '' @ quoted name @ '') = '' @
            fmt_u (nat result) @ line_end))
         (Done result))))))"

definition log_fwrite :: "'w libc \<Rightarrow> u64 \<Rightarrow> nat \<Rightarrow> nat \<Rightarrow> u64 \<Rightarrow> (int, 'w logger) prog" where
  "log_fwrite K ptr sz nmemb stream =
     seq (find_fptr K ''fwrite'')
    (andthen (original K (Fwrite ptr sz nmemb stream)) (\<lambda>result.
     andthen (FILE2name K stream) (\<lambda>name.
     seq (log_text K (''[logger] fwrite('' @ [CHR 0x22]))
    (seq (log_data K ptr nmemb result)
    (seq (log_text K ([CHR 0x22] @ '', '' @ fmt_u sz @ '', '' @ fmt_u nmemb @ '', '' @ quoted name @ '') = '' @
            fmt_u (nat result) @ line_end))
         (Done result))))))"

definition log_read :: "'w libc \<Rightarrow> int \<Rightarrow> u64 \<Rightarrow> nat \<Rightarrow> (int, 'w logger) prog" where
  "log_read K fildes buf nbyte =
     seq (find_fptr K ''read'')
    (andthen (original K (Read fildes buf nbyte)) (\<lambda>result.
     andthen (FD2name K fildes) (\<lambda>name.
     seq (log_text K (''[logger] read('' @ quoted name @ '', '' @ [CHR 0x22]))
    (seq (log_data K buf nbyte result)
    (seq (log_text K ([CHR 0x22] @ '', '' @ fmt_u nbyte @ '') = '' @ fmt_d result @ line_end))
         (Done result))))))"

definition log_write :: "'w libc \<Rightarrow> int \<Rightarrow> u64 \<Rightarrow> nat \<Rightarrow> (int, 'w logger) prog" where
  "log_write K fildes buf nbyte =
     seq (find_fptr K ''write'')
    (andthen (original K (Write fildes buf nbyte)) (\<lambda>result.
     andthen (FD2name K fildes) (\<lambda>name.
     seq (log_text K (''[logger] write('' @ quoted name @ '', '' @ [CHR 0x22]))
    (seq (log_data K buf nbyte result)
    (seq (log_text K ([CHR 0x22] @ '', '' @ fmt_u nbyte @ '') = '' @ fmt_d result @ line_end))
         (Done result))))))"

text \<open>Which function the dynamic linker gives a call of the program to.\<close>

fun logged :: "'w libc \<Rightarrow> call \<Rightarrow> (int, 'w logger) prog" where
  "logged K (Chmod path mode) = log_chmod K path mode"
| "logged K (Chown path owner grp) = log_chown K path owner grp"
| "logged K (Close fildes) = log_close K fildes"
| "logged K (Creat path mode) = log_creat K path mode"
| "logged K (Creat64 path mode) = log_creat64 K path mode"
| "logged K (Fclose stream) = log_fclose K stream"
| "logged K (Fopen path mode) = log_fopen K path mode"
| "logged K (Fopen64 path mode) = log_fopen64 K path mode"
| "logged K (Fread ptr sz nmemb stream) = log_fread K ptr sz nmemb stream"
| "logged K (Fwrite ptr sz nmemb stream) = log_fwrite K ptr sz nmemb stream"
| "logged K (Open path flags mode) = log_open K path flags mode"
| "logged K (Open64 path flags mode) = log_open64 K path flags mode"
| "logged K (Read fildes buf nbyte) = log_read K fildes buf nbyte"
| "logged K (Remove path) = log_remove K path"
| "logged K (Rename old new) = log_rename K old new"
| "logged K Tmpfile = log_tmpfile K"
| "logged K Tmpfile64 = log_tmpfile64 K"
| "logged K (Write fildes buf nbyte) = log_write K fildes buf nbyte"

end
