(* ===== verification/LoggerSim.thy ===== *)
theory LoggerSim
  imports Logger
begin

text \<open>
  What a logged call does: the original call with its result, and one entry of the log.  From it, that
  a program behaves with the library of \<^verbatim>\<open>src/hw2\<close> as without it.
\<close>

section \<open>What a call does and what its entry says\<close>

text \<open>
  \<open>effect\<close> is the call under the library: the original one, but for closing standard error, which
  the library does not do.
\<close>

definition effect :: "'w libc \<Rightarrow> call \<Rightarrow> 'w \<Rightarrow> int \<times> 'w" where
  "effect K c w = (if c = Close 2 \<or> c = Fclose (l_stderr K) then (0, w) else l_real K c w)"

definition abs_name :: "'w libc \<Rightarrow> string \<Rightarrow> 'w \<Rightarrow> string" where
  "abs_name K path w = (case fst (l_realpath K path w) of None \<Rightarrow> ''untouched'' | Some name \<Rightarrow> name)"

definition fd_name :: "'w libc \<Rightarrow> int \<Rightarrow> 'w \<Rightarrow> string" where
  "fd_name K fildes w = (case fst (l_readlink K (fd_path K fildes w) w) of None \<Rightarrow> '''' | Some name \<Rightarrow> name)"

definition file_name :: "'w libc \<Rightarrow> u64 \<Rightarrow> 'w \<Rightarrow> string" where
  "file_name K stream w = fd_name K (fst (l_fileno K stream w)) w"

text \<open>The first bytes of the data of a call.\<close>

definition data_shown :: "'w libc \<Rightarrow> u64 \<Rightarrow> nat \<Rightarrow> int \<Rightarrow> 'w \<Rightarrow> string" where
  "data_shown K ptr n r w = map (\<lambda>i. shown_char (the (l_mem K w (ptr + of_nat i)))) [0..<shown_count n r]"

definition comma :: "string list \<Rightarrow> string" where
  "comma ts = (if ts = [] then '''' else hd ts @ concat (map (\<lambda>t. '', '' @ t) (tl ts)))"

definition entry_of :: "string \<Rightarrow> string list \<Rightarrow> string \<Rightarrow> string" where
  "entry_of name args result = ''[logger] '' @ name @ ''('' @ comma args @ '') = '' @ result @ line_end"

text \<open>The entry of a call that is made in \<open>w\<close>, returns \<open>r\<close> and leaves \<open>v\<close>.\<close>

fun entry_at :: "'w libc \<Rightarrow> call \<Rightarrow> int \<Rightarrow> 'w \<Rightarrow> 'w \<Rightarrow> string" where
  "entry_at K (Chmod path mode) r w v = entry_of ''chmod'' [quoted (abs_name K path w), fmt_o (unat mode)] (fmt_d r)"
| "entry_at K (Chown path owner grp) r w v =
     entry_of ''chown'' [quoted (abs_name K path w), fmt_u (unat owner), fmt_u (unat grp)] (fmt_d r)"
| "entry_at K (Close fildes) r w v = entry_of ''close'' [quoted (fd_name K fildes w)] (fmt_d r)"
| "entry_at K (Creat path mode) r w v = entry_of ''creat'' [quoted (abs_name K path v), fmt_o (unat mode)] (fmt_d r)"
| "entry_at K (Creat64 path mode) r w v = entry_of ''creat64'' [quoted (abs_name K path v), fmt_o (unat mode)] (fmt_d r)"
| "entry_at K (Fclose stream) r w v = entry_of ''fclose'' [quoted (file_name K stream w)] (fmt_d r)"
| "entry_at K (Fopen path mode) r w v = entry_of ''fopen'' [quoted (abs_name K path v), quoted mode] (fmt_p r)"
| "entry_at K (Fopen64 path mode) r w v = entry_of ''fopen64'' [quoted (abs_name K path v), quoted mode] (fmt_p r)"
| "entry_at K (Fread ptr sz nmemb stream) r w v = entry_of ''fread''
     [quoted (data_shown K ptr nmemb r v), fmt_u sz, fmt_u nmemb, quoted (file_name K stream v)] (fmt_u (nat r))"
| "entry_at K (Fwrite ptr sz nmemb stream) r w v = entry_of ''fwrite''
     [quoted (data_shown K ptr nmemb r v), fmt_u sz, fmt_u nmemb, quoted (file_name K stream v)] (fmt_u (nat r))"
| "entry_at K (Open path flags mode) r w v = entry_of ''open'' [quoted (abs_name K path v), fmt_o (unat flags),
     fmt_o (if OPEN_NEEDS_MODE flags then unat mode else 0)] (fmt_d r)"
| "entry_at K (Open64 path flags mode) r w v = entry_of ''open64'' [quoted (abs_name K path v), fmt_o (unat flags),
     fmt_o (if OPEN_NEEDS_MODE flags then unat mode else 0)] (fmt_d r)"
| "entry_at K (Read fildes buf n) r w v =
     entry_of ''read'' [quoted (fd_name K fildes v), quoted (data_shown K buf n r v), fmt_u n] (fmt_d r)"
| "entry_at K (Remove path) r w v = entry_of ''remove'' [quoted (abs_name K path w)] (fmt_d r)"
| "entry_at K (Rename old new) r w v = entry_of ''rename'' [quoted (abs_name K old w), quoted (abs_name K new v)] (fmt_d r)"
| "entry_at K Tmpfile r w v = entry_of ''tmpfile'' [] (fmt_p r)"
| "entry_at K Tmpfile64 r w v = entry_of ''tmpfile64'' [] (fmt_p r)"
| "entry_at K (Write fildes buf n) r w v =
     entry_of ''write'' [quoted (fd_name K fildes v), quoted (data_shown K buf n r v), fmt_u n] (fmt_d r)"

definition entry :: "'w libc \<Rightarrow> call \<Rightarrow> 'w \<Rightarrow> string" where
  "entry K c w = (let (r, v) = effect K c w in entry_at K c r w v)"

text \<open>
  What a call must be for the library to show it: its names fit the buffers, and the bytes that are
  shown can be read, also when the call failed.
\<close>

definition path_fits :: "'w libc \<Rightarrow> string \<Rightarrow> 'w \<Rightarrow> bool" where
  "path_fits K path w \<longleftrightarrow> length (abs_name K path w) < BUFSIZE"

definition fd_fits :: "'w libc \<Rightarrow> int \<Rightarrow> 'w \<Rightarrow> bool" where
  "fd_fits K fildes w \<longleftrightarrow> length (fd_name K fildes w) < BUFSIZE"

definition data_readable :: "'w libc \<Rightarrow> u64 \<Rightarrow> nat \<Rightarrow> int \<Rightarrow> 'w \<Rightarrow> bool" where
  "data_readable K ptr n r w \<longleftrightarrow> (\<forall>i < shown_count n r. l_mem K w (ptr + of_nat i) \<noteq> None)"

fun shows_at :: "'w libc \<Rightarrow> call \<Rightarrow> int \<Rightarrow> 'w \<Rightarrow> 'w \<Rightarrow> bool" where
  "shows_at K (Chmod path mode) r w v = path_fits K path w"
| "shows_at K (Chown path owner grp) r w v = path_fits K path w"
| "shows_at K (Close fildes) r w v = fd_fits K fildes w"
| "shows_at K (Creat path mode) r w v = path_fits K path v"
| "shows_at K (Creat64 path mode) r w v = path_fits K path v"
| "shows_at K (Fclose stream) r w v = fd_fits K (fst (l_fileno K stream w)) w"
| "shows_at K (Fopen path mode) r w v = path_fits K path v"
| "shows_at K (Fopen64 path mode) r w v = path_fits K path v"
| "shows_at K (Fread ptr sz nmemb stream) r w v = (fd_fits K (fst (l_fileno K stream v)) v \<and> data_readable K ptr nmemb r v)"
| "shows_at K (Fwrite ptr sz nmemb stream) r w v = (fd_fits K (fst (l_fileno K stream v)) v \<and> data_readable K ptr nmemb r v)"
| "shows_at K (Open path flags mode) r w v = path_fits K path v"
| "shows_at K (Open64 path flags mode) r w v = path_fits K path v"
| "shows_at K (Read fildes buf n) r w v = (fd_fits K fildes v \<and> data_readable K buf n r v)"
| "shows_at K (Remove path) r w v = path_fits K path w"
| "shows_at K (Rename old new) r w v = (path_fits K old w \<and> path_fits K new v)"
| "shows_at K Tmpfile r w v = True"
| "shows_at K Tmpfile64 r w v = True"
| "shows_at K (Write fildes buf n) r w v = (fd_fits K fildes v \<and> data_readable K buf n r v)"

definition showable :: "'w libc \<Rightarrow> call \<Rightarrow> 'w \<Rightarrow> bool" where
  "showable K c w = (let (r, v) = effect K c w in shows_at K c r w v)"

section \<open>The contract of libc and of the log\<close>

text \<open>
  \<open>same w v\<close>: the worlds differ in nothing but \<^verbatim>\<open>errno\<close> and what was written to the log, the
  descriptor \<open>lfd\<close>.  The laws say that the calls do not look at these, that neither looking a name
  or a function up nor writing to the log changes anything else, that the environment names the log
  and that libc has all the functions.
\<close>

locale log_apart =
  fixes K :: "'w libc" and same :: "'w \<Rightarrow> 'w \<Rightarrow> bool" and lfd :: int
  assumes real_same: "same w v \<Longrightarrow> fst (l_real K c w) = fst (l_real K c v) \<and> same (snd (l_real K c w)) (snd (l_real K c v))"
    and write_same: "same w v \<Longrightarrow> same w (l_dprintf K lfd t v)"
    and dlopen_same: "same w v \<Longrightarrow> fst (l_dlopen K v) \<and> same w (snd (l_dlopen K v))"
    and dlsym_same: "same w v \<Longrightarrow> fst (l_dlsym K f v) \<and> same w (snd (l_dlsym K f v))"
    and realpath_same: "same w v \<Longrightarrow> fst (l_realpath K p v) = fst (l_realpath K p w) \<and> same w (snd (l_realpath K p v))"
    and readlink_same: "same w v \<Longrightarrow> fst (l_readlink K p v) = fst (l_readlink K p w) \<and> same w (snd (l_readlink K p v))"
    and fileno_same: "same w v \<Longrightarrow> fst (l_fileno K stream v) = fst (l_fileno K stream w) \<and> same w (snd (l_fileno K stream v))"
    and getpid_same: "same w v \<Longrightarrow> l_getpid K v = l_getpid K w"
    and mem_same: "same w v \<Longrightarrow> l_mem K v = l_mem K w"
    and logger_set: "\<exists>l. l_getenv K ''LOGGER'' v = Some l \<and> atoi l = lfd"
    and mode_unused: "\<not> OPEN_NEEDS_MODE flags \<Longrightarrow> l_real K (Open p flags m) w = l_real K (Open p flags 0) w"
      "\<not> OPEN_NEEDS_MODE flags \<Longrightarrow> l_real K (Open64 p flags m) w = l_real K (Open64 p flags 0) w"
begin

end

text \<open>
  \<open>written t v\<close>: the log holds \<open>t\<close> in the world \<open>v\<close>, in a sense that the calls and the lookups keep
  and that writing to the log extends.
\<close>

locale log_contract = log_apart +
  fixes written :: "string \<Rightarrow> 'a \<Rightarrow> bool"
  assumes write_written: "written t v \<Longrightarrow> written (t @ u) (l_dprintf K lfd u v)"
    and real_written: "written t v \<Longrightarrow> written t (snd (l_real K c v))"
    and lookup_written: "written t v \<Longrightarrow> written t (snd (l_dlopen K v))" "written t v \<Longrightarrow> written t (snd (l_dlsym K f v))"
      "written t v \<Longrightarrow> written t (snd (l_realpath K p v))" "written t v \<Longrightarrow> written t (snd (l_readlink K p v))"
      "written t v \<Longrightarrow> written t (snd (l_fileno K stream v))"
begin

text \<open>The logged program is where the plain one would be in \<open>w\<close>, and the log holds \<open>t\<close>.\<close>

definition st :: "'a \<Rightarrow> string \<Rightarrow> 'a logger \<Rightarrow> bool" where
  "st w t s \<longleftrightarrow> same w (lworld s) \<and> (fd s < 0 \<or> fd s = lfd) \<and> written t (lworld s)"

lemma find_at: "runs (st w t) (find_fptr K f) (\<lambda>_. st w t)"
proof (rule runsI)
  fix s assume s: "st w t s"
  obtain h w1 where h: "l_dlopen K (lworld s) = (h, w1)" by fastforce
  obtain g w2 where g: "l_dlsym K f w1 = (g, w2)" by fastforce
  have "h" "same w w1" "written t w1"
    using s h dlopen_same [of w "lworld s"] lookup_written(1) [of t "lworld s"] by (auto simp: st_def)
  moreover from this have "g" "same w w2" "written t w2"
    using g dlsym_same [of w w1 f] lookup_written(2) [of t w1 f] by auto
  ultimately show "\<exists>x u. find_fptr K f s = Done x u \<and> st w t u"
    using s h g by (simp add: find_fptr_def st_def)
qed

lemma abs_at: "path_fits K p w \<Longrightarrow> runs (st w t) (getAbsPath K p) (\<lambda>x s. x = abs_name K p w \<and> st w t s)"
proof (rule runsI)
  fix s assume s: "st w t s" and p: "path_fits K p w"
  obtain n v where v: "l_realpath K p (lworld s) = (n, v)" by fastforce
  have "n = fst (l_realpath K p w)" "same w v" "written t v"
    using s v realpath_same [of w "lworld s" p] lookup_written(3) [of t "lworld s" p] by (auto simp: st_def)
  then show "\<exists>x u. getAbsPath K p s = Done x u \<and> x = abs_name K p w \<and> st w t u"
    using s v p by (auto simp: getAbsPath_def st_def path_fits_def abs_name_def split: option.splits)
qed

lemma fd_at: "fd_fits K d w \<Longrightarrow> runs (st w t) (FD2name K d) (\<lambda>x s. x = fd_name K d w \<and> st w t s)"
proof (rule runsI)
  fix s assume s: "st w t s" and p: "fd_fits K d w"
  have path: "fd_path K d (lworld s) = fd_path K d w" using s getpid_same [of w "lworld s"] by (simp add: fd_path_def st_def)
  obtain n v where v: "l_readlink K (fd_path K d w) (lworld s) = (n, v)" by fastforce
  have "n = fst (l_readlink K (fd_path K d w) w)" "same w v" "written t v"
    using s v readlink_same [of w "lworld s" "fd_path K d w"] lookup_written(4) [of t "lworld s" "fd_path K d w"]
    by (auto simp: st_def)
  then show "\<exists>x u. FD2name K d s = Done x u \<and> x = fd_name K d w \<and> st w t u"
    using s v p path by (auto simp: FD2name_def st_def fd_fits_def fd_name_def split: option.splits)
qed

lemma file_at:
  "fd_fits K (fst (l_fileno K f w)) w \<Longrightarrow> runs (st w t) (FILE2name K f) (\<lambda>x s. x = file_name K f w \<and> st w t s)"
proof (rule runsI)
  fix s assume s: "st w t s" and p: "fd_fits K (fst (l_fileno K f w)) w"
  obtain d v where v: "l_fileno K f (lworld s) = (d, v)" by fastforce
  have d: "d = fst (l_fileno K f w)" and "same w v" "written t v"
    using s v fileno_same [of w "lworld s" f] lookup_written(5) [of t "lworld s" f] by (auto simp: st_def)
  then have "st w t (s\<lparr>lworld := v\<rparr>)" using s by (simp add: st_def)
  from runsD [OF fd_at [OF p] this] show "\<exists>x u. FILE2name K f s = Done x u \<and> x = file_name K f w \<and> st w t u"
    using v d by (simp add: FILE2name_def file_name_def)
qed

lemma original_at: "runs (st w t) (original K c) (\<lambda>r s. r = fst (l_real K c w) \<and> st (snd (l_real K c w)) t s)"
proof (rule runsI)
  fix s assume "st w t s"
  then show "\<exists>r u. original K c s = Done r u \<and> r = fst (l_real K c w) \<and> st (snd (l_real K c w)) t u"
    using real_same [of w "lworld s" c] real_written [of t "lworld s" c] by (auto simp: original_def st_def split: prod.splits)
qed

lemma text_at: "runs (st w t) (log_text K u) (\<lambda>_. st w (t @ u))"
proof (rule runsI)
  fix s assume s: "st w t s"
  obtain l where l: "l_getenv K ''LOGGER'' (lworld s) = Some l" "atoi l = lfd" using logger_set by blast
  from s l write_same [of w "lworld s" u] write_written [of t "lworld s" u] show "\<exists>x s'. log_text K u s = Done x s' \<and> st w (t @ u) s'"
    by (auto simp: log_text_def andthen_def getFD_def dprintf_def st_def)
qed

lemma chars_at:
  "\<forall>i \<in> set is. l_mem K w (p + of_nat i) \<noteq> None \<Longrightarrow>
    runs (st w t) (log_chars K p is) (\<lambda>_. st w (t @ map (\<lambda>i. shown_char (the (l_mem K w (p + of_nat i)))) is))"
proof (induction "is" arbitrary: t)
  case Nil
  show ?case by (simp add: runs_def)
next
  case (Cons i "is")
  obtain b where b: "l_mem K w (p + of_nat i) = Some b" using Cons.prems by auto
  have "runs (st w t) (\<lambda>s. case l_mem K (lworld s) (p + of_nat i) of None \<Rightarrow> Undef | Some b \<Rightarrow> log_text K [shown_char b] s)
      (\<lambda>_. st w (t @ [shown_char b]))"
  proof (rule runsI)
    fix s assume s: "st w t s"
    then have "l_mem K (lworld s) = l_mem K w" using mem_same [of w "lworld s"] by (simp add: st_def)
    then show "\<exists>x u. (case l_mem K (lworld s) (p + of_nat i) of None \<Rightarrow> Undef | Some b \<Rightarrow> log_text K [shown_char b] s) = Done x u
        \<and> st w (t @ [shown_char b]) u"
      using runsD [OF text_at s] b by simp
  qed
  moreover have "runs (st w (t @ [shown_char b])) (log_chars K p is)
      (\<lambda>_. st w ((t @ [shown_char b]) @ map (\<lambda>i. shown_char (the (l_mem K w (p + of_nat i)))) is))"
    using Cons.prems by (intro Cons.IH) simp
  ultimately show ?case using b by (auto intro: runs_seq)
qed

lemma data_at: "data_readable K p n r w \<Longrightarrow> runs (st w t) (log_data K p n r) (\<lambda>_. st w (t @ data_shown K p n r w))"
  unfolding log_data_def data_shown_def by (rule chars_at) (simp add: data_readable_def)

lemma then_value: "runs P m (\<lambda>x s. x = v \<and> Q s) \<Longrightarrow> runs Q (f v) R \<Longrightarrow> runs P (andthen m f) R"
  unfolding runs_def by (metis andthen_Done)

lemma entry_end:
  "u = e \<Longrightarrow> runs (st w t) (seq (log_text K u) (Done r)) (\<lambda>x s. x = r \<and> st w (t @ e) s)"
  by (rule runs_seq [OF text_at]) (simp add: runs_def)

lemma data_end:
  assumes "data_readable K p n r w" and "u @ data_shown K p n r w @ u' = e"
  shows "runs (st w t) (seq (log_text K u) (seq (log_data K p n r) (seq (log_text K u') (Done r')))) (\<lambda>x s. x = r' \<and> st w (t @ e) s)"
  by (rule runs_seq [OF text_at], rule runs_seq [OF data_at [OF assms(1)]], rule runs_seq [OF text_at])
    (simp add: runs_def assms(2) [symmetric])

lemma nothing_at: "runs (st w t) (Done (0 :: int)) (\<lambda>x s. x = 0 \<and> st w t s)"
  by (simp add: runs_def)

lemmas entry_steps = runs_seq [OF find_at] then_value [OF abs_at] then_value [OF fd_at] then_value [OF file_at]
  then_value [OF original_at] then_value [OF nothing_at]
lemmas entry_simps = entry_of_def comma_def quoted_def

text \<open>The result and the rest of the goal of one call, for the original call \<open>c\<close>.\<close>

definition does :: "'a \<Rightarrow> call \<Rightarrow> (int, 'a logger) prog \<Rightarrow> bool" where
  "does w c m \<longleftrightarrow> (let r = fst (l_real K c w); v = snd (l_real K c w) in shows_at K c r w v \<longrightarrow>
     (\<forall>t. runs (st w t) m (\<lambda>x s. x = r \<and> st v (t @ entry_at K c r w v) s)))"

lemma does_paths:
  "does w (Chmod path mode) (log_chmod K path mode)" "does w (Chown path owner grp) (log_chown K path owner grp)"
  "does w (Remove path) (log_remove K path)" "does w (Rename old new) (log_rename K old new)"
  unfolding does_def log_chmod_def log_chown_def log_remove_def log_rename_def Let_def shows_at.simps
  by (intro impI allI; (elim conjE)?; (((rule entry_steps, assumption) | rule entry_steps | (rule entry_end, simp add: entry_simps))+))+

lemma does_creates:
  "does w (Creat path mode) (log_creat K path mode)" "does w (Creat64 path mode) (log_creat64 K path mode)"
  "does w (Fopen path m) (log_fopen K path m)" "does w (Fopen64 path m) (log_fopen64 K path m)"
  "does w Tmpfile (log_tmpfile K)" "does w Tmpfile64 (log_tmpfile64 K)"
  unfolding does_def log_creat_def log_creat64_def log_fopen_def log_fopen64_def log_tmpfile_def log_tmpfile64_def
    Let_def shows_at.simps
  by (intro impI allI; (((rule entry_steps, assumption) | rule entry_steps | (rule entry_end, simp add: entry_simps))+))+

lemma does_data:
  "does w (Fread ptr sz nmemb stream) (log_fread K ptr sz nmemb stream)"
  "does w (Fwrite ptr sz nmemb stream) (log_fwrite K ptr sz nmemb stream)"
  "does w (Read fildes buf n) (log_read K fildes buf n)" "does w (Write fildes buf n) (log_write K fildes buf n)"
  unfolding does_def log_fread_def log_fwrite_def log_read_def log_write_def Let_def shows_at.simps
  by (intro impI allI; elim conjE;
      ((rule entry_steps, assumption) | rule entry_steps | (rule data_end, assumption, simp add: entry_simps))+)+

text \<open>Without need the mode of \<^verbatim>\<open>open\<close> is 0 for the original function, which does not look at it.\<close>

lemma real_open:
  "l_real K (Open path flags mode) w = l_real K (Open path flags (if OPEN_NEEDS_MODE flags then mode else 0)) w"
  "l_real K (Open64 path flags mode) w = l_real K (Open64 path flags (if OPEN_NEEDS_MODE flags then mode else 0)) w"
  by (cases "OPEN_NEEDS_MODE flags", simp only: if_True, simp only: if_False, erule mode_unused)+

lemma does_open: "does w (Open path flags mode) (log_open K path flags mode)"
proof -
  define m where "m = (if OPEN_NEEDS_MODE flags then mode else 0)"
  have l: "l_real K (Open path flags mode) w = l_real K (Open path flags m) w" unfolding m_def by (rule real_open)
  have f: "(if OPEN_NEEDS_MODE flags then unat mode else 0) = unat m" by (simp add: m_def)
  show ?thesis
    unfolding does_def log_open_def Let_def shows_at.simps l entry_at.simps f m_def [symmetric]
    by (intro impI allI; (((rule entry_steps, assumption) | rule entry_steps | (rule entry_end, simp add: entry_simps))+))
qed

lemma does_open64: "does w (Open64 path flags mode) (log_open64 K path flags mode)"
proof -
  define m where "m = (if OPEN_NEEDS_MODE flags then mode else 0)"
  have l: "l_real K (Open64 path flags mode) w = l_real K (Open64 path flags m) w" unfolding m_def by (rule real_open)
  have f: "(if OPEN_NEEDS_MODE flags then unat mode else 0) = unat m" by (simp add: m_def)
  show ?thesis
    unfolding does_def log_open64_def Let_def shows_at.simps l entry_at.simps f m_def [symmetric]
    by (intro impI allI; (((rule entry_steps, assumption) | rule entry_steps | (rule entry_end, simp add: entry_simps))+))
qed

lemma does_close:
  "fildes \<noteq> 2 \<Longrightarrow> does w (Close fildes) (log_close K fildes)"
  "stream \<noteq> l_stderr K \<Longrightarrow> does w (Fclose stream) (log_fclose K stream)"
  unfolding does_def log_close_def log_fclose_def Let_def shows_at.simps
  by (simp_all, (intro impI allI; (((rule entry_steps, assumption) | rule entry_steps | (rule entry_end, simp add: entry_simps))+))+)

lemma stays_open:
  "fd_fits K 2 w \<Longrightarrow> runs (st w t) (log_close K 2) (\<lambda>x s. x = 0 \<and> st w (t @ entry K (Close 2) w) s)"
  "fd_fits K (fst (l_fileno K (l_stderr K) w)) w \<Longrightarrow>
    runs (st w t) (log_fclose K (l_stderr K)) (\<lambda>x s. x = 0 \<and> st w (t @ entry K (Fclose (l_stderr K)) w) s)"
  unfolding log_close_def log_fclose_def entry_def effect_def
  by (simp_all only: not_False_eq_True not_True_eq_False if_False if_True simp_thms split_conv Let_def)
    (((rule entry_steps, assumption) | rule entry_steps | (rule entry_end, simp add: entry_simps))+)+

lemma logged_at:
  assumes "showable K c w"
  shows "runs (st w t) (logged K c) (\<lambda>r s. r = fst (effect K c w) \<and> st (snd (effect K c w)) (t @ entry K c w) s)"
proof (cases "c = Close 2 \<or> c = Fclose (l_stderr K)")
  case True
  then show ?thesis using assms stays_open [of w t] by (auto simp: showable_def effect_def)
next
  case False
  have "does w c (logged K c)"
    using False by (cases c) (auto simp: does_paths does_creates does_data does_open does_open64 intro: does_close)
  then show ?thesis
    using assms False by (simp add: does_def showable_def effect_def entry_def split_beta Let_def)
qed

end

text \<open>Leaving the log out of sight, and looking at what it holds behind \<open>start\<close>.\<close>

sublocale log_apart \<subseteq> silent: log_contract K same lfd "\<lambda>t v. True"
  by unfold_locales simp_all

locale log_output =
  fixes K :: "'w libc" and out :: "'w \<Rightarrow> string" and lfd :: int
  assumes out_law: "out (l_dprintf K lfd t v) = out v @ t"
    and mem_law: "l_mem K (l_dprintf K lfd t v) = l_mem K v"
    and log_open: "0 \<le> lfd"
    and lookup_out: "out (snd (l_dlopen K v)) = out v" "out (snd (l_dlsym K f v)) = out v" "out (snd (l_realpath K p v)) = out v"
      "out (snd (l_readlink K p v)) = out v" "out (snd (l_fileno K stream v)) = out v"
    and readlink_mem: "l_mem K (snd (l_readlink K p v)) = l_mem K v"
begin

lemma log_text_out:
  "fd s = lfd \<Longrightarrow> log_text K t s = Done () (s\<lparr>lworld := l_dprintf K lfd t (lworld s)\<rparr>)"
  using log_open by (simp add: log_text_def getFD_def dprintf_def)

end

locale log_lines = log_apart K same lfd + log_output K out lfd
  for K :: "'w libc" and same :: "'w \<Rightarrow> 'w \<Rightarrow> bool" and lfd :: int and out :: "'w \<Rightarrow> string" +
  assumes real_out: "out (snd (l_real K c v)) = out v"

sublocale log_lines \<subseteq> lines: log_contract K same lfd "\<lambda>t v. out v = start @ t" for start
  by unfold_locales (simp_all add: out_law real_out lookup_out)

section \<open>A program under the logger\<close>

text \<open>
  A program as the tree of its calls: what it does next depends on the result and on the memory, of
  which \<^verbatim>\<open>errno\<close> is no part.  \<open>run_plain\<close> gives its calls to libc, \<open>run_logged\<close> to the library.
\<close>

datatype client = Stop | Call call "int \<Rightarrow> (u64 \<Rightarrow> u8 option) \<Rightarrow> client"

primrec run_plain :: "'w libc \<Rightarrow> client \<Rightarrow> 'w \<Rightarrow> int list \<times> 'w" where
  "run_plain K Stop w = ([], w)"
| "run_plain K (Call c next) w =
     (let (r, w1) = l_real K c w; (rs, w2) = run_plain K (next r (l_mem K w1)) w1 in (r # rs, w2))"

primrec run_logged :: "'w libc \<Rightarrow> client \<Rightarrow> (int list, 'w logger) prog" where
  "run_logged K Stop = Done []"
| "run_logged K (Call c next) =
     andthen (logged K c) (\<lambda>r s. andthen (run_logged K (next r (l_mem K (lworld s)))) (\<lambda>rs. Done (r # rs)) s)"

text \<open>
  The programs that may be logged: in its run without the library, the program does not close its
  standard error, and every call can be shown.
\<close>

primrec loggable :: "'w libc \<Rightarrow> client \<Rightarrow> 'w \<Rightarrow> bool" where
  "loggable K Stop w \<longleftrightarrow> True"
| "loggable K (Call c next) w \<longleftrightarrow> c \<noteq> Close 2 \<and> c \<noteq> Fclose (l_stderr K) \<and> showable K c w
     \<and> (let (r, w1) = l_real K c w in loggable K (next r (l_mem K w1)) w1)"

text \<open>
  C29. A program makes the same calls with the same results and the same effects under the
  logging library as without it, errno and the text of the log aside: for any program as the
  tree of its calls, whose continuations look at the result and at the memory. In its run
  without the library it does not close its standard error, every name the library resolves is
  shorter than 256 bytes and the bytes the library shows, after a failed call too, can be read;
  LOGGER is set and libc and its functions are found.
\<close>

theorem logger_transparent:
  assumes "log_apart K same lfd" and "loggable K prog w"
    and "same w (lworld s)" and "fd s < 0 \<or> fd s = lfd"
  shows "\<exists>s'. run_logged K prog s = Done (fst (run_plain K prog w)) s'
    \<and> same (snd (run_plain K prog w)) (lworld s')"
  using assms(2-4)
proof (induction prog arbitrary: w s)
  case Stop
  then show ?case by simp
next
  case (Call c nxt)
  let ?r = "fst (l_real K c w)" and ?w = "snd (l_real K c w)"
  have C: "log_contract K same lfd (\<lambda>t v. True)"
    using assms(1) by (simp add: log_contract_def log_contract_axioms_def)
  have e: "effect K c w = l_real K c w" and sh: "showable K c w" using Call.prems(1) by (simp_all add: effect_def)
  have "log_contract.st same lfd (\<lambda>t v. True) w [] s" using Call.prems by (simp add: log_contract.st_def [OF C])
  then obtain s1 where s1: "logged K c s = Done ?r s1" "same ?w (lworld s1)" "fd s1 < 0 \<or> fd s1 = lfd"
    using runsD [OF log_contract.logged_at [OF C sh, of "[]"], of s] e by (auto simp: log_contract.st_def [OF C])
  have m: "l_mem K (lworld s1) = l_mem K ?w" using log_apart.mem_same [OF assms(1) s1(2)] by simp
  obtain s2 where s2: "run_logged K (nxt ?r (l_mem K ?w)) s1 = Done (fst (run_plain K (nxt ?r (l_mem K ?w)) ?w)) s2"
    "same (snd (run_plain K (nxt ?r (l_mem K ?w)) ?w)) (lworld s2)"
    using Call.IH [of "nxt ?r" "nxt ?r (l_mem K ?w)" ?w s1] Call.prems(1) s1(2,3) by (auto simp: split_beta)
  then show ?case using s1(1) m by (simp add: split_beta)
qed

section \<open>An instance\<close>

text \<open>
  A world of the text on standard error, the number of calls made and \<^verbatim>\<open>errno\<close>.  Descriptor 5 is a
  directory, which cannot be read, and there is no negative descriptor.
\<close>

record log_world =
  shown :: string
  calls :: nat
  error_no :: int

definition demo_read :: "int \<Rightarrow> nat \<Rightarrow> log_world \<Rightarrow> int \<times> log_world" where
  "demo_read d n w =
     (if d < 0 then (- 1, w\<lparr>calls := Suc (calls w), error_no := 9\<rparr>)
      else if d = 5 then (- 1, w\<lparr>calls := Suc (calls w), error_no := 21\<rparr>)
      else (int (min n 3), w\<lparr>calls := Suc (calls w)\<rparr>))"

definition demo_libc :: "log_world libc" where
  "demo_libc =
     \<lparr> l_real = (\<lambda>c w. case c of Read d p n \<Rightarrow> demo_read d n w | _ \<Rightarrow> (0, w\<lparr>calls := Suc (calls w)\<rparr>)),
       l_dlopen = (\<lambda>w. (True, w\<lparr>error_no := 0\<rparr>)), l_dlsym = (\<lambda>f w. (True, w)),
       l_realpath = (\<lambda>p w. (Some (''/tmp/'' @ take 100 p), w)),
       l_readlink = (\<lambda>p w. if p = ''/proc/7/fd/-1'' then (None, w\<lparr>error_no := 2\<rparr>) else (Some ''/tmp/x'', w)),
       l_getpid = (\<lambda>w. 7), l_fileno = (\<lambda>f w. (4, w)), l_stderr = 2,
       l_getenv = (\<lambda>v w. Some ''2''),
       l_dprintf = (\<lambda>d t w. w\<lparr>shown := shown w @ t\<rparr>),
       l_mem = (\<lambda>w a. if a = 0x1001 then Some 7 else if a < 0x1000 then None else Some 0x41) \<rparr>"

definition same_calls :: "log_world \<Rightarrow> log_world \<Rightarrow> bool" where
  "same_calls w v \<longleftrightarrow> calls w = calls v"

lemma atoi_2: "atoi ''2'' = 2"
  using atoi_fmt_d [of 2] by (simp add: fmt_d_def digits.simps digit_chars)

interpretation demo_log: log_lines demo_libc same_calls 2 shown
  by unfold_locales (auto simp: demo_libc_def demo_read_def same_calls_def atoi_2 split: call.splits if_splits)

lemma demo_shows:
  "showable demo_libc (Creat p m) w" "showable demo_libc (Rename p q) w"
  "0x1000 \<le> buf \<Longrightarrow> unat buf + 32 < 2 ^ 64 \<Longrightarrow> showable demo_libc (Read 3 buf n) w"
proof -
  show "showable demo_libc (Creat p m) w" "showable demo_libc (Rename p q) w"
    by (simp_all add: showable_def effect_def demo_libc_def path_fits_def abs_name_def BUFSIZE_def min_def)
  assume b: "0x1000 \<le> buf" "unat buf + 32 < 2 ^ 64"
  have "\<not> buf + of_nat i < 0x1000" if "i < 32" for i
  proof -
    have "unat (buf + of_nat i) = unat buf + i" using b(2) that by (subst unat_add_lem [THEN iffD1]) (simp_all add: unat_of_nat)
    then show ?thesis using b(1) by (simp add: word_less_nat_alt word_le_nat_alt)
  qed
  then show "showable demo_libc (Read 3 buf n) w"
    by (auto simp: showable_def effect_def demo_libc_def demo_read_def fd_fits_def fd_name_def BUFSIZE_def data_readable_def shown_count_def)
qed

theorem logger_transparent_witness:
  "\<exists>s'. run_logged demo_libc (Call (Creat ''a'' 0x1ff) (\<lambda>r m. Call (Read 3 0x1000 5) (\<lambda>r m. Stop)))
      \<lparr> fd = - 1, found = [], lworld = \<lparr> shown = [], calls = 0, error_no = 0 \<rparr> \<rparr> = Done [0, 3] s' \<and> calls (lworld s') = 2"
proof -
  let ?w = "\<lparr> shown = [], calls = 0, error_no = 0 \<rparr>"
  let ?p = "Call (Creat ''a'' 0x1ff) (\<lambda>r m. Call (Read 3 0x1000 5) (\<lambda>r m. Stop))"
  have "loggable demo_libc ?p ?w" using demo_shows by (simp add: split_beta)
  from logger_transparent [OF demo_log.log_apart_axioms this, of "\<lparr> fd = - 1, found = [], lworld = ?w \<rparr>"] show ?thesis
    by (auto simp: demo_libc_def demo_read_def same_calls_def)
qed

end
