(* ===== verification/LoggerLines.thy ===== *)
theory LoggerLines
  imports LoggerSim
begin

text \<open>
  The log of the library of \<^verbatim>\<open>src/hw2\<close>: the entry of every call, what it shows of a read that failed,
  and what the library does to \<^verbatim>\<open>errno\<close>.
\<close>

section \<open>One entry per call\<close>

text \<open>
  C30. Every call of one of the eighteen functions adds to the log exactly one line and nothing
  else, whether the descriptor was read from the environment before or not: the mark, the name
  of the function, its arguments with the paths resolved (before the call where the file may be
  gone afterwards), the shown data, the result the program gets and a line end; closing standard
  error is shown with result 0 and not done. The names are shorter than 256 bytes, the shown
  bytes can be read, LOGGER is set, libc and its functions are found, and the program does not
  write to the log itself.
\<close>

theorem one_entry_per_call:
  assumes "log_lines K same lfd out" and "showable K c w"
    and "same w (lworld s)" and "fd s < 0 \<or> fd s = lfd"
  shows "\<exists>s'. logged K c s = Done (fst (effect K c w)) s' \<and> same (snd (effect K c w)) (lworld s')
    \<and> out (lworld s') = out (lworld s) @ entry K c w"
proof -
  let ?W = "\<lambda>t v. out v = out (lworld s) @ t"
  have C: "log_contract K same lfd ?W"
    using assms(1) log_lines.real_out [OF assms(1)] log_output.lookup_out [of K out lfd] log_output.out_law [of K out lfd]
    by (auto simp: log_contract_def log_contract_axioms_def log_lines_def)
  have "log_contract.st same lfd ?W w [] s" using assms(3,4) by (simp add: log_contract.st_def [OF C])
  from runsD [OF log_contract.logged_at [OF C assms(2)] this] show ?thesis
    by (auto simp: log_contract.st_def [OF C])
qed

theorem one_entry_per_call_witness:
  "\<exists>s'. logged demo_libc (Rename ''a'' ''b'') \<lparr> fd = - 1, found = [], lworld = \<lparr> shown = ''x'', calls = 0, error_no = 0 \<rparr> \<rparr> = Done 0 s'
    \<and> shown (lworld s') = ''x[logger] rename('' @ quoted ''/tmp/a'' @ '', '' @ quoted ''/tmp/b'' @ '') = 0'' @ line_end"
proof -
  let ?w = "\<lparr> shown = ''x'', calls = 0, error_no = 0 \<rparr> :: log_world"
  have "fmt_d 0 = ''0''" by (simp add: fmt_d_def digits.simps digit_chars)
  moreover have "effect demo_libc (Rename ''a'' ''b'') ?w = (0, ?w\<lparr>calls := 1\<rparr>)" by (simp add: effect_def demo_libc_def)
  ultimately show ?thesis
    using one_entry_per_call [OF demo_log.log_lines_axioms demo_shows(2), of ?w "\<lparr> fd = - 1, found = [], lworld = ?w \<rparr>" "''a''" "''b''"]
    by (auto simp: same_calls_def entry_def entry_of_def comma_def abs_name_def) (auto simp: demo_libc_def)
qed

section \<open>Failed reads\<close>

context log_output
begin

lemma log_chars_out:
  assumes "fd s = lfd" and "\<forall>i \<in> set is. l_mem K (lworld s) (p + of_nat i) \<noteq> None"
    and "\<And>t v. P v \<Longrightarrow> P (l_dprintf K lfd t v)" and "P (lworld s)"
  shows "\<exists>w. log_chars K p is s = Done () (s\<lparr>lworld := w\<rparr>)
    \<and> out w = out (lworld s) @ map (\<lambda>i. shown_char (the (l_mem K (lworld s) (p + of_nat i)))) is
    \<and> l_mem K w = l_mem K (lworld s) \<and> P w"
  using assms(1,2,4)
proof (induction "is" arbitrary: s)
  case Nil
  then show ?case by (intro exI [of _ "lworld s"]) simp
next
  case (Cons i "is")
  obtain b where b: "l_mem K (lworld s) (p + of_nat i) = Some b" using Cons.prems(2) by auto
  let ?s = "s\<lparr>lworld := l_dprintf K lfd [shown_char b] (lworld s)\<rparr>"
  obtain w where "log_chars K p is ?s = Done () (?s\<lparr>lworld := w\<rparr>)"
    "out w = out (lworld ?s) @ map (\<lambda>i. shown_char (the (l_mem K (lworld ?s) (p + of_nat i)))) is"
    "l_mem K w = l_mem K (lworld ?s)" "P w"
    using Cons.IH [of ?s] Cons.prems assms(3) by (auto simp: mem_law)
  then show ?case using Cons.prems(1) b by (intro exI [of _ w]) (simp add: seq_def log_text_out out_law mem_law)
qed

text \<open>What a logged read does behind the original call.\<close>

lemma log_read_steps:
  assumes "fd s = lfd" and "''read'' \<in> set (found s)" and "l_real K (Read d buf n) (lworld s) = (r, w)"
    and "l_readlink K (fd_path K d w) w = (link, v)" and "\<And>name. link = Some name \<Longrightarrow> length name < 256"
    and "\<forall>i < shown_count n r. l_mem K w (buf + of_nat i) \<noteq> None"
    and "\<And>t v. P v \<Longrightarrow> P (l_dprintf K lfd t v)" and "P v"
  shows "\<exists>s'. log_read K d buf n s = Done r s' \<and> P (lworld s')
    \<and> out (lworld s') = out w @ ''[logger] read('' @ quoted (case link of None \<Rightarrow> '''' | Some name \<Rightarrow> name) @ '', '' @
        quoted (map (\<lambda>i. shown_char (the (l_mem K w (buf + of_nat i)))) [0..<shown_count n r]) @
        '', '' @ fmt_u n @ '') = '' @ fmt_d r @ line_end"
proof -
  let ?name = "case link of None \<Rightarrow> '''' | Some name \<Rightarrow> name"
  let ?t1 = "''[logger] read('' @ quoted ?name @ '', '' @ [CHR 0x22]"
  let ?s2 = "s\<lparr>lworld := l_dprintf K lfd ?t1 v\<rparr>"
  have v: "l_mem K v = l_mem K w" "out v = out w"
    using readlink_mem [of "fd_path K d w" w] lookup_out(4) [of "fd_path K d w" w] assms(4) by simp_all
  obtain w3 where w3: "log_data K buf n r ?s2 = Done () (?s2\<lparr>lworld := w3\<rparr>)"
    "out w3 = out (lworld ?s2) @ map (\<lambda>i. shown_char (the (l_mem K (lworld ?s2) (buf + of_nat i)))) [0..<shown_count n r]"
    "P w3"
    using log_chars_out [of ?s2 "[0..<shown_count n r]" buf P] assms(1,6-8) by (auto simp: log_data_def mem_law v)
  have f: "find_fptr K ''read'' s = Done () s" using assms(2) by (simp add: find_fptr_def)
  have "FD2name K d (s\<lparr>lworld := w\<rparr>) = Done ?name (s\<lparr>lworld := v\<rparr>)"
    using assms(4,5) by (auto simp: FD2name_def BUFSIZE_def split: option.splits)
  then have "log_read K d buf n s = Done r (s\<lparr>lworld := l_dprintf K lfd
      ([CHR 0x22] @ '', '' @ fmt_u n @ '') = '' @ fmt_d r @ line_end) w3\<rparr>)"
    using assms(1,3) f w3(1) by (simp add: log_read_def seq_def original_def log_text_out)
  then show ?thesis using w3 assms(7) v by (simp add: out_law mem_law quoted_def)
qed

end

text \<open>
  C31. What the log shows of a read: the name of the file, the data as printable characters, the
  size and the result; after a failed read up to 32 bytes of the buffer are shown all the same.
\<close>

theorem read_line:
  assumes "log_output K out lfd" and "fd s = lfd" and "''read'' \<in> set (found s)"
    and "l_real K (Read d buf n) (lworld s) = (r, w)" and "- (2 ^ 63) \<le> r" and "r < 2 ^ 63"
    and "l_readlink K (fd_path K d w) w = (Some name, v)" and "length name < 256"
    and "k = (if r < 0 then min n 32 else min n (min 32 (nat r)))"
    and "map (\<lambda>i. l_mem K w (buf + of_nat i)) [0..<k] = map Some data"
  shows "\<exists>s'. log_read K d buf n s = Done r s'
    \<and> out (lworld s') = out w @ ''[logger] read('' @ quoted name @ '', '' @ quoted (map shown_char data) @
        '', '' @ fmt_u n @ '') = '' @ fmt_d r @ line_end"
proof -
  have k: "shown_count n r = k"
  proof (cases "r < 0")
    case True
    then have "r mod 2 ^ 64 = r + 2 ^ 64" using assms(5) by (subst mod_add_self2 [symmetric], subst mod_pos_pos_trivial) simp_all
    then show ?thesis using True assms(5,9) by (simp add: shown_count_def)
  next
    case False
    then show ?thesis using assms(6,9) by (simp add: shown_count_def min.assoc)
  qed
  have "length data = k" using arg_cong [OF assms(10), of length] by simp
  then have d: "l_mem K w (buf + of_nat i) = Some (data ! i)" if "i < k" for i
    using arg_cong [OF assms(10), of "\<lambda>l. l ! i"] that by simp
  then have "map (\<lambda>i. shown_char (the (l_mem K w (buf + of_nat i)))) [0..<k] = map shown_char data"
    using \<open>length data = k\<close> by (intro nth_equalityI) simp_all
  then show ?thesis
    using log_output.log_read_steps [OF assms(1-4,7), of "\<lambda>_. True"] assms(8) d k by auto
qed

lemma upt_3 [simp]: "[0..<3] = [0, 1, 2]"
  by (simp add: upt_rec)

theorem read_line_witness:
  "\<exists>s'. log_read demo_libc 5 0x1000 3 \<lparr> fd = 2, found = [''read''], lworld = \<lparr> shown = [], calls = 0, error_no = 0 \<rparr> \<rparr> = Done (- 1) s'
    \<and> shown (lworld s') = ''[logger] read('' @ quoted ''/tmp/x'' @ '', '' @ quoted ''A.A'' @ '', '' @ fmt_u 3 @ '') = '' @ fmt_d (- 1) @ line_end"
proof -
  let ?s = "\<lparr> fd = 2, found = [''read''], lworld = \<lparr> shown = [], calls = 0, error_no = 0 \<rparr> \<rparr> :: log_world logger"
  let ?w = "\<lparr> shown = [], calls = Suc 0, error_no = 21 \<rparr> :: log_world"
  have "map shown_char [0x41, 7, 0x41] = ''A.A''" by code_simp
  moreover have "map (\<lambda>i. l_mem demo_libc ?w (0x1000 + of_nat i)) [0..<3] = map Some [0x41, 7, 0x41]"
    by (simp add: demo_libc_def)
  moreover have "l_real demo_libc (Read 5 0x1000 3) (lworld ?s) = (- 1, ?w)" by (simp add: demo_libc_def demo_read_def)
  moreover have "fmt_d 7 = ''7''" "fmt_d 5 = ''5''" by (simp_all add: fmt_d_def digits.simps digit_chars)
  then have "l_readlink demo_libc (fd_path demo_libc 5 ?w) ?w = (Some ''/tmp/x'', ?w)" by (simp add: demo_libc_def fd_path_def)
  ultimately show ?thesis
    using read_line [OF demo_log.log_output_axioms, of ?s 5 "0x1000" 3 "- 1" ?w "''/tmp/x''" ?w 3 "[0x41, 7, 0x41]"] by simp
qed

text \<open>
  \<^verbatim>\<open>errno\<close> is not kept: after a read of a descriptor that is not open the program finds the error of
  the library's \<^verbatim>\<open>readlink\<close>, ENOENT, and not that of its own call, EBADF.
\<close>

text \<open>
  C32. The logging library does not keep errno: a read of a descriptor that is not open leaves
  the error of the library's own readlink, ENOENT, to the program in the place of EBADF. The
  pointer of read was found and the descriptor of the log set before.
\<close>

theorem errno_overwritten:
  assumes "log_output K out lfd" and "\<And>t v. error (l_dprintf K lfd t v) = error v"
    and "fd s = lfd" and "''read'' \<in> set (found s)"
    and "l_real K (Read d buf n) (lworld s) = (- 1, w)" and "error w = 9"
    and "l_readlink K (fd_path K d w) w = (None, v)" and "error v = 2"
    and "\<forall>i < 32. l_mem K w (buf + of_nat i) \<noteq> None"
  shows "\<exists>s'. log_read K d buf n s = Done (- 1) s' \<and> error (lworld s') = (2 :: int)"
proof -
  have "\<forall>i < shown_count n (- 1). l_mem K w (buf + of_nat i) \<noteq> None" using assms(9) by (simp add: shown_count_def)
  with log_output.log_read_steps [OF assms(1,3,4,5,7), of "\<lambda>v. error v = 2"] assms(2,8) show ?thesis by auto
qed

theorem errno_overwritten_witness:
  "\<exists>s'. log_read demo_libc (- 1) 0x1000 3 \<lparr> fd = 2, found = [''read''], lworld = \<lparr> shown = [], calls = 0, error_no = 0 \<rparr> \<rparr> = Done (- 1) s'
    \<and> error_no (lworld s') = 2"
proof -
  let ?s = "\<lparr> fd = 2, found = [''read''], lworld = \<lparr> shown = [], calls = 0, error_no = 0 \<rparr> \<rparr> :: log_world logger"
  let ?w = "\<lparr> shown = [], calls = Suc 0, error_no = 9 \<rparr> :: log_world"
  have "fmt_d 7 = ''7''" "fmt_d (- 1) = ''-1''" by (simp_all add: fmt_d_def digits.simps digit_chars)
  then have p: "fd_path demo_libc (- 1) ?w = ''/proc/7/fd/-1''" by (simp add: demo_libc_def fd_path_def)
  have m: "\<forall>i < 32. l_mem demo_libc ?w (0x1000 + of_nat i) \<noteq> None"
  proof (intro allI impI)
    fix i :: nat assume "i < 32"
    then have "unat (0x1000 + of_nat i :: u64) = 0x1000 + i" by (subst unat_add_lem [THEN iffD1]) (simp_all add: unat_of_nat)
    then have "\<not> (0x1000 + of_nat i :: u64) < 0x1000" by (simp add: word_less_nat_alt)
    then show "l_mem demo_libc ?w (0x1000 + of_nat i) \<noteq> None" by (simp add: demo_libc_def)
  qed
  have "l_real demo_libc (Read (- 1) 0x1000 3) (lworld ?s) = (- 1, ?w)"
    "\<And>t v. error_no (l_dprintf demo_libc 2 t v) = error_no v"
    by (simp_all add: demo_libc_def demo_read_def)
  moreover have "l_readlink demo_libc (fd_path demo_libc (- 1) ?w) ?w = (None, ?w\<lparr>error_no := 2\<rparr>)"
    unfolding p by (simp add: demo_libc_def)
  ultimately show ?thesis
    using errno_overwritten [OF demo_log.log_output_axioms, of error_no ?s "- 1" "0x1000" 3 ?w "?w\<lparr>error_no := 2\<rparr>"] m by simp
qed

end
