(* ===== verification/COptions.thy ===== *)
theory COptions
  imports CText
begin

text \<open>
  \<^verbatim>\<open>getopt\<close> of the GNU C library as the programs call it: a loop that runs to its end, with an
  option string of letters and colons.
\<close>

text \<open>Whether a letter is an option and takes an argument.\<close>

fun opt_kind :: "string \<Rightarrow> char \<Rightarrow> bool option" where
  "opt_kind [] c = None"
| "opt_kind (x # xs) c =
     (if x = c \<and> c \<noteq> CHR '':'' then Some (xs \<noteq> [] \<and> hd xs = CHR '':'') else opt_kind xs c)"

text \<open>What one call returns: an option with its argument, or \<^verbatim>\<open>?\<close> after a message.\<close>

datatype opt_event = Opt char string | Unknown_opt char | No_argument char

definition opt_message :: "string \<Rightarrow> opt_event \<Rightarrow> string" where
  "opt_message prog ev =
     (case ev of
        Opt c arg \<Rightarrow> []
      | Unknown_opt c \<Rightarrow> prog @ '': invalid option -- '' @ [CHR 0x27, c, CHR 0x27] @ line_end
      | No_argument c \<Rightarrow> prog @ '': option requires an argument -- '' @ [CHR 0x27, c, CHR 0x27] @ line_end)"

text \<open>The letters of one word; the argument of the last one may be the rest of it or the next word.\<close>

fun opt_word :: "string \<Rightarrow> string \<Rightarrow> string list \<Rightarrow> opt_event list \<times> string list" where
  "opt_word optstring [] rest = ([], rest)"
| "opt_word optstring (c # cs) rest =
     (case opt_kind optstring c of
        Some True \<Rightarrow>
          if cs \<noteq> [] then ([Opt c cs], rest)
          else (case rest of [] \<Rightarrow> ([No_argument c], []) | a # rest' \<Rightarrow> ([Opt c a], rest'))
      | k \<Rightarrow>
          let (evs, rest') = opt_word optstring cs rest
          in ((if k = None then Unknown_opt c else Opt c []) # evs, rest'))"

lemma opt_word_shorter: "length (snd (opt_word optstring w rest)) \<le> length rest"
  by (induction optstring w rest rule: opt_word.induct) (auto split: option.splits bool.splits list.splits prod.splits)

definition is_opt_word :: "string \<Rightarrow> bool" where
  "is_opt_word w \<longleftrightarrow> 2 \<le> length w \<and> hd w = CHR ''-''"

text \<open>
  All words behind the program name.  The other words are operands: they are moved behind the
  options, unless \<^verbatim>\<open>POSIXLY_CORRECT\<close> is set (\<open>posix\<close>), which ends the options at the first of them;
  the word \<^verbatim>\<open>--\<close> ends the options always.  The result is what the calls return and the operands,
  \<^verbatim>\<open>argv[optind]\<close> up to \<^verbatim>\<open>argv[argc - 1]\<close> after the last one.
\<close>

function getopt_all :: "bool \<Rightarrow> string \<Rightarrow> string list \<Rightarrow> opt_event list \<times> string list" where
  "getopt_all posix optstring [] = ([], [])"
| "getopt_all posix optstring (a # rest) =
     (if a = ''--'' then ([], rest)
      else if is_opt_word a then
        (let (evs, rest') = opt_word optstring (tl a) rest; (evs', operands) = getopt_all posix optstring rest'
         in (evs @ evs', operands))
      else if posix then ([], a # rest)
      else (let (evs, operands) = getopt_all posix optstring rest in (evs, a # operands)))"
  by pat_completeness auto

termination
proof (relation "measure (\<lambda>(posix, optstring, words). length words)", goal_cases)
  case (2 posix optstring a rest x xa y)
  then have "length y \<le> length rest" using opt_word_shorter [of optstring "tl a" rest] by (metis snd_conv)
  then show ?case by simp
qed simp_all

text \<open>The calls that return these options with their arguments.\<close>

abbreviation events :: "(char \<times> string) list \<Rightarrow> opt_event list" where
  "events opts \<equiv> map (\<lambda>(c, arg). Opt c arg) opts"

text \<open>The words that stand for an option with its argument.\<close>

definition opt_words :: "(char \<times> string) list \<Rightarrow> string list" where
  "opt_words opts = concat (map (\<lambda>(c, arg). [[CHR ''-'', c], arg]) opts)"

lemma opt_words_simps [simp]:
  "opt_words [] = []" "opt_words ((c, arg) # opts) = [CHR ''-'', c] # arg # opt_words opts"
  by (simp_all add: opt_words_def)

definition takes_args :: "string \<Rightarrow> (char \<times> string) list \<Rightarrow> bool" where
  "takes_args optstring opts \<longleftrightarrow> (\<forall>x \<in> set opts. opt_kind optstring (fst x) = Some True \<and> fst x \<noteq> CHR ''-'')"

lemma takes_args_simps [simp]:
  "takes_args optstring []"
  "takes_args optstring (x # xs) \<longleftrightarrow> opt_kind optstring (fst x) = Some True \<and> fst x \<noteq> CHR ''-'' \<and> takes_args optstring xs"
  by (auto simp: takes_args_def)

text \<open>Options in front are read in order.\<close>

lemma getopt_options:
  assumes "takes_args optstring opts"
  shows "getopt_all posix optstring (opt_words opts @ rest) =
    (events opts @ fst (getopt_all posix optstring rest), snd (getopt_all posix optstring rest))"
  using assms by (induction opts) (auto simp: is_opt_word_def split: prod.split)

text \<open>Words that are no options are operands, and do not end the options.\<close>

lemma getopt_operands:
  assumes "\<forall>w \<in> set ops. \<not> is_opt_word w"
  shows "getopt_all False optstring (ops @ rest) =
    (fst (getopt_all False optstring rest), ops @ snd (getopt_all False optstring rest))"
  using assms by (induction ops) (auto simp: is_opt_word_def split: prod.split)

text \<open>The argument of the last option of a kind.\<close>

definition last_arg :: "char \<Rightarrow> (char \<times> string) list \<Rightarrow> string option" where
  "last_arg c opts = map_option snd (find (\<lambda>o'. fst o' = c) (rev opts))"

lemma last_arg_Nil [simp]: "last_arg c [] = None"
  by (simp add: last_arg_def)

lemma last_arg_Cons:
  "last_arg c (x # xs) = (case last_arg c xs of None \<Rightarrow> if fst x = c then Some (snd x) else None | Some v \<Rightarrow> Some v)"
  by (simp add: last_arg_def find_snoc split: option.split)

end
