(* ===== verification/Launcher.thy ===== *)
theory Launcher
  imports COptions
begin

text \<open>
  The launcher of \<^verbatim>\<open>src/hw2/hw2.c\<close>: the options, the environment of the command and the
  processes.
\<close>

section \<open>The program and its system\<close>

text \<open>
  The calls of the system; \<open>p_execvp\<close> is \<open>None\<close> where the command runs.
\<close>

record 'w system =
  p_open :: "string \<Rightarrow> u32 \<Rightarrow> u32 \<Rightarrow> 'w \<Rightarrow> int \<times> 'w"
  p_fork :: "'w \<Rightarrow> int \<times> 'w"
  p_execvp :: "string \<Rightarrow> string list \<Rightarrow> (string \<Rightarrow> string option) \<Rightarrow> 'w \<Rightarrow> int option \<times> 'w"
  p_waitpid :: "int \<Rightarrow> 'w \<Rightarrow> int \<times> 'w"
  p_close :: "int \<Rightarrow> 'w \<Rightarrow> 'w"
  p_stderr :: "string \<Rightarrow> 'w \<Rightarrow> 'w"

record 'w launcher =
  environ :: "string \<Rightarrow> string option"
  log_fd :: int
  pworld :: 'w

definition complain :: "'w system \<Rightarrow> string \<Rightarrow> 'w launcher \<Rightarrow> 'w launcher" where
  "complain P text s = s\<lparr>pworld := p_stderr P text (pworld s)\<rparr>"

definition setenv :: "string \<Rightarrow> string \<Rightarrow> 'w launcher \<Rightarrow> 'w launcher" where
  "setenv name val s = s\<lparr>environ := (environ s)(name := Some val)\<rparr>"

section \<open>The options\<close>

definition usage :: string where
  "usage =
     ''usage: ./logger [-o file] [-p sopath] [--] cmd [cmd args ...]'' @ line_end @
     ''-p: set the path to logger.so, default = ./logger.so'' @ line_end @
     ''-o: print output to file, print to '' @ [CHR 0x22] @ ''stderr'' @ [CHR 0x22] @ '' if no file specified'' @ line_end @
     ''--: separate the arguments for logger and for the command'' @ line_end"

text \<open>
  One option; the flags of \<^verbatim>\<open>-o\<close> are \<^verbatim>\<open>O_WRONLY | O_CREAT | O_TRUNC\<close>, the mode \<^verbatim>\<open>S_IRWXU\<close>.  Before
  it returns \<^verbatim>\<open>?\<close>, \<^verbatim>\<open>getopt\<close> has written its own message.
\<close>

definition do_option :: "'w system \<Rightarrow> string \<Rightarrow> opt_event \<Rightarrow> (unit, 'w launcher) prog" where
  "do_option P arg0 ev s =
     (case ev of
        Opt c optarg \<Rightarrow>
          if c = CHR ''p'' then Done () (setenv ''LD_PRELOAD'' optarg s)
          else if c = CHR ''o'' then
            (let (fd, w) = p_open P optarg 0x241 0x1c0 (pworld s)
             in Done () (setenv ''LOGGER'' (fmt_d fd) (s\<lparr>log_fd := fd, pworld := w\<rparr>)))
          else Exited 1 (complain P usage s)
      | _ \<Rightarrow> Exited 1 (complain P usage (complain P (opt_message arg0 ev) s)))"

primrec do_options :: "'w system \<Rightarrow> string \<Rightarrow> opt_event list \<Rightarrow> (unit, 'w launcher) prog" where
  "do_options P arg0 [] = skip"
| "do_options P arg0 (ev # evs) = seq (do_option P arg0 ev) (do_options P arg0 evs)"

section \<open>The processes\<close>

text \<open>
  The command, the words from \<^verbatim>\<open>argv[optind]\<close> on, in \<^verbatim>\<open>command_buf\<close>, an array of 32 null pointers:
  a longer command is written past the array, and behind the last of 32 words there is no null
  pointer for \<^verbatim>\<open>execvp\<close>.
\<close>

definition command_of :: "string list \<Rightarrow> string list option" where
  "command_of operands = (if 32 < length operands then None else Some operands)"

text \<open>The parent asks for the child until there is none; \<open>n\<close> bounds the number of questions.\<close>

primrec wait_child :: "'w system \<Rightarrow> nat \<Rightarrow> int \<Rightarrow> (unit, 'w launcher) prog" where
  "wait_child P 0 pid = (\<lambda>s. Timeout)"
| "wait_child P (Suc n) pid =
     (\<lambda>s. let (r, w) = p_waitpid P pid (pworld s); s1 = s\<lparr>pworld := w\<rparr>
          in if r \<noteq> - 1 then wait_child P n pid s1 else Done () s1)"

definition run_command :: "'w system \<Rightarrow> nat \<Rightarrow> string list \<Rightarrow> (int, 'w launcher) prog" where
  "run_command P n operands s =
     (case command_of operands of
        None \<Rightarrow> Undef
      | Some command \<Rightarrow>
          (let (pid, w) = p_fork P (pworld s); s1 = s\<lparr>pworld := w\<rparr>
           in if pid < 0 then Exited 1 (complain P (''fork failed.'' @ line_end) s1)
              else if pid = 0 then
                (if command = [] \<or> length command = 32 then Undef
                 else
                   (case p_execvp P (hd command) command (environ s1) (pworld s1) of
                      (None, w') \<Rightarrow> Replaced (s1\<lparr>pworld := w'\<rparr>)
                    | (Some r, w') \<Rightarrow>
                      Done 0 (if r = - 1 then complain P (''WRONG'' @ line_end) (s1\<lparr>pworld := w'\<rparr>) else s1\<lparr>pworld := w'\<rparr>)))
              else
                seq (wait_child P n pid)
                  (\<lambda>s2. Done 0 (if 0 < log_fd s2 then s2\<lparr>pworld := p_close P (log_fd s2) (pworld s2)\<rparr> else s2)) s1))"

definition launcher_main :: "'w system \<Rightarrow> nat \<Rightarrow> string list \<Rightarrow> (int, 'w launcher) prog" where
  "launcher_main P n argv s =
     (if length argv < 2 then Exited 1 (complain P (''no command given.'' @ line_end) s)
      else
        (let s1 = setenv ''LOGGER'' ''2'' (setenv ''LD_PRELOAD'' ''./logger.so'' (s\<lparr>log_fd := - 1\<rparr>));
             (evs, operands) = getopt_all (environ s1 ''POSIXLY_CORRECT'' \<noteq> None) ''p:o:'' (tl argv)
         in seq (do_options P (hd argv) evs) (run_command P n operands) s1))"

section \<open>What the command starts with\<close>

text \<open>The files of the options \<^verbatim>\<open>-o\<close>, and what is left of opening them one after the other.\<close>

definition log_files :: "(char \<times> string) list \<Rightarrow> string list" where
  "log_files opts = map snd (filter (\<lambda>x. fst x = CHR ''o'') opts)"

primrec open_logs :: "'w system \<Rightarrow> string list \<Rightarrow> int \<times> 'w \<Rightarrow> int \<times> 'w" where
  "open_logs P [] fw = fw"
| "open_logs P (f # fs) fw = open_logs P fs (p_open P f 0x241 0x1c0 (snd fw))"

lemma do_options_append: "do_options P arg0 (evs @ evs') s = seq (do_options P arg0 evs) (do_options P arg0 evs') s"
  by (induction evs arbitrary: s) (auto simp: seq_def andthen_def split: outcome.split)

lemma do_options_effect:
  assumes "\<forall>x \<in> set opts. fst x \<in> {CHR ''p'', CHR ''o''}"
  shows "\<exists>s'. do_options P arg0 (events opts) s = Done () s'
    \<and> environ s' ''LD_PRELOAD'' = (case last_arg (CHR ''p'') opts of None \<Rightarrow> environ s ''LD_PRELOAD'' | Some v \<Rightarrow> Some v)
    \<and> environ s' ''LOGGER'' = (if log_files opts = [] then environ s ''LOGGER'' else Some (fmt_d (log_fd s')))
    \<and> (log_fd s', pworld s') = open_logs P (log_files opts) (log_fd s, pworld s)
    \<and> (\<forall>v. v \<noteq> ''LD_PRELOAD'' \<and> v \<noteq> ''LOGGER'' \<longrightarrow> environ s' v = environ s v)"
  using assms
proof (induction opts arbitrary: s)
  case Nil
  show ?case by (simp add: log_files_def)
next
  case (Cons x xs)
  obtain c a where x: "x = (c, a)" by fastforce
  show ?case
  proof (cases "c = CHR ''p''")
    case True
    from Cons.IH [of "setenv ''LD_PRELOAD'' a s"] Cons.prems True x show ?thesis
      by (auto simp: seq_def do_option_def last_arg_Cons setenv_def log_files_def split: option.splits)
  next
    case False
    obtain d w where k: "p_open P a 0x241 0x1c0 (pworld s) = (d, w)" by fastforce
    let ?s = "setenv ''LOGGER'' (fmt_d d) (s\<lparr>log_fd := d, pworld := w\<rparr>)"
    obtain s' where s': "do_options P arg0 (events xs) ?s = Done () s'"
      "environ s' ''LD_PRELOAD'' = (case last_arg (CHR ''p'') xs of None \<Rightarrow> environ ?s ''LD_PRELOAD'' | Some v \<Rightarrow> Some v)"
      "environ s' ''LOGGER'' = (if log_files xs = [] then environ ?s ''LOGGER'' else Some (fmt_d (log_fd s')))"
      "(log_fd s', pworld s') = open_logs P (log_files xs) (d, w)"
      "\<forall>v. v \<noteq> ''LD_PRELOAD'' \<and> v \<noteq> ''LOGGER'' \<longrightarrow> environ s' v = environ ?s v"
      using Cons.IH [of ?s] Cons.prems by (auto simp: setenv_def)
    have c: "c = CHR ''o''" using Cons.prems False x by simp
    have "do_options P arg0 (events (x # xs)) s = Done () s'"
      using s'(1) k c by (simp add: x seq_def do_option_def)
    moreover have "environ s' ''LOGGER'' = Some (fmt_d (log_fd s'))"
      using s'(3,4) by (cases "log_files xs = []") (simp_all add: setenv_def)
    moreover have "log_files (x # xs) = a # log_files xs" using c by (simp add: x log_files_def)
    ultimately show ?thesis
      using s'(2,4,5) k c by (intro exI [of _ s']) (simp add: x last_arg_Cons setenv_def split: option.split)
  qed
qed

abbreviation with_defaults :: "'w launcher \<Rightarrow> 'w launcher" where
  "with_defaults s \<equiv> setenv ''LOGGER'' ''2'' (setenv ''LD_PRELOAD'' ''./logger.so'' (s\<lparr>log_fd := - 1\<rparr>))"

lemma with_defaults_simps:
  "environ (with_defaults s) ''LD_PRELOAD'' = Some ''./logger.so''" "environ (with_defaults s) ''LOGGER'' = Some ''2''"
  "v \<noteq> ''LD_PRELOAD'' \<Longrightarrow> v \<noteq> ''LOGGER'' \<Longrightarrow> environ (with_defaults s) v = environ s v"
  "log_fd (with_defaults s) = - 1" "pworld (with_defaults s) = pworld s"
  by (simp_all add: setenv_def)

lemma launcher_options:
  assumes "getopt_all (environ s ''POSIXLY_CORRECT'' \<noteq> None) ''p:o:'' args = (evs, operands)" and "args \<noteq> []"
  shows "launcher_main P n (prog # args) s =
    seq (do_options P prog evs) (run_command P n operands) (with_defaults s)"
proof -
  have "environ (with_defaults s) ''POSIXLY_CORRECT'' = environ s ''POSIXLY_CORRECT''" by (rule with_defaults_simps) simp_all
  then show ?thesis using assms by (simp add: launcher_main_def Suc_le_eq not_less)
qed

text \<open>
  C33. In the child, the launcher executes the operands of its command line, as GNU getopt
  splits it with the options p and o, as the command: LD_PRELOAD is the argument of the last -p
  or ./logger.so; LOGGER is 2 or, with -o, the number open returned for the last of these files,
  all of them opened in order for writing, created and truncated, with mode 0700; every other
  variable is as it was. The command has 1 to 31 words; the options are all known and have
  arguments.
\<close>

theorem command_environment:
  assumes "getopt_all (environ s ''POSIXLY_CORRECT'' \<noteq> None) ''p:o:'' args = (events opts, command)"
    and "\<forall>x \<in> set opts. fst x \<in> {CHR ''p'', CHR ''o''}"
    and "command \<noteq> []" and "length command < 32"
    and "\<And>w. fst (p_fork P w) = 0"
    and "\<And>f args env w. p_execvp P f args env w = (None, started f args env w)"
  shows "\<exists>s' env fd w. launcher_main P n (prog # args) s = Replaced s'
    \<and> (fd, w) = open_logs P (log_files opts) (- 1, pworld s)
    \<and> pworld s' = started (hd command) command env (snd (p_fork P w))
    \<and> env ''LD_PRELOAD'' = Some (case last_arg (CHR ''p'') opts of None \<Rightarrow> ''./logger.so'' | Some lib \<Rightarrow> lib)
    \<and> env ''LOGGER'' = Some (if log_files opts = [] then ''2'' else fmt_d fd)
    \<and> (\<forall>v. v \<noteq> ''LD_PRELOAD'' \<and> v \<noteq> ''LOGGER'' \<longrightarrow> env v = environ s v)"
proof -
  obtain s2 where s2: "do_options P prog (events opts) (with_defaults s) = Done () s2"
    and e: "environ s2 ''LD_PRELOAD'' = (case last_arg (CHR ''p'') opts of None \<Rightarrow> environ (with_defaults s) ''LD_PRELOAD'' | Some v \<Rightarrow> Some v)"
      "environ s2 ''LOGGER'' = (if log_files opts = [] then environ (with_defaults s) ''LOGGER'' else Some (fmt_d (log_fd s2)))"
      "\<forall>v. v \<noteq> ''LD_PRELOAD'' \<and> v \<noteq> ''LOGGER'' \<longrightarrow> environ s2 v = environ (with_defaults s) v"
    and f: "(log_fd s2, pworld s2) = open_logs P (log_files opts) (log_fd (with_defaults s), pworld (with_defaults s))"
    using do_options_effect [OF assms(2), of P prog "with_defaults s"] by blast
  have fd: "(log_fd s2, pworld s2) = open_logs P (log_files opts) (- 1, pworld s)" using f by (simp only: with_defaults_simps)
  have env: "environ s2 ''LD_PRELOAD'' = Some (case last_arg (CHR ''p'') opts of None \<Rightarrow> ''./logger.so'' | Some v \<Rightarrow> v)"
      "environ s2 ''LOGGER'' = Some (if log_files opts = [] then ''2'' else fmt_d (log_fd s2))"
      "\<forall>v. v \<noteq> ''LD_PRELOAD'' \<and> v \<noteq> ''LOGGER'' \<longrightarrow> environ s2 v = environ s v"
    unfolding e(1,2) with_defaults_simps using e(3) with_defaults_simps(3) [of _ s] by (simp_all split: option.split)
  obtain w where w: "p_fork P (pworld s2) = (0, w)" using assms(5) [of "pworld s2"] by (cases "p_fork P (pworld s2)") auto
  have "args \<noteq> []" using assms(1,3) by auto
  then have "launcher_main P n (prog # args) s = Replaced (s2\<lparr>pworld := started (hd command) command (environ s2) w\<rparr>)"
    using assms(3,4,6) s2 w by (simp add: launcher_options [OF assms(1)] seq_def run_command_def command_of_def)
  then show ?thesis using env fd w
    by (intro exI [of _ "s2\<lparr>pworld := started (hd command) command (environ s2) w\<rparr>"] exI [of _ "environ s2"]
        exI [of _ "log_fd s2"] exI [of _ "pworld s2"]) simp
qed

text \<open>
  Without \<^verbatim>\<open>--\<close> the options of the command are taken for options of the launcher, which does not
  know them.
\<close>

text \<open>
  C34. Without -- before the command, and without POSIXLY_CORRECT, GNU getopt goes on behind the
  first word of the command: an option of the command that is not p or o makes the launcher
  print the message of getopt and the usage and exit with status 1, after it opened the files of
  the options before, and start nothing.
\<close>

theorem command_option_refused:
  assumes "environ s ''POSIXLY_CORRECT'' = None" and "\<forall>x \<in> set opts. fst x \<in> {CHR ''p'', CHR ''o''}"
    and "\<forall>w \<in> set ops. \<not> is_opt_word w" and "c \<notin> {CHR ''p'', CHR ''o''}" and "c # cs \<noteq> ''-''"
  shows "\<exists>s'. launcher_main P n (prog # opt_words opts @ ops @ (CHR ''-'' # c # cs) # rest) s = Exited 1 s'
    \<and> pworld s' = p_stderr P usage (p_stderr P (prog @ '': invalid option -- '' @ [CHR 0x27, c, CHR 0x27] @ line_end)
        (snd (open_logs P (log_files opts) (- 1, pworld s))))"
proof -
  let ?words = "opt_words opts @ ops @ (CHR ''-'' # c # cs) # rest"
  have "opt_kind ''p:o:'' c = None" using assms(4) by auto
  moreover obtain e1 r1 where "opt_word ''p:o:'' cs rest = (e1, r1)" by fastforce
  moreover obtain e2 operands where "getopt_all False ''p:o:'' r1 = (e2, operands)" by fastforce
  ultimately obtain evs where "getopt_all False ''p:o:'' ((CHR ''-'' # c # cs) # rest) = (Unknown_opt c # evs, operands)"
    using assms(5) by (auto simp: is_opt_word_def simp del: opt_kind.simps)
  moreover have "takes_args ''p:o:'' opts" using assms(2) by (auto simp: takes_args_def)
  ultimately have g: "getopt_all False ''p:o:'' ?words = (events opts @ Unknown_opt c # evs, ops @ operands)"
    using getopt_operands [OF assms(3)] by (simp add: getopt_options)
  obtain s2 where s2: "do_options P prog (events opts) (with_defaults s) = Done () s2"
    and f: "(log_fd s2, pworld s2) = open_logs P (log_files opts) (log_fd (with_defaults s), pworld (with_defaults s))"
    using do_options_effect [OF assms(2), of P prog "with_defaults s"] by blast
  have fd: "(log_fd s2, pworld s2) = open_logs P (log_files opts) (- 1, pworld s)" using f by (simp only: with_defaults_simps)
  have w: "pworld s2 = snd (open_logs P (log_files opts) (- 1, pworld s))" by (simp flip: fd)
  have "launcher_main P n (prog # ?words) s = seq (do_options P prog (events opts @ Unknown_opt c # evs))
      (run_command P n (ops @ operands)) (with_defaults s)"
    using launcher_options [of s ?words] g assms(1) by simp
  also have "\<dots> = Exited 1 (complain P usage (complain P (opt_message prog (Unknown_opt c)) s2))"
    using s2 by (simp add: seq_def do_options_append andthen_def do_option_def)
  finally show ?thesis using w by (simp add: complain_def opt_message_def)
qed

text \<open>More than 32 words do not fit the array, and 32 leave no room for its null pointer.\<close>

theorem long_command_overflows:
  assumes "getopt_all (environ s ''POSIXLY_CORRECT'' \<noteq> None) ''p:o:'' args = (events opts, command)"
    and "\<forall>x \<in> set opts. fst x \<in> {CHR ''p'', CHR ''o''}"
    and "32 < length command \<or> length command = 32 \<and> (\<forall>w. fst (p_fork P w) = 0)"
  shows "launcher_main P n (prog # args) s = Undef"
proof -
  obtain s2 where s2: "do_options P prog (events opts) (with_defaults s) = Done () s2"
    using do_options_effect [OF assms(2), of P] by blast
  have "args \<noteq> []" using assms(1,3) by auto
  moreover have "run_command P n command s2 = Undef"
  proof (cases "32 < length command")
    case True
    then show ?thesis by (simp add: run_command_def command_of_def)
  next
    case False
    then have "length command = 32" "fst (p_fork P (pworld s2)) = 0" using assms(3) by auto
    then show ?thesis by (auto simp: run_command_def command_of_def Let_def split: prod.split)
  qed
  ultimately show ?thesis using s2 by (simp add: launcher_options [OF assms(1)] seq_def)
qed

text \<open>A system that starts every command and remembers its environment and its messages.\<close>

record started =
  s_command :: "string list"
  s_preload :: "string option"
  s_logger :: "string option"
  s_messages :: string

definition demo_system :: "started system" where
  "demo_system =
     \<lparr> p_open = (\<lambda>f flags mode w. (if f = ''log'' \<and> flags = 0x241 then 5 else - 1, w)), p_fork = (\<lambda>w. (0, w)),
       p_execvp = (\<lambda>f args env w. (None, w\<lparr>s_command := args, s_preload := env ''LD_PRELOAD'', s_logger := env ''LOGGER''\<rparr>)),
       p_waitpid = (\<lambda>p w. (- 1, w)), p_close = (\<lambda>d w. w), p_stderr = (\<lambda>t w. w\<lparr>s_messages := s_messages w @ t\<rparr>) \<rparr>"

definition demo_launcher :: "started launcher" where
  "demo_launcher = \<lparr> environ = (\<lambda>_. None), log_fd = 0,
     pworld = \<lparr> s_command = [], s_preload = None, s_logger = None, s_messages = [] \<rparr> \<rparr>"

theorem command_environment_witness:
  "\<exists>s'. launcher_main demo_system 9 [''hw2'', ''-o'', ''log'', ''--'', ''ls'', ''-l''] demo_launcher = Replaced s'
    \<and> s_command (pworld s') = [''ls'', ''-l''] \<and> s_preload (pworld s') = Some ''./logger.so''
    \<and> s_logger (pworld s') = Some ''5''"
proof -
  let ?opts = "[(CHR ''o'', ''log'')]" and ?args = "[''-o'', ''log'', ''--'', ''ls'', ''-l'']"
  have opts: "getopt_all (environ demo_launcher ''POSIXLY_CORRECT'' \<noteq> None) ''p:o:'' ?args = (events ?opts, [''ls'', ''-l''])"
    by (simp add: demo_launcher_def is_opt_word_def)
  have "fmt_d 5 = ''5''" by (simp add: print_simps)
  then show ?thesis
    using command_environment [of demo_launcher ?args ?opts "[''ls'', ''-l'']" demo_system
        "\<lambda>f args env w. w\<lparr>s_command := args, s_preload := env ''LD_PRELOAD'', s_logger := env ''LOGGER''\<rparr>" 9 "''hw2''", OF opts]
    by (fastforce simp: demo_system_def log_files_def last_arg_Cons)
qed

theorem command_option_refused_witness:
  "\<exists>s'. launcher_main demo_system 9 [''hw2'', ''ls'', ''-l''] demo_launcher = Exited 1 s'
    \<and> s_messages (pworld s') = ''hw2: invalid option -- '' @ [CHR 0x27, CHR ''l'', CHR 0x27] @ line_end @ usage"
  using command_option_refused [of demo_launcher "[]" "[''ls'']" "CHR ''l''" "[]" demo_system 9 "''hw2''" "[]"]
  by (auto simp: demo_launcher_def demo_system_def is_opt_word_def log_files_def)

theorem long_command_overflows_witness:
  "launcher_main demo_system 9 (''hw2'' # replicate 33 ''x'') demo_launcher = Undef"
proof (rule long_command_overflows [of _ _ "[]" "replicate 33 ''x''"])
  have "getopt_all False ''p:o:'' (replicate 33 ''x'' @ []) = ([], replicate 33 ''x'')"
    by (subst getopt_operands) (simp_all add: is_opt_word_def)
  then show "getopt_all (environ demo_launcher ''POSIXLY_CORRECT'' \<noteq> None) ''p:o:'' (replicate 33 ''x'') =
      (events [], replicate 33 ''x'')"
    by (simp add: demo_launcher_def)
qed simp_all

end
