(* ===== verification/Lsof.thy ===== *)
theory Lsof
  imports COptions
begin

text \<open>
  The list of open files of \<^verbatim>\<open>src/hw1/hw1.cpp\<close>: for every process of \<^verbatim>\<open>/proc\<close> a row for its working
  directory, its root, its executable, the files mapped into its memory and its descriptors.
\<close>

section \<open>The record of a row\<close>

text \<open>
  \<^verbatim>\<open>struct info\<close>.  A field is \<open>None\<close> as long as it has no value, and a character array also when
  no byte of it ends a string: reading it then is undefined.
\<close>

record info =
  pid :: "int option"
  proc_name :: "string option"
  user_name :: "string option"
  fd :: "string option"
  ftype :: "string option"
  inode :: "int option"
  name :: "string option"

definition fresh_info :: info where
  "fresh_info = \<lparr> pid = None, proc_name = None, user_name = None, fd = None, ftype = None, inode = None, name = None \<rparr>"

definition MAX_NAME_SIZE :: nat where
  "MAX_NAME_SIZE = 256"

section \<open>The system\<close>

record stat =
  st_mode :: u32
  st_ino :: u64
  st_uid :: u32

text \<open>
  The calls of the program over a world \<open>'w\<close> (the current directory, \<^verbatim>\<open>/proc\<close>, the two output
  streams).  \<open>None\<close> is a failed call, whose error number \<open>h_errno\<close> gives; \<open>h_content\<close> is what is
  read from a file that \<^verbatim>\<open>fopen\<close> opens, \<open>h_opendir\<close> the names \<^verbatim>\<open>readdir\<close> goes through; \<open>h_posix\<close>
  tells whether \<^verbatim>\<open>POSIXLY_CORRECT\<close> is in the environment.
\<close>

record 'w host =
  h_posix :: bool
  h_stat :: "string \<Rightarrow> 'w \<Rightarrow> stat option \<times> 'w"
  h_lstat :: "string \<Rightarrow> 'w \<Rightarrow> stat option \<times> 'w"
  h_readlink :: "string \<Rightarrow> 'w \<Rightarrow> string option \<times> 'w"
  h_content :: "string \<Rightarrow> 'w \<Rightarrow> string option \<times> 'w"
  h_opendir :: "string \<Rightarrow> 'w \<Rightarrow> string list option \<times> 'w"
  h_chdir :: "string \<Rightarrow> 'w \<Rightarrow> int \<times> 'w"
  h_getpwuid :: "u32 \<Rightarrow> 'w \<Rightarrow> string option \<times> 'w"
  h_errno :: "'w \<Rightarrow> int"
  h_strerror :: "int \<Rightarrow> string"
  h_regcomp :: "string \<Rightarrow> bool"
  h_regexec :: "string \<Rightarrow> string \<Rightarrow> int"
  h_stdout :: "string \<Rightarrow> 'w \<Rightarrow> 'w"
  h_stderr :: "string \<Rightarrow> 'w \<Rightarrow> 'w"

record 'w lsof =
  comm_regex :: "string option"
  file_regex :: "string option"
  type_filter :: "string option"
  cur :: info
  hworld :: 'w

definition ask :: "('w \<Rightarrow> 'a \<times> 'w) \<Rightarrow> ('a, 'w lsof) prog" where
  "ask f s = (let (r, w) = f (hworld s) in Done r (s\<lparr>hworld := w\<rparr>))"

definition say :: "('w \<Rightarrow> 'w) \<Rightarrow> (unit, 'w lsof) prog" where
  "say f s = Done () (s\<lparr>hworld := f (hworld s)\<rparr>)"

definition set_cur :: "(info \<Rightarrow> info) \<Rightarrow> (unit, 'w lsof) prog" where
  "set_cur f s = Done () (s\<lparr>cur := f (cur s)\<rparr>)"

text \<open>The value of a field, and a text written into an array of \<open>k\<close> characters.\<close>

definition get_field :: "(info \<Rightarrow> 'a option) \<Rightarrow> ('a, 'w lsof) prog" where
  "get_field get s = (case get (cur s) of None \<Rightarrow> Undef | Some v \<Rightarrow> Done v s)"

definition buffer :: "nat \<Rightarrow> string \<Rightarrow> (string, 'w lsof) prog" where
  "buffer k text s = (if length text < k then Done text s else Undef)"

text \<open>What \<^verbatim>\<open>readlink\<close> leaves in an array of zeros: a long target fills it without an end.\<close>

definition link_text :: "string \<Rightarrow> string option" where
  "link_text target = (if length target < MAX_NAME_SIZE then Some target else None)"

definition error :: "'w host \<Rightarrow> string \<Rightarrow> ('a, 'w lsof) prog" where
  "error H text s = Exited 1 (s\<lparr>hworld := h_stderr H
     (''Error: fail to '' @ text @ '', '' @ h_strerror H (h_errno H (hworld s)) @ line_end) (hworld s)\<rparr>)"

definition is_num :: "string \<Rightarrow> bool" where
  "is_num str = list_all isdigit str"

fun strstr :: "string \<Rightarrow> string \<Rightarrow> bool" where
  "strstr [] needle = (needle = [])"
| "strstr (c # cs) needle = (take (length needle) (c # cs) = needle \<or> strstr cs needle)"

section \<open>Printing a row\<close>

definition row :: "info \<Rightarrow> string option" where
  "row i =
     (case (proc_name i, pid i, user_name i, fd i, ftype i, inode i, name i) of
        (Some c, Some p, Some u, Some f, Some t, Some n, Some nm) \<Rightarrow>
          Some (pad_right 40 c @ pad_right 20 (fmt_d p) @ pad_right 20 u @ pad_right 20 f @ pad_right 20 t @
            pad_right 20 (if n = - 1 \<or> t = ''unknown'' then '' '' else fmt_d n) @ pad_right 20 nm @ line_end)
      | _ \<Rightarrow> None)"

definition REG_NOMATCH :: int where
  "REG_NOMATCH = 1"

definition regex_passes :: "'w host \<Rightarrow> string option \<Rightarrow> (info \<Rightarrow> string option) \<Rightarrow> (bool, 'w lsof) prog" where
  "regex_passes H regex get =
     (case regex of
        None \<Rightarrow> Done True
      | Some re \<Rightarrow>
          if h_regcomp H re then andthen (get_field get) (\<lambda>t. Done (h_regexec H re t \<noteq> REG_NOMATCH))
          else error H ''regcomp'')"

definition type_passes :: "(bool, 'w lsof) prog" where
  "type_passes s =
     (case type_filter s of
        None \<Rightarrow> Done True s
      | Some t \<Rightarrow> andthen (get_field ftype) (\<lambda>u. Done (t = u)) s)"

definition print_row :: "'w host \<Rightarrow> (unit, 'w lsof) prog" where
  "print_row H = andthen (get_field row) (\<lambda>line. say (h_stdout H line))"

definition print_pinfo :: "'w host \<Rightarrow> (unit, 'w lsof) prog" where
  "print_pinfo H =
     andthen type_passes (\<lambda>a. if \<not> a then skip else
     andthen (\<lambda>s. regex_passes H (comm_regex s) proc_name s) (\<lambda>b. if \<not> b then skip else
     andthen (\<lambda>s. regex_passes H (file_regex s) name s) (\<lambda>c. if \<not> c then skip else print_row H)))"

section \<open>Collecting the rows of a process\<close>

definition getUserName :: "'w host \<Rightarrow> u32 \<Rightarrow> (int, 'w lsof) prog" where
  "getUserName H uid =
     andthen (ask (h_getpwuid H uid)) (\<lambda>pw.
       case pw of
         None \<Rightarrow> seq (say (h_stderr H (''Username of uid '' @ fmt_d (sint uid) @ '' not found.''))) (Done (- 1))
       | Some pw_name \<Rightarrow>
           andthen (buffer MAX_NAME_SIZE pw_name) (\<lambda>n. seq (set_cur (user_name_update (\<lambda>_. Some n))) (Done 0)))"

text \<open>An inode number as an \<^verbatim>\<open>int\<close>; the name of the file type in \<^verbatim>\<open>st_mode\<close>.\<close>

definition ino_int :: "u64 \<Rightarrow> int" where
  "ino_int ino = sint (ucast ino :: u32)"

definition meta_type :: "stat \<Rightarrow> string" where
  "meta_type b =
     (let fmt = st_mode b AND 0xf000
      in if fmt = 0x4000 then ''DIR''
         else if fmt = 0x8000 then ''REG''
         else if fmt = 0x2000 then ''CHR''
         else if fmt = 0x1000 then ''FIFO['' @ fmt_d (ino_int (st_ino b)) @ '']''
         else if fmt = 0xc000 then ''socket['' @ fmt_d (ino_int (st_ino b)) @ '']''
         else ''unknown'')"

definition EACCES :: int where
  "EACCES = 13"

definition denied :: string where
  "denied = '' (Permission denied)''"

definition getMeta :: "'w host \<Rightarrow> string \<Rightarrow> string \<Rightarrow> (unit, 'w lsof) prog" where
  "getMeta H p_path mode =
     andthen (buffer MAX_NAME_SIZE (p_path @ mode)) (\<lambda>path.
     andthen (ask (h_stat H path)) (\<lambda>st.
       case st of
         Some b \<Rightarrow>
           seq (set_cur (name_update (\<lambda>_. Some '''')))
          (andthen (ask (h_readlink H path)) (\<lambda>link.
             case link of
               None \<Rightarrow> error H ''readlink''
             | Some target \<Rightarrow>
                 set_cur (\<lambda>i. i\<lparr>ftype := Some (meta_type b), inode := Some (ino_int (st_ino b)), name := link_text target\<rparr>)))
       | None \<Rightarrow> (\<lambda>s.
           if h_errno H (hworld s) = EACCES then
             andthen (buffer MAX_NAME_SIZE (path @ denied)) (\<lambda>text.
               set_cur (\<lambda>i. i\<lparr>ftype := Some ''unknown'', inode := Some (- 1), name := Some text\<rparr>)) s
           else Done () s)))"

text \<open>
  The loop that removes \<^verbatim>\<open>(deleted)\<close>: from the end down to the index after \<open>des\<close> zeros, \<open>des\<close> being
  ten less than the length of a string, modulo \<open>2 ^ 64\<close>.
\<close>

definition cut_deleted :: "string \<Rightarrow> string \<Rightarrow> string" where
  "cut_deleted counted text = (let des = of_nat (length counted) - 10 :: u64 in take (Suc (unat des)) text)"

text \<open>One line of \<^verbatim>\<open>/proc/pid/maps\<close>; the result is the set of inodes seen so far.\<close>

definition mem_line :: "'w host \<Rightarrow> string \<Rightarrow> int set \<Rightarrow> (int set, 'w lsof) prog" where
  "mem_line H line dict =
     (let (address, r1) = strtok '' '' line; (perms, r2) = strtok '' '' r1; (offset, r3) = strtok '' '' r2;
          (dev, r4) = strtok '' '' r3; (inode_tok, r5) = strtok '' '' r4; (pathname, r6) = strtok '' '' r5;
          seg = map_option atoi inode_tok;
          dict' = (case seg of None \<Rightarrow> dict | Some n \<Rightarrow> insert n dict)
      in if seg \<noteq> None \<and> (the seg = 0 \<or> the seg \<in> dict) then Done dict
         else
           seq (set_cur (\<lambda>i. case seg of None \<Rightarrow> i | Some n \<Rightarrow> i\<lparr>inode := Some n\<rparr>))
             (case pathname of
                None \<Rightarrow> error H ''strtok''
              | Some token \<Rightarrow>
                  andthen (buffer MAX_NAME_SIZE token) (\<lambda>tok.
                    if tok = [] then error H ''unexcepted mem name''
                    else
                      (let nm = (if last tok = nl then butlast tok else tok)
                       in seq (if strstr nm ''(deleted)'' then
                                 andthen (get_field name) (\<lambda>old.
                                   set_cur (\<lambda>i. i\<lparr>fd := Some ''DEL'', name := Some (cut_deleted old nm)\<rparr>))
                               else set_cur (\<lambda>i. i\<lparr>fd := Some ''mem'', name := Some nm\<rparr>))
                         (seq (print_pinfo H) (Done dict'))))))"

primrec mem_lines :: "'w host \<Rightarrow> string list \<Rightarrow> int set \<Rightarrow> (unit, 'w lsof) prog" where
  "mem_lines H [] dict = skip"
| "mem_lines H (line # lines) dict = andthen (mem_line H line dict) (mem_lines H lines)"

definition readMem :: "'w host \<Rightarrow> string \<Rightarrow> (unit, 'w lsof) prog" where
  "readMem H p =
     andthen (buffer MAX_NAME_SIZE (''/proc/'' @ p @ ''/maps'')) (\<lambda>path.
     seq (set_cur (ftype_update (\<lambda>_. Some ''REG'')))
    (andthen (get_field inode) (\<lambda>ino.
     andthen (ask (h_content H path)) (\<lambda>content.
       case content of None \<Rightarrow> skip | Some text \<Rightarrow> mem_lines H (getlines text) {ino}))))"

definition fd_type :: "stat \<Rightarrow> string" where
  "fd_type b =
     (let fmt = st_mode b AND 0xf000
      in if fmt = 0x4000 then ''DIR''
         else if fmt = 0x8000 then ''REG''
         else if fmt = 0x2000 then ''CHR''
         else if fmt = 0x1000 then ''FIFO''
         else if fmt = 0xc000 then ''SOCK''
         else ''unknown'')"

text \<open>The letter of the access mode, from the permissions of the link itself.\<close>

definition access_letter :: "stat \<Rightarrow> string option" where
  "access_letter b =
     (let r = st_mode b AND 0x100 \<noteq> 0; w = st_mode b AND 0x80 \<noteq> 0
      in if r \<and> w then Some ''u'' else if r then Some ''r'' else if w then Some ''w'' else None)"

text \<open>One descriptor; the result tells whether the loop goes on.\<close>

definition fd_entry :: "'w host \<Rightarrow> string \<Rightarrow> (bool, 'w lsof) prog" where
  "fd_entry H d_name =
     seq (set_cur (name_update (\<lambda>_. Some '''')))
    (andthen (ask (h_readlink H d_name)) (\<lambda>link.
       case link of
         None \<Rightarrow> error H ''readlink''
       | Some target \<Rightarrow>
           seq (set_cur (name_update (\<lambda>_. link_text target)))
          (andthen (get_field name) (\<lambda>n.
             if n = [] then (\<lambda>s. Undef)
             else
               seq (set_cur (name_update (\<lambda>_. Some (if last n = nl then butlast n else n))))
              (andthen (ask (h_stat H d_name)) (\<lambda>st.
                 case st of
                   None \<Rightarrow> Done False
                 | Some b \<Rightarrow>
                     andthen (buffer 10 d_name) (\<lambda>num.
                     seq (set_cur (\<lambda>i. i\<lparr>fd := Some num, ftype := Some (fd_type b), inode := Some (ino_int (st_ino b)),
                            name := (if fd_type b = ''unknown'' then Some '''' else name i)\<rparr>))
                    (andthen (ask (h_lstat H d_name)) (\<lambda>lst.
                       case lst of
                         None \<Rightarrow> Done False
                       | Some lb \<Rightarrow>
                           (case access_letter lb of
                              None \<Rightarrow> error H ''unexceped W/R permission''
                            | Some c \<Rightarrow>
                                andthen (buffer 10 (num @ c)) (\<lambda>f.
                                seq (set_cur (\<lambda>i. i\<lparr>fd := Some f,
                                       name := map_option (\<lambda>t. if strstr t ''(deleted)'' then cut_deleted t t else t) (name i)\<rparr>))
                               (seq (print_pinfo H) (Done True)))))))))))))"

primrec fd_entries :: "'w host \<Rightarrow> string list \<Rightarrow> (unit, 'w lsof) prog" where
  "fd_entries H [] = skip"
| "fd_entries H (d # ds) =
     (if is_num d then andthen (fd_entry H d) (\<lambda>go. if go then fd_entries H ds else skip) else fd_entries H ds)"

definition readFd :: "'w host \<Rightarrow> string \<Rightarrow> (unit, 'w lsof) prog" where
  "readFd H p =
     andthen (buffer MAX_NAME_SIZE (''/proc/'' @ p @ ''/fd'')) (\<lambda>path.
     andthen (ask (h_opendir H path)) (\<lambda>dir.
       case dir of
         None \<Rightarrow>
           andthen (buffer MAX_NAME_SIZE (path @ denied)) (\<lambda>text.
           seq (set_cur (\<lambda>i. i\<lparr>fd := Some ''NOFD'', ftype := Some '''', inode := Some (- 1), name := Some text\<rparr>))
               (print_pinfo H))
       | Some names \<Rightarrow>
           andthen (ask (h_chdir H path)) (\<lambda>r.
             if r = - 1 then error H ''chdir'' else fd_entries H names)))"

text \<open>\<^verbatim>\<open>fscanf(fd, "%d %s\n", ...)\<close>, where both conversions succeed.\<close>

definition scan_stat :: "string \<Rightarrow> (int \<times> string) option" where
  "scan_stat text =
     (let (neg, t) = take_sign (skip_space text); comm = takeWhile (\<lambda>c. \<not> isspace c) (skip_space (dropWhile isdigit t))
      in if takeWhile isdigit t = [] \<or> comm = [] then None else Some (atoi text, comm))"

text \<open>The parentheses of the command name are taken off by position.\<close>

definition set_comm :: "int \<Rightarrow> string \<Rightarrow> (unit, 'w lsof) prog" where
  "set_comm n p_name =
     (if length (tl p_name) = 0 then (\<lambda>s. Undef)
      else set_cur (\<lambda>i. i\<lparr>pid := Some n, proc_name := Some (butlast (tl p_name))\<rparr>))"

text \<open>The rows of the working directory, the root and the executable.\<close>

definition meta_rows :: "'w host \<Rightarrow> string \<Rightarrow> (unit, 'w lsof) prog" where
  "meta_rows H dir =
     seq (set_cur (fd_update (\<lambda>_. Some ''cwd'')))
    (seq (getMeta H dir ''cwd'')
    (seq (print_pinfo H)
    (seq (getMeta H dir ''root'')
    (seq (set_cur (fd_update (\<lambda>_. Some ''rtd'')))
    (seq (print_pinfo H)
    (seq (getMeta H dir ''exe'')
    (seq (set_cur (fd_update (\<lambda>_. Some ''txt'')))
         (print_pinfo H))))))))"

definition readInfo :: "'w host \<Rightarrow> string \<Rightarrow> (unit, 'w lsof) prog" where
  "readInfo H p =
     andthen (buffer MAX_NAME_SIZE (''/proc/'' @ p @ ''/'')) (\<lambda>dir.
     seq (ask (h_chdir H ''/proc''))
    (andthen (ask (h_stat H p)) (\<lambda>st.
       case st of
         None \<Rightarrow> skip
       | Some b \<Rightarrow>
           seq (getUserName H (st_uid b))
          (seq (ask (h_chdir H dir))
          (andthen (ask (h_content H ''stat'')) (\<lambda>content.
             case content of
               None \<Rightarrow> skip
             | Some text \<Rightarrow>
                 (case scan_stat text of
                    None \<Rightarrow> error H ''fscanf''
                  | Some (n, comm) \<Rightarrow>
                      andthen (buffer MAX_NAME_SIZE comm) (\<lambda>p_name.
                      seq (set_comm n p_name)
                     (seq (meta_rows H dir)
                     (seq (readMem H p) (readFd H p)))))))))))"

primrec read_all :: "'w host \<Rightarrow> string list \<Rightarrow> (unit, 'w lsof) prog" where
  "read_all H [] = skip"
| "read_all H (d # ds) =
     seq (if is_num d then seq (set_cur (\<lambda>_. fresh_info)) (readInfo H d) else skip) (read_all H ds)"

section \<open>The program\<close>

definition lsof_usage :: "'w host \<Rightarrow> string \<Rightarrow> ('a, 'w lsof) prog" where
  "lsof_usage H arg0 =
     seq (say (h_stderr H (''Usage: '' @ arg0 @ '' [-c command] [-t type] [-f filename] name'' @ line_end))) (Exited 1)"

text \<open>One option; before it returns \<^verbatim>\<open>?\<close>, \<^verbatim>\<open>getopt\<close> has written its own message.\<close>

definition lsof_option :: "'w host \<Rightarrow> string \<Rightarrow> opt_event \<Rightarrow> (unit, 'w lsof) prog" where
  "lsof_option H arg0 ev s =
     (case ev of
        Opt c optarg \<Rightarrow>
          if c = CHR ''c'' then Done () (s\<lparr>comm_regex := Some optarg\<rparr>)
          else if c = CHR ''t'' then Done () (s\<lparr>type_filter := Some optarg\<rparr>)
          else if c = CHR ''f'' then Done () (s\<lparr>file_regex := Some optarg\<rparr>)
          else lsof_usage H arg0 s
      | _ \<Rightarrow> seq (say (h_stderr H (opt_message arg0 ev))) (lsof_usage H arg0) s)"

primrec lsof_options :: "'w host \<Rightarrow> string \<Rightarrow> opt_event list \<Rightarrow> (unit, 'w lsof) prog" where
  "lsof_options H arg0 [] = skip"
| "lsof_options H arg0 (ev # evs) = seq (lsof_option H arg0 ev) (lsof_options H arg0 evs)"

definition type_names :: "string list" where
  "type_names = [''REG'', ''CHR'', ''DIR'', ''FIFO'', ''SOCK'', ''unknown'']"

definition heading :: string where
  "heading = pad_right 40 ''COMMAND'' @ pad_right 20 ''PID'' @ pad_right 20 ''USER'' @ pad_right 20 ''FD'' @
     pad_right 20 ''TYPE'' @ pad_right 20 ''NODE'' @ pad_right 20 ''NAME'' @ line_end"

definition lsof_run :: "'w host \<Rightarrow> (int, 'w lsof) prog" where
  "lsof_run H =
     seq (say (h_stdout H heading))
    (andthen (ask (h_opendir H ''/proc'')) (\<lambda>dir.
       case dir of None \<Rightarrow> (\<lambda>s. Undef) | Some names \<Rightarrow> seq (read_all H names) (Done 0)))"

definition lsof_main :: "'w host \<Rightarrow> string list \<Rightarrow> (int, 'w lsof) prog" where
  "lsof_main H argv =
     (let (evs, operands) = getopt_all (h_posix H) ''c:t:f:'' (tl argv)
      in seq (lsof_options H (hd argv) evs)
           (if operands \<noteq> [] then lsof_usage H (hd argv)
            else (\<lambda>s.
              case type_filter s of
                Some t \<Rightarrow>
                  if t \<in> set type_names then lsof_run H s
                  else seq (say (h_stderr H (''Invalid TYPE option.'' @ line_end))) (Exited 1) s
              | None \<Rightarrow> lsof_run H s)))"

end
