(* ===== verification/LsofRows.thy ===== *)
theory LsofRows
  imports Lsof
begin

text \<open>
  Every row the program prints passes the filters of the command line, whatever the system answers.
\<close>

section \<open>The output of the system\<close>

text \<open>
  The contract of the output: writing to standard output appends to \<open>out\<close>, and no other call
  changes what was written.
\<close>

locale proc_output =
  fixes H :: "'w host" and out :: "'w \<Rightarrow> string"
  assumes stdout_law: "out (h_stdout H t w) = out w @ t"
    and stderr_law: "out (h_stderr H t w) = out w"
    and stat_law: "out (snd (h_stat H p w)) = out w" "out (snd (h_lstat H p w)) = out w"
    and readlink_law: "out (snd (h_readlink H p w)) = out w"
    and content_law: "out (snd (h_content H p w)) = out w"
    and opendir_law: "out (snd (h_opendir H p w)) = out w"
    and chdir_law: "out (snd (h_chdir H p w)) = out w"
    and getpwuid_law: "out (snd (h_getpwuid H u w)) = out w"
begin

lemmas call_laws = stderr_law stat_law readlink_law content_law opendir_law chdir_law getpwuid_law

end

text \<open>Which rows pass the filters: the command, the file and the type.\<close>

definition passes :: "'w host \<Rightarrow> string option \<Rightarrow> string option \<Rightarrow> string option \<Rightarrow> info \<Rightarrow> bool" where
  "passes H c f t i \<longleftrightarrow>
     (\<forall>ty. t = Some ty \<longrightarrow> ftype i = Some ty)
   \<and> (\<forall>re. c = Some re \<longrightarrow> (\<exists>n. proc_name i = Some n \<and> h_regexec H re n \<noteq> REG_NOMATCH))
   \<and> (\<forall>re. f = Some re \<longrightarrow> (\<exists>n. name i = Some n \<and> h_regexec H re n \<noteq> REG_NOMATCH))"

definition printed :: "'w host \<Rightarrow> ('w \<Rightarrow> string) \<Rightarrow> string \<Rightarrow> string option \<Rightarrow> string option \<Rightarrow> string option \<Rightarrow> 'w lsof \<Rightarrow> bool" where
  "printed H out start c f t s \<longleftrightarrow>
     comm_regex s = c \<and> file_regex s = f \<and> type_filter s = t
   \<and> (\<exists>rows. out (hworld s) = start @ concat rows \<and> (\<forall>r \<in> set rows. \<exists>i. row i = Some r \<and> passes H c f t i))"

text \<open>A test answers, is undefined or ends the program, and changes nothing.\<close>

definition matched :: "'w host \<Rightarrow> string option \<Rightarrow> string option \<Rightarrow> bool" where
  "matched H regex subject \<longleftrightarrow> (\<forall>re. regex = Some re \<longrightarrow> (\<exists>n. subject = Some n \<and> h_regexec H re n \<noteq> REG_NOMATCH))"

lemma type_passes_cases:
  "type_passes s \<in> {Undef, Done (\<forall>ty. type_filter s = Some ty \<longrightarrow> ftype (cur s) = Some ty) s}"
  by (auto simp: type_passes_def get_field_def andthen_def split: option.split)

lemma regex_passes_cases:
  "regex_passes H regex get s \<in> {Undef, error H ''regcomp'' s, Done (matched H regex (get (cur s))) s}"
  by (auto simp: regex_passes_def get_field_def andthen_def matched_def split: option.split)

lemma guard_cases:
  assumes "m s \<in> {Undef, Exited c e, Done b s}"
  shows "andthen m (\<lambda>a. if \<not> a then skip else k) s \<in> {Undef, Exited c e, Done () s}
    \<or> b \<and> andthen m (\<lambda>a. if \<not> a then skip else k) s = k s"
  using assms by (cases b) auto

lemma print_pinfo_cases:
  obtains "print_pinfo H s = Undef" | "print_pinfo H s = Done () s" | "print_pinfo H s = error H ''regcomp'' s"
  | "print_pinfo H s = print_row H s" "passes H (comm_regex s) (file_regex s) (type_filter s) (cur s)"
proof -
  obtain e where e: "(error H ''regcomp'' s :: (unit, 'a lsof) outcome) = Exited 1 e" by (simp add: error_def)
  have t: "type_passes s \<in> {Undef, Exited 1 e, Done (\<forall>ty. type_filter s = Some ty \<longrightarrow> ftype (cur s) = Some ty) s}"
    using type_passes_cases [of s] by blast
  have r: "regex_passes H re get s \<in> {Undef, Exited 1 e, Done (matched H re (get (cur s))) s}" for re get
    using regex_passes_cases [of H re get s] e by (auto simp: error_def)
  have c: "(\<lambda>s. regex_passes H (comm_regex s) proc_name s) s \<in> {Undef, Exited 1 e, Done (matched H (comm_regex s) (proc_name (cur s))) s}"
    using r by simp
  have f: "(\<lambda>s. regex_passes H (file_regex s) name s) s \<in> {Undef, Exited 1 e, Done (matched H (file_regex s) (name (cur s))) s}"
    using r by simp
  let ?k2 = "andthen (\<lambda>s. regex_passes H (file_regex s) name s) (\<lambda>c. if \<not> c then skip else print_row H)"
  let ?k1 = "andthen (\<lambda>s. regex_passes H (comm_regex s) proc_name s) (\<lambda>b. if \<not> b then skip else ?k2)"
  have "print_pinfo H s \<in> {Undef, Exited 1 e, Done () s}
    \<or> (\<forall>ty. type_filter s = Some ty \<longrightarrow> ftype (cur s) = Some ty) \<and> print_pinfo H s = ?k1 s"
    unfolding print_pinfo_def by (rule guard_cases) (rule t)
  moreover have "?k1 s \<in> {Undef, Exited 1 e, Done () s} \<or> matched H (comm_regex s) (proc_name (cur s)) \<and> ?k1 s = ?k2 s"
    by (rule guard_cases) (rule c)
  moreover have "?k2 s \<in> {Undef, Exited 1 e, Done () s} \<or> matched H (file_regex s) (name (cur s)) \<and> ?k2 s = print_row H s"
    by (rule guard_cases) (rule f)
  ultimately have "print_pinfo H s \<in> {Undef, Exited 1 e, Done () s}
    \<or> print_pinfo H s = print_row H s \<and> passes H (comm_regex s) (file_regex s) (type_filter s) (cur s)"
    by (auto simp only: passes_def matched_def)
  then show thesis using that by (simp only: e) blast
qed

text \<open>With all fields set and regular expressions that compile, printing is no more than the test and the row.\<close>

definition regexes_ok :: "'w host \<Rightarrow> 'w lsof \<Rightarrow> bool" where
  "regexes_ok H s \<longleftrightarrow> pred_option (h_regcomp H) (comm_regex s) \<and> pred_option (h_regcomp H) (file_regex s)"

lemma regex_passes_ok:
  "pred_option (h_regcomp H) regex \<Longrightarrow> get (cur s) = Some n \<Longrightarrow> regex_passes H regex get s = Done (matched H regex (Some n)) s"
  by (cases regex) (simp_all add: regex_passes_def get_field_def matched_def)

lemma type_passes_ok:
  "ftype (cur s) = Some ty \<Longrightarrow> type_passes s = Done (\<forall>u. type_filter s = Some u \<longrightarrow> ty = u) s"
  by (cases "type_filter s") (auto simp: type_passes_def get_field_def)

lemma print_pinfo_row:
  assumes "row (cur s) = Some line" and "regexes_ok H s"
  shows "print_pinfo H s = Done () (if passes H (comm_regex s) (file_regex s) (type_filter s) (cur s)
    then s\<lparr>hworld := h_stdout H line (hworld s)\<rparr> else s)"
proof -
  obtain c n ty where c: "proc_name (cur s) = Some c" "name (cur s) = Some n" "ftype (cur s) = Some ty"
    using assms(1) by (auto simp: row_def split: option.splits)
  have "print_row H s = Done () (s\<lparr>hworld := h_stdout H line (hworld s)\<rparr>)"
    using assms(1) by (simp add: print_row_def get_field_def say_def)
  moreover have "type_passes s = Done (\<forall>u. type_filter s = Some u \<longrightarrow> ty = u) s" by (rule type_passes_ok [OF c(3)])
  moreover have "regex_passes H (comm_regex s) proc_name s = Done (matched H (comm_regex s) (Some c)) s"
    "regex_passes H (file_regex s) name s = Done (matched H (file_regex s) (Some n)) s"
    using assms(2) c by (auto simp: regexes_ok_def intro: regex_passes_ok)
  ultimately have "print_pinfo H s = Done () (if (\<forall>u. type_filter s = Some u \<longrightarrow> ty = u) \<and> matched H (comm_regex s) (Some c)
      \<and> matched H (file_regex s) (Some n) then s\<lparr>hworld := h_stdout H line (hworld s)\<rparr> else s)"
    unfolding print_pinfo_def by (simp del: not_all)
  then show ?thesis using c by (simp add: passes_def matched_def)
qed

context proc_output
begin

lemma printed_ask:
  assumes "\<And>w. out (snd (g w)) = out w"
  shows "keeps (printed H out start c f t) (ask g)"
proof (rule keepsI)
  fix s assume "printed H out start c f t s"
  then show "after (printed H out start c f t) (ask g s)"
    using assms [of "hworld s"] by (auto simp: ask_def printed_def split: prod.split)
qed

lemma printed_say: "(\<And>w. out (g w) = out w) \<Longrightarrow> keeps (printed H out start c f t) (say g)"
  by (rule keepsI) (auto simp: say_def printed_def)

lemma printed_simple:
  "keeps (printed H out start c f t) (set_cur g)" "keeps (printed H out start c f t) (get_field get)"
  "keeps (printed H out start c f t) (buffer k text)" "keeps (printed H out start c f t) (error H text)"
  by (auto intro!: keepsI simp: set_cur_def get_field_def buffer_def error_def printed_def stderr_law split: option.split)

lemma printed_print_row: "printed H out start c f t s \<Longrightarrow> passes H c f t (cur s) \<Longrightarrow> after (printed H out start c f t) (print_row H s)"
proof -
  assume s: "printed H out start c f t s" and p: "passes H c f t (cur s)"
  then obtain rows where r: "out (hworld s) = start @ concat rows"
    "\<forall>r \<in> set rows. \<exists>i. row i = Some r \<and> passes H c f t i" by (auto simp: printed_def)
  show ?thesis
  proof (cases "row (cur s)")
    case None
    then show ?thesis by (simp add: print_row_def andthen_def get_field_def)
  next
    case (Some line)
    moreover have "start @ concat rows @ line = start @ concat (rows @ [line])" by simp
    ultimately show ?thesis
      using s p r by (auto simp: print_row_def andthen_def get_field_def say_def printed_def stdout_law intro!: exI [of _ "rows @ [line]"])
  qed
qed

lemma printed_print_pinfo: "keeps (printed H out start c f t) (print_pinfo H)"
proof (rule keepsI)
  fix s assume s: "printed H out start c f t s"
  have e: "after (printed H out start c f t) (error H msg s)" for msg
    using printed_simple(4) s by (rule keepsD)
  have c: "comm_regex s = c" "file_regex s = f" "type_filter s = t" using s by (simp_all add: printed_def)
  show "after (printed H out start c f t) (print_pinfo H s)"
    by (rule print_pinfo_cases [of H s]) (simp_all add: s c e printed_print_row)
qed

lemmas printed_calls = printed_simple printed_print_pinfo
  printed_ask [OF stat_law(1)] printed_ask [OF stat_law(2)] printed_ask [OF readlink_law] printed_ask [OF content_law]
  printed_ask [OF opendir_law] printed_ask [OF chdir_law] printed_ask [OF getpwuid_law] printed_say [OF stderr_law]

lemma printed_getUserName: "keeps (printed H out start c f t) (getUserName H uid)"
  unfolding getUserName_def by (intro keeps_intros printed_calls)

lemma printed_getMeta: "keeps (printed H out start c f t) (getMeta H p mode)"
  unfolding getMeta_def by (intro keeps_intros printed_calls)

lemma printed_mem_line: "keeps (printed H out start c f t) (mem_line H line dict)"
  unfolding mem_line_def Let_def split_beta by (intro keeps_intros printed_calls)

lemma printed_mem_lines: "keeps (printed H out start c f t) (mem_lines H lines dict)"
  by (induction lines arbitrary: dict) (auto intro!: keeps_intros printed_mem_line)

lemma printed_readMem: "keeps (printed H out start c f t) (readMem H p)"
  unfolding readMem_def by (intro keeps_intros printed_calls printed_mem_lines)

lemma printed_fd_entry: "keeps (printed H out start c f t) (fd_entry H d)"
  unfolding fd_entry_def by (intro keeps_intros printed_calls)

lemma printed_fd_entries: "keeps (printed H out start c f t) (fd_entries H ds)"
  by (induction ds) (auto intro!: keeps_intros printed_fd_entry)

lemma printed_readFd: "keeps (printed H out start c f t) (readFd H p)"
  unfolding readFd_def by (intro keeps_intros printed_calls printed_fd_entries)

lemma printed_set_comm: "keeps (printed H out start c f t) (set_comm n p)"
  unfolding set_comm_def by (intro keeps_intros printed_calls)

lemma printed_meta_rows: "keeps (printed H out start c f t) (meta_rows H dir)"
  unfolding meta_rows_def by (intro keeps_intros printed_calls printed_getMeta)

lemma printed_readInfo: "keeps (printed H out start c f t) (readInfo H p)"
  unfolding readInfo_def
  by (intro keeps_intros printed_calls printed_getUserName printed_meta_rows printed_readMem printed_readFd printed_set_comm
      keeps_case_prod)

lemma printed_read_all: "keeps (printed H out start c f t) (read_all H ds)"
  by (induction ds) (auto intro!: keeps_intros printed_calls printed_readInfo)

lemma printed_run: 
  assumes "comm_regex s = c" "file_regex s = f" "type_filter s = t"
  shows "after (printed H out (out (hworld s) @ heading) c f t) (lsof_run H s)"
proof -
  let ?s = "s\<lparr>hworld := h_stdout H heading (hworld s)\<rparr>"
  have st: "printed H out (out (hworld s) @ heading) c f t ?s"
    using assms by (auto simp: printed_def stdout_law intro: exI [of _ "[]"])
  have k: "keeps (printed H out start c f t) (andthen (ask (h_opendir H ''/proc''))
      (\<lambda>dir. case dir of None \<Rightarrow> (\<lambda>s. Undef) | Some names \<Rightarrow> seq (read_all H names) (Done 0)))" for start
    by (intro keeps_intros printed_calls printed_read_all)
  have r: "lsof_run H s = (andthen (ask (h_opendir H ''/proc''))
      (\<lambda>dir. case dir of None \<Rightarrow> (\<lambda>s. Undef) | Some names \<Rightarrow> seq (read_all H names) (Done 0))) ?s"
    by (simp add: lsof_run_def seq_apply say_def)
  show ?thesis unfolding r by (rule keepsD [OF k st])
qed

end

text \<open>The options set the filters and nothing else, or end the program; the last one of a kind counts.\<close>

abbreviation chosen :: "char \<Rightarrow> (char \<times> string) list \<Rightarrow> string option \<Rightarrow> string option" where
  "chosen c opts before \<equiv> (case last_arg c opts of None \<Rightarrow> before | Some v \<Rightarrow> Some v)"

lemma chosen_None: "chosen c opts None = last_arg c opts"
  by (simp split: option.split)

lemma lsof_options_cases:
  "(\<exists>opts. evs = events opts \<and> lsof_options H arg0 evs s = Done () (s\<lparr>comm_regex := chosen (CHR ''c'') opts (comm_regex s),
      file_regex := chosen (CHR ''f'') opts (file_regex s), type_filter := chosen (CHR ''t'') opts (type_filter s)\<rparr>))
   \<or> (\<exists>s' t u. lsof_options H arg0 evs s = Exited 1 s'
      \<and> hworld s' \<in> {h_stderr H u (hworld s), h_stderr H u (h_stderr H t (hworld s))})"
proof (induction evs arbitrary: s)
  case Nil
  show ?case by (intro disjI1 exI [of _ "[]"]) simp
next
  case (Cons ev evs)
  obtain u0 where u0: "\<And>s. (lsof_usage H arg0 s :: (unit, 'a lsof) outcome) = Exited 1 (s\<lparr>hworld := h_stderr H u0 (hworld s)\<rparr>)"
    by (auto simp: lsof_usage_def seq_def say_def)
  consider t u s' where "lsof_option H arg0 ev s = Exited 1 s'"
      "hworld s' \<in> {h_stderr H u (hworld s), h_stderr H u (h_stderr H t (hworld s))}"
    | c a where "ev = Opt c a" "lsof_option H arg0 ev s = Done () (s\<lparr>comm_regex := chosen (CHR ''c'') [(c, a)] (comm_regex s),
      file_regex := chosen (CHR ''f'') [(c, a)] (file_regex s), type_filter := chosen (CHR ''t'') [(c, a)] (type_filter s)\<rparr>)"
  proof (cases ev)
    case (Opt c a)
    show thesis
    proof (cases "c \<in> {CHR ''c'', CHR ''t'', CHR ''f''}")
      case True
      then show thesis by (intro that(2) [OF Opt]) (auto simp: Opt lsof_option_def last_arg_Cons)
    next
      case False
      then show thesis by (intro that(1) [of "s\<lparr>hworld := h_stderr H u0 (hworld s)\<rparr>" u0 "[]"]) (simp_all add: Opt lsof_option_def u0)
    qed
  next
    case (Unknown_opt c)
    show thesis
      by (rule that(1) [of "s\<lparr>hworld := h_stderr H u0 (h_stderr H (opt_message arg0 ev) (hworld s))\<rparr>" u0 "opt_message arg0 ev"])
        (simp_all add: Unknown_opt lsof_option_def u0 seq_def say_def)
  next
    case (No_argument c)
    show thesis
      by (rule that(1) [of "s\<lparr>hworld := h_stderr H u0 (h_stderr H (opt_message arg0 ev) (hworld s))\<rparr>" u0 "opt_message arg0 ev"])
        (simp_all add: No_argument lsof_option_def u0 seq_def say_def)
  qed
  then show ?case
  proof cases
    case 1
    then show ?thesis by (intro disjI2 exI [of _ s'] exI [of _ t] exI [of _ u]) (simp add: seq_def)
  next
    case (2 c a)
    let ?s = "s\<lparr>comm_regex := chosen (CHR ''c'') [(c, a)] (comm_regex s),
      file_regex := chosen (CHR ''f'') [(c, a)] (file_regex s), type_filter := chosen (CHR ''t'') [(c, a)] (type_filter s)\<rparr>"
    have e: "lsof_options H arg0 (ev # evs) s = lsof_options H arg0 evs ?s" using 2(2) by (simp add: seq_def)
    have c: "chosen k ((c, a) # opts) x = chosen k opts (chosen k [(c, a)] x)" for k opts x
      by (simp add: last_arg_Cons split: option.split)
    from Cons.IH [of ?s] show ?thesis
    proof (elim disjE exE conjE, goal_cases)
      case (1 opts)
      have "events ((c, a) # opts) = ev # evs" using 2(1) 1(1) by simp
      then show ?case
        unfolding e using 1(2) by (intro disjI1 exI [of _ "(c, a) # opts"]) (simp only: c [where opts = opts], simp cong: option.case_cong)
    next
      case (2 s' t u)
      then show ?case unfolding e by (intro disjI2 exI [of _ s'] exI [of _ t] exI [of _ u]) simp
    qed
  qed
qed

lemma after_mono: "after P x \<Longrightarrow> (\<And>s. P s \<Longrightarrow> Q s) \<Longrightarrow> after Q x"
  by (cases x) auto

text \<open>
  C35. Whatever the system answers at any call, everything the list of open files writes to
  standard output is the heading and rows that pass the filters of the command line: the command
  name the expression of the last -c, the name of the file the one of the last -f, the type the
  last -t, which is one of the six known types; with an unknown option, a missing argument or an
  operand nothing is written there.
\<close>

theorem rows_pass_filters:
  assumes "proc_output H out" and "getopt_all (h_posix H) ''c:t:f:'' args = (evs, operands)"
    and "comm_regex s = None" and "file_regex s = None" and "type_filter s = None"
  shows "after (\<lambda>s'. out (hworld s') = out (hworld s)
      \<or> (\<exists>opts rows. evs = events opts \<and> operands = []
          \<and> out (hworld s') = out (hworld s) @ heading @ concat rows
          \<and> (\<forall>r \<in> set rows. \<exists>i. row i = Some r \<and>
              passes H (last_arg (CHR ''c'') opts) (last_arg (CHR ''f'') opts) (last_arg (CHR ''t'') opts) i)
          \<and> (\<forall>t. last_arg (CHR ''t'') opts = Some t \<longrightarrow> t \<in> set type_names)))
    (lsof_main H (prog # args) s)"
proof -
  note o = assms(2)
  have err: "out (h_stderr H msg w) = out w" for msg w by (rule proc_output.stderr_law [OF assms(1)])
  show ?thesis
  proof (cases rule: lsof_options_cases [of evs H prog s, THEN disjE])
    case 1
    then obtain opts where evs: "evs = events opts"
      and l: "lsof_options H prog evs s = Done () (s\<lparr>comm_regex := last_arg (CHR ''c'') opts,
        file_regex := last_arg (CHR ''f'') opts, type_filter := last_arg (CHR ''t'') opts\<rparr>)"
      unfolding assms(3-5) chosen_None by blast
    let ?c = "last_arg (CHR ''c'') opts" and ?f = "last_arg (CHR ''f'') opts" and ?t = "last_arg (CHR ''t'') opts"
    let ?s = "s\<lparr>comm_regex := ?c, file_regex := ?f, type_filter := ?t\<rparr>"
    show ?thesis
    proof (cases "operands = [] \<and> (\<forall>ty. ?t = Some ty \<longrightarrow> ty \<in> set type_names)")
      case True
      then have "lsof_main H (prog # args) s = lsof_run H ?s"
        using l by (cases ?t) (simp_all add: lsof_main_def o seq_def)
      moreover have "after (printed H out (out (hworld ?s) @ heading) ?c ?f ?t) (lsof_run H ?s)"
        by (rule proc_output.printed_run [OF assms(1)]) simp_all
      ultimately show ?thesis using True evs by (auto elim!: after_mono simp: printed_def)
    next
      case False
      then show ?thesis
        using l by (cases ?t) (auto simp: lsof_main_def o seq_def lsof_usage_def say_def err)
    qed
  next
    case 2
    then show ?thesis by (auto simp: lsof_main_def o seq_def err)
  qed
qed

section \<open>A small system\<close>

text \<open>One process with a working directory, a root, an executable, one mapped library and one descriptor.\<close>

record lsof_world =
  screen :: string
  messages :: string

definition demo_stat :: "string \<Rightarrow> stat option" where
  "demo_stat p =
     (if p = ''7'' then Some \<lparr> st_mode = 0x416d, st_ino = 9, st_uid = 0 \<rparr>
      else if p = ''/proc/7/cwd'' then Some \<lparr> st_mode = 0x41ed, st_ino = 2, st_uid = 0 \<rparr>
      else if p = ''/proc/7/root'' then Some \<lparr> st_mode = 0x41ed, st_ino = 2, st_uid = 0 \<rparr>
      else if p = ''/proc/7/exe'' then Some \<lparr> st_mode = 0x81ed, st_ino = 55, st_uid = 0 \<rparr>
      else if p = ''3'' then Some \<lparr> st_mode = 0x21b6, st_ino = 4, st_uid = 0 \<rparr>
      else None)"

definition demo_link :: "string \<Rightarrow> string option" where
  "demo_link p =
     (if p = ''/proc/7/cwd'' then Some ''/tmp'' else if p = ''/proc/7/root'' then Some ''/''
      else if p = ''/proc/7/exe'' then Some ''/bin/sh'' else if p = ''3'' then Some ''/dev/null'' else None)"

definition demo_maps :: string where
  "demo_maps = ''1000-2000 r-xp 0 08:01 55 /bin/sh'' @ [nl] @ ''3000-4000 r-xp 0 08:01 60 /lib/c.so (deleted)'' @ [nl] @
     ''4000-5000 r--p 0 08:01 60 /lib/c.so (deleted)'' @ [nl] @ ''5000-6000 rw-p 0 00:00 0 '' @ [nl]"

definition demo_host :: "lsof_world host" where
  "demo_host =
     \<lparr> h_posix = False,
       h_stat = (\<lambda>p w. (demo_stat p, w)), h_lstat = (\<lambda>p w. (Some \<lparr> st_mode = 0xa1c0, st_ino = 90, st_uid = 0 \<rparr>, w)),
       h_readlink = (\<lambda>p w. (demo_link p, w)),
       h_content = (\<lambda>p w. (if p = ''stat'' then Some ''7 (sh) S'' else if p = ''/proc/7/maps'' then Some demo_maps else None, w)),
       h_opendir = (\<lambda>p w. (if p = ''/proc'' then Some [''self'', ''7''] else if p = ''/proc/7/fd'' then Some [''.'', ''3''] else None, w)),
       h_chdir = (\<lambda>p w. (0, w)), h_getpwuid = (\<lambda>u w. (Some ''root'', w)), h_errno = (\<lambda>w. 2),
       h_strerror = (\<lambda>e. ''No such file or directory''), h_regcomp = (\<lambda>re. True),
       h_regexec = (\<lambda>re t. if strstr t re then 0 else 1),
       h_stdout = (\<lambda>t w. w\<lparr>screen := screen w @ t\<rparr>), h_stderr = (\<lambda>t w. w\<lparr>messages := messages w @ t\<rparr>) \<rparr>"

definition demo_lsof :: "lsof_world lsof" where
  "demo_lsof = \<lparr> comm_regex = None, file_regex = None, type_filter = None, cur = fresh_info,
     hworld = \<lparr> screen = [], messages = [] \<rparr> \<rparr>"

interpretation demo_output: proc_output demo_host screen
  by unfold_locales (simp_all add: demo_host_def)

lemma demo_run_ends:
  "\<exists>s'. lsof_main demo_host [''hw1'', ''-c'', ''sh'', ''-tCHR''] demo_lsof = Done 0 s' \<and> screen (hworld s') \<noteq> []"
proof -
  have "(case lsof_main demo_host [''hw1'', ''-c'', ''sh'', ''-tCHR''] demo_lsof of Done r s' \<Rightarrow> r = 0 \<and> screen (hworld s') \<noteq> []
    | Exited c s' \<Rightarrow> False | Replaced s' \<Rightarrow> False | Undef \<Rightarrow> False | Timeout \<Rightarrow> False)"
    by code_simp
  then show ?thesis by (auto split: outcome.splits)
qed

theorem rows_pass_filters_witness:
  "\<exists>s' rows. lsof_main demo_host [''hw1'', ''-c'', ''sh'', ''-tCHR''] demo_lsof = Done 0 s'
    \<and> screen (hworld s') = heading @ concat rows
    \<and> (\<forall>r \<in> set rows. \<exists>i n. row i = Some r \<and> ftype i = Some ''CHR'' \<and> proc_name i = Some n \<and> strstr n ''sh'')"
proof -
  let ?args = "[''-c'', ''sh'', ''-tCHR'']" and ?opts = "[(CHR ''c'', ''sh''), (CHR ''t'', ''CHR'')]"
  obtain s' where s: "lsof_main demo_host (''hw1'' # ?args) demo_lsof = Done 0 s'" "screen (hworld s') \<noteq> []"
    using demo_run_ends by blast
  have g: "getopt_all (h_posix demo_host) ''c:t:f:'' ?args = (events ?opts, [])"
    by (simp add: demo_host_def is_opt_word_def)
  have "screen (hworld demo_lsof) = []" by (simp add: demo_lsof_def)
  moreover have "opts = ?opts" if "events ?opts = events opts" for opts using that by (auto simp: Cons_eq_map_conv)
  ultimately obtain rows where "screen (hworld s') = heading @ concat rows"
    "\<forall>r \<in> set rows. \<exists>i. row i = Some r \<and> passes demo_host (last_arg (CHR ''c'') ?opts) (last_arg (CHR ''f'') ?opts) (last_arg (CHR ''t'') ?opts) i"
    using rows_pass_filters [OF demo_output.proc_output_axioms g, of demo_lsof "''hw1''"] s by (auto simp: demo_lsof_def)
  moreover have "\<exists>n. proc_name i = Some n \<and> strstr n ''sh'' \<and> ftype i = Some ''CHR''"
    if "passes demo_host (last_arg (CHR ''c'') ?opts) (last_arg (CHR ''f'') ?opts) (last_arg (CHR ''t'') ?opts) i" for i
    using that by (auto simp: passes_def last_arg_Cons demo_host_def REG_NOMATCH_def split: if_splits)
  ultimately show ?thesis using s(1) by blast
qed

end
