(* ===== verification/LsofMaps.thy ===== *)
theory LsofMaps
  imports LsofRows
begin

text \<open>
  What the list of open files prints for the mappings of a process: one row for every mapped
  file, the first time it occurs, and never a row that says that the file was deleted.
\<close>

section \<open>A line of the file of mappings\<close>

text \<open>The fields of a line of \<^verbatim>\<open>/proc/pid/maps\<close>, as \<^verbatim>\<open>proc(5)\<close> describes them.\<close>

record vma =
  v_range :: string
  v_perms :: string
  v_offset :: string
  v_dev :: string
  v_ino :: nat
  v_pad :: nat
  v_path :: string
  v_deleted :: bool








text \<open>The record after a line of a file that was not seen before.\<close>

definition mem_info :: "info \<Rightarrow> vma \<Rightarrow> info" where
  "mem_info i v = i\<lparr>inode := Some (int (v_ino v)), fd := Some ''mem'', name := Some (v_path v)\<rparr>"


section \<open>The lines of the file\<close>




text \<open>The rows of the mappings: the first mapping of every file that is not in the set.\<close>

fun mem_infos :: "info \<Rightarrow> int set \<Rightarrow> vma list \<Rightarrow> info list" where
  "mem_infos i D [] = []"
| "mem_infos i D (v # vs) =
     (if v_ino v = 0 \<or> int (v_ino v) \<in> D then mem_infos i D vs
      else mem_info i v # mem_infos i (insert (int (v_ino v)) D) vs)"

lemma mem_info_absorbs [simp]: "mem_info (mem_info i u) v = mem_info i v"
  by (simp add: mem_info_def)

lemma mem_infos_absorbs [simp]: "mem_infos (mem_info i u) D vs = mem_infos i D vs"
  by (induction vs arbitrary: D) simp_all





section \<open>The witness\<close>










end
