(* ===== verification/LsofInfo.thy ===== *)
theory LsofInfo
  imports LsofRows
begin

text \<open>
  The other rows of a process in the list of open files: the command name, the three rows of its
  directories and its executable, and the rows of its descriptors.
\<close>

section \<open>The command name\<close>

lemma atoi_digits_then:
  assumes "n < 2 ^ 31" and "10 \<le> digit_value c"
  shows "atoi (digits 10 n @ c # r) = int n"
proof -
  obtain d ds where eq: "digits 10 n = d # ds" by (cases "digits 10 n") auto
  then have "d \<in> set (digits 10 n)" by simp
  then obtain k where k: "k < 10" "d = digit_char k" using digits_chars [of 10] by auto
  have "take_sign (skip_space (digits 10 n @ c # r)) = (False, digits 10 n @ c # r)"
    using digit_char_not_space [of k] digit_char_not_sign [of k] k by (simp add: eq skip_space_def take_sign_def)
  moreover have "\<forall>e \<in> set (digits 10 n). digit_value e < 10" using digits_chars [of 10] by fastforce
  then have "read_digits 10 0 (digits 10 n @ c # r) = n"
    using assms(2) by (simp add: read_digits_append read_digits_digits)
  moreover have "signed_take_bit 31 (int n) = int n" using assms(1) by (simp add: signed_take_bit_int_eq_self)
  ultimately show ?thesis using assms(1) by (simp add: atoi_def)
qed

lemma digits_isdigit: "c \<in> set (digits 10 n) \<Longrightarrow> isdigit c"
proof -
  assume "c \<in> set (digits 10 n)"
  then obtain d where "d < 10" "c = digit_char d" using digits_chars [of 10] by auto
  then show ?thesis by (simp add: isdigit_def ascii_digit_char)
qed

lemma scan_stat_word:
  assumes "n < 2 ^ 31" and "w \<noteq> []" and "\<forall>c \<in> set w. \<not> isspace c" and "isspace e"
  shows "scan_stat (digits 10 n @ CHR '' '' # w @ e # rest) = Some (int n, w)"
proof -
  obtain d ds where eq: "digits 10 n = d # ds" by (cases "digits 10 n") auto
  then have "d \<in> set (digits 10 n)" by simp
  then obtain k where k: "k < 10" "d = digit_char k" using digits_chars [of 10] by auto
  have sp: "isspace (CHR '' '')" "\<not> isdigit (CHR '' '')" "10 \<le> digit_value (CHR '' '')" by code_simp+
  have start: "take_sign (skip_space (digits 10 n @ CHR '' '' # w @ e # rest)) = (False, digits 10 n @ CHR '' '' # w @ e # rest)"
    using digit_char_not_space [of k] digit_char_not_sign [of k] k by (simp add: eq skip_space_def take_sign_def)
  have num: "takeWhile isdigit (digits 10 n @ CHR '' '' # r) = digits 10 n"
    "dropWhile isdigit (digits 10 n @ CHR '' '' # r) = CHR '' '' # r" for r
    using digits_isdigit sp(2) by (simp_all add: takeWhile_append2 dropWhile_append2)
  have "skip_space (CHR '' '' # w @ e # rest) = w @ e # rest"
    using assms(2,3) sp(1) by (cases w) (simp_all add: skip_space_def)
  moreover have "takeWhile (\<lambda>c. \<not> isspace c) (w @ e # rest) = w"
    using assms(3,4) by (simp add: takeWhile_append2)
  ultimately show ?thesis
    using assms(2) atoi_digits_then [OF assms(1) sp(3)] by (simp add: scan_stat_def start num)
qed

text \<open>A command name without a space is shown as it is; of another the first word is shown, without its last character.\<close>

text \<open>
  C39. A command name without white space is read from /proc/pid/stat and shown as it is; of one
  with a space only the first word is shown, without its last character.
\<close>

theorem command_name:
  assumes "n < 2 ^ 31" and "a \<noteq> []" and "\<forall>c \<in> set a. \<not> isspace c"
  shows "(\<exists>p. scan_stat (fmt_d (int n) @ '' ('' @ a @ '') '' @ rest) = Some (int n, p)
      \<and> set_comm (int n) p s = Done () (s\<lparr>cur := (cur s)\<lparr>pid := Some (int n), proc_name := Some a\<rparr>\<rparr>))
    \<and> (\<exists>p. scan_stat (fmt_d (int n) @ '' ('' @ a @ '' '' @ rest) = Some (int n, p)
      \<and> set_comm (int n) p s = Done () (s\<lparr>cur := (cur s)\<lparr>pid := Some (int n), proc_name := Some (butlast a)\<rparr>\<rparr>))"
proof -
  have sp: "isspace (CHR '' '')" "\<not> isspace (CHR ''('')" "\<not> isspace (CHR '')'')" by code_simp+
  have "scan_stat (fmt_d (int n) @ '' ('' @ a @ '') '' @ rest) = Some (int n, ''('' @ a @ '')'')"
    using scan_stat_word [OF assms(1), of "''('' @ a @ '')''" "CHR '' ''" rest] assms(3) sp by (auto simp: fmt_d_def)
  moreover have "scan_stat (fmt_d (int n) @ '' ('' @ a @ '' '' @ rest) = Some (int n, ''('' @ a)"
    using scan_stat_word [OF assms(1), of "''('' @ a" "CHR '' ''" rest] assms(3) sp by (auto simp: fmt_d_def)
  ultimately show ?thesis using assms(2) by (simp add: set_comm_def set_cur_def)
qed

theorem command_name_witness:
  "\<exists>p. scan_stat (fmt_d 42 @ '' (Web Content) S'') = Some (42, p)
    \<and> set_comm 42 p demo_lsof = Done () (demo_lsof\<lparr>cur := (cur demo_lsof)\<lparr>pid := Some 42, proc_name := Some ''We''\<rparr>\<rparr>)"
proof -
  have "\<forall>c \<in> set ''Web''. \<not> isspace c" by code_simp
  then show ?thesis using command_name [of 42 "''Web''" "''Content) S''" demo_lsof] by simp
qed

section \<open>The rows of the directories and the executable\<close>

text \<open>What the system tells of a path: its status and its target, that it is not allowed, or another failure.\<close>

datatype answer = Target stat string | Denied | Failed

definition answers :: "'w host \<Rightarrow> string \<Rightarrow> answer \<Rightarrow> bool" where
  "answers H path a \<longleftrightarrow>
     (case a of
        Target b t \<Rightarrow> length t < MAX_NAME_SIZE \<and>
          (\<forall>w. fst (h_stat H path w) = Some b) \<and> (\<forall>w. fst (h_readlink H path w) = Some t)
      | Denied \<Rightarrow> (\<forall>w. fst (h_stat H path w) = None \<and> h_errno H (snd (h_stat H path w)) = EACCES)
      | Failed \<Rightarrow> (\<forall>w. fst (h_stat H path w) = None \<and> h_errno H (snd (h_stat H path w)) \<noteq> EACCES))"

fun meta_info :: "string \<Rightarrow> answer \<Rightarrow> info \<Rightarrow> info" where
  "meta_info path (Target b t) i = i\<lparr>ftype := Some (meta_type b), inode := Some (ino_int (st_ino b)), name := Some t\<rparr>"
| "meta_info path Denied i = i\<lparr>ftype := Some ''unknown'', inode := Some (- 1), name := Some (path @ denied)\<rparr>"
| "meta_info path Failed i = i"

context proc_output
begin

lemma getMeta_answer:
  assumes "answers H (dir @ mode) a" and "length dir + length mode < 230"
  shows "\<exists>w. getMeta H dir mode s = Done () (s\<lparr>cur := meta_info (dir @ mode) a (cur s), hworld := w\<rparr>)
    \<and> out w = out (hworld s)"
proof -
  define path where "path = dir @ mode"
  have len: "length path < MAX_NAME_SIZE" "length (path @ denied) < MAX_NAME_SIZE"
    using assms(2) by (simp_all add: path_def MAX_NAME_SIZE_def denied_def)
  obtain r w1 where st: "h_stat H path (hworld s) = (r, w1)" by fastforce
  obtain l w2 where rl: "h_readlink H path w1 = (l, w2)" by fastforce
  have o: "out w1 = out (hworld s)" "out w2 = out w1"
    using stat_law(1) [of path "hworld s"] readlink_law [of path w1] st rl by simp_all
  have f: "r = fst (h_stat H path (hworld s))" "w1 = snd (h_stat H path (hworld s))" "l = fst (h_readlink H path w1)"
    using st rl by simp_all
  have A: "answers H path a" using assms(1) by (simp add: path_def)
  have getMeta_path: "getMeta H dir mode s = (case r of
       Some b \<Rightarrow> (case l of None \<Rightarrow> error H ''readlink'' (s\<lparr>cur := (cur s)\<lparr>name := Some ''''\<rparr>, hworld := w2\<rparr>)
         | Some t \<Rightarrow> Done () (s\<lparr>cur := (cur s)\<lparr>ftype := Some (meta_type b), inode := Some (ino_int (st_ino b)), name := link_text t\<rparr>, hworld := w2\<rparr>))
     | None \<Rightarrow> if h_errno H w1 = EACCES
         then Done () (s\<lparr>cur := (cur s)\<lparr>ftype := Some ''unknown'', inode := Some (- 1), name := Some (path @ denied)\<rparr>, hworld := w1\<rparr>)
         else Done () (s\<lparr>hworld := w1\<rparr>))"
    using len st rl unfolding getMeta_def path_def [symmetric]
    by (simp add: buffer_def ask_def seq_def set_cur_def split: option.split)
  show ?thesis
  proof (cases a)
    case (Target b t)
    then have "r = Some b" "l = Some t" "link_text t = Some t" using A f by (simp_all add: answers_def link_text_def)
    then show ?thesis using o Target by (intro exI [of _ w2]) (simp add: getMeta_path)
  next
    case Denied
    then have "r = None" "h_errno H w1 = EACCES" using A f by (simp_all add: answers_def)
    then show ?thesis using o Denied by (intro exI [of _ w1]) (simp add: getMeta_path path_def)
  next
    case Failed
    then have "r = None" "h_errno H w1 \<noteq> EACCES" using A f by (simp_all add: answers_def)
    then show ?thesis using o Failed by (intro exI [of _ w1]) (simp add: getMeta_path)
  qed
qed

lemma print_row_out:
  assumes "row (cur s) \<noteq> None" and "regexes_ok H s"
  shows "\<exists>w. print_pinfo H s = Done () (s\<lparr>hworld := w\<rparr>) \<and> out w = out (hworld s) @
    (if passes H (comm_regex s) (file_regex s) (type_filter s) (cur s) then the (row (cur s)) else [])"
proof -
  obtain line where "row (cur s) = Some line" using assms(1) by blast
  then show ?thesis
    using print_pinfo_row [OF _ assms(2)] by (auto simp: stdout_law intro: exI [of _ "h_stdout H line (hworld s)"] exI [of _ "hworld s"])
qed

end

text \<open>
  The three rows: after a failure other than a missing permission, the row shows the type, the
  inode and the name of the row before it.
\<close>

text \<open>
  C37. The rows of the working directory, the root and the executable show what the system
  answers for each path: type, inode and target; without permission the path itself as unknown;
  and after any other failure the data of the row before, so the executable of a kernel thread
  is shown with the name of the root.
\<close>

theorem meta_rows_shown:
  assumes "proc_output H out"
    and "answers H (dir @ ''cwd'') a" and "answers H (dir @ ''root'') b" and "answers H (dir @ ''exe'') c" and "length dir < 220"
    and "regexes_ok H s" and "a \<noteq> Failed"
    and "proc_name (cur s) \<noteq> None" "pid (cur s) \<noteq> None" "user_name (cur s) \<noteq> None"
    and "i1 = meta_info (dir @ ''cwd'') a ((cur s)\<lparr>fd := Some ''cwd''\<rparr>)"
    and "i2 = (meta_info (dir @ ''root'') b i1)\<lparr>fd := Some ''rtd''\<rparr>"
    and "i3 = (meta_info (dir @ ''exe'') c i2)\<lparr>fd := Some ''txt''\<rparr>"
  shows "\<exists>s'. meta_rows H dir s = Done () s' \<and> cur s' = i3
    \<and> out (hworld s') = out (hworld s) @ concat (map (\<lambda>i. the (row i))
        (filter (passes H (comm_regex s) (file_regex s) (type_filter s)) [i1, i2, i3]))"
proof -
  let ?ok = "\<lambda>i. if passes H (comm_regex s) (file_regex s) (type_filter s) i then the (row i) else []"
  note M = proc_output.getMeta_answer [OF assms(1)] and P = proc_output.print_row_out [OF assms(1)]
  have rows: "row i1 \<noteq> None" "row i2 \<noteq> None" "row i3 \<noteq> None"
    using assms(7-10) unfolding assms(11-13) by (cases a; cases b; cases c; auto simp: row_def)+
  have reg: "regexes_ok H (s\<lparr>cur := i, hworld := w\<rparr>)" for i w using assms(6) by (simp add: regexes_ok_def)
  obtain w1 where w1: "getMeta H dir ''cwd'' (s\<lparr>cur := (cur s)\<lparr>fd := Some ''cwd''\<rparr>\<rparr>) = Done () (s\<lparr>cur := i1, hworld := w1\<rparr>)"
    "out w1 = out (hworld s)"
    using M [OF assms(2), of "s\<lparr>cur := (cur s)\<lparr>fd := Some ''cwd''\<rparr>\<rparr>"] assms(5,11) by auto
  obtain w2 where w2: "print_pinfo H (s\<lparr>cur := i1, hworld := w1\<rparr>) = Done () (s\<lparr>cur := i1, hworld := w2\<rparr>)"
    "out w2 = out w1 @ ?ok i1"
    using P [of "s\<lparr>cur := i1, hworld := w1\<rparr>"] rows(1) reg by auto
  obtain w3 where w3: "getMeta H dir ''root'' (s\<lparr>cur := i1, hworld := w2\<rparr>) =
      Done () (s\<lparr>cur := meta_info (dir @ ''root'') b i1, hworld := w3\<rparr>)" "out w3 = out w2"
    using M [OF assms(3), of "s\<lparr>cur := i1, hworld := w2\<rparr>"] assms(5) by auto
  obtain w4 where w4: "print_pinfo H (s\<lparr>cur := i2, hworld := w3\<rparr>) = Done () (s\<lparr>cur := i2, hworld := w4\<rparr>)"
    "out w4 = out w3 @ ?ok i2"
    using P [of "s\<lparr>cur := i2, hworld := w3\<rparr>"] rows(2) reg by auto
  obtain w5 where w5: "getMeta H dir ''exe'' (s\<lparr>cur := i2, hworld := w4\<rparr>) =
      Done () (s\<lparr>cur := meta_info (dir @ ''exe'') c i2, hworld := w5\<rparr>)" "out w5 = out w4"
    using M [OF assms(4), of "s\<lparr>cur := i2, hworld := w4\<rparr>"] assms(5) by auto
  obtain w6 where w6: "print_pinfo H (s\<lparr>cur := i3, hworld := w5\<rparr>) = Done () (s\<lparr>cur := i3, hworld := w6\<rparr>)"
    "out w6 = out w5 @ ?ok i3"
    using P [of "s\<lparr>cur := i3, hworld := w5\<rparr>"] rows(3) reg by auto
  have set: "set_cur g (s\<lparr>cur := i, hworld := w\<rparr>) = Done () (s\<lparr>cur := g i, hworld := w\<rparr>)"
    "set_cur g s = Done () (s\<lparr>cur := g (cur s)\<rparr>)" for g i w by (simp_all add: set_cur_def)
  have "meta_rows H dir s = Done () (s\<lparr>cur := i3, hworld := w6\<rparr>)"
    using w1(1) w2(1) w3(1) w4(1) w5(1) w6(1) assms(12,13) by (simp add: meta_rows_def seq_def set)
  then show ?thesis using w1(2) w2(2) w3(2) w4(2) w5(2) w6(2) by auto
qed

theorem meta_rows_shown_witness:
  "\<exists>s'. meta_rows demo_host ''/proc/7/''
      (demo_lsof\<lparr>cur := fresh_info\<lparr>pid := Some 7, proc_name := Some ''sh'', user_name := Some ''root''\<rparr>\<rparr>) = Done () s'
    \<and> cur s' = \<lparr> pid = Some 7, proc_name = Some ''sh'', user_name = Some ''root'', fd = Some ''txt'', ftype = Some ''REG'', inode = Some 55, name = Some ''/bin/sh'' \<rparr>
    \<and> screen (hworld s') = concat (map (\<lambda>i. the (row i))
        [\<lparr> pid = Some 7, proc_name = Some ''sh'', user_name = Some ''root'', fd = Some ''cwd'', ftype = Some ''DIR'', inode = Some 2, name = Some ''/tmp'' \<rparr>,
         \<lparr> pid = Some 7, proc_name = Some ''sh'', user_name = Some ''root'', fd = Some ''rtd'', ftype = Some ''DIR'', inode = Some 2, name = Some ''/'' \<rparr>,
         \<lparr> pid = Some 7, proc_name = Some ''sh'', user_name = Some ''root'', fd = Some ''txt'', ftype = Some ''REG'', inode = Some 55, name = Some ''/bin/sh'' \<rparr>])"
proof -
  let ?s = "demo_lsof\<lparr>cur := fresh_info\<lparr>pid := Some 7, proc_name := Some ''sh'', user_name := Some ''root''\<rparr>\<rparr>"
  let ?dir = "\<lparr> st_mode = 0x41ed, st_ino = 2, st_uid = 0 \<rparr>" and ?reg = "\<lparr> st_mode = 0x81ed, st_ino = 55, st_uid = 0 \<rparr>"
  have a: "answers demo_host (''/proc/7/'' @ ''cwd'') (Target ?dir ''/tmp'')" "answers demo_host (''/proc/7/'' @ ''root'') (Target ?dir ''/'')"
    "answers demo_host (''/proc/7/'' @ ''exe'') (Target ?reg ''/bin/sh'')"
    by (simp_all add: answers_def demo_host_def demo_stat_def demo_link_def MAX_NAME_SIZE_def)
  have t: "meta_type ?dir = ''DIR''" "meta_type ?reg = ''REG''" "ino_int 2 = 2" "ino_int 55 = 55"
    by (simp_all add: meta_type_def ino_int_def)
  show ?thesis
    using meta_rows_shown [OF demo_output.proc_output_axioms a _ _ _ _ _ _ refl refl refl, of ?s]
    by (simp add: demo_lsof_def fresh_info_def regexes_ok_def passes_def t)
qed

section \<open>The rows of the descriptors\<close>

text \<open>A name that holds the mark of a deleted file loses its last nine characters, wherever the mark stands.\<close>

lemma cut_deleted_self:
  assumes "length t < 2 ^ 64"
  shows "cut_deleted t t = (if 10 \<le> length t then take (length t - 9) t else t)"
proof (cases "10 \<le> length t")
  case True
  then have "(of_nat (length t) - 10 :: u64) = of_nat (length t - 10)" by (simp add: of_nat_diff)
  then have "unat (of_nat (length t) - 10 :: u64) = unat (of_nat (length t - 10) :: u64)" by (rule arg_cong)
  also have "\<dots> = length t - 10" using assms by (simp add: unat_of_nat)
  finally have "unat (of_nat (length t) - 10 :: u64) = length t - 10" .
  moreover have "Suc (length t - 10) = length t - 9" using True by simp
  ultimately show ?thesis using True by (simp add: cut_deleted_def del: One_nat_def)
next
  case False
  then have "length t = 0 \<or> length t = 1 \<or> length t = 2 \<or> length t = 3 \<or> length t = 4 \<or> length t = 5
    \<or> length t = 6 \<or> length t = 7 \<or> length t = 8 \<or> length t = 9" by arith
  then have "length t \<le> unat (of_nat (length t) - 10 :: u64)" by (elim disjE) (simp_all only:, simp_all add: unsigned_minus_1_eq_mask mask_eq_exp_minus_1)
  then show ?thesis using False by (simp add: cut_deleted_def)
qed

lemma letter_of_bits:
  assumes "(st_mode lb AND 0x180, c) \<in> {(0x180, ''u''), (0x100, ''r''), (0x80, ''w'')}"
  shows "access_letter lb = Some c"
proof -
  have "(st_mode lb AND 0x100) = (st_mode lb AND 0x180) AND 0x100" "(st_mode lb AND 0x80) = (st_mode lb AND 0x180) AND 0x80"
    by (simp_all add: and.assoc)
  then show ?thesis using assms by (auto simp: access_letter_def)
qed

text \<open>
  C38. A descriptor whose link and file can be examined gives one record with its number and
  access letter, the type and inode of the file and its name, and its row is printed exactly
  when the record passes the filters. A file that is no directory, regular file, character
  device, pipe or socket gets the type unknown, an empty name and no inode in its row; a name
  that contains the mark of a deleted file loses its last nine characters and keeps the space.
\<close>

theorem descriptor_row:
  assumes "proc_output H out"
    and "\<And>w. fst (h_readlink H d w) = Some t" and "\<And>w. fst (h_stat H d w) = Some b" and "\<And>w. fst (h_lstat H d w) = Some lb"
    and "t \<noteq> []" "last t \<noteq> nl" "length t < 256"
    and "ty = (case map_of [(0x4000, ''DIR''), (0x8000, ''REG''), (0x2000, ''CHR''), (0x1000, ''FIFO''), (0xc000, ''SOCK'')]
      (st_mode b AND 0xf000) of None \<Rightarrow> ''unknown'' | Some known \<Rightarrow> known)"
    and "(st_mode lb AND 0x180, c) \<in> {(0x180, ''u''), (0x100, ''r''), (0x80, ''w'')}"
    and "length d < 9" and "regexes_ok H s"
    and "proc_name (cur s) \<noteq> None" "pid (cur s) \<noteq> None" "user_name (cur s) \<noteq> None"
    and "i = (cur s)\<lparr>ftype := Some ty, inode := Some (ino_int (st_ino b)), fd := Some (d @ c),
      name := Some (if ty = ''unknown'' then [] else if strstr t ''(deleted)'' \<and> 10 \<le> length t then take (length t - 9) t else t)\<rparr>"
  shows "\<exists>s'. fd_entry H d s = Done True s' \<and> cur s' = i \<and> out (hworld s') = out (hworld s) @
    (if passes H (comm_regex s) (file_regex s) (type_filter s) i then the (row i) else [])"
proof -
  obtain w1 where w1: "h_readlink H d (hworld s) = (Some t, w1)" using assms(2) [of "hworld s"] by (metis prod.collapse)
  obtain w2 where w2: "h_stat H d w1 = (Some b, w2)" using assms(3) [of w1] by (metis prod.collapse)
  obtain w3 where w3: "h_lstat H d w2 = (Some lb, w3)" using assms(4) [of w2] by (metis prod.collapse)
  have o: "out w3 = out (hworld s)"
    using proc_output.readlink_law [OF assms(1), of d "hworld s"] proc_output.stat_law(1) [OF assms(1), of d w1]
      proc_output.stat_law(2) [OF assms(1), of d w2] w1 w2 w3 by simp
  have c: "length c = 1" using assms(9) by auto
  have letter: "access_letter lb = Some c" using assms(9) by (rule letter_of_bits)
  have ty: "fd_type b = ty" unfolding assms(8) by (simp add: fd_type_def)
  have "fd_entry H d s = seq (print_pinfo H) (Done True) (s\<lparr>hworld := w3, cur := i\<rparr>)"
    using w1 w2 w3 assms(5-7,10,15) c letter ty
    by (cases "ty = ''unknown''") (simp_all add: fd_entry_def seq_def ask_def set_cur_def get_field_def buffer_def link_text_def MAX_NAME_SIZE_def cut_deleted_self)
  moreover have "s\<lparr>hworld := w3, cur := i\<rparr> = s\<lparr>cur := i, hworld := w3\<rparr>" by simp
  moreover have "row i \<noteq> None" using assms(12-14) unfolding assms(15) by (auto simp: row_def simp del: strstr.simps)
  then obtain w where "print_pinfo H (s\<lparr>cur := i, hworld := w3\<rparr>) = Done () (s\<lparr>cur := i, hworld := w\<rparr>)"
    "out w = out w3 @ (if passes H (comm_regex s) (file_regex s) (type_filter s) i then the (row i) else [])"
    using proc_output.print_row_out [OF assms(1), of "s\<lparr>cur := i, hworld := w3\<rparr>"] assms(11) by (auto simp: regexes_ok_def)
  ultimately show ?thesis using o by (simp add: seq_def)
qed

text \<open>A descriptor of a deleted file: the mark goes and the space before it stays.\<close>

definition demo_deleted :: "lsof_world host" where
  "demo_deleted = demo_host\<lparr>h_readlink := (\<lambda>p w. (Some ''/tmp/x (deleted)'', w))\<rparr>"

lemma demo_deleted_output: "proc_output demo_deleted screen"
  by unfold_locales (simp_all add: demo_deleted_def demo_host_def)

theorem descriptor_row_witness:
  "\<exists>s'. fd_entry demo_deleted ''3'' (demo_lsof\<lparr>cur := fresh_info\<lparr>pid := Some 7, proc_name := Some ''sh'', user_name := Some ''root''\<rparr>\<rparr>) = Done True s'
    \<and> cur s' = \<lparr> pid = Some 7, proc_name = Some ''sh'', user_name = Some ''root'', fd = Some ''3u'', ftype = Some ''CHR'',
        inode = Some 4, name = Some ''/tmp/x '' \<rparr>"
proof -
  let ?s = "demo_lsof\<lparr>cur := fresh_info\<lparr>pid := Some 7, proc_name := Some ''sh'', user_name := Some ''root''\<rparr>\<rparr>"
  let ?b = "\<lparr> st_mode = 0x21b6, st_ino = 4, st_uid = 0 \<rparr>" and ?lb = "\<lparr> st_mode = 0xa1c0, st_ino = 90, st_uid = 0 \<rparr>"
  have f: "fst (h_readlink demo_deleted ''3'' w) = Some ''/tmp/x (deleted)''" "fst (h_stat demo_deleted ''3'' w) = Some ?b"
    "fst (h_lstat demo_deleted ''3'' w) = Some ?lb" for w
    by (simp_all add: demo_deleted_def demo_host_def demo_stat_def)
  have t: "''CHR'' = (case map_of [(0x4000, ''DIR''), (0x8000, ''REG''), (0x2000, ''CHR''), (0x1000, ''FIFO''), (0xc000, ''SOCK'')]
      (st_mode ?b AND 0xf000) of None \<Rightarrow> ''unknown'' | Some known \<Rightarrow> known)"
    "(st_mode ?lb AND 0x180, ''u'') \<in> {(0x180, ''u''), (0x100, ''r''), (0x80, ''w'')}" "ino_int 4 = 4" "last ''/tmp/x (deleted)'' \<noteq> nl"
    "strstr ''/tmp/x (deleted)'' ''(deleted)''"
    by (simp_all add: ino_int_def nl_def)
  show ?thesis
    using descriptor_row [OF demo_deleted_output f(1) f(2) f(3) _ t(4) _ t(1) t(2) _ _ _ _ _ refl, of ?s]
    by (auto simp: demo_lsof_def fresh_info_def regexes_ok_def t(2-))
qed

end
