(* ===== verification/Spec2Isabelle.thy ===== *)
theory Spec2Isabelle
  imports SdbStates SdbFaults SdbCommands SdbLoad MiniSig1 LoggerLines Launcher LsofMaps LsofInfo
begin

text \<open>
  Four programs of a course on UNIX programming, in C, C++ and x86-64 assembly.  They share no
  code; each has its own theories over two common ones.

  \<^item> \<^verbatim>\<open>src/hw4\<close>, the debugger \<^verbatim>\<open>sdb\<close>.  \<^verbatim>\<open>hw4.cpp\<close> reads commands from a script or the standard
    input and calls the methods of the class \<^verbatim>\<open>SDB\<close> of \<^verbatim>\<open>sdb.hpp\<close> and \<^verbatim>\<open>sdb.cpp\<close>, which drives
    one traced process by \<^verbatim>\<open>ptrace\<close>.
  \<^item> \<^verbatim>\<open>src/hw3\<close>, a C library without libc: \<^verbatim>\<open>libmini.c\<close> (wrappers of system calls, strings,
    signals, \<^verbatim>\<open>perror\<close>) and \<^verbatim>\<open>libmini64.asm\<close> (the calls, \<^verbatim>\<open>sleep\<close>, \<^verbatim>\<open>setjmp\<close>, \<^verbatim>\<open>longjmp\<close>),
    with the programs that test it.
  \<^item> \<^verbatim>\<open>src/hw2\<close>, a logger of library calls: \<^verbatim>\<open>logger.c\<close> is preloaded into a command by the
    launcher \<^verbatim>\<open>hw2.c\<close>, which also opens the log and passes its descriptor in \<^verbatim>\<open>LOGGER\<close>.
  \<^item> \<^verbatim>\<open>src/hw1\<close>, a list of open files read from \<^verbatim>\<open>/proc\<close>.

  \<^bold>\<open>Common ground.\<close>  \<^verbatim>\<open>CPrelude\<close>: a statement is a function from a state to an \<open>outcome\<close>,
  which tells a normal end from \<^verbatim>\<open>exit\<close>, a successful \<^verbatim>\<open>execvp\<close>, undefined behaviour and fuel that
  ran out; \<open>seq\<close> and \<open>andthen\<close> are the semicolon without and with a result, and \<open>runs\<close> is
  the total-correctness triple used throughout.  Machine integers are words of their width, and
  memory is a function from 64-bit addresses to bytes with little-endian \<open>load64\<close> and
  \<open>store64\<close>.  \<^verbatim>\<open>CText\<close>: \<^verbatim>\<open>printf\<close> conversions, \<^verbatim>\<open>strtoul\<close>, \<^verbatim>\<open>atoi\<close>, \<^verbatim>\<open>strtok\<close>, the character
  classes.  \<^verbatim>\<open>COptions\<close>: \<^verbatim>\<open>getopt\<close> of the GNU C library, which moves the operands behind the options
  (\<open>getopt_all\<close>).  \<^verbatim>\<open>StdMap\<close>: \<^verbatim>\<open>std::map\<close> as a strictly sorted association list behind the locale
  \<open>ordered_map\<close>, interpreted as \<open>smap\<close>.

  Whatever is not code of the repository is a parameter: a record of functions over a world, or a
  function on system call numbers.  What a property needs of it is a locale of documented laws, and
  each locale is interpreted on an executable instance, from which the witnesses are computed.
\<close>

text \<open>
  \<^bold>\<open>The debugger.\<close>  \<^verbatim>\<open>Tracee\<close> holds the interface to \<^verbatim>\<open>ptrace\<close>, \<^verbatim>\<open>fork\<close>, \<^verbatim>\<open>wait\<close>, the files
  and Capstone (the record \<open>kernel\<close>), the laws of a stopped tracee (\<open>tracee\<close>) and a small
  machine that satisfies them (\<open>mach\<close>).  \<^verbatim>\<open>Sdb\<close>: the record \<open>sdb\<close> is the class, \<open>sdb_load\<close>,
  \<open>sdb_start\<close>, \<open>sdb_set_break\<close>, \<open>sdb_del\<close>, \<open>sdb_si\<close>, \<open>sdb_cont\<close>, \<open>sdb_check_process\<close>
  and the others are its methods, line by line.  \<^verbatim>\<open>SdbShell\<close>: \<open>parse_cmd\<close>, \<open>dispatch\<close>,
  \<open>main_args\<close>, \<open>shell_loop\<close> and \<open>shell_main\<close> are \<^verbatim>\<open>hw4.cpp\<close>.

  \<^verbatim>\<open>SdbBreak\<close> and \<^verbatim>\<open>SdbCycle\<close> prove the life of a break point: one byte is planted, the stop behind
  it moves the program back, resuming runs the original instruction, the next stop plants it again,
  deleting restores the word.  \<^verbatim>\<open>SdbFuel\<close>: \<^verbatim>\<open>check_process\<close> and \<^verbatim>\<open>si\<close> call each other, so
  \<open>sdb_check_process\<close> has fuel; more fuel changes no result, and fuel 2 is enough on a processor
  that executes \<^verbatim>\<open>int3\<close> (the locale \<open>int3_tracee\<close>, interpreted as \<open>mach3\<close>), for the inner
  step never meets a second break point.  \<^verbatim>\<open>SdbInv\<close> keeps the class invariant through every method,
  every answer of the kernel and every fuel.  \<^verbatim>\<open>SdbStates\<close> abstracts the class to the phases no
  program, loaded program, process (\<open>phase_of\<close>), shows that every round of \<^verbatim>\<open>main\<close> follows the steps
  between them (\<open>life\<close>) and what holds at the head of the loop (\<open>reached\<close>): where break points
  stand, and that the process number is positive exactly in the state RUNNING.  \<^verbatim>\<open>SdbFaults\<close> has the invariant that listed break points
  are planted, and the five places where the code breaks it or stands still.  \<^verbatim>\<open>SdbCommands\<close>
  describes the commands one by one, \<^verbatim>\<open>SdbLoad\<close> the reading of an ELF file, and \<^verbatim>\<open>SdbScript\<close> shows
  that a script is the sequence of its commands and
  that the end of the standard input is no end of the loop, whose rounds are counted by the fuel of
  \<open>shell_loop\<close> (a script takes one round more than it has lines).
\<close>

text \<open>
  \<^bold>\<open>The C library.\<close>  \<^verbatim>\<open>Mini\<close>: the record \<open>proc\<close> is the memory, \<^verbatim>\<open>errno\<close> and the kernel's
  state; \<open>sys_call\<close> is what \<^verbatim>\<open>gensys\<close> generates, \<open>WRAPPER_RETval\<close> and \<open>WRAPPER_RETptr\<close>
  are the macros, and \<open>mini_read\<close> and the others are the functions of \<^verbatim>\<open>libmini.c\<close> by their names.
  \<^verbatim>\<open>perror\<close> is shown to print its
  line (over the locale \<open>terminal\<close>: a write to a descriptor appends its bytes) or to overrun its
  table.  \<^verbatim>\<open>MiniSignal\<close>: signal sets as words of memory, an abstract set by the locale
  \<open>signal_set\<close>, \<open>mini_sigaction\<close> and \<open>mini_signal\<close> over the kernel's table
  (\<open>handler_kernel\<close>); \<^verbatim>\<open>sigfillset\<close>, which writes through an uninitialised pointer, is undefined.
  \<^verbatim>\<open>MiniAsm\<close>: \<open>asm_sleep\<close>, \<open>asm_setjmp\<close> and \<open>asm_longjmp\<close> are
  sequences of instructions over registers and memory; the sleep agrees with the C version and the
  jump comes back.  \<^verbatim>\<open>MiniAlarm\<close>: \<open>linked_sleep\<close> is a call of the assembly sleep from C, at a place
  \<open>call_site\<close> the compiler chose, and \<^verbatim>\<open>alarm1.c\<close>, \<^verbatim>\<open>alarm2.c\<close> and \<^verbatim>\<open>alarm3.c\<close> run over a kernel whose
  alarm goes off (\<open>alarm_kernel\<close>).  \<^verbatim>\<open>MiniSig1\<close>: \<^verbatim>\<open>sig1.c\<close> with its handler.  The kernel delivers
  signals at the end of a system call, to the handler that is installed then, at most \<open>n\<close> less one at
  a point; two are enough because one signal is
  sent at a time and a handler runs with it blocked.  What \<^verbatim>\<open>sig1\<close> prints is proved for every choice
  of the sleeps during which SIGQUIT is sent (\<open>quit_kernel\<close>, \<open>sig1_process\<close>).
\<close>

text \<open>
  \<^bold>\<open>The logger.\<close>  \<^verbatim>\<open>Logger\<close>: a program is a tree of the calls the library replaces (\<open>call\<close>);
  \<open>logged\<close> runs a call through the replacing function, \<open>log_open\<close> to \<open>log_write\<close>, over the
  record \<open>libc\<close>, whose world holds \<^verbatim>\<open>errno\<close> too.  \<^verbatim>\<open>LoggerSim\<close> says what a call does (\<open>effect\<close>) and what
  its line in the log is (\<open>entry\<close>), for the calls whose names fit and whose data can be read
  (\<open>showable\<close>), and proves both of \<open>logged\<close> once, in the locale \<open>log_contract\<close>.  Two sublocales take
  it apart: \<open>silent\<close>, under the laws of \<open>log_apart\<close>, gives that the logged program is the program,
  and \<open>lines\<close>, under those of \<open>log_lines\<close>, that each call adds exactly its entry, which
  \<^verbatim>\<open>LoggerLines\<close> states.  \<^verbatim>\<open>LoggerLines\<close> also has what the line of a read shows (\<open>log_output\<close>) and
  that \<^verbatim>\<open>errno\<close> is not kept; \<open>demo_log\<close> is the instance of these locales.
  \<^verbatim>\<open>Launcher\<close>: the options, the environment of the command, \<^verbatim>\<open>fork\<close>, \<^verbatim>\<open>execvp\<close> and the wait,
  whose questions to the system are counted by fuel.

  \<^bold>\<open>The list of open files.\<close>  \<^verbatim>\<open>Lsof\<close>: the record \<open>info\<close> is the \<^verbatim>\<open>struct info\<close> that every row
  reuses, with \<open>None\<close> for a field without a value and for an array that ends in no null character;
  \<open>readInfo\<close>, \<open>getMeta\<close>, \<open>readMem\<close>, \<open>readFd\<close>, \<open>print_pinfo\<close> and \<open>lsof_main\<close> are the
  functions of \<^verbatim>\<open>hw1.cpp\<close>, over the record \<open>host\<close>.  \<^verbatim>\<open>LsofRows\<close>: only rows that pass the filters of
  the command line are printed (\<open>proc_output\<close>, \<open>demo_output\<close>).  \<^verbatim>\<open>LsofMaps\<close> and \<^verbatim>\<open>LsofInfo\<close>: what the rows of the
  mappings, the directories, the executable and the descriptors show.
\<close>

text \<open>
  \<^bold>\<open>Not modelled.\<close>  The Makefiles, the two sample binaries and the scripts of the debugger: build rules
  and data.  The trampoline \<^verbatim>\<open>__myrt\<close> of \<^verbatim>\<open>libmini64.asm\<close> is an address only, for it returns into the
  kernel.  Signals between two instructions of user code: a handler runs at the end of a system call.
  Closing of files and directories in \<^verbatim>\<open>hw1.cpp\<close>, which has no effect on what is printed.  Buffering
  and failures of the standard streams of the C and C++ libraries.  The contents of undefined
  behaviour: a model that reaches it ends in \<open>Undef\<close>.
\<close>

end
